(* ===== verification/Prelude.thy ===== *)
theory Prelude
  imports Complex_Main
begin

text \<open>
  What every component shares: JavaScript values and the string functions the code calls,
  errors as values of a sum type, and programs over an explicit world that may throw.

  A \<open>string\<close> stands for a JavaScript string whose UTF-16 code units are below 256, so
  \<open>length\<close> is the JavaScript length and \<open>utf8_length\<close> the byte length of its UTF-8
  encoding.
\<close>

named_theorems guarantee_intros

section \<open>Strings\<close>

definition code_of :: "char \<Rightarrow> nat" where
  "code_of c = of_char c"

definition utf8_length :: "string \<Rightarrow> nat" where
  "utf8_length s = sum_list (map (\<lambda>c. if code_of c < 128 then 1 else 2) s)"

definition js_space :: "char \<Rightarrow> bool" where
  "js_space c \<longleftrightarrow> code_of c \<in> {9, 10, 11, 12, 13, 32, 160}"

definition js_trim :: "string \<Rightarrow> string" where
  "js_trim s = rev (dropWhile js_space (rev (dropWhile js_space s)))"

definition starts_with :: "string \<Rightarrow> string \<Rightarrow> bool" where
  "starts_with s p \<longleftrightarrow> take (length p) s = p"

definition ends_with :: "string \<Rightarrow> string \<Rightarrow> bool" where
  "ends_with s p \<longleftrightarrow> starts_with (rev s) (rev p)"

fun includes_text :: "string \<Rightarrow> string \<Rightarrow> bool" where
  "includes_text [] p \<longleftrightarrow> p = []"
| "includes_text (c # s) p \<longleftrightarrow> starts_with (c # s) p \<or> includes_text s p"

fun show_nat :: "nat \<Rightarrow> string" where
  "show_nat n = (if n < 10 then [char_of (48 + n)]
     else show_nat (n div 10) @ [char_of (48 + n mod 10)])"

declare show_nat.simps [simp del]

definition show_int :: "int \<Rightarrow> string" where
  "show_int i = (if i < 0 then ''-'' @ show_nat (nat (- i)) else show_nat (nat i))"

definition is_lower :: "char \<Rightarrow> bool" where
  "is_lower c \<longleftrightarrow> 97 \<le> code_of c \<and> code_of c \<le> 122"

definition is_upper :: "char \<Rightarrow> bool" where
  "is_upper c \<longleftrightarrow> 65 \<le> code_of c \<and> code_of c \<le> 90"

definition is_digit :: "char \<Rightarrow> bool" where
  "is_digit c \<longleftrightarrow> 48 \<le> code_of c \<and> code_of c \<le> 57"

definition is_alnum :: "char \<Rightarrow> bool" where
  "is_alnum c \<longleftrightarrow> is_lower c \<or> is_upper c \<or> is_digit c"

definition is_hex :: "char \<Rightarrow> bool" where
  "is_hex c \<longleftrightarrow> is_digit c \<or> (97 \<le> code_of c \<and> code_of c \<le> 102)"

text \<open>Decimal digits read back as the number they show.\<close>

definition digits_value :: "string \<Rightarrow> nat" where
  "digits_value s = foldl (\<lambda>a c. a * 10 + (code_of c - 48)) 0 s"

lemma digits_value_show: "digits_value (show_nat n) = n"
proof (induction n rule: show_nat.induct)
  case (1 n)
  then show ?case
    by (subst show_nat.simps) (auto simp: digits_value_def code_of_def)
qed

lemma show_nat_digits: "c \<in> set (show_nat n) \<Longrightarrow> is_digit c"
proof (induction n rule: show_nat.induct)
  case (1 n)
  then show ?case
    by (subst (asm) (2) show_nat.simps) (auto simp: is_digit_def code_of_def split: if_splits)
qed

lemma show_nat_inject: "show_nat m = show_nat n \<longleftrightarrow> m = n"
  by (metis digits_value_show)

text \<open>\<open>toLowerCase\<close> on code units below 256.\<close>

definition lower_char :: "char \<Rightarrow> char" where
  "lower_char c = (let n = code_of c
     in if (65 \<le> n \<and> n \<le> 90) \<or> (192 \<le> n \<and> n \<le> 222 \<and> n \<noteq> 215) then char_of (n + 32) else c)"

definition js_lower :: "string \<Rightarrow> string" where
  "js_lower s = map lower_char s"

text \<open>\<open>value.replace(/[\r\n]+/g, ' ')\<close>\<close>

definition is_newline :: "char \<Rightarrow> bool" where
  "is_newline c \<longleftrightarrow> code_of c = 10 \<or> code_of c = 13"

fun collapse_newlines :: "bool \<Rightarrow> string \<Rightarrow> string" where
  "collapse_newlines inside [] = []"
| "collapse_newlines inside (c # s) =
     (if is_newline c then (if inside then collapse_newlines True s
                            else CHR '' '' # collapse_newlines True s)
      else c # collapse_newlines False s)"

lemma collapse_newlines_clean: "c \<in> set (collapse_newlines b s) \<Longrightarrow> \<not> is_newline c"
  by (induction b s rule: collapse_newlines.induct)
    (auto simp: is_newline_def code_of_def split: if_splits)

lemma collapse_newlines_length: "length (collapse_newlines b s) \<le> length s"
  by (induction b s rule: collapse_newlines.induct) auto

fun split_on :: "char \<Rightarrow> string \<Rightarrow> string list" where
  "split_on d [] = [[]]"
| "split_on d (c # s) =
     (if c = d then [] # split_on d s
      else (case split_on d s of [] \<Rightarrow> [[c]] | p # ps \<Rightarrow> (c # p) # ps))"

lemma split_on_nonempty [simp]: "split_on d s \<noteq> []"
  by (induction s) (auto split: list.splits)

lemma split_on_append:
  "d \<notin> set p \<Longrightarrow> split_on d (p @ d # s) = p # split_on d s"
  by (induction p) auto

lemma split_on_plain: "d \<notin> set s \<Longrightarrow> split_on d s = [s]"
  by (induction s) auto

lemma set_split_on: "p \<in> set (split_on d s) \<Longrightarrow> d \<notin> set p"
  by (induction s arbitrary: p) (auto split: if_splits list.splits)

lemma utf8_length_append [simp]: "utf8_length (s @ t) = utf8_length s + utf8_length t"
  by (simp add: utf8_length_def)

lemma utf8_length_Nil [simp]: "utf8_length [] = 0"
  by (simp add: utf8_length_def)

lemma utf8_length_le: "utf8_length s \<le> 2 * length s"
  by (induction s) (auto simp: utf8_length_def)

lemma length_le_utf8_length: "length s \<le> utf8_length s"
  by (induction s) (auto simp: utf8_length_def)

section \<open>JavaScript values\<close>

datatype js_number = Finite rat | Infinite bool | NaN

datatype jsval =
    JUndef
  | JNull
  | JBool bool
  | JNum js_number
  | JStr string
  | JArr "jsval list"
  | JObj "(string \<times> jsval) list"

type_synonym fields = "(string \<times> jsval) list"

text \<open>Reading a property: an absent key and an undefined value look the same.\<close>

definition get_prop :: "fields \<Rightarrow> string \<Rightarrow> jsval" where
  "get_prop fs k = (case map_of fs k of None \<Rightarrow> JUndef | Some v \<Rightarrow> v)"

definition is_integer :: "js_number \<Rightarrow> bool" where
  "is_integer n = (case n of Finite r \<Rightarrow> of_int (floor r) = r | _ \<Rightarrow> False)"

section \<open>Errors as values\<close>

definition bindE :: "'e + 'a \<Rightarrow> ('a \<Rightarrow> 'e + 'b) \<Rightarrow> 'e + 'b" where
  "bindE m f = (case m of Inl e \<Rightarrow> Inl e | Inr a \<Rightarrow> f a)"

definition check :: "bool \<Rightarrow> 'e \<Rightarrow> 'e + unit" where
  "check ok e = (if ok then Inr () else Inl e)"

fun mapE :: "('a \<Rightarrow> 'e + 'b) \<Rightarrow> 'a list \<Rightarrow> 'e + 'b list" where
  "mapE f [] = Inr []"
| "mapE f (x # xs) = bindE (f x) (\<lambda>y. bindE (mapE f xs) (\<lambda>ys. Inr (y # ys)))"

lemma bindE_simps [simp]:
  "bindE (Inl e) f = Inl e" "bindE (Inr a) f = f a"
  by (simp_all add: bindE_def)

lemma bindE_Inr: "bindE m f = Inr b \<longleftrightarrow> (\<exists>a. m = Inr a \<and> f a = Inr b)"
  by (cases m) auto

lemma bindE_Inl: "bindE m f = Inl e \<longleftrightarrow> m = Inl e \<or> (\<exists>a. m = Inr a \<and> f a = Inl e)"
  by (cases m) auto

lemma check_Inr [simp]: "check ok e = Inr u \<longleftrightarrow> ok"
  by (simp add: check_def)

lemma check_True [simp]: "check True e = Inr ()"
  by (simp add: check_def)

lemma mapE_length: "mapE f xs = Inr ys \<Longrightarrow> length ys = length xs"
  by (induction xs arbitrary: ys) (auto simp: bindE_Inr)

lemma mapE_elem: "mapE f xs = Inr ys \<Longrightarrow> y \<in> set ys \<Longrightarrow> \<exists>x \<in> set xs. f x = Inr y"
  by (induction xs arbitrary: ys) (auto simp: bindE_Inr)

definition truthy :: "string option \<Rightarrow> bool" where
  "truthy x \<longleftrightarrow> x \<noteq> None \<and> x \<noteq> Some []"

section \<open>The platform\<close>

text \<open>
  Functions of the JavaScript platform the code calls and this model leaves open: the text
  of an instant (\<open>toISOString\<close>), \<open>Date.parse\<close> (\<open>None\<close> for \<open>NaN\<close>) and the hexadecimal
  SHA-256 digest. A property that relies on one of them names what it relies on.
\<close>

record platform =
  iso :: "int \<Rightarrow> string"
  date_parse :: "string \<Rightarrow> int option"
  sha256Hex :: "string \<Rightarrow> string"

text \<open>A concrete platform, for evaluating the model on examples.\<close>

definition unary :: "int \<Rightarrow> string" where
  "unary n = (if n < 0 then ''-'' else []) @ replicate (nat (abs n)) (CHR ''i'')"

definition unary_parse :: "string \<Rightarrow> int option" where
  "unary_parse s =
     (if s \<noteq> [] \<and> hd s = CHR ''-'' then Some (- int (length (tl s))) else Some (int (length s)))"

definition example_platform :: platform where
  "example_platform = \<lparr>iso = unary, date_parse = unary_parse, sha256Hex = (\<lambda>s. s)\<rparr>"

lemma example_platform_iso: "date_parse example_platform (iso example_platform t) = Some t"
  by (cases "nat (abs t)") (auto simp: example_platform_def unary_def unary_parse_def)

section \<open>Programs over a world\<close>

text \<open>
  An asynchronous method is a function of the world it acts on: it returns the changed
  world with a value, or with the error it throws. What was changed before a throw stays.
\<close>

type_synonym ('w, 'e, 'a) io = "'w \<Rightarrow> 'w \<times> ('e + 'a)"

definition ret :: "'a \<Rightarrow> ('w, 'e, 'a) io" where
  "ret a = (\<lambda>w. (w, Inr a))"

definition throw :: "'e \<Rightarrow> ('w, 'e, 'a) io" where
  "throw e = (\<lambda>w. (w, Inl e))"

definition bind_io :: "('w, 'e, 'a) io \<Rightarrow> ('a \<Rightarrow> ('w, 'e, 'b) io) \<Rightarrow> ('w, 'e, 'b) io" where
  "bind_io m f = (\<lambda>w. case m w of (w', Inl e) \<Rightarrow> (w', Inl e) | (w', Inr a) \<Rightarrow> f a w')"

definition catch_io :: "('w, 'e, 'a) io \<Rightarrow> ('e \<Rightarrow> ('w, 'e, 'a) io) \<Rightarrow> ('w, 'e, 'a) io" where
  "catch_io m h = (\<lambda>w. case m w of (w', Inl e) \<Rightarrow> h e w' | (w', Inr a) \<Rightarrow> (w', Inr a))"

text \<open>\<open>try m ok h\<close>: the continuation \<open>ok\<close> runs outside the \<open>try\<close> block, so its errors
  are not caught.\<close>

definition try_io ::
  "('w, 'e, 'a) io \<Rightarrow> ('a \<Rightarrow> ('w, 'f, 'b) io) \<Rightarrow> ('e \<Rightarrow> ('w, 'f, 'b) io) \<Rightarrow> ('w, 'f, 'b) io" where
  "try_io m ok h = (\<lambda>w. case m w of (w', Inl e) \<Rightarrow> h e w' | (w', Inr a) \<Rightarrow> ok a w')"

definition lift_io :: "'e + 'a \<Rightarrow> ('w, 'e, 'a) io" where
  "lift_io r = (\<lambda>w. (w, r))"

lemmas io_defs = ret_def throw_def bind_io_def catch_io_def try_io_def lift_io_def

text \<open>
  A program guarantees \<open>G\<close> under the invariant \<open>I\<close>: from a world that satisfies \<open>I\<close> it
  reaches one that satisfies \<open>I\<close> and is related by \<open>G\<close>, whether it returns or throws.
\<close>

definition guarantees :: "('w \<Rightarrow> bool) \<Rightarrow> ('w \<Rightarrow> 'w \<Rightarrow> bool) \<Rightarrow> ('w, 'e, 'a) io \<Rightarrow> bool" where
  "guarantees I G m \<longleftrightarrow> (\<forall>w. I w \<longrightarrow> I (fst (m w)) \<and> G w (fst (m w)))"

lemma guarantees_inv: "guarantees I G m \<Longrightarrow> I w \<Longrightarrow> I (fst (m w))"
  by (simp add: guarantees_def)

lemma guarantees_rel: "guarantees I G m \<Longrightarrow> I w \<Longrightarrow> G w (fst (m w))"
  by (simp add: guarantees_def)

lemma guarantees_ret [guarantee_intros]: "reflp G \<Longrightarrow> guarantees I G (ret a)"
  by (auto simp: guarantees_def ret_def dest: reflpD)

lemma guarantees_throw [guarantee_intros]: "reflp G \<Longrightarrow> guarantees I G (throw e)"
  by (auto simp: guarantees_def throw_def dest: reflpD)

lemma guarantees_lift [guarantee_intros]: "reflp G \<Longrightarrow> guarantees I G (lift_io r)"
  by (auto simp: guarantees_def lift_io_def dest: reflpD)

lemma guarantees_try [guarantee_intros]:
  assumes "transp G" "guarantees I G m" "\<And>a. guarantees I G (ok a)" "\<And>e. guarantees I G (h e)"
  shows "guarantees I G (try_io m ok h)"
  unfolding guarantees_def
proof (intro allI impI)
  fix w assume I: "I w"
  obtain w' r where m: "m w = (w', r)" by (cases "m w")
  from assms(2) I m have w': "I w'" "G w w'"
    by (auto simp: guarantees_def dest!: spec [of _ w])
  show "I (fst (try_io m ok h w)) \<and> G w (fst (try_io m ok h w))"
  proof (cases r)
    case (Inl e)
    with assms(4) [of e] w' m assms(1) show ?thesis
      by (auto simp: guarantees_def try_io_def dest: transpD)
  next
    case (Inr a)
    with assms(3) [of a] w' m assms(1) show ?thesis
      by (auto simp: guarantees_def try_io_def dest: transpD)
  qed
qed

text \<open>The continuation may rely on what the first program returns.\<close>

lemma guarantees_bind_result:
  assumes "transp G" "reflp G" "guarantees I G m"
    and "\<And>w w' a. I w \<Longrightarrow> m w = (w', Inr a) \<Longrightarrow> guarantees I G (f a)"
  shows "guarantees I G (bind_io m f)"
  unfolding guarantees_def
proof (intro allI impI)
  fix w assume I: "I w"
  obtain w' r where m: "m w = (w', r)" by (cases "m w")
  from assms(3) I m have w': "I w'" "G w w'" by (auto simp: guarantees_def dest!: spec [of _ w])
  show "I (fst (bind_io m f w)) \<and> G w (fst (bind_io m f w))"
  proof (cases r)
    case (Inr a)
    with assms(4) [OF I, of w' a] w' m assms(1) show ?thesis
      by (auto simp: guarantees_def bind_io_def dest: transpD)
  qed (use w' m in \<open>simp add: bind_io_def\<close>)
qed

lemma bind_io_try: "bind_io m f = try_io m f throw"
  by (rule ext) (simp add: io_defs split: prod.splits sum.splits)

lemma catch_io_try: "catch_io m h = try_io m ret h"
  by (rule ext) (simp add: io_defs split: prod.splits sum.splits)

lemma guarantees_bind [guarantee_intros]:
  "reflp G \<Longrightarrow> transp G \<Longrightarrow> guarantees I G m \<Longrightarrow> (\<And>a. guarantees I G (f a)) \<Longrightarrow>
   guarantees I G (bind_io m f)"
  by (simp add: bind_io_try guarantees_try guarantees_throw)

lemma guarantees_catch [guarantee_intros]:
  "reflp G \<Longrightarrow> transp G \<Longrightarrow> guarantees I G m \<Longrightarrow> (\<And>e. guarantees I G (h e)) \<Longrightarrow>
   guarantees I G (catch_io m h)"
  by (simp add: catch_io_try guarantees_try guarantees_ret)

lemma guarantees_if [guarantee_intros]:
  "(b \<Longrightarrow> guarantees I G m) \<Longrightarrow> (\<not> b \<Longrightarrow> guarantees I G n) \<Longrightarrow> guarantees I G (if b then m else n)"
  by simp

lemma guarantees_option [guarantee_intros]:
  "(x = None \<Longrightarrow> guarantees I G n) \<Longrightarrow> (\<And>a. x = Some a \<Longrightarrow> guarantees I G (s a)) \<Longrightarrow>
   guarantees I G (case x of None \<Rightarrow> n | Some a \<Rightarrow> s a)"
  by (cases x) simp_all

text \<open>
  A program ensures \<open>Q\<close> of its result and \<open>E\<close> of the world it throws in, from every world
  that satisfies \<open>P\<close>. Programs are total, so this is total correctness.
\<close>

named_theorems ensure_intros

definition ensures ::
  "('w \<Rightarrow> bool) \<Rightarrow> ('w, 'e, 'a) io \<Rightarrow> ('a \<Rightarrow> 'w \<Rightarrow> bool) \<Rightarrow> ('w \<Rightarrow> bool) \<Rightarrow> bool" where
  "ensures P m Q E \<longleftrightarrow> (\<forall>w. P w \<longrightarrow> (case m w of (w', Inl e) \<Rightarrow> E w' | (w', Inr a) \<Rightarrow> Q a w'))"

lemma ensures_Inr: "ensures P m Q E \<Longrightarrow> P w \<Longrightarrow> m w = (w', Inr a) \<Longrightarrow> Q a w'"
  by (auto simp: ensures_def dest!: spec [of _ w])

lemma ensures_Inl: "ensures P m Q E \<Longrightarrow> P w \<Longrightarrow> m w = (w', Inl e) \<Longrightarrow> E w'"
  by (auto simp: ensures_def dest!: spec [of _ w])

lemma ensuresI:
  assumes "\<And>w w' a. P w \<Longrightarrow> m w = (w', Inr a) \<Longrightarrow> Q a w'"
    and "\<And>w w' e. P w \<Longrightarrow> m w = (w', Inl e) \<Longrightarrow> E w'"
  shows "ensures P m Q E"
  using assms by (fastforce simp: ensures_def split: prod.splits sum.splits)

lemma ensures_ret [ensure_intros]: "(\<And>w. P w \<Longrightarrow> Q a w) \<Longrightarrow> ensures P (ret a) Q E"
  by (simp add: ensures_def ret_def)

lemma ensures_throw [ensure_intros]: "(\<And>w. P w \<Longrightarrow> E w) \<Longrightarrow> ensures P (throw e) Q E"
  by (simp add: ensures_def throw_def)

lemma ensures_lift [ensure_intros]:
  "(\<And>w a. P w \<Longrightarrow> r = Inr a \<Longrightarrow> Q a w) \<Longrightarrow> (\<And>w. P w \<Longrightarrow> E w) \<Longrightarrow> ensures P (lift_io r) Q E"
  by (cases r) (simp_all add: ensures_def lift_io_def)

lemma ensures_try:
  assumes m: "ensures P m R F" and ok: "\<And>a. ensures (R a) (ok a) Q E" and h: "\<And>e. ensures F (h e) Q E"
  shows "ensures P (try_io m ok h) Q E"
  unfolding ensures_def
proof (intro allI impI)
  fix w assume P: "P w"
  obtain w' r where mw: "m w = (w', r)" by (cases "m w")
  show "case try_io m ok h w of (w', Inl e) \<Rightarrow> E w' | (w', Inr a) \<Rightarrow> Q a w'"
  proof (cases r)
    case (Inl e)
    with ensures_Inl [OF m P] mw h [of e] show ?thesis by (simp add: ensures_def try_io_def)
  next
    case (Inr a)
    with ensures_Inr [OF m P] mw ok [of a] show ?thesis by (simp add: ensures_def try_io_def)
  qed
qed

lemma ensures_bind: "ensures P m R E \<Longrightarrow> (\<And>a. ensures (R a) (f a) Q E) \<Longrightarrow> ensures P (bind_io m f) Q E"
  by (simp add: bind_io_try ensures_try ensures_throw)

lemma ensures_strengthen:
  "ensures P m Q E \<Longrightarrow> (\<And>w. P' w \<Longrightarrow> P w) \<Longrightarrow> (\<And>a w. Q a w \<Longrightarrow> Q' a w) \<Longrightarrow> (\<And>w. E w \<Longrightarrow> E' w) \<Longrightarrow>
   ensures P' m Q' E'"
  by (fastforce simp: ensures_def split: prod.splits sum.splits)

lemma ensures_if [ensure_intros]:
  "(b \<Longrightarrow> ensures P m Q E) \<Longrightarrow> (\<not> b \<Longrightarrow> ensures P n Q E) \<Longrightarrow> ensures P (if b then m else n) Q E"
  by simp

lemma ensures_option [ensure_intros]:
  "(x = None \<Longrightarrow> ensures P n Q E) \<Longrightarrow> (\<And>a. x = Some a \<Longrightarrow> ensures P (s a) Q E) \<Longrightarrow>
   ensures P (case x of None \<Rightarrow> n | Some a \<Rightarrow> s a) Q E"
  by (cases x) simp_all

lemma ensures_bind_lift:
  assumes "\<And>a. r = Inr a \<Longrightarrow> ensures P (f a) Q E" and "\<And>w. P w \<Longrightarrow> E w"
  shows "ensures P (bind_io (lift_io r) f) Q E"
  using assms by (cases r) (auto simp: ensures_def bind_io_def lift_io_def)

end
