(* ===== verification/Run_Contracts.thy ===== *)
theory Run_Contracts
  imports Prelude
begin

text \<open>
  The private Run: its data (\<open>src/domain/contracts.ts\<close>), the transition table of its status
  (\<open>src/domain/state.ts\<close>) and the errors its services throw (\<open>src/core/errors.ts\<close>).
\<close>

section \<open>Data\<close>

datatype run_status = Queued | Dispatching | Running | Cancelling | Succeeded | Failed | Cancelled

datatype backend = Microvm | Ec2

datatype source_kind = Api | Github | Gitlab | Teams | Slack

record artifact_ref =
  bucket :: string
  object_key :: string
  sha256 :: string

record execution_ref =
  ex_backend :: backend
  ex_id :: string
  ex_generation :: "string option"
  ex_startedAt :: "string option"

datatype liveness_outcome = Active_Seen | Suspended_Seen | Conflict_Seen | Unknown_Seen

record liveness_observation =
  lo_checkedAt :: string
  lo_outcome :: liveness_outcome
  lo_consecutiveUncertain :: nat
  lo_reason :: "string option"
  lo_quarantinedAt :: "string option"

record run_error =
  err_code :: string
  err_message :: string
  err_retryable :: bool

record token_counts =
  inputTokens :: "nat option"
  cachedInputTokens :: "nat option"
  outputTokens :: "nat option"
  reasoningOutputTokens :: "nat option"

record published_artifact =
  pa_id :: string
  pa_path :: string
  pa_mediaType :: string
  pa_bytes :: nat
  pa_createdAt :: string
  pa_sourceRunId :: string
  pa_file :: artifact_ref

record run_result =
  res_output :: artifact_ref
  res_preview :: string
  res_exitCode :: int
  res_durationMs :: nat
  res_agentThreadId :: "string option"
  res_usage :: "token_counts option"
  res_events :: "artifact_ref option"
  res_workspacePatch :: "artifact_ref option"
  res_artifacts :: "published_artifact list option"

datatype actor_kind = Human | System

datatype subject_kind = Runtime_Subject | Actor_Subject

record run_provenance =
  actor_kind :: actor_kind
  actor_id :: string
  actor_provider :: source_kind
  subject_kind :: subject_kind
  subject_id :: string

record session_binding =
  sb_sessionId :: string
  sb_turnId :: string
  sb_launch :: artifact_ref

text \<open>\<open>rr_legacyKeys\<close> holds the retired keys a record read from storage still carries.\<close>

record run_record =
  rr_runId :: string
  rr_ownerId :: string
  rr_capabilityOwnerId :: "string option"
  rr_ownerCreated :: string
  rr_status :: run_status
  rr_createdAt :: string
  rr_updatedAt :: string
  rr_expiresAt :: int
  rr_requestHash :: string
  rr_input :: artifact_ref
  rr_sourceKind :: source_kind
  rr_provenance :: "run_provenance option"
  rr_agentsSession :: "session_binding option"
  rr_execution :: "execution_ref option"
  rr_heartbeatAt :: "string option"
  rr_liveness :: "liveness_observation option"
  rr_result :: "run_result option"
  rr_error :: "run_error option"
  rr_cancelRequestedAt :: "string option"
  rr_legacyKeys :: "string list"

subsection \<open>The request of a Run\<close>

text \<open>
  The fields of type \<open>jsval\<close> hold the caller's value as it came: the code checks the
  text of the value and then keeps the value itself.
\<close>

record repository_input =
  repo_provider :: jsval
  repo_url :: string
  repo_ref :: "string option"
  repo_baseRef :: "string option"
  repo_installationId :: "string option"
  repo_credentialSecretArn :: "string option"

datatype web_search = Search_Disabled | Search_Cached | Search_Indexed | Search_Live

datatype computer_use = Computer_Disabled | Computer_Browser

datatype reasoning_summary = Summary_Auto | Summary_Concise | Summary_Detailed | Summary_None

datatype personality = Personality_None | Personality_Friendly | Personality_Pragmatic

record capability_request =
  cap_profile :: "string option"
  cap_networkAccess :: "bool option"
  cap_webSearch :: "web_search option"
  cap_computerUse :: "computer_use option"
  cap_skills :: "string list option"
  cap_apps :: "string list option"
  cap_mcpServers :: "string list option"

record agent_input =
  ag_driver :: "jsval option"
  ag_model :: "string option"
  ag_sandbox :: "jsval option"
  ag_reasoningEffort :: "jsval option"
  ag_reasoningSummary :: "reasoning_summary option"
  ag_personality :: "personality option"
  ag_capabilities :: "capability_request option"
  ag_outputSchema :: "fields option"

record execution_input =
  ei_backend :: "backend option"
  ei_timeoutSeconds :: "int option"

datatype run_source =
    Source_Api (src_requestId: "string option")
  | Source_Github (src_deliveryId: string) (src_event: string) (src_repository: string)
      (src_issueNumber: "int option") (src_installationId: "string option")
  | Source_Gitlab (src_event: string) (src_projectId: string)
      (src_mergeRequestIid: "int option")
  | Source_Teams (src_tenantId: "string option") (src_teamId: "string option")
      (src_teamsChannelId: "string option") (src_conversationId: string)
      (src_activityId: string) (src_senderId: "string option")
  | Source_Slack (src_teamId: "string option") (src_channelId: string)
      (src_threadTs: "string option") (src_eventId: string) (src_userId: "string option")

fun source_kind_of :: "run_source \<Rightarrow> source_kind" where
  "source_kind_of (Source_Api _) = Api"
| "source_kind_of (Source_Github _ _ _ _ _) = Github"
| "source_kind_of (Source_Gitlab _ _ _) = Gitlab"
| "source_kind_of (Source_Teams _ _ _ _ _ _) = Teams"
| "source_kind_of (Source_Slack _ _ _ _ _) = Slack"

record run_destination =
  dst_kind :: jsval
  dst_route :: "string option"

datatype permission_preset = Read_Only | Read_Write | Full_Access | Custom_Access

record connection_access_request =
  car_connection :: string
  car_preset :: "permission_preset option"
  car_allowOperations :: "string list option"
  car_denyOperations :: "string list option"

record integration_access_request =
  iar_connectionSet :: "string option"
  iar_connections :: "connection_access_request list option"

record run_request =
  rq_prompt :: string
  rq_repository :: "repository_input option"
  rq_agent :: "agent_input option"
  rq_integrations :: "integration_access_request option"
  rq_execution :: "execution_input option"
  rq_source :: "run_source option"
  rq_destinations :: "run_destination list option"
  rq_metadata :: "fields option"
  rq_parentRunId :: "string option"

subsection \<open>The wake-up message\<close>

record queue_message =
  qm_runId :: string
  qm_traceId :: string

section \<open>Status transitions\<close>

fun transitions :: "run_status \<Rightarrow> run_status list" where
  "transitions Queued = [Dispatching, Cancelled, Failed]"
| "transitions Dispatching = [Running, Cancelling, Cancelled, Failed]"
| "transitions Running = [Cancelling, Cancelled, Succeeded, Failed]"
| "transitions Cancelling = [Cancelled, Failed]"
| "transitions Succeeded = []"
| "transitions Failed = []"
| "transitions Cancelled = []"

datatype error =
    Plain_Error string
  | Type_Error
  | Validation_Error string
  | Conflict_Error string
  | Not_Found_Error string
  | Forbidden_Error string
  | Invalid_Transition run_status run_status
  | Service_Error string string "int option"

text \<open>\<open>error.name\<close>, \<open>error.message\<close>, and the HTTP status an SDK error carries.\<close>

fun status_text :: "run_status \<Rightarrow> string" where
  "status_text Queued = ''queued''"
| "status_text Dispatching = ''dispatching''"
| "status_text Running = ''running''"
| "status_text Cancelling = ''cancelling''"
| "status_text Succeeded = ''succeeded''"
| "status_text Failed = ''failed''"
| "status_text Cancelled = ''cancelled''"

fun error_name :: "error \<Rightarrow> string" where
  "error_name (Plain_Error _) = ''Error''"
| "error_name Type_Error = ''TypeError''"
| "error_name (Validation_Error _) = ''ValidationError''"
| "error_name (Conflict_Error _) = ''ConflictError''"
| "error_name (Not_Found_Error _) = ''NotFoundError''"
| "error_name (Forbidden_Error _) = ''ForbiddenError''"
| "error_name (Invalid_Transition _ _) = ''InvalidStateTransitionError''"
| "error_name (Service_Error name _ _) = name"

fun error_message :: "error \<Rightarrow> string" where
  "error_message (Plain_Error m) = m"
| "error_message Type_Error = ''Cannot convert object to primitive value''"
| "error_message (Validation_Error m) = m"
| "error_message (Conflict_Error m) = m"
| "error_message (Not_Found_Error m) = m"
| "error_message (Forbidden_Error m) = m"
| "error_message (Invalid_Transition from to) =
     ''invalid run transition: '' @ status_text from @ '' -> '' @ status_text to"
| "error_message (Service_Error _ m _) = m"

fun error_http_status :: "error \<Rightarrow> int option" where
  "error_http_status (Service_Error _ _ status) = status"
| "error_http_status _ = None"

definition canTransition :: "run_status \<Rightarrow> run_status \<Rightarrow> bool" where
  "canTransition from to \<longleftrightarrow> to \<in> set (transitions from)"

definition assertTransition :: "run_status \<Rightarrow> run_status \<Rightarrow> error + unit" where
  "assertTransition from to =
     (if \<not> canTransition from to then Inl (Invalid_Transition from to) else Inr ())"

definition isTerminal :: "run_status \<Rightarrow> bool" where
  "isTerminal s \<longleftrightarrow> s = Succeeded \<or> s = Failed \<or> s = Cancelled"

definition isRetiredRun :: "run_record \<Rightarrow> bool" where
  "isRetiredRun r \<longleftrightarrow>
     ''conversation'' \<in> set (rr_legacyKeys r) \<or> ''executionInput'' \<in> set (rr_legacyKeys r)"

text \<open>The one execution generation of a Run (\<open>src/execution/generation.ts\<close>).\<close>

definition executionGeneration :: "platform \<Rightarrow> run_record \<Rightarrow> string" where
  "executionGeneration p run = sha256Hex p (''rat-things/execution-generation/v1'' @ [char_of (0::nat)] @
     rr_runId run @ [char_of (0::nat)] @ rr_requestHash run)"

text \<open>How far along its life a status is: every edge of the table goes up.\<close>

fun status_rank :: "run_status \<Rightarrow> nat" where
  "status_rank Queued = 0"
| "status_rank Dispatching = 1"
| "status_rank Running = 2"
| "status_rank Cancelling = 3"
| "status_rank _ = 4"

lemma canTransition_rank: "canTransition a b \<Longrightarrow> status_rank a < status_rank b"
  by (cases a) (auto simp: canTransition_def)

lemma isTerminal_iff_stuck: "isTerminal a \<longleftrightarrow> (\<forall>b. \<not> canTransition a b)"
  by (cases a) (auto simp: isTerminal_def canTransition_def)

lemma terminal_reach: "canTransition\<^sup>*\<^sup>* a b \<Longrightarrow> isTerminal a \<Longrightarrow> b = a"
  by (induction rule: converse_rtranclp_induct) (auto simp: isTerminal_iff_stuck)

end
