(* ===== verification/Run_Store.thy ===== *)
theory Run_Store
  imports Run_Contracts
begin

text \<open>
  The Run table (\<open>DynamoRunStore\<close> in \<open>src/adapters/aws-runtime.ts\<close>) and the port the services
  use it through (\<open>RunStore\<close> in \<open>src/core/ports.ts\<close>).

  A request to the table is one turn. Other clients act before it (\<open>tn_others\<close>), the clock
  moves (\<open>tn_now\<close>), and the network may drop the request, lose its reply, or repeat it
  (\<open>tn_fault\<close>). A conditional update is evaluated and applied atomically on the stored item,
  as DynamoDB documents. An empty script means nobody interferes and nothing fails.
\<close>

section \<open>The table and its clients\<close>

type_synonym run_table = "string \<Rightarrow> run_record option"

datatype fault = Served | Dropped | Unacknowledged | Replayed

record turn =
  tn_others :: "run_table \<Rightarrow> run_table"
  tn_now :: int
  tn_fault :: fault

record world =
  runs :: run_table
  script :: "turn list"
  now :: int

definition take_turn :: "'x world_scheme \<Rightarrow> fault \<times> 'x world_scheme" where
  "take_turn w = (case script w of
       [] \<Rightarrow> (Served, w)
     | tn # ts \<Rightarrow>
         (tn_fault tn, w\<lparr>runs := tn_others tn (runs w), script := ts, now := tn_now tn\<rparr>))"

datatype reply = Acked run_record | Rejected | Unreached

definition conditional_write ::
  "string \<Rightarrow> (run_record option \<Rightarrow> bool) \<Rightarrow> (run_record option \<Rightarrow> run_record) \<Rightarrow> run_table
     \<Rightarrow> run_table \<times> reply" where
  "conditional_write k cond f t =
     (if cond (t k) then (t(k \<mapsto> f (t k)), Acked (f (t k))) else (t, Rejected))"

definition send_write ::
  "string \<Rightarrow> (run_record option \<Rightarrow> bool) \<Rightarrow> (run_record option \<Rightarrow> run_record)
     \<Rightarrow> 'x world_scheme \<Rightarrow> 'x world_scheme \<times> reply" where
  "send_write k cond f w =
     (let (fault, w1) = take_turn w; (t1, r1) = conditional_write k cond f (runs w1);
          (t2, r2) = conditional_write k cond f t1
      in case fault of
           Served \<Rightarrow> (w1\<lparr>runs := t1\<rparr>, r1)
         | Dropped \<Rightarrow> (w1, Unreached)
         | Unacknowledged \<Rightarrow> (w1\<lparr>runs := t1\<rparr>, Unreached)
         | Replayed \<Rightarrow> (w1\<lparr>runs := t2\<rparr>, r2))"

text \<open>A write followed by whatever its reply calls for.\<close>

definition reply_io ::
  "('w \<Rightarrow> 'w \<times> reply) \<Rightarrow> (run_record \<Rightarrow> ('w, error, 'a) io) \<Rightarrow> ('w, error, 'a) io
     \<Rightarrow> ('w, error, 'a) io \<Rightarrow> ('w, error, 'a) io" where
  "reply_io m acked rejected unreached = (\<lambda>w. case m w of
       (w', Acked r) \<Rightarrow> acked r w'
     | (w', Rejected) \<Rightarrow> rejected w'
     | (w', Unreached) \<Rightarrow> unreached w')"

text \<open>\<open>new Date().toISOString()\<close>\<close>

definition with_time :: "platform \<Rightarrow> (string \<Rightarrow> ('x world_scheme, error, 'a) io) \<Rightarrow> ('x world_scheme, error, 'a) io"
where
  "with_time p f = (\<lambda>w. f (iso p (now w)) w)"

definition network_error :: error where
  "network_error = Service_Error ''NetworkingError'' ''request failed'' None"

definition store_get :: "string \<Rightarrow> ('x world_scheme, error, run_record option) io" where
  "store_get runId w =
     (let (fault, w1) = take_turn w
      in if fault = Dropped \<or> fault = Unacknowledged then (w1, Inl network_error)
         else (w1, Inr (runs w1 runId)))"

section \<open>Operations\<close>

definition store_create :: "run_record \<Rightarrow> ('x world_scheme, error, bool \<times> run_record) io" where
  "store_create record =
     reply_io (send_write (rr_runId record) (\<lambda>old. old = None) (\<lambda>_. record))
       (\<lambda>_. ret (True, record))
       (bind_io (store_get (rr_runId record)) (\<lambda>existing.
          case existing of
            None \<Rightarrow> throw (Service_Error ''ConditionalCheckFailedException'' [] (Some 400))
          | Some e \<Rightarrow> ret (False, e)))
       (throw network_error)"

text \<open>\<open>Partial<RunRecord>\<close> as the callers fill it: an absent field leaves the item's alone.\<close>

record run_patch =
  p_status :: "run_status option"
  p_execution :: "execution_ref option"
  p_result :: "run_result option"
  p_error :: "run_error option"
  p_cancelRequestedAt :: "string option"

definition no_patch :: run_patch where
  "no_patch = \<lparr>p_status = None, p_execution = None, p_result = None, p_error = None,
     p_cancelRequestedAt = None\<rparr>"

definition patched :: "'a option \<Rightarrow> 'a \<Rightarrow> 'a" where
  "patched new old = (case new of None \<Rightarrow> old | Some a \<Rightarrow> a)"

definition patched_opt :: "'a option \<Rightarrow> 'a option \<Rightarrow> 'a option" where
  "patched_opt new old = (case new of None \<Rightarrow> old | Some a \<Rightarrow> Some a)"

definition apply_patch :: "run_patch \<Rightarrow> string \<Rightarrow> run_record \<Rightarrow> run_record" where
  "apply_patch v updatedAt r = r\<lparr>
     rr_status := patched (p_status v) (rr_status r),
     rr_execution := patched_opt (p_execution v) (rr_execution r),
     rr_result := patched_opt (p_result v) (rr_result r),
     rr_error := patched_opt (p_error v) (rr_error r),
     rr_cancelRequestedAt := patched_opt (p_cancelRequestedAt v) (rr_cancelRequestedAt r),
     rr_updatedAt := updatedAt\<rparr>"

text \<open>A condition on an item that is not there fails: every update asks for it to exist.\<close>

definition on_item :: "(run_record \<Rightarrow> bool) \<Rightarrow> run_record option \<Rightarrow> bool" where
  "on_item c x = (case x of None \<Rightarrow> False | Some r \<Rightarrow> c r)"

definition run_not_found :: "string \<Rightarrow> error" where
  "run_not_found runId = Plain_Error (''run '' @ runId @ '' not found'')"

definition store_update ::
  "platform \<Rightarrow> string \<Rightarrow> run_patch \<Rightarrow> run_status list \<Rightarrow> ('x world_scheme, error, run_record) io"
where
  "store_update p runId values expectedStatuses = with_time p (\<lambda>t.
     reply_io (send_write runId (on_item (\<lambda>r. rr_status r \<in> set expectedStatuses))
         (apply_patch values t \<circ> the))
       ret
       (bind_io (store_get runId) (\<lambda>current.
          case current of
            None \<Rightarrow> throw (run_not_found runId)
          | Some c \<Rightarrow>
              throw (Invalid_Transition (rr_status c) (patched (p_status values) (rr_status c)))))
       (throw network_error))"

definition store_transition ::
  "platform \<Rightarrow> string \<Rightarrow> run_status list \<Rightarrow> run_status \<Rightarrow> run_patch
     \<Rightarrow> ('x world_scheme, error, run_record) io" where
  "store_transition p runId from to patch =
     store_update p runId (patch\<lparr>p_status := Some to\<rparr>) from"

definition same_worker :: "execution_ref \<Rightarrow> execution_ref \<Rightarrow> bool" where
  "same_worker a b \<longleftrightarrow> ex_backend a = ex_backend b \<and> ex_id a = ex_id b \<and>
     ex_generation a = ex_generation b"

definition attachable :: "execution_ref \<Rightarrow> run_record \<Rightarrow> bool" where
  "attachable execution r \<longleftrightarrow> rr_status r \<in> {Dispatching, Running} \<and>
     (case rr_execution r of
        None \<Rightarrow> True
      | Some e \<Rightarrow> ex_id e = ''pending'' \<and>
          (ex_generation e = None \<or> ex_generation e = ex_generation execution))"

definition attach_execution :: "execution_ref \<Rightarrow> string \<Rightarrow> run_record \<Rightarrow> run_record" where
  "attach_execution execution t r = r\<lparr>rr_execution := Some execution, rr_heartbeatAt := Some t,
     rr_updatedAt := t, rr_liveness := None\<rparr>"

definition store_attachExecution ::
  "platform \<Rightarrow> string \<Rightarrow> execution_ref \<Rightarrow> ('x world_scheme, error, run_record) io" where
  "store_attachExecution p runId execution =
     (if \<not> truthy (ex_generation execution)
      then store_update p runId (no_patch\<lparr>p_execution := Some execution\<rparr>) [Dispatching, Running]
      else with_time p (\<lambda>t.
        reply_io (send_write runId (on_item (attachable execution))
            (attach_execution execution t \<circ> the))
          ret
          (bind_io (store_get runId) (\<lambda>current.
             case current of
               None \<Rightarrow> throw (run_not_found runId)
             | Some c \<Rightarrow>
                 if (case rr_execution c of None \<Rightarrow> False | Some e \<Rightarrow> same_worker e execution)
                 then ret c
                 else throw (Invalid_Transition (rr_status c) (rr_status c))))
          (throw network_error)))"

definition fenced ::
  "execution_ref \<Rightarrow> run_status list \<Rightarrow> string option \<Rightarrow> run_record \<Rightarrow> bool" where
  "fenced execution expectedStatuses expectedHeartbeatAt r \<longleftrightarrow>
     rr_status r \<in> set expectedStatuses \<and>
     (case rr_execution r of None \<Rightarrow> False | Some e \<Rightarrow> same_worker e execution) \<and>
     (expectedHeartbeatAt = None \<or> rr_heartbeatAt r = expectedHeartbeatAt)"

definition store_updateExactExecution ::
  "string \<Rightarrow> execution_ref \<Rightarrow> run_status list \<Rightarrow> string option \<Rightarrow> (run_record \<Rightarrow> run_record)
     \<Rightarrow> ('x world_scheme, error, run_record option) io" where
  "store_updateExactExecution runId execution expectedStatuses expectedHeartbeatAt f =
     (if \<not> truthy (ex_generation execution) then ret None
      else reply_io
        (send_write runId (on_item (fenced execution expectedStatuses expectedHeartbeatAt))
           (f \<circ> the))
        (\<lambda>r. ret (Some r)) (ret None) (throw network_error))"

definition start_execution :: "execution_ref \<Rightarrow> string \<Rightarrow> run_record \<Rightarrow> run_record" where
  "start_execution execution startedAt r = r\<lparr>rr_status := Running,
     rr_execution := Some (execution\<lparr>ex_startedAt := Some startedAt\<rparr>),
     rr_heartbeatAt := Some startedAt, rr_updatedAt := startedAt, rr_liveness := None\<rparr>"

definition store_startExecution ::
  "string \<Rightarrow> execution_ref \<Rightarrow> string \<Rightarrow> ('x world_scheme, error, run_record) io" where
  "store_startExecution runId execution startedAt =
     bind_io (store_updateExactExecution runId execution [Dispatching] None
       (start_execution execution startedAt))
     (\<lambda>result. case result of
        None \<Rightarrow> throw (Invalid_Transition Dispatching Running)
      | Some r \<Rightarrow> ret r)"

text \<open>
  An EC2 heartbeat also extends the record's retention. A heartbeat text \<open>Date.parse\<close> cannot
  read gives \<open>NaN\<close>, which the client refuses to marshal before it sends anything.
\<close>

definition beat :: "string \<Rightarrow> int option \<Rightarrow> run_record \<Rightarrow> run_record" where
  "beat heartbeatAt expiresAt r = r\<lparr>rr_heartbeatAt := Some heartbeatAt, rr_liveness := None,
     rr_expiresAt := patched expiresAt (rr_expiresAt r)\<rparr>"

definition store_heartbeatExecution ::
  "platform \<Rightarrow> int \<Rightarrow> string \<Rightarrow> execution_ref \<Rightarrow> string \<Rightarrow> ('x world_scheme, error, bool) io"
where
  "store_heartbeatExecution p retentionSeconds runId execution heartbeatAt =
     (let write = (\<lambda>expiresAt. bind_io
            (store_updateExactExecution runId execution [Running] None (beat heartbeatAt expiresAt))
            (\<lambda>r. ret (r \<noteq> None)))
      in if ex_backend execution \<noteq> Ec2 then write None
         else if \<not> truthy (ex_generation execution) then ret False
         else case date_parse p heartbeatAt of
             None \<Rightarrow> throw (Service_Error ''Error'' ''Special numeric value NaN is not allowed'' None)
           | Some ms \<Rightarrow> write (Some (ms div 1000 + retentionSeconds)))"

text \<open>
  The write of a terminal status under the fence: up to ten attempts, each a read, a check
  of the fence on what was read, and the conditional update.
\<close>

definition settle ::
  "run_status \<Rightarrow> run_error option \<Rightarrow> run_result option \<Rightarrow> string \<Rightarrow> run_record \<Rightarrow> run_record" where
  "settle status err res settledAt r = r\<lparr>rr_status := status, rr_updatedAt := settledAt,
     rr_error := patched_opt err (rr_error r), rr_result := patched_opt res (rr_result r)\<rparr>"

fun terminalize_attempts ::
  "platform \<Rightarrow> nat \<Rightarrow> string \<Rightarrow> execution_ref \<Rightarrow> run_status list \<Rightarrow> string option \<Rightarrow> run_status
     \<Rightarrow> run_error option \<Rightarrow> run_result option \<Rightarrow> ('x world_scheme, error, bool) io" where
  "terminalize_attempts p 0 runId execution expected hb status err res = ret False"
| "terminalize_attempts p (Suc n) runId execution expected hb status err res =
     bind_io (store_get runId) (\<lambda>run.
       if \<not> on_item (fenced execution expected hb) run then ret False
       else with_time p (\<lambda>settledAt.
         reply_io (send_write runId (on_item (fenced execution expected hb))
             (settle status err res settledAt \<circ> the))
           (\<lambda>_. ret True)
           (terminalize_attempts p n runId execution expected hb status err res)
           (throw network_error)))"

definition store_terminalizeExactExecution ::
  "platform \<Rightarrow> string \<Rightarrow> execution_ref \<Rightarrow> run_status list \<Rightarrow> string option \<Rightarrow> run_status
     \<Rightarrow> run_error option \<Rightarrow> run_result option \<Rightarrow> ('x world_scheme, error, bool) io" where
  "store_terminalizeExactExecution p runId execution expected hb status err res =
     (if \<not> truthy (ex_generation execution) then ret False
      else terminalize_attempts p 10 runId execution expected hb status err res)"

definition store_failExecution ::
  "platform \<Rightarrow> string \<Rightarrow> execution_ref \<Rightarrow> string \<Rightarrow> run_error \<Rightarrow> run_result option
     \<Rightarrow> ('x world_scheme, error, bool) io" where
  "store_failExecution p runId execution expectedHeartbeatAt err result =
     store_terminalizeExactExecution p runId execution [Dispatching, Running]
       (Some expectedHeartbeatAt) Failed (Some err) result"

definition store_cancelExecution ::
  "platform \<Rightarrow> string \<Rightarrow> execution_ref \<Rightarrow> run_result option \<Rightarrow> ('x world_scheme, error, bool) io"
where
  "store_cancelExecution p runId execution result =
     store_terminalizeExactExecution p runId execution
       (if result \<noteq> None then [Running, Cancelling] else [Cancelling]) None Cancelled None result"

definition store_recordLivenessInspection ::
  "string \<Rightarrow> execution_ref \<Rightarrow> string \<Rightarrow> liveness_observation \<Rightarrow> ('x world_scheme, error, bool) io"
where
  "store_recordLivenessInspection runId execution expectedHeartbeatAt observation =
     bind_io (store_updateExactExecution runId execution [Dispatching, Running, Cancelling]
       (Some expectedHeartbeatAt) (\<lambda>r. r\<lparr>rr_liveness := Some observation\<rparr>))
     (\<lambda>r. ret (r \<noteq> None))"

text \<open>\<open>status\<close> is one of the three terminal ones: the type of the argument says so.\<close>

datatype finish = Finish_Succeeded | Finish_Cancelled | Finish_Failed

fun finish_status :: "finish \<Rightarrow> run_status" where
  "finish_status Finish_Succeeded = Succeeded"
| "finish_status Finish_Cancelled = Cancelled"
| "finish_status Finish_Failed = Failed"

definition store_finishExecution ::
  "platform \<Rightarrow> string \<Rightarrow> execution_ref \<Rightarrow> finish \<Rightarrow> run_result \<Rightarrow> run_error option
     \<Rightarrow> ('x world_scheme, error, bool) io" where
  "store_finishExecution p runId execution status result err =
     store_terminalizeExactExecution p runId execution
       (if status = Finish_Succeeded then [Running] else [Running, Cancelling]) None
       (finish_status status) err (Some result)"

definition store_complete ::
  "platform \<Rightarrow> string \<Rightarrow> run_result \<Rightarrow> ('x world_scheme, error, run_record) io" where
  "store_complete p runId result =
     store_update p runId (no_patch\<lparr>p_status := Some Succeeded, p_result := Some result\<rparr>) [Running]"

definition store_fail ::
  "platform \<Rightarrow> string \<Rightarrow> run_error \<Rightarrow> run_status list \<Rightarrow> ('x world_scheme, error, run_record) io"
where
  "store_fail p runId err from =
     store_update p runId (no_patch\<lparr>p_status := Some Failed, p_error := Some err\<rparr>) from"

end
