(* ===== verification/Run_Port.thy ===== *)
theory Run_Port
  imports Run_Store
begin

text \<open>
  What the Run table promises its clients, and the port through which the services use it.
  The promise is a relation between the table before and after: records are never lost,
  their identity never changes, their status only moves along the transition table, a
  terminal record is final, and the worker a Run is attached to never changes.
\<close>

section \<open>How a record may evolve\<close>

definition attached :: "execution_ref \<Rightarrow> bool" where
  "attached e \<longleftrightarrow> ex_id e \<noteq> ''pending'' \<and> truthy (ex_generation e)"

definition same_identity :: "run_record \<Rightarrow> run_record \<Rightarrow> bool" where
  "same_identity r r' \<longleftrightarrow> rr_runId r' = rr_runId r \<and> rr_ownerId r' = rr_ownerId r \<and>
     rr_capabilityOwnerId r' = rr_capabilityOwnerId r \<and>
     rr_ownerCreated r' = rr_ownerCreated r \<and> rr_createdAt r' = rr_createdAt r \<and>
     rr_requestHash r' = rr_requestHash r \<and> rr_input r' = rr_input r \<and>
     rr_sourceKind r' = rr_sourceKind r \<and> rr_provenance r' = rr_provenance r \<and>
     rr_agentsSession r' = rr_agentsSession r \<and> rr_legacyKeys r' = rr_legacyKeys r"

definition keeps_worker :: "run_record \<Rightarrow> run_record \<Rightarrow> bool" where
  "keeps_worker r r' \<longleftrightarrow> (\<forall>e. rr_execution r = Some e \<longrightarrow> attached e \<longrightarrow>
     (\<exists>e'. rr_execution r' = Some e' \<and> same_worker e e'))"

definition evolves :: "run_record \<Rightarrow> run_record \<Rightarrow> bool" where
  "evolves r r' \<longleftrightarrow> same_identity r r' \<and> canTransition\<^sup>*\<^sup>* (rr_status r) (rr_status r') \<and>
     (isTerminal (rr_status r) \<longrightarrow> r' = r) \<and> keeps_worker r r'"

definition run_item_ok :: "string \<Rightarrow> run_record \<Rightarrow> bool" where
  "run_item_ok k r \<longleftrightarrow> rr_runId r = k \<and> (rr_status r = Queued \<longrightarrow> rr_execution r = None) \<and>
     (\<forall>e. rr_execution r = Some e \<longrightarrow> ex_generation e \<noteq> Some [])"

definition table_ok :: "run_table \<Rightarrow> bool" where
  "table_ok t \<longleftrightarrow> (\<forall>k r. t k = Some r \<longrightarrow> run_item_ok k r)"

definition table_evolves :: "run_table \<Rightarrow> run_table \<Rightarrow> bool" where
  "table_evolves t t' \<longleftrightarrow> (\<forall>k r. t k = Some r \<longrightarrow> (\<exists>r'. t' k = Some r' \<and> evolves r r'))"

text \<open>Other clients are assumed to keep the same promise: the services below all do.\<close>

definition others_ok :: "(run_table \<Rightarrow> run_table) \<Rightarrow> bool" where
  "others_ok f \<longleftrightarrow> (\<forall>t. table_ok t \<longrightarrow> table_ok (f t) \<and> table_evolves t (f t))"

definition world_ok :: "'x world_scheme \<Rightarrow> bool" where
  "world_ok w \<longleftrightarrow> table_ok (runs w) \<and> (\<forall>tn \<in> set (script w). others_ok (tn_others tn))"

definition world_evolves :: "'x world_scheme \<Rightarrow> 'x world_scheme \<Rightarrow> bool" where
  "world_evolves w w' \<longleftrightarrow> table_evolves (runs w) (runs w')"

lemma same_worker_refl [simp]: "same_worker e e"
  by (simp add: same_worker_def)

lemma same_worker_trans: "same_worker a b \<Longrightarrow> same_worker b c \<Longrightarrow> same_worker a c"
  by (simp add: same_worker_def)

lemma same_worker_attached: "same_worker a b \<Longrightarrow> attached b = attached a"
  by (simp add: same_worker_def attached_def)

lemma keeps_worker_refl: "keeps_worker r r"
  by (simp add: keeps_worker_def)

lemma keeps_worker_trans: "keeps_worker a b \<Longrightarrow> keeps_worker b c \<Longrightarrow> keeps_worker a c"
  unfolding keeps_worker_def by (metis same_worker_attached same_worker_trans)

lemma evolves_refl [simp]: "evolves r r"
  by (simp add: evolves_def same_identity_def keeps_worker_refl)

lemma evolves_trans: "evolves a b \<Longrightarrow> evolves b c \<Longrightarrow> evolves a c"
  unfolding evolves_def same_identity_def
  by (auto intro: rtranclp_trans keeps_worker_trans)

lemma table_evolves_refl [simp]: "table_evolves t t"
  by (simp add: table_evolves_def)

lemma table_evolves_trans: "table_evolves a b \<Longrightarrow> table_evolves b c \<Longrightarrow> table_evolves a c"
  unfolding table_evolves_def by (meson evolves_trans)

lemma world_evolves_reflp: "reflp world_evolves"
  by (simp add: reflp_def world_evolves_def)

lemma world_evolves_transp: "transp world_evolves"
  unfolding transp_def world_evolves_def by (blast intro: table_evolves_trans)

lemma table_ok_item: "table_ok t \<Longrightarrow> t k = Some r \<Longrightarrow> run_item_ok k r"
  by (simp add: table_ok_def)

lemma table_update_ok:
  assumes "table_ok t" "run_item_ok k r'" "\<And>r. t k = Some r \<Longrightarrow> evolves r r'"
  shows "table_ok (t(k \<mapsto> r')) \<and> table_evolves t (t(k \<mapsto> r'))"
  using assms by (auto simp: table_ok_def table_evolves_def)

section \<open>Every request keeps the promise\<close>

text \<open>What a conditional write must satisfy: where its condition holds it evolves the item.\<close>

definition lawful_write ::
  "string \<Rightarrow> (run_record option \<Rightarrow> bool) \<Rightarrow> (run_record option \<Rightarrow> run_record) \<Rightarrow> bool" where
  "lawful_write k cond f \<longleftrightarrow> (\<forall>old. cond old \<longrightarrow> (\<forall>r. old = Some r \<longrightarrow> run_item_ok k r) \<longrightarrow>
     run_item_ok k (f old) \<and> (\<forall>r. old = Some r \<longrightarrow> evolves r (f old)))"

lemma lawful_on_item:
  assumes "\<And>r. c r \<Longrightarrow> run_item_ok k r \<Longrightarrow> run_item_ok k (f r) \<and> evolves r (f r)"
  shows "lawful_write k (on_item c) (f \<circ> the)"
  using assms by (auto simp: lawful_write_def on_item_def split: option.splits)

lemma conditional_write_ok:
  assumes "lawful_write k cond f" "table_ok t" "conditional_write k cond f t = (t', r)"
  shows "table_ok t' \<and> table_evolves t t'"
proof (cases "cond (t k)")
  case True
  have "run_item_ok k (f (t k)) \<and> (\<forall>r. t k = Some r \<longrightarrow> evolves r (f (t k)))"
    using assms(1,2) True by (auto simp: lawful_write_def dest: table_ok_item)
  then have "table_ok (t(k \<mapsto> f (t k))) \<and> table_evolves t (t(k \<mapsto> f (t k)))"
    using assms(2) table_update_ok by blast
  with assms(3) True show ?thesis by (auto simp: conditional_write_def)
qed (use assms in \<open>auto simp: conditional_write_def\<close>)

lemma take_turn_ok:
  assumes "world_ok w" "take_turn w = (fault, w1)"
  shows "world_ok w1 \<and> world_evolves w w1"
  using assms
  by (auto simp: take_turn_def world_ok_def world_evolves_def others_ok_def split: list.splits)

lemma send_write_ok:
  assumes lw: "lawful_write k cond f" and ok: "world_ok w"
  shows "world_ok (fst (send_write k cond f w)) \<and> world_evolves w (fst (send_write k cond f w))"
proof -
  obtain fault w1 where tn: "take_turn w = (fault, w1)" by fastforce
  obtain t1 r1 where c1: "conditional_write k cond f (runs w1) = (t1, r1)" by fastforce
  obtain t2 r2 where c2: "conditional_write k cond f t1 = (t2, r2)" by fastforce
  have w1: "world_ok w1" "world_evolves w w1" using take_turn_ok [OF ok tn] by auto
  have t1: "table_ok t1" "table_evolves (runs w1) t1"
    using conditional_write_ok [OF lw _ c1] w1 by (auto simp: world_ok_def)
  have t2: "table_ok t2" "table_evolves t1 t2"
    using conditional_write_ok [OF lw t1(1) c2] by auto
  show ?thesis
    using w1 t1 t2 tn c1 c2
    by (cases fault) (auto simp: send_write_def world_ok_def world_evolves_def
        intro: table_evolves_trans)
qed

lemma store_get_ok: "guarantees world_ok world_evolves (store_get k)"
  using take_turn_ok by (fastforce simp: guarantees_def store_get_def split: prod.splits)

lemma reply_io_ok:
  assumes "lawful_write key cond f"
    and "\<And>r. guarantees world_ok world_evolves (acked r)"
    and "guarantees world_ok world_evolves rejected"
    and "guarantees world_ok world_evolves unreached"
  shows "guarantees world_ok world_evolves
    (reply_io (send_write key cond f) acked rejected unreached)"
  unfolding guarantees_def
proof (intro allI impI)
  fix w :: "'a world_scheme" assume ok: "world_ok w"
  let ?m = "reply_io (send_write key cond f) acked rejected unreached"
  obtain w' r where s: "send_write key cond f w = (w', r)" by fastforce
  have "world_ok w'" "world_evolves w w'" using send_write_ok [OF assms(1) ok] s by auto
  moreover obtain k where "?m w = k w'" "guarantees world_ok world_evolves k"
    using s assms(2-4) by (cases r) (auto simp: reply_io_def)
  ultimately show "world_ok (fst (?m w)) \<and> world_evolves w (fst (?m w))"
    using world_evolves_transp by (auto simp: guarantees_def dest: transpD)
qed

lemma with_time_ok:
  "(\<And>t. guarantees world_ok world_evolves (f t)) \<Longrightarrow> guarantees world_ok world_evolves (with_time p f)"
  by (simp add: guarantees_def with_time_def)

lemmas world_guarantees =
  guarantees_bind [OF world_evolves_reflp world_evolves_transp]
  guarantees_ret [OF world_evolves_reflp]
  guarantees_throw [OF world_evolves_reflp]
  guarantees_if guarantees_option store_get_ok with_time_ok reply_io_ok

text \<open>Which patches move a record along the transition table.\<close>

definition lawful_patch :: "run_status list \<Rightarrow> run_patch \<Rightarrow> bool" where
  "lawful_patch from v \<longleftrightarrow>
     (\<forall>s \<in> set from. \<exists>t. p_status v = Some t \<and> canTransition s t) \<and>
     (\<forall>e. p_execution v = Some e \<longrightarrow> set from \<subseteq> {Queued} \<and> ex_generation e \<noteq> Some [])"

lemma no_edge_to_queued [simp]: "\<not> canTransition s Queued"
  by (cases s) (auto simp: canTransition_def)

lemma lawful_patch_write:
  assumes "lawful_patch from v"
  shows "lawful_write k (on_item (\<lambda>r. rr_status r \<in> set from)) (apply_patch v tm \<circ> the)"
proof (rule lawful_on_item)
  fix r assume r: "rr_status r \<in> set from" "run_item_ok k r"
  with assms obtain t where t: "p_status v = Some t" "canTransition (rr_status r) t"
    by (auto simp: lawful_patch_def)
  moreover have "\<not> isTerminal (rr_status r)" "t \<noteq> Queued"
    using t by (auto simp: isTerminal_iff_stuck)
  moreover have "p_execution v = None \<or> rr_execution r = None"
    using assms r by (cases "p_execution v") (auto simp: lawful_patch_def run_item_ok_def)
  moreover have "\<And>e. p_execution v = Some e \<Longrightarrow> ex_generation e \<noteq> Some []"
    using assms by (auto simp: lawful_patch_def)
  ultimately show "run_item_ok k (apply_patch v tm r) \<and> evolves r (apply_patch v tm r)"
    using r by (auto simp: run_item_ok_def evolves_def same_identity_def keeps_worker_def
        apply_patch_def patched_def patched_opt_def split: option.splits)
qed

lemma fenced_not_terminal:
  "fenced e expected hb r \<Longrightarrow> (\<forall>s \<in> set expected. \<not> isTerminal s) \<Longrightarrow> \<not> isTerminal (rr_status r)"
  by (auto simp: fenced_def)

lemma store_create_ok:
  "run_item_ok (rr_runId r) r \<Longrightarrow> guarantees world_ok world_evolves (store_create r)"
  unfolding store_create_def
  by (rule world_guarantees | simp add: lawful_write_def)+

lemma store_update_ok:
  "lawful_patch from v \<Longrightarrow> guarantees world_ok world_evolves (store_update p k v from)"
  unfolding store_update_def
  by (rule world_guarantees lawful_patch_write | assumption)+

lemma lawful_attach:
  assumes "truthy (ex_generation e)"
  shows "lawful_write k (on_item (attachable e)) (attach_execution e t \<circ> the)"
proof (rule lawful_on_item)
  fix r assume r: "attachable e r" "run_item_ok k r"
  have "keeps_worker r (attach_execution e t r)"
    using r(1) by (auto simp: keeps_worker_def attachable_def attached_def split: option.splits)
  moreover have "\<not> isTerminal (rr_status r)" "rr_status r \<noteq> Queued"
    using r(1) by (auto simp: attachable_def isTerminal_def)
  ultimately show "run_item_ok k (attach_execution e t r) \<and> evolves r (attach_execution e t r)"
    using r(2) assms
    by (simp add: run_item_ok_def evolves_def same_identity_def attach_execution_def truthy_def)
qed

lemma store_attachExecution_ok:
  assumes "truthy (ex_generation e)"
  shows "guarantees world_ok world_evolves (store_attachExecution p k e)"
  unfolding store_attachExecution_def
  by (simp add: assms, (rule world_guarantees lawful_attach [OF assms])+)

text \<open>An exact update: it moves a fenced, non-terminal record and keeps its worker.\<close>

definition lawful_exact :: "execution_ref \<Rightarrow> run_status list \<Rightarrow> (run_record \<Rightarrow> run_record) \<Rightarrow> bool"
where
  "lawful_exact e expected f \<longleftrightarrow> (\<forall>s \<in> set expected. \<not> isTerminal s \<and> s \<noteq> Queued) \<and>
     (\<forall>r. rr_status r \<in> set expected \<longrightarrow> rr_execution r \<noteq> None \<longrightarrow>
        same_worker (the (rr_execution r)) e \<longrightarrow>
        same_identity r (f r) \<and> rr_status (f r) \<noteq> Queued \<and>
        canTransition\<^sup>*\<^sup>* (rr_status r) (rr_status (f r)) \<and>
        (\<exists>e'. rr_execution (f r) = Some e' \<and> same_worker (the (rr_execution r)) e'))"

lemma lawful_exact_write:
  assumes "lawful_exact e expected f"
  shows "lawful_write k (on_item (fenced e expected hb)) (f \<circ> the)"
proof (rule lawful_on_item)
  fix r assume r: "fenced e expected hb r" "run_item_ok k r"
  then have "rr_status r \<in> set expected" "rr_execution r \<noteq> None"
    "same_worker (the (rr_execution r)) e"
    by (auto simp: fenced_def split: option.splits)
  with assms r show "run_item_ok k (f r) \<and> evolves r (f r)"
    by (fastforce simp: lawful_exact_def evolves_def run_item_ok_def same_identity_def
        keeps_worker_def same_worker_def)
qed

lemma store_updateExactExecution_ok:
  "lawful_exact e expected f \<Longrightarrow>
   guarantees world_ok world_evolves (store_updateExactExecution k e expected hb f)"
  unfolding store_updateExactExecution_def
  by (rule world_guarantees lawful_exact_write | assumption)+

lemma store_startExecution_ok: "guarantees world_ok world_evolves (store_startExecution k e t)"
proof -
  have "lawful_exact e [Dispatching] (start_execution e t)"
    by (auto simp: lawful_exact_def isTerminal_def same_identity_def
        start_execution_def same_worker_def canTransition_def)
  then show ?thesis
    unfolding store_startExecution_def
    by (intro world_guarantees store_updateExactExecution_ok)
qed

lemma store_heartbeatExecution_ok:
  "guarantees world_ok world_evolves (store_heartbeatExecution p ret_s k e hb)"
proof -
  have "lawful_exact e [Running] (beat hb x)" for x
    by (auto simp: lawful_exact_def isTerminal_def same_identity_def beat_def)
  then show ?thesis
    unfolding store_heartbeatExecution_def Let_def
    by (intro world_guarantees store_updateExactExecution_ok)
qed

lemma store_recordLivenessInspection_ok:
  "guarantees world_ok world_evolves (store_recordLivenessInspection k e hb obs)"
proof -
  have "lawful_exact e [Dispatching, Running, Cancelling] (\<lambda>r. r\<lparr>rr_liveness := Some obs\<rparr>)"
    by (auto simp: lawful_exact_def isTerminal_def same_identity_def)
  then show ?thesis
    unfolding store_recordLivenessInspection_def
    by (intro world_guarantees store_updateExactExecution_ok)
qed

definition lawful_settle :: "run_status list \<Rightarrow> run_status \<Rightarrow> bool" where
  "lawful_settle expected status \<longleftrightarrow>
     (\<forall>s \<in> set expected. s \<noteq> Queued \<and> canTransition s status)"

lemma lawful_settle_exact:
  "lawful_settle expected status \<Longrightarrow> lawful_exact e expected (settle status err res t)"
  by (auto simp: lawful_settle_def lawful_exact_def settle_def same_identity_def
      isTerminal_iff_stuck)

lemma terminalize_attempts_ok:
  assumes "lawful_settle expected status"
  shows "guarantees world_ok world_evolves
    (terminalize_attempts p n k e expected hb status err res)"
proof (induction n)
  case 0
  show ?case by (simp add: world_guarantees)
next
  case (Suc n)
  show ?case
    unfolding terminalize_attempts.simps
    by (intro world_guarantees lawful_exact_write lawful_settle_exact assms Suc.IH)
qed

lemma store_terminalizeExactExecution_ok:
  "lawful_settle expected status \<Longrightarrow> guarantees world_ok world_evolves
     (store_terminalizeExactExecution p k e expected hb status err res)"
  unfolding store_terminalizeExactExecution_def
  by (intro world_guarantees terminalize_attempts_ok)

lemma store_failExecution_ok: "guarantees world_ok world_evolves (store_failExecution p k e hb err res)"
  unfolding store_failExecution_def
  by (rule store_terminalizeExactExecution_ok) (simp add: lawful_settle_def canTransition_def)

lemma store_cancelExecution_ok: "guarantees world_ok world_evolves (store_cancelExecution p k e res)"
  unfolding store_cancelExecution_def
  by (rule store_terminalizeExactExecution_ok) (simp add: lawful_settle_def canTransition_def)

lemma store_finishExecution_ok:
  "guarantees world_ok world_evolves (store_finishExecution p k e fin res err)"
  unfolding store_finishExecution_def
  by (rule store_terminalizeExactExecution_ok)
    (cases fin; simp add: lawful_settle_def canTransition_def)

lemma store_complete_ok: "guarantees world_ok world_evolves (store_complete p k res)"
  unfolding store_complete_def
  by (rule store_update_ok) (simp add: lawful_patch_def no_patch_def canTransition_def)

lemma store_fail_ok:
  assumes "\<forall>s \<in> set from. \<not> isTerminal s"
  shows "guarantees world_ok world_evolves (store_fail p k err from)"
proof -
  have "canTransition s Failed" if "\<not> isTerminal s" for s
    using that by (cases s) (auto simp: isTerminal_def canTransition_def)
  with assms show ?thesis
    unfolding store_fail_def
    by (intro store_update_ok) (auto simp: lawful_patch_def no_patch_def)
qed

section \<open>The port\<close>

text \<open>
  The operations of \<open>RunStore\<close> the services call, over any world. \<open>list\<close> only reads.
\<close>

record 'w run_store =
  st_create :: "run_record \<Rightarrow> ('w, error, bool \<times> run_record) io"
  st_get :: "string \<Rightarrow> ('w, error, run_record option) io"
  st_transition :: "string \<Rightarrow> run_status list \<Rightarrow> run_status \<Rightarrow> run_patch \<Rightarrow> ('w, error, run_record) io"
  st_attachExecution :: "string \<Rightarrow> execution_ref \<Rightarrow> ('w, error, run_record) io"
  st_complete :: "string \<Rightarrow> run_result \<Rightarrow> ('w, error, run_record) io"
  st_fail :: "string \<Rightarrow> run_error \<Rightarrow> run_status list \<Rightarrow> ('w, error, run_record) io"

text \<open>The port of the reconciler (\<open>ExecutionReconciliationStore\<close>).\<close>

record 'w reconciliation_store =
  rs_failExecution :: "string \<Rightarrow> execution_ref \<Rightarrow> string \<Rightarrow> run_error \<Rightarrow> ('w, error, bool) io"
  rs_cancelExecution :: "string \<Rightarrow> execution_ref \<Rightarrow> ('w, error, bool) io"
  rs_recordLivenessInspection ::
    "string \<Rightarrow> execution_ref \<Rightarrow> string \<Rightarrow> liveness_observation \<Rightarrow> ('w, error, bool) io"

definition dynamo_run_store :: "platform \<Rightarrow> 'x world_scheme run_store" where
  "dynamo_run_store p = \<lparr>st_create = store_create, st_get = store_get,
     st_transition = store_transition p, st_attachExecution = store_attachExecution p,
     st_complete = store_complete p, st_fail = store_fail p\<rparr>"

definition dynamo_reconciliation_store :: "platform \<Rightarrow> 'x world_scheme reconciliation_store" where
  "dynamo_reconciliation_store p = \<lparr>
     rs_failExecution = (\<lambda>k e hb err. store_failExecution p k e hb err None),
     rs_cancelExecution = (\<lambda>k e. store_cancelExecution p k e None),
     rs_recordLivenessInspection = store_recordLivenessInspection\<rparr>"

locale promise =
  fixes I :: "'w \<Rightarrow> bool" and G :: "'w \<Rightarrow> 'w \<Rightarrow> bool"
  assumes refl: "reflp G" and trans: "transp G"
begin

lemmas composed =
  guarantees_bind [OF refl trans] guarantees_bind_result [OF trans refl] guarantees_try [OF trans] guarantees_catch [OF refl trans]
  guarantees_ret [OF refl] guarantees_throw [OF refl] guarantees_lift [OF refl]
  guarantees_if guarantees_option

end

text \<open>What a client may rely on: which calls keep the promise, and what the replies say.\<close>

locale run_store_port = promise I G for I :: "'w \<Rightarrow> bool" and G :: "'w \<Rightarrow> 'w \<Rightarrow> bool" +
  fixes st :: "'w run_store"
  assumes create_ok:
      "run_item_ok (rr_runId r) r \<Longrightarrow> guarantees I G (st_create st r)"
    and get_ok: "guarantees I G (st_get st k)"
    and transition_ok:
      "lawful_patch from (v\<lparr>p_status := Some to\<rparr>) \<Longrightarrow> guarantees I G (st_transition st k from to v)"
    and attach_ok:
      "truthy (ex_generation e) \<Longrightarrow> guarantees I G (st_attachExecution st k e)"
    and fail_ok:
      "\<forall>s \<in> set from. \<not> isTerminal s \<Longrightarrow> guarantees I G (st_fail st k err from)"
    and get_result: "I w \<Longrightarrow> st_get st k w = (w', Inr (Some r)) \<Longrightarrow> run_item_ok k r"
    and transition_result:
      "st_transition st k from to v w = (w', Inr r) \<Longrightarrow> rr_status r = to"

locale reconciliation_port = promise I G for I :: "'w \<Rightarrow> bool" and G :: "'w \<Rightarrow> 'w \<Rightarrow> bool" +
  fixes rs :: "'w reconciliation_store"
  assumes fail_execution_ok: "guarantees I G (rs_failExecution rs k e hb err)"
    and cancel_execution_ok: "guarantees I G (rs_cancelExecution rs k e)"
    and record_liveness_ok: "guarantees I G (rs_recordLivenessInspection rs k e hb obs)"

lemma send_write_acked:
  assumes "send_write k cond f w = (w', Acked r)"
  shows "(\<exists>old. cond old \<and> r = f old) \<and> runs w' k = Some r"
  using assms
  by (auto simp: send_write_def conditional_write_def Let_def
      split: prod.splits fault.splits if_splits)

lemma store_update_result:
  assumes "store_update p k v from w = (w', Inr r)"
  shows "runs w' k = Some r \<and>
    (\<exists>old. rr_status old \<in> set from \<and> r = apply_patch v (iso p (now w)) old)"
  using assms
  by (auto simp: store_update_def with_time_def reply_io_def io_defs on_item_def
      dest!: send_write_acked split: prod.splits reply.splits sum.splits option.splits)

lemma store_get_result:
  assumes "world_ok w" "store_get k w = (w', Inr (Some r))"
  shows "run_item_ok k r"
proof -
  obtain fault w1 where tn: "take_turn w = (fault, w1)" by fastforce
  then have "table_ok (runs w1)" using take_turn_ok [OF assms(1)] by (auto simp: world_ok_def)
  with tn assms(2) show ?thesis
    by (auto simp: store_get_def table_ok_def split: if_splits)
qed

interpretation run_world: promise "world_ok :: 'x world_scheme \<Rightarrow> bool" world_evolves
  by unfold_locales (rule world_evolves_reflp world_evolves_transp)+

interpretation dynamo: run_store_port
  "world_ok :: 'x world_scheme \<Rightarrow> bool" world_evolves "dynamo_run_store p" for p
  by unfold_locales
    (auto simp: dynamo_run_store_def store_transition_def apply_patch_def patched_def
      intro: store_create_ok store_get_ok store_update_ok store_attachExecution_ok store_fail_ok
      dest: store_get_result store_update_result)

interpretation dynamo_exact: reconciliation_port
  "world_ok :: 'x world_scheme \<Rightarrow> bool" world_evolves "dynamo_reconciliation_store p" for p
  by unfold_locales
    (auto simp: dynamo_reconciliation_store_def store_failExecution_ok store_cancelExecution_ok
      store_recordLivenessInspection_ok)

end
