(* ===== verification/Run_Lifecycle.thy ===== *)
theory Run_Lifecycle
  imports Run_Port
begin

text \<open>
  The Run as a state machine. A step is one request to the table as a caller of the code
  makes it: submission and cancellation (\<open>src/core/run-service.ts\<close>), the dispatcher
  (\<open>src/execution/dispatcher.ts\<close>), the worker (\<open>src/runner/main.ts\<close>) and the reconciler
  (\<open>src/execution/reconciler.ts\<close>, \<open>src/lambdas/reconciler.ts\<close>). Any interleaving of any
  number of callers is a sequence of such steps; a request whose condition fails changes
  nothing, and a lost or repeated request is no step or several.
\<close>

section \<open>Requests\<close>

text \<open>The update requests, with the condition and the change each sends to the table.\<close>

datatype request =
    Cancel_Queued string
  | Cancel_Active string
  | Claim execution_ref
  | Finish_Cancelling
  | Fail_Start run_error
  | Attach execution_ref
  | Start execution_ref string
  | Heartbeat execution_ref string "int option"
  | Inspect execution_ref string liveness_observation
  | Fail_Fenced execution_ref string run_error "run_result option"
  | Cancel_Fenced execution_ref
  | Finish_Fenced execution_ref finish run_result "run_error option"

definition request_patch :: "request \<Rightarrow> (run_status list \<times> run_patch) option" where
  "request_patch q = (case q of
       Cancel_Queued requestedAt \<Rightarrow> Some ([Queued],
         no_patch\<lparr>p_status := Some Cancelled, p_cancelRequestedAt := Some requestedAt\<rparr>)
     | Cancel_Active requestedAt \<Rightarrow> Some ([Dispatching, Running],
         no_patch\<lparr>p_status := Some Cancelling, p_cancelRequestedAt := Some requestedAt\<rparr>)
     | Claim e \<Rightarrow> Some ([Queued], no_patch\<lparr>p_status := Some Dispatching, p_execution := Some e\<rparr>)
     | Finish_Cancelling \<Rightarrow> Some ([Cancelling], no_patch\<lparr>p_status := Some Cancelled\<rparr>)
     | Fail_Start err \<Rightarrow> Some ([Dispatching],
         no_patch\<lparr>p_status := Some Failed, p_error := Some err\<rparr>)
     | _ \<Rightarrow> None)"

fun request_condition :: "request \<Rightarrow> run_record \<Rightarrow> bool" where
  "request_condition (Attach e) r = attachable e r"
| "request_condition (Start e t) r = fenced e [Dispatching] None r"
| "request_condition (Heartbeat e t x) r = fenced e [Running] None r"
| "request_condition (Inspect e hb obs) r =
     fenced e [Dispatching, Running, Cancelling] (Some hb) r"
| "request_condition (Fail_Fenced e hb err res) r = fenced e [Dispatching, Running] (Some hb) r"
| "request_condition (Cancel_Fenced e) r = fenced e [Cancelling] None r"
| "request_condition (Finish_Fenced e fin res err) r =
     fenced e (if fin = Finish_Succeeded then [Running] else [Running, Cancelling]) None r"
| "request_condition q r =
     (case request_patch q of None \<Rightarrow> False | Some (from, _) \<Rightarrow> rr_status r \<in> set from)"

fun request_change :: "request \<Rightarrow> string \<Rightarrow> run_record \<Rightarrow> run_record" where
  "request_change (Attach e) t r = attach_execution e t r"
| "request_change (Start e startedAt) t r = start_execution e startedAt r"
| "request_change (Heartbeat e hb x) t r = beat hb x r"
| "request_change (Inspect e hb obs) t r = r\<lparr>rr_liveness := Some obs\<rparr>"
| "request_change (Fail_Fenced e hb err res) t r = settle Failed (Some err) res t r"
| "request_change (Cancel_Fenced e) t r = settle Cancelled None None t r"
| "request_change (Finish_Fenced e fin res err) t r =
     settle (finish_status fin) err (Some res) t r"
| "request_change q t r =
     (case request_patch q of None \<Rightarrow> r | Some (_, v) \<Rightarrow> apply_patch v t r)"

text \<open>
  What the callers make sure of before they send: a claim is for the pending placeholder and
  carries the Run's own generation; what the dispatcher attaches carries it too; a worker
  starts only on a real worker identity; every fenced request has a generation.
\<close>

fun request_sent :: "platform \<Rightarrow> run_record \<Rightarrow> request \<Rightarrow> bool" where
  "request_sent p r (Claim e) \<longleftrightarrow> ex_id e = ''pending'' \<and>
     ex_generation e = Some (executionGeneration p r) \<and> ex_startedAt e = None"
| "request_sent p r (Attach e) \<longleftrightarrow> truthy (ex_generation e) \<and>
     ex_generation e = Some (executionGeneration p r)"
| "request_sent p r (Start e t) \<longleftrightarrow> attached e"
| "request_sent p r (Heartbeat e t x) \<longleftrightarrow> truthy (ex_generation e)"
| "request_sent p r (Inspect e hb obs) \<longleftrightarrow> truthy (ex_generation e)"
| "request_sent p r (Fail_Fenced e hb err res) \<longleftrightarrow> truthy (ex_generation e)"
| "request_sent p r (Cancel_Fenced e) \<longleftrightarrow> truthy (ex_generation e)"
| "request_sent p r (Finish_Fenced e fin res err) \<longleftrightarrow> truthy (ex_generation e)"
| "request_sent p r _ \<longleftrightarrow> True"

definition queued_record :: "run_record \<Rightarrow> bool" where
  "queued_record r \<longleftrightarrow> rr_status r = Queued \<and> rr_execution r = None \<and> rr_heartbeatAt r = None \<and>
     rr_liveness r = None \<and> rr_result r = None \<and> rr_error r = None \<and>
     rr_cancelRequestedAt r = None \<and> rr_legacyKeys r = []"

inductive store_step :: "platform \<Rightarrow> run_table \<Rightarrow> run_table \<Rightarrow> bool" for p where
  submit: "queued_record r \<Longrightarrow> t (rr_runId r) = None \<Longrightarrow> store_step p t (t(rr_runId r \<mapsto> r))"
| request: "t k = Some r \<Longrightarrow> request_sent p r q \<Longrightarrow> request_condition q r \<Longrightarrow>
     store_step p t (t(k \<mapsto> request_change q tm r))"

inductive reachable_table :: "platform \<Rightarrow> run_table \<Rightarrow> bool" for p where
  start: "reachable_table p Map.empty"
| step: "reachable_table p t \<Longrightarrow> store_step p t t' \<Longrightarrow> reachable_table p t'"

inductive_cases store_step_cases: "store_step p t t'"

section \<open>Invariant of a record\<close>

definition has_worker :: "platform \<Rightarrow> run_record \<Rightarrow> bool" where
  "has_worker p r \<longleftrightarrow> (\<exists>e. rr_execution r = Some e \<and> attached e \<and>
     ex_generation e = Some (executionGeneration p r))"

definition run_inv :: "platform \<Rightarrow> run_record \<Rightarrow> bool" where
  "run_inv p r \<longleftrightarrow>
     (rr_status r = Queued \<longrightarrow> queued_record r) \<and>
     (\<forall>e. rr_execution r = Some e \<longrightarrow> ex_generation e = Some (executionGeneration p r)) \<and>
     (rr_status r = Dispatching \<longrightarrow> rr_execution r \<noteq> None \<and> rr_result r = None) \<and>
     (rr_status r \<in> {Running, Succeeded} \<longrightarrow> has_worker p r \<and> rr_heartbeatAt r \<noteq> None) \<and>
     (rr_status r = Succeeded \<longrightarrow> rr_result r \<noteq> None) \<and>
     (rr_status r = Cancelling \<longrightarrow> rr_cancelRequestedAt r \<noteq> None \<and> rr_execution r \<noteq> None) \<and>
     (\<not> isTerminal (rr_status r) \<longrightarrow> rr_result r = None \<and> rr_error r = None)"

lemmas record_defs = run_inv_def queued_record_def has_worker_def executionGeneration_def
lemmas change_defs = apply_patch_def no_patch_def patched_def patched_opt_def request_patch_def
  attach_execution_def start_execution_def beat_def settle_def

lemma executionGeneration_cong:
  "rr_runId r' = rr_runId r \<Longrightarrow> rr_requestHash r' = rr_requestHash r \<Longrightarrow>
   executionGeneration p r' = executionGeneration p r"
  by (simp add: executionGeneration_def)

lemma request_edge:
  "request_condition q r \<Longrightarrow> rr_status (request_change q t r) = rr_status r \<or>
     canTransition (rr_status r) (rr_status (request_change q t r))"
proof (cases q)
  case (Finish_Fenced e fin res err)
  then show "request_condition q r \<Longrightarrow> ?thesis"
    by (cases fin) (auto simp: fenced_def settle_def canTransition_def split: if_splits)
qed (auto simp: change_defs fenced_def canTransition_def split: if_splits)

lemma request_not_terminal: "request_condition q r \<Longrightarrow> \<not> isTerminal (rr_status r)"
  by (cases q) (auto simp: request_patch_def fenced_def attachable_def isTerminal_def split: if_splits)

lemma request_identity: "same_identity r (request_change q t r)"
  by (cases q) (auto simp: same_identity_def change_defs)

lemma request_inv:
  assumes "run_inv p r" "request_sent p r q" "request_condition q r"
  shows "run_inv p (request_change q t r)"
proof (cases q)
  case (Finish_Fenced e fin res err)
  with assms show ?thesis
    by (cases fin) (auto simp: record_defs fenced_def settle_def patched_opt_def isTerminal_def
        same_worker_def attached_def split: option.splits if_splits)
qed (use assms in \<open>auto simp: record_defs change_defs fenced_def attachable_def isTerminal_def
        same_worker_def attached_def split: option.splits\<close>)

section \<open>Steps and runs of the whole table\<close>

lemma store_step_record:
  assumes "store_step p t t'" "t k = Some r"
  shows "t' k = Some r \<or> (\<exists>q tm. request_sent p r q \<and> request_condition q r \<and>
    t' k = Some (request_change q tm r))"
  using assms(1)
proof (rule store_step_cases)
  fix r' assume "t' = t(rr_runId r' \<mapsto> r')" "t (rr_runId r') = None"
  with assms(2) show ?thesis by auto
next
  fix k' r' q tm
  assume "t' = t(k' \<mapsto> request_change q tm r')" "t k' = Some r'" "request_sent p r' q"
    "request_condition q r'"
  with assms(2) show ?thesis by (cases "k' = k") auto
qed

lemma request_evolves:
  assumes "request_condition q r" "run_inv p r" "request_sent p r q"
  shows "evolves r (request_change q tm r)"
proof -
  have "keeps_worker r (request_change q tm r)"
    using assms
    by (cases q) (auto simp: keeps_worker_def change_defs fenced_def attachable_def attached_def
        same_worker_def run_inv_def queued_record_def split: option.splits)
  moreover have "canTransition\<^sup>*\<^sup>* (rr_status r) (rr_status (request_change q tm r))"
    using request_edge [OF assms(1), of tm] by (metis r_into_rtranclp rtranclp.rtrancl_refl)
  ultimately show ?thesis
    using request_not_terminal [OF assms(1)] request_identity by (simp add: evolves_def)
qed

definition table_inv :: "platform \<Rightarrow> run_table \<Rightarrow> bool" where
  "table_inv p t \<longleftrightarrow> (\<forall>k r. t k = Some r \<longrightarrow> rr_runId r = k \<and> run_inv p r)"

lemma queued_record_inv: "queued_record r \<Longrightarrow> run_inv p r"
  by (simp add: run_inv_def queued_record_def isTerminal_def)

lemma store_step_inv: "store_step p t t' \<Longrightarrow> table_inv p t \<Longrightarrow> table_inv p t'"
proof (induction rule: store_step.induct)
  case (submit r t)
  then show ?case by (auto simp: table_inv_def queued_record_inv)
next
  case (request t k r q tm)
  with request_inv [of p r q tm] request_identity [of r q tm] show ?case
    by (auto simp: table_inv_def same_identity_def)
qed

lemma reachable_table_inv: "reachable_table p t \<Longrightarrow> table_inv p t"
proof (induction rule: reachable_table.induct)
  case start
  show ?case by (simp add: table_inv_def)
qed (rule store_step_inv)

lemma store_step_evolves:
  assumes "store_step p t t'" "table_inv p t"
  shows "table_evolves t t'"
  unfolding table_evolves_def
proof (intro allI impI)
  fix k r assume r: "t k = Some r"
  with assms(2) have "run_inv p r" by (auto simp only: table_inv_def)
  with store_step_record [OF assms(1) r]
  show "\<exists>r'. t' k = Some r' \<and> evolves r r'"
    using request_evolves [of _ r p] evolves_refl [of r] by blast
qed

lemma store_steps_evolve:
  "(store_step p)\<^sup>*\<^sup>* t t' \<Longrightarrow> table_inv p t \<Longrightarrow> table_inv p t' \<and> table_evolves t t'"
proof (induction rule: rtranclp_induct)
  case base
  then show ?case by (simp add: table_evolves_refl)
next
  case (step u v)
  then have u: "table_inv p u" and "table_evolves t u" by simp_all
  with table_evolves_trans [OF _ store_step_evolves [OF step(2) u]] store_step_inv [OF step(2) u]
  show ?case by simp
qed

section \<open>An example run\<close>

definition example_ref :: artifact_ref where
  "example_ref = \<lparr>bucket = ''b'', object_key = ''k'', sha256 = ''h''\<rparr>"

definition example_queued :: run_record where
  "example_queued = \<lparr>rr_runId = ''r'', rr_ownerId = ''o'', rr_capabilityOwnerId = None,
     rr_ownerCreated = ''o#r'', rr_status = Queued, rr_createdAt = [], rr_updatedAt = [],
     rr_expiresAt = 9, rr_requestHash = ''q'', rr_input = example_ref, rr_sourceKind = Api,
     rr_provenance = None, rr_agentsSession = None, rr_execution = None, rr_heartbeatAt = None,
     rr_liveness = None, rr_result = None, rr_error = None, rr_cancelRequestedAt = None,
     rr_legacyKeys = []\<rparr>"

definition example_execution :: "string \<Rightarrow> execution_ref" where
  "example_execution i = \<lparr>ex_backend = Ec2, ex_id = i,
     ex_generation = Some (executionGeneration example_platform example_queued),
     ex_startedAt = None\<rparr>"

definition example_result :: run_result where
  "example_result = \<lparr>res_output = example_ref, res_preview = ''done'', res_exitCode = 0,
     res_durationMs = 5, res_agentThreadId = None, res_usage = None, res_events = None,
     res_workspacePatch = None, res_artifacts = None\<rparr>"

definition example_stage :: "nat \<Rightarrow> run_record" where
  "example_stage n = fold (\<lambda>q r. request_change q ''i'' r) (take n
     [Claim (example_execution ''pending''), Attach (example_execution ''w''),
      Start (example_execution ''w'') ''ii'',
      Finish_Fenced (example_execution ''w'') Finish_Succeeded example_result None])
     example_queued"

lemmas example_defs = example_stage_def example_queued_def example_execution_def example_result_def
  example_ref_def

lemma example_stages:
  "request_condition (Claim (example_execution ''pending'')) (example_stage 0)"
  "request_condition (Attach (example_execution ''w'')) (example_stage 1)"
  "request_condition (Start (example_execution ''w'') ''ii'') (example_stage 2)"
  "request_condition (Finish_Fenced (example_execution ''w'') Finish_Succeeded example_result None)
     (example_stage 3)"
  by (simp_all add: example_defs change_defs attachable_def fenced_def same_worker_def)

lemma fold_request_change:
  "rr_runId (fold (\<lambda>q. request_change q t) qs r) = rr_runId r \<and>
   rr_requestHash (fold (\<lambda>q. request_change q t) qs r) = rr_requestHash r"
  by (induction qs arbitrary: r) (use request_identity in \<open>auto simp: same_identity_def\<close>)

lemma example_generation:
  "executionGeneration p (example_stage n) = executionGeneration p example_queued"
  by (rule executionGeneration_cong) (simp_all add: example_stage_def fold_request_change)

lemma example_runId: "rr_runId (example_stage n) = ''r''"
  by (simp add: example_stage_def fold_request_change example_queued_def)

lemma example_step:
  assumes "request_sent example_platform (example_stage n) q"
    and "request_condition q (example_stage n)"
    and "example_stage m = request_change q ''i'' (example_stage n)"
  shows "store_step example_platform [''r'' \<mapsto> example_stage n] [''r'' \<mapsto> example_stage m]"
  using store_step.request [of "[''r'' \<mapsto> example_stage n]" "''r''", OF _ assms(1,2)] assms(3)
  by simp

lemma example_changes:
  "example_stage 1 = request_change (Claim (example_execution ''pending'')) ''i'' (example_stage 0)"
  "example_stage 2 = request_change (Attach (example_execution ''w'')) ''i'' (example_stage 1)"
  "example_stage 3 = request_change (Start (example_execution ''w'') ''ii'') ''i'' (example_stage 2)"
  "example_stage 4 = request_change
     (Finish_Fenced (example_execution ''w'') Finish_Succeeded example_result None) ''i''
     (example_stage 3)"
  by (simp_all add: example_stage_def numeral_eq_Suc del: request_change.simps)

lemma example_execution_sent:
  "ex_generation (example_execution i) = Some (executionGeneration example_platform (example_stage n))"
  "truthy (ex_generation (example_execution i))"
  "attached (example_execution ''w'')"
  "ex_id (example_execution i) = i" "ex_startedAt (example_execution i) = None"
proof -
  show gen: "ex_generation (example_execution i) =
    Some (executionGeneration example_platform (example_stage n))" for i
    by (simp only: example_generation) (simp add: example_execution_def)
  show "truthy (ex_generation (example_execution i))" for i
    by (simp add: truthy_def executionGeneration_def example_platform_def example_execution_def)
  then show "attached (example_execution ''w'')"
    by (simp add: attached_def) (simp add: example_execution_def)
qed (simp_all add: example_execution_def)

lemma example_steps:
  "store_step example_platform [''r'' \<mapsto> example_stage 0] [''r'' \<mapsto> example_stage 1]"
  "store_step example_platform [''r'' \<mapsto> example_stage 1] [''r'' \<mapsto> example_stage 2]"
  "store_step example_platform [''r'' \<mapsto> example_stage 2] [''r'' \<mapsto> example_stage 3]"
  "store_step example_platform [''r'' \<mapsto> example_stage 3] [''r'' \<mapsto> example_stage 4]"
  by (rule example_step [OF _ example_stages(1) example_changes(1)],
      simp add: example_execution_sent)
    (rule example_step [OF _ example_stages(2) example_changes(2)],
      simp add: example_execution_sent,
     rule example_step [OF _ example_stages(3) example_changes(3)],
      simp add: example_execution_sent,
     rule example_step [OF _ example_stages(4) example_changes(4)],
      simp add: example_execution_sent)

lemma example_reachable: "reachable_table example_platform [''r'' \<mapsto> example_stage 0]"
proof -
  have "queued_record example_queued" by (simp add: queued_record_def example_queued_def)
  from reachable_table.step [OF reachable_table.start store_step.submit [OF this]]
  show ?thesis by (simp add: example_stage_def example_queued_def)
qed

lemma example_run:
  "(store_step example_platform)\<^sup>*\<^sup>* [''r'' \<mapsto> example_stage 2] [''r'' \<mapsto> example_stage 4]"
  using example_steps(3,4) by (meson r_into_rtranclp rtranclp.rtrancl_into_rtrancl)

lemma example_reached:
  "reachable_table example_platform [''r'' \<mapsto> example_stage 2]"
  "reachable_table example_platform [''r'' \<mapsto> example_stage 3]"
  "reachable_table example_platform [''r'' \<mapsto> example_stage 4]"
proof -
  note step = reachable_table.step
  from step [OF step [OF example_reachable example_steps(1)] example_steps(2)]
  show two: "reachable_table example_platform [''r'' \<mapsto> example_stage 2]" .
  from step [OF two example_steps(3)]
  show three: "reachable_table example_platform [''r'' \<mapsto> example_stage 3]" .
  from step [OF three example_steps(4)]
  show "reachable_table example_platform [''r'' \<mapsto> example_stage 4]" .
qed

lemma example_status:
  "rr_status (example_stage 2) = Dispatching" "rr_status (example_stage 3) = Running"
  "rr_status (example_stage 4) = Succeeded"
  "rr_execution (example_stage 2) = Some (example_execution ''w'')"
  by (simp_all add: example_defs change_defs)

section \<open>Properties of every reachable table\<close>

text \<open>
  C1. Whatever the interleaving of callers, one request changes a stored Run only along an
  edge of the status table (or leaves its status alone), and never its identity, its owner,
  its request or its input.
\<close>
theorem request_follows_transitions:
  assumes "reachable_table p t" "store_step p t t'" "t k = Some r"
  shows "\<exists>r'. t' k = Some r' \<and> same_identity r r' \<and>
    (rr_status r' = rr_status r \<or> canTransition (rr_status r) (rr_status r'))"
proof -
  from store_step_record [OF assms(2,3)] consider "t' k = Some r"
    | q tm where "request_condition q r" "t' k = Some (request_change q tm r)" by blast
  then show ?thesis
    by cases (use request_edge request_identity in \<open>force simp: same_identity_def\<close>)+
qed

text \<open>Witness: the claimed and attached Run is started by its worker.\<close>
theorem request_follows_transitions_witness:
  "\<exists>r'. [''r'' \<mapsto> example_stage 3] ''r'' = Some r' \<and> same_identity (example_stage 2) r' \<and>
    (rr_status r' = Dispatching \<or> canTransition Dispatching (rr_status r'))"
  using request_follows_transitions [OF example_reached(1) example_steps(3), of "''r''"]
  by (simp add: example_status)

text \<open>
  C21. A Run that has succeeded, failed or been cancelled is never changed again, by any later
  sequence of requests: neither its status nor its result, its error or its worker.
\<close>
theorem terminal_runs_final:
  assumes "reachable_table p t" "(store_step p)\<^sup>*\<^sup>* t t'" "t k = Some r" "isTerminal (rr_status r)"
  shows "t' k = Some r"
proof -
  from store_steps_evolve [OF assms(2) reachable_table_inv [OF assms(1)]] assms(3)
  obtain r' where "t' k = Some r'" "evolves r r'" by (auto simp: table_evolves_def)
  with assms(4) show ?thesis by (auto simp: evolves_def)
qed

text \<open>Witness: the finished example Run.\<close>
theorem terminal_runs_final_witness:
  "[''r'' \<mapsto> example_stage 4] ''r'' = Some (example_stage 4)"
  by (rule terminal_runs_final [OF example_reached(3) rtranclp.rtrancl_refl])
    (simp_all add: example_status isTerminal_def)

text \<open>
  C22. A running Run has an attached worker (never the pending placeholder) that carries the
  generation of this Run and request, and a heartbeat; a succeeded Run has its result too, and
  a Run that has not ended has neither a result nor an error.
\<close>
theorem running_has_worker:
  assumes "reachable_table p t" "t k = Some r"
  shows "(rr_status r = Running \<longrightarrow> has_worker p r \<and> rr_heartbeatAt r \<noteq> None) \<and>
    (rr_status r = Succeeded \<longrightarrow> has_worker p r \<and> rr_result r \<noteq> None) \<and>
    (\<not> isTerminal (rr_status r) \<longrightarrow> rr_result r = None \<and> rr_error r = None)"
  using reachable_table_inv [OF assms(1)] assms(2) by (simp add: table_inv_def run_inv_def)

text \<open>Witness: the example Run, started.\<close>
theorem running_has_worker_witness:
  "has_worker example_platform (example_stage 3) \<and> rr_result (example_stage 3) = None"
  using running_has_worker [OF example_reached(2), of "''r''" "example_stage 3"]
  by (simp add: example_status isTerminal_def)

text \<open>
  C12. The worker of a Run is decided once: after an execution is attached, no later sequence of
  requests replaces its backend, its identity or its generation.
\<close>
theorem attached_worker_kept:
  assumes "reachable_table p t" "(store_step p)\<^sup>*\<^sup>* t t'" "t k = Some r"
    and "rr_execution r = Some e" "attached e"
  shows "\<exists>r' e'. t' k = Some r' \<and> rr_execution r' = Some e' \<and> attached e' \<and> same_worker e e'"
proof -
  from store_steps_evolve [OF assms(2) reachable_table_inv [OF assms(1)]] assms(3)
  obtain r' where "t' k = Some r'" "evolves r r'" by (auto simp: table_evolves_def)
  with assms(4,5) show ?thesis
    by (auto simp: evolves_def keeps_worker_def same_worker_def attached_def)
qed

text \<open>Witness: the example Run, attached before it is started and finished.\<close>
theorem attached_worker_kept_witness:
  "\<exists>r' e'. [''r'' \<mapsto> example_stage 4] ''r'' = Some r' \<and> rr_execution r' = Some e' \<and> attached e' \<and>
    same_worker (example_execution ''w'') e'"
  by (rule attached_worker_kept [OF example_reached(1) example_run _ example_status(4)
        example_execution_sent(3)]) simp

end
