(* ===== verification/Run_Validation.thy ===== *)
theory Run_Validation
  imports Run_Contracts
begin

text \<open>
  Parsing of an untrusted Run request (\<open>src/domain/validation.ts\<close>). The input is a JavaScript
  value as \<open>JSON.parse\<close> builds it (a tree whose objects have distinct keys), or one a
  caller in the process built, whose fields may be undefined. Only the choice of the field an
  error message names depends on the order of an object's keys.

  Two functions of the platform are left open in \<open>web_platform\<close>: the WHATWG URL parser and
  the text of a number that is not an integer below \<open>10^21\<close>.
\<close>

section \<open>The platform and the options\<close>

record web_url =
  u_protocol :: string
  u_username :: string
  u_password :: string
  u_search :: string
  u_hash :: string
  u_hostname :: string
  u_href :: string

record web_platform =
  parse_url :: "string \<Rightarrow> web_url option"
  number_text :: "rat \<Rightarrow> string"

record validation_options =
  allowedRepositoryHosts :: "string list option"
  allowedSandboxModes :: "string list option"

section \<open>Text of a value\<close>

definition num_to_string :: "web_platform \<Rightarrow> js_number \<Rightarrow> string" where
  "num_to_string wp n = (case n of
       NaN \<Rightarrow> ''NaN''
     | Infinite negative \<Rightarrow> (if negative then ''-Infinity'' else ''Infinity'')
     | Finite r \<Rightarrow> (if is_integer n \<and> abs r < 10 ^ 21 then show_int (floor r)
                   else number_text wp r))"

definition commas :: "string list \<Rightarrow> string" where
  "commas ss = (case ss of [] \<Rightarrow> [] | s # rest \<Rightarrow> s @ concat (map (\<lambda>t. CHR '','' # t) rest))"

text \<open>
  \<open>String(value)\<close>: an array is the text of its elements joined by commas, with nothing for a
  null one; an object whose own \<open>toString\<close> is not a function cannot be converted.
\<close>

fun to_string :: "web_platform \<Rightarrow> jsval \<Rightarrow> error + string"
and element_strings :: "web_platform \<Rightarrow> jsval list \<Rightarrow> error + string list" where
  "to_string wp JUndef = Inr ''undefined''"
| "to_string wp JNull = Inr ''null''"
| "to_string wp (JBool b) = Inr (if b then ''true'' else ''false'')"
| "to_string wp (JNum n) = Inr (num_to_string wp n)"
| "to_string wp (JStr s) = Inr s"
| "to_string wp (JArr xs) = bindE (element_strings wp xs) (\<lambda>ss. Inr (commas ss))"
| "to_string wp (JObj fs) =
     (if ''toString'' \<in> fst ` set fs then Inl Type_Error else Inr ''[object Object]'')"
| "element_strings wp [] = Inr []"
| "element_strings wp (x # xs) =
     bindE (if x = JUndef \<or> x = JNull then Inr [] else to_string wp x) (\<lambda>s.
     bindE (element_strings wp xs) (\<lambda>ss. Inr (s # ss)))"

definition json_char :: "char \<Rightarrow> string" where
  "json_char c = (let n = code_of c; hex = (\<lambda>d. if d < 10 then char_of (48 + d) else char_of (87 + d)) in
     if n = 34 then [char_of (92::nat), c]
     else if n = 92 then [c, c]
     else if n = 8 then [char_of (92::nat), CHR ''b'']
     else if n = 9 then [char_of (92::nat), CHR ''t'']
     else if n = 10 then [char_of (92::nat), CHR ''n'']
     else if n = 12 then [char_of (92::nat), CHR ''f'']
     else if n = 13 then [char_of (92::nat), CHR ''r'']
     else if n < 32 then char_of (92::nat) # ''u00'' @ [hex (n div 16), hex (n mod 16)]
     else [c])"

definition json_string :: "string \<Rightarrow> string" where
  "json_string s = char_of (34::nat) # concat (map json_char s) @ [char_of (34::nat)]"

text \<open>\<open>JSON.stringify\<close>, on the values \<open>assertJsonValue\<close> lets through.\<close>

fun json_text :: "web_platform \<Rightarrow> jsval \<Rightarrow> string" where
  "json_text wp JUndef = ''null''"
| "json_text wp JNull = ''null''"
| "json_text wp (JBool b) = (if b then ''true'' else ''false'')"
| "json_text wp (JNum n) =
     (case n of Finite _ \<Rightarrow> num_to_string wp n | _ \<Rightarrow> ''null'')"
| "json_text wp (JStr s) = json_string s"
| "json_text wp (JArr xs) = ''['' @ commas (map (json_text wp) xs) @ '']''"
| "json_text wp (JObj fs) = ''{'' @
     commas (map (\<lambda>(k, v). json_string k @ '':'' @ json_text wp v) fs) @ ''}''"

section \<open>Patterns\<close>

definition plain_chars :: "string \<Rightarrow> string \<Rightarrow> bool" where
  "plain_chars extra s \<longleftrightarrow> (\<forall>c \<in> set s. is_alnum c \<or> c \<in> set extra)"

text \<open>\<open>^[A-Za-z0-9][A-Za-z0-9 and extra]{0,n}$\<close>\<close>

definition word_pattern :: "string \<Rightarrow> nat \<Rightarrow> string \<Rightarrow> bool" where
  "word_pattern extra n s \<longleftrightarrow>
     s \<noteq> [] \<and> is_alnum (hd s) \<and> plain_chars extra (tl s) \<and> length (tl s) \<le> n"

definition REF_PATTERN :: "string \<Rightarrow> bool" where
  "REF_PATTERN = word_pattern ''._/@+-'' 254"

definition MODEL_PATTERN :: "string \<Rightarrow> bool" where
  "MODEL_PATTERN = word_pattern ''._:/-'' 254"

definition identifier_pattern :: "string \<Rightarrow> bool" where
  "identifier_pattern = word_pattern ''._:@/-'' 255"

definition arn_word :: "string \<Rightarrow> bool" where
  "arn_word s \<longleftrightarrow> s \<noteq> [] \<and> (\<forall>c \<in> set s. is_lower c \<or> is_digit c \<or> c = CHR ''-'')"

text \<open>No class of the pattern contains a colon, so its parts are the ones between colons.\<close>

definition ARN_PATTERN :: "string \<Rightarrow> bool" where
  "ARN_PATTERN s = (case split_on (CHR '':'') s of
       [arn, part, service, region, account, kind, name] \<Rightarrow>
         arn = ''arn'' \<and> arn_word part \<and> service = ''secretsmanager'' \<and> arn_word region \<and>
         length account = 12 \<and> list_all is_digit account \<and> kind = ''secret'' \<and>
         name \<noteq> [] \<and> plain_chars ''/_+=.@-'' name
     | _ \<Rightarrow> False)"

definition operation_part :: "bool \<Rightarrow> string \<Rightarrow> bool" where
  "operation_part upper s \<longleftrightarrow> s \<noteq> [] \<and> is_lower (hd s) \<and> length (tl s) \<le> 63 \<and>
     (\<forall>c \<in> set (tl s). is_lower c \<or> is_digit c \<or> c = CHR ''-'' \<or> (upper \<and> is_upper c))"

definition operation_pattern :: "string \<Rightarrow> bool" where
  "operation_pattern s = (case split_on (CHR ''.'') s of
       first # rest \<Rightarrow> operation_part False first \<and> rest \<noteq> [] \<and> list_all (operation_part True) rest
     | [] \<Rightarrow> False)"

section \<open>Field checks\<close>

definition invalid :: "string \<Rightarrow> error + 'a" where
  "invalid m = Inl (Validation_Error m)"

definition require :: "bool \<Rightarrow> string \<Rightarrow> error + unit" where
  "require ok m = check ok (Validation_Error m)"

definition indexed :: "string \<Rightarrow> nat \<Rightarrow> string" where
  "indexed label i = label @ ''['' @ show_nat i @ '']''"

definition requiredRecord :: "jsval \<Rightarrow> string \<Rightarrow> error + fields" where
  "requiredRecord v label =
     (case v of JObj fs \<Rightarrow> Inr fs | _ \<Rightarrow> invalid (label @ '' must be an object''))"

definition requiredString :: "jsval \<Rightarrow> string \<Rightarrow> nat \<Rightarrow> error + string" where
  "requiredString v label maxBytes = (case v of
       JStr s \<Rightarrow>
         if s = [] then invalid (label @ '' must be a non-empty string'')
         else if utf8_length s > maxBytes
         then invalid (label @ '' exceeds '' @ show_nat maxBytes @ '' bytes'')
         else Inr s
     | _ \<Rightarrow> invalid (label @ '' must be a non-empty string''))"

definition rejectUnknown :: "fields \<Rightarrow> string list \<Rightarrow> string option \<Rightarrow> error + unit" where
  "rejectUnknown fs allowed label =
     (case filter (\<lambda>k. k \<notin> set allowed) (map fst fs) of
        [] \<Rightarrow> Inr ()
      | k # _ \<Rightarrow> invalid (case label of
            Some l \<Rightarrow> if l = [] then ''unknown field: '' @ k else l @ '' contains unknown field '' @ k
          | None \<Rightarrow> ''unknown field: '' @ k))"

definition js_int :: "jsval \<Rightarrow> int option" where
  "js_int v = (case v of
       JNum n \<Rightarrow> (case n of Finite r \<Rightarrow> if is_integer n then Some (floor r) else None | _ \<Rightarrow> None)
     | _ \<Rightarrow> None)"

definition positiveInteger :: "jsval \<Rightarrow> string \<Rightarrow> error + int" where
  "positiveInteger v label = (case js_int v of
       Some i \<Rightarrow> if i < 1 then invalid (label @ '' must be a positive integer'') else Inr i
     | None \<Rightarrow> invalid (label @ '' must be a positive integer''))"

definition safeIdentifier :: "jsval \<Rightarrow> string \<Rightarrow> error + string" where
  "safeIdentifier v label = bindE (requiredString v label 256) (\<lambda>s.
     if identifier_pattern s then Inr s else invalid (label @ '' is invalid''))"

text \<open>\<open>result.find((item, index) => result.indexOf(item) !== index)\<close>\<close>

fun first_duplicate :: "'a list \<Rightarrow> 'a list \<Rightarrow> 'a option" where
  "first_duplicate seen [] = None"
| "first_duplicate seen (x # xs) =
     (if x \<in> set seen then Some x else first_duplicate (x # seen) xs)"

definition no_duplicate :: "string list \<Rightarrow> string \<Rightarrow> error + unit" where
  "no_duplicate xs message = (case first_duplicate [] xs of
       None \<Rightarrow> Inr () | Some d \<Rightarrow> invalid (message @ d))"

text \<open>\<open>value.map((item, index) => f(item, label[index]))\<close>\<close>

definition map_items :: "(jsval \<Rightarrow> string \<Rightarrow> error + 'a) \<Rightarrow> string \<Rightarrow> jsval list \<Rightarrow> error + 'a list" where
  "map_items f label xs = mapE (\<lambda>(i, x). f x (indexed label i)) (enumerate 0 xs)"

definition identifierList :: "jsval \<Rightarrow> string \<Rightarrow> nat \<Rightarrow> error + string list" where
  "identifierList v label maximum = (case v of
       JArr xs \<Rightarrow>
         if length xs < 1 \<or> length xs > maximum
         then invalid (label @ '' must be an array with 1-'' @ show_nat maximum @ '' entries'')
         else bindE (map_items safeIdentifier label xs) (\<lambda>ids.
           bindE (no_duplicate ids (label @ '' contains duplicate '')) (\<lambda>_. Inr ids))
     | _ \<Rightarrow> invalid (label @ '' must be an array with 1-'' @ show_nat maximum @ '' entries''))"

definition operation_item :: "jsval \<Rightarrow> string \<Rightarrow> error + string" where
  "operation_item v label = bindE (requiredString v label 256) (\<lambda>s.
     if operation_pattern s then Inr s else invalid (label @ '' is invalid''))"

definition operationList :: "jsval \<Rightarrow> string \<Rightarrow> error + string list" where
  "operationList v label = (case v of
       JArr xs \<Rightarrow>
         if length xs > 128 then invalid (label @ '' must be an array with at most 128 entries'')
         else bindE (map_items operation_item label xs) (\<lambda>ops.
           bindE (no_duplicate ops (label @ '' contains duplicate '')) (\<lambda>_. Inr ops))
     | _ \<Rightarrow> invalid (label @ '' must be an array with at most 128 entries''))"

text \<open>A field the request may leave out.\<close>

definition optional :: "fields \<Rightarrow> string \<Rightarrow> (jsval \<Rightarrow> error + 'a) \<Rightarrow> error + 'a option" where
  "optional fs k f =
     (let v = get_prop fs k in if v = JUndef then Inr None else bindE (f v) (\<lambda>a. Inr (Some a)))"

text \<open>\<open>words.includes(String(value))\<close>, which keeps the value itself.\<close>

definition one_of_text :: "web_platform \<Rightarrow> string list \<Rightarrow> string \<Rightarrow> jsval \<Rightarrow> error + jsval" where
  "one_of_text wp words message v = bindE (to_string wp v) (\<lambda>s.
     if s \<in> set words then Inr v else invalid message)"

text \<open>\<open>words.includes(value)\<close>\<close>

definition one_of :: "(string \<times> 'a) list \<Rightarrow> string \<Rightarrow> jsval \<Rightarrow> error + 'a" where
  "one_of table message v = (case v of
       JStr s \<Rightarrow> (case map_of table s of Some a \<Rightarrow> Inr a | None \<Rightarrow> invalid message)
     | _ \<Rightarrow> invalid message)"

section \<open>JSON values\<close>

fun assertJsonValue :: "jsval \<Rightarrow> string \<Rightarrow> error + unit"
and assert_items :: "jsval list \<Rightarrow> string \<Rightarrow> nat \<Rightarrow> error + unit"
and assert_entries :: "fields \<Rightarrow> string \<Rightarrow> error + unit" where
  "assertJsonValue JNull label = Inr ()"
| "assertJsonValue (JStr s) label = Inr ()"
| "assertJsonValue (JBool b) label = Inr ()"
| "assertJsonValue (JNum n) label =
     (case n of Finite _ \<Rightarrow> Inr () | _ \<Rightarrow> invalid (label @ '' contains a non-finite number''))"
| "assertJsonValue JUndef label = invalid (label @ '' must contain only JSON values'')"
| "assertJsonValue (JArr xs) label = assert_items xs label 0"
| "assertJsonValue (JObj fs) label = assert_entries fs label"
| "assert_items [] label i = Inr ()"
| "assert_items (x # xs) label i =
     bindE (assertJsonValue x (indexed label i)) (\<lambda>_. assert_items xs label (Suc i))"
| "assert_entries [] label = Inr ()"
| "assert_entries ((k, v) # fs) label =
     bindE (assertJsonValue v (label @ ''.'' @ k)) (\<lambda>_. assert_entries fs label)"

definition assertJsonSize :: "web_platform \<Rightarrow> jsval \<Rightarrow> string \<Rightarrow> nat \<Rightarrow> error + unit" where
  "assertJsonSize wp v label maxBytes =
     require (utf8_length (json_text wp v) \<le> maxBytes)
       (label @ '' exceeds '' @ show_nat maxBytes @ '' bytes'')"

definition json_record :: "web_platform \<Rightarrow> string \<Rightarrow> nat \<Rightarrow> jsval \<Rightarrow> error + fields" where
  "json_record wp label maxBytes v =
     bindE (requiredRecord v label) (\<lambda>fs.
     bindE (assertJsonValue (JObj fs) label) (\<lambda>_.
     bindE (assertJsonSize wp (JObj fs) label maxBytes) (\<lambda>_. Inr fs)))"

section \<open>The parsers\<close>

definition provider_words :: "string list" where
  "provider_words = [''github'', ''gitlab'', ''generic'']"

definition sandbox_words :: "string list" where
  "sandbox_words = [''read-only'', ''workspace-write'', ''danger-full-access'']"

definition driver_words :: "string list" where
  "driver_words = [''codex'', ''mock'']"

definition effort_words :: "string list" where
  "effort_words = [''low'', ''medium'', ''high'', ''xhigh'', ''ultra'']"

definition destination_words :: "string list" where
  "destination_words = [''source'', ''teams'', ''slack'', ''none'']"

definition WEB_SEARCH_MODES :: "(string \<times> web_search) list" where
  "WEB_SEARCH_MODES = [(''disabled'', Search_Disabled), (''cached'', Search_Cached),
     (''indexed'', Search_Indexed), (''live'', Search_Live)]"

definition COMPUTER_USE_MODES :: "(string \<times> computer_use) list" where
  "COMPUTER_USE_MODES = [(''disabled'', Computer_Disabled), (''browser'', Computer_Browser)]"

definition REASONING_SUMMARIES :: "(string \<times> reasoning_summary) list" where
  "REASONING_SUMMARIES = [(''auto'', Summary_Auto), (''concise'', Summary_Concise),
     (''detailed'', Summary_Detailed), (''none'', Summary_None)]"

definition AGENT_PERSONALITIES :: "(string \<times> personality) list" where
  "AGENT_PERSONALITIES = [(''none'', Personality_None), (''friendly'', Personality_Friendly),
     (''pragmatic'', Personality_Pragmatic)]"

definition PERMISSION_PRESETS :: "(string \<times> permission_preset) list" where
  "PERMISSION_PRESETS = [(''read-only'', Read_Only), (''read-write'', Read_Write),
     (''full'', Full_Access), (''custom'', Custom_Access)]"

definition EXECUTION_BACKENDS :: "(string \<times> backend) list" where
  "EXECUTION_BACKENDS = [(''microvm'', Microvm), (''ec2'', Ec2)]"

definition safe_ref :: "string \<Rightarrow> jsval \<Rightarrow> error + string" where
  "safe_ref label v = bindE (requiredString v label 255) (\<lambda>ref.
     if \<not> REF_PATTERN ref \<or> includes_text ref ''..'' \<or> ends_with ref ''/'' \<or>
        includes_text ref (CHR ''@'' # [char_of (123::nat)])
     then invalid (label @ '' is not a safe Git ref'') else Inr ref)"

definition secret_arn :: "jsval \<Rightarrow> error + string" where
  "secret_arn v = bindE (requiredString v ''repository.credentialSecretArn'' 2048) (\<lambda>arn.
     if ARN_PATTERN arn then Inr arn
     else invalid ''repository.credentialSecretArn must be a Secrets Manager ARN'')"

definition repository_url :: "web_platform \<Rightarrow> string list option \<Rightarrow> jsval \<Rightarrow> error + string" where
  "repository_url wp allowedHosts v = bindE (requiredString v ''repository.url'' 2048) (\<lambda>rawUrl.
     case parse_url wp rawUrl of
       None \<Rightarrow> invalid ''repository.url must be a valid HTTPS URL''
     | Some url \<Rightarrow>
         if u_protocol url \<noteq> ''https:'' \<or> u_username url \<noteq> [] \<or> u_password url \<noteq> [] \<or>
            u_search url \<noteq> [] \<or> u_hash url \<noteq> [] \<or> u_hostname url = []
         then invalid ''repository.url must be credential-free HTTPS without query or fragment''
         else if js_lower (u_hostname url) \<notin> js_lower ` set (case allowedHosts of
             None \<Rightarrow> [''github.com'', ''gitlab.com''] | Some hosts \<Rightarrow> hosts)
         then invalid (''repository host '' @ u_hostname url @ '' is not allowed'')
         else Inr (u_href url))"

definition parseRepository ::
  "web_platform \<Rightarrow> string list option \<Rightarrow> jsval \<Rightarrow> error + repository_input" where
  "parseRepository wp allowedHosts v =
     bindE (requiredRecord v ''repository'') (\<lambda>fs.
     bindE (rejectUnknown fs [''provider'', ''url'', ''ref'', ''baseRef'', ''installationId'',
       ''credentialSecretArn''] None) (\<lambda>_.
     bindE (one_of_text wp provider_words ''repository.provider must be github, gitlab, or generic''
       (get_prop fs ''provider'')) (\<lambda>provider.
     bindE (repository_url wp allowedHosts (get_prop fs ''url'')) (\<lambda>url.
     bindE (optional fs ''ref'' (safe_ref ''repository.ref'')) (\<lambda>ref.
     bindE (optional fs ''baseRef'' (safe_ref ''repository.baseRef'')) (\<lambda>baseRef.
     bindE (optional fs ''installationId''
       (\<lambda>x. requiredString x ''repository.installationId'' 64)) (\<lambda>installationId.
     bindE (optional fs ''credentialSecretArn'' secret_arn) (\<lambda>arn.
     Inr \<lparr>repo_provider = provider, repo_url = url, repo_ref = ref, repo_baseRef = baseRef,
       repo_installationId = installationId, repo_credentialSecretArn = arn\<rparr>))))))))"

definition network_flag :: "jsval \<Rightarrow> error + bool" where
  "network_flag v = (case v of
       JBool b \<Rightarrow> Inr b | _ \<Rightarrow> invalid ''agent.capabilities.networkAccess must be boolean'')"

definition parseAgentCapabilities :: "jsval \<Rightarrow> error + capability_request" where
  "parseAgentCapabilities v =
     bindE (requiredRecord v ''agent.capabilities'') (\<lambda>fs.
     bindE (rejectUnknown fs [''profile'', ''networkAccess'', ''webSearch'', ''computerUse'',
       ''skills'', ''apps'', ''mcpServers''] None) (\<lambda>_.
     bindE (optional fs ''profile'' (\<lambda>x. safeIdentifier x ''agent.capabilities.profile'')) (\<lambda>profile.
     bindE (optional fs ''networkAccess'' network_flag) (\<lambda>network.
     bindE (optional fs ''webSearch''
       (one_of WEB_SEARCH_MODES ''agent.capabilities.webSearch is invalid'')) (\<lambda>search.
     bindE (optional fs ''computerUse''
       (one_of COMPUTER_USE_MODES ''agent.capabilities.computerUse is invalid'')) (\<lambda>computer.
     bindE (optional fs ''skills'' (\<lambda>x. identifierList x ''agent.capabilities.skills'' 64)) (\<lambda>skills.
     bindE (optional fs ''apps'' (\<lambda>x. identifierList x ''agent.capabilities.apps'' 64)) (\<lambda>apps.
     bindE (optional fs ''mcpServers''
       (\<lambda>x. identifierList x ''agent.capabilities.mcpServers'' 64)) (\<lambda>servers.
     bindE (require (\<not> (computer = Some Computer_Browser \<and> network = Some False))
       ''agent.capabilities.computerUse browser requires networkAccess'') (\<lambda>_.
     Inr \<lparr>cap_profile = profile, cap_networkAccess = network, cap_webSearch = search,
       cap_computerUse = computer, cap_skills = skills, cap_apps = apps,
       cap_mcpServers = servers\<rparr>))))))))))"

definition model_name :: "jsval \<Rightarrow> error + string" where
  "model_name v = bindE (requiredString v ''agent.model'' 255) (\<lambda>model.
     if MODEL_PATTERN model then Inr model
     else invalid ''agent.model contains unsupported characters'')"

definition sandbox_mode ::
  "web_platform \<Rightarrow> string list option \<Rightarrow> jsval \<Rightarrow> error + jsval" where
  "sandbox_mode wp allowedModes v =
     bindE (one_of_text wp sandbox_words ''agent.sandbox is invalid'' v) (\<lambda>sandbox.
     bindE (to_string wp sandbox) (\<lambda>text.
     bindE (require (allowedModes = None \<or> sandbox \<in> JStr ` set (the allowedModes))
       (''agent.sandbox '' @ text @ '' is disabled by runtime policy'')) (\<lambda>_. Inr sandbox)))"

definition parseAgent ::
  "web_platform \<Rightarrow> string list option \<Rightarrow> jsval \<Rightarrow> error + agent_input" where
  "parseAgent wp allowedModes v =
     bindE (requiredRecord v ''agent'') (\<lambda>fs.
     bindE (rejectUnknown fs [''driver'', ''model'', ''sandbox'', ''reasoningEffort'',
       ''reasoningSummary'', ''personality'', ''capabilities'', ''outputSchema''] None) (\<lambda>_.
     bindE (optional fs ''driver''
       (one_of_text wp driver_words ''agent.driver must be codex or mock'')) (\<lambda>driver.
     bindE (optional fs ''model'' model_name) (\<lambda>model.
     bindE (optional fs ''sandbox'' (sandbox_mode wp allowedModes)) (\<lambda>sandbox.
     bindE (optional fs ''reasoningEffort''
       (one_of_text wp effort_words ''agent.reasoningEffort is invalid'')) (\<lambda>effort.
     bindE (optional fs ''reasoningSummary''
       (one_of REASONING_SUMMARIES ''agent.reasoningSummary is invalid'')) (\<lambda>summary.
     bindE (optional fs ''personality''
       (one_of AGENT_PERSONALITIES ''agent.personality is invalid'')) (\<lambda>personality.
     bindE (optional fs ''capabilities'' parseAgentCapabilities) (\<lambda>capabilities.
     bindE (optional fs ''outputSchema'' (json_record wp ''agent.outputSchema'' 32000)) (\<lambda>schema.
     Inr \<lparr>ag_driver = driver, ag_model = model, ag_sandbox = sandbox,
       ag_reasoningEffort = effort, ag_reasoningSummary = summary, ag_personality = personality,
       ag_capabilities = capabilities, ag_outputSchema = schema\<rparr>))))))))))"

definition no_overlap :: "string list option \<Rightarrow> string list option \<Rightarrow> error + unit" where
  "no_overlap allow deny =
     (case find (\<lambda>operation. operation \<in> set (case deny of None \<Rightarrow> [] | Some ds \<Rightarrow> ds))
         (case allow of None \<Rightarrow> [] | Some ops \<Rightarrow> ops) of
        None \<Rightarrow> Inr ()
      | Some overlap \<Rightarrow>
          invalid (''integration operation '' @ overlap @ '' is both allowed and denied''))"

definition parse_connection :: "jsval \<Rightarrow> string \<Rightarrow> error + connection_access_request" where
  "parse_connection v label =
     bindE (requiredRecord v label) (\<lambda>fs.
     bindE (rejectUnknown fs [''connection'', ''preset'', ''allowOperations'', ''denyOperations'']
       None) (\<lambda>_.
     bindE (safeIdentifier (get_prop fs ''connection'') (label @ ''.connection'')) (\<lambda>connection.
     bindE (optional fs ''preset'' (one_of PERMISSION_PRESETS (label @ ''.preset is invalid''))) (\<lambda>preset.
     bindE (optional fs ''allowOperations''
       (\<lambda>x. operationList x (label @ ''.allowOperations''))) (\<lambda>allow.
     bindE (optional fs ''denyOperations''
       (\<lambda>x. operationList x (label @ ''.denyOperations''))) (\<lambda>deny.
     bindE (no_overlap allow deny) (\<lambda>_.
     bindE (require (\<not> (preset = Some Custom_Access \<and> (allow = None \<or> allow = Some [])))
       ''custom integration access requires allowOperations'') (\<lambda>_.
     Inr \<lparr>car_connection = connection, car_preset = preset, car_allowOperations = allow,
       car_denyOperations = deny\<rparr>))))))))"

definition parse_connections :: "jsval \<Rightarrow> error + connection_access_request list" where
  "parse_connections v = (case v of
       JArr xs \<Rightarrow>
         if length xs > 32
         then invalid ''integrations.connections must be an array with at most 32 entries''
         else bindE (map_items parse_connection ''integrations.connections'' xs) (\<lambda>cs.
           bindE (no_duplicate (map car_connection cs) ''duplicate integration connection '') (\<lambda>_.
           Inr cs))
     | _ \<Rightarrow> invalid ''integrations.connections must be an array with at most 32 entries'')"

definition parseIntegrations :: "jsval \<Rightarrow> error + integration_access_request" where
  "parseIntegrations v =
     bindE (requiredRecord v ''integrations'') (\<lambda>fs.
     bindE (rejectUnknown fs [''connectionSet'', ''connections''] None) (\<lambda>_.
     bindE (optional fs ''connectionSet''
       (\<lambda>x. safeIdentifier x ''integrations.connectionSet'')) (\<lambda>connectionSet.
     bindE (optional fs ''connections'' parse_connections) (\<lambda>connections.
     bindE (require (truthy connectionSet \<or> (connections \<noteq> None \<and> connections \<noteq> Some []))
       ''integrations requires connectionSet or connections'') (\<lambda>_.
     Inr \<lparr>iar_connectionSet = connectionSet, iar_connections = connections\<rparr>)))))"

definition timeout_seconds :: "jsval \<Rightarrow> error + int" where
  "timeout_seconds v = (case js_int v of
       Some i \<Rightarrow>
         if i < 30 \<or> i > 28000
         then invalid ''execution.timeoutSeconds must be an integer from 30 to 28000'' else Inr i
     | None \<Rightarrow> invalid ''execution.timeoutSeconds must be an integer from 30 to 28000'')"

definition parseExecution :: "jsval \<Rightarrow> error + execution_input" where
  "parseExecution v =
     bindE (requiredRecord v ''execution'') (\<lambda>fs.
     bindE (rejectUnknown fs [''backend'', ''timeoutSeconds''] None) (\<lambda>_.
     bindE (optional fs ''backend''
       (one_of EXECUTION_BACKENDS ''execution.backend must be microvm or ec2'')) (\<lambda>backend.
     bindE (optional fs ''timeoutSeconds'' timeout_seconds) (\<lambda>timeout.
     Inr \<lparr>ei_backend = backend, ei_timeoutSeconds = timeout\<rparr>))))"

definition source_text :: "fields \<Rightarrow> string \<Rightarrow> nat \<Rightarrow> error + string" where
  "source_text fs k n = requiredString (get_prop fs k) (''source.'' @ k) n"

definition source_option :: "fields \<Rightarrow> string \<Rightarrow> nat \<Rightarrow> error + string option" where
  "source_option fs k n = optional fs k (\<lambda>x. requiredString x (''source.'' @ k) n)"

definition source_number :: "fields \<Rightarrow> string \<Rightarrow> error + int option" where
  "source_number fs k = optional fs k (\<lambda>x. positiveInteger x (''source.'' @ k))"

definition api_source :: "fields \<Rightarrow> error + run_source" where
  "api_source fs =
     bindE (rejectUnknown fs [''kind'', ''requestId''] None) (\<lambda>_.
     bindE (source_option fs ''requestId'' 128) (\<lambda>requestId. Inr (Source_Api requestId)))"

definition github_source :: "fields \<Rightarrow> error + run_source" where
  "github_source fs =
     bindE (rejectUnknown fs [''kind'', ''deliveryId'', ''event'', ''repository'',
       ''issueNumber'', ''installationId''] None) (\<lambda>_.
     bindE (source_text fs ''deliveryId'' 128) (\<lambda>deliveryId.
     bindE (source_text fs ''event'' 128) (\<lambda>event.
     bindE (source_text fs ''repository'' 512) (\<lambda>repository.
     bindE (source_number fs ''issueNumber'') (\<lambda>issueNumber.
     bindE (source_option fs ''installationId'' 64) (\<lambda>installationId.
     Inr (Source_Github deliveryId event repository issueNumber installationId)))))))"

definition gitlab_source :: "fields \<Rightarrow> error + run_source" where
  "gitlab_source fs =
     bindE (rejectUnknown fs [''kind'', ''event'', ''projectId'', ''mergeRequestIid''] None) (\<lambda>_.
     bindE (source_text fs ''event'' 128) (\<lambda>event.
     bindE (source_text fs ''projectId'' 128) (\<lambda>projectId.
     bindE (source_number fs ''mergeRequestIid'') (\<lambda>iid.
     Inr (Source_Gitlab event projectId iid)))))"

definition teams_source :: "fields \<Rightarrow> error + run_source" where
  "teams_source fs =
     bindE (rejectUnknown fs [''kind'', ''tenantId'', ''teamId'', ''channelId'',
       ''conversationId'', ''activityId'', ''senderId''] None) (\<lambda>_.
     bindE (source_text fs ''conversationId'' 512) (\<lambda>conversationId.
     bindE (source_text fs ''activityId'' 512) (\<lambda>activityId.
     bindE (source_option fs ''tenantId'' 512) (\<lambda>tenantId.
     bindE (source_option fs ''teamId'' 512) (\<lambda>teamId.
     bindE (source_option fs ''channelId'' 512) (\<lambda>channelId.
     bindE (source_option fs ''senderId'' 512) (\<lambda>senderId.
     Inr (Source_Teams tenantId teamId channelId conversationId activityId senderId))))))))"

definition slack_source :: "fields \<Rightarrow> error + run_source" where
  "slack_source fs =
     bindE (rejectUnknown fs [''kind'', ''teamId'', ''channelId'', ''threadTs'', ''eventId'',
       ''userId''] None) (\<lambda>_.
     bindE (source_text fs ''channelId'' 128) (\<lambda>channelId.
     bindE (source_text fs ''eventId'' 128) (\<lambda>eventId.
     bindE (source_option fs ''teamId'' 128) (\<lambda>teamId.
     bindE (source_option fs ''threadTs'' 128) (\<lambda>threadTs.
     bindE (source_option fs ''userId'' 128) (\<lambda>userId.
     Inr (Source_Slack teamId channelId threadTs eventId userId)))))))"

definition parseSource :: "jsval \<Rightarrow> error + run_source" where
  "parseSource v =
     bindE (requiredRecord v ''source'') (\<lambda>fs.
     bindE (requiredString (get_prop fs ''kind'') ''source.kind'' 32) (\<lambda>kind.
       if kind = ''api'' then api_source fs
       else if kind = ''github'' then github_source fs
       else if kind = ''gitlab'' then gitlab_source fs
       else if kind = ''teams'' then teams_source fs
       else if kind = ''slack'' then slack_source fs
       else invalid ''source.kind is invalid''))"

definition parse_destination :: "web_platform \<Rightarrow> jsval \<Rightarrow> string \<Rightarrow> error + run_destination" where
  "parse_destination wp v label =
     bindE (requiredRecord v label) (\<lambda>fs.
     bindE (rejectUnknown fs [''kind'', ''route''] None) (\<lambda>_.
     bindE (one_of_text wp destination_words (label @ ''.kind is invalid'') (get_prop fs ''kind'')) (\<lambda>kind.
     bindE (optional fs ''route'' (\<lambda>x. requiredString x (label @ ''.route'') 128)) (\<lambda>route.
     Inr \<lparr>dst_kind = kind, dst_route = route\<rparr>))))"

definition parse_destinations :: "web_platform \<Rightarrow> jsval \<Rightarrow> error + run_destination list" where
  "parse_destinations wp v = (case v of
       JArr xs \<Rightarrow>
         if length xs > 8 then invalid ''destinations must be an array with at most 8 entries''
         else map_items (parse_destination wp) ''destinations'' xs
     | _ \<Rightarrow> invalid ''destinations must be an array with at most 8 entries'')"

definition parseRunRequest ::
  "web_platform \<Rightarrow> validation_options \<Rightarrow> jsval \<Rightarrow> error + run_request" where
  "parseRunRequest wp options v =
     bindE (requiredRecord v ''request'') (\<lambda>fs.
     bindE (rejectUnknown fs [''version'', ''prompt'', ''repository'', ''agent'', ''integrations'',
       ''execution'', ''source'', ''destinations'', ''metadata'', ''parentRunId''] None) (\<lambda>_.
     bindE (require (get_prop fs ''version'' = JStr ''1'')
       (''version must be '' @ json_string ''1'')) (\<lambda>_.
     bindE (requiredString (get_prop fs ''prompt'') ''prompt'' 100000) (\<lambda>prompt.
     bindE (require (js_trim prompt \<noteq> []) ''prompt cannot be empty'') (\<lambda>_.
     bindE (optional fs ''repository'' (parseRepository wp (allowedRepositoryHosts options)))
       (\<lambda>repository.
     bindE (optional fs ''agent'' (parseAgent wp (allowedSandboxModes options))) (\<lambda>agent.
     bindE (optional fs ''integrations'' parseIntegrations) (\<lambda>integrations.
     bindE (optional fs ''execution'' parseExecution) (\<lambda>execution.
     bindE (optional fs ''source'' parseSource) (\<lambda>source.
     bindE (optional fs ''destinations'' (parse_destinations wp)) (\<lambda>destinations.
     bindE (optional fs ''metadata'' (json_record wp ''metadata'' 32000)) (\<lambda>metadata.
     bindE (optional fs ''parentRunId'' (\<lambda>x. requiredString x ''parentRunId'' 128)) (\<lambda>parent.
     Inr \<lparr>rq_prompt = prompt, rq_repository = repository, rq_agent = agent,
       rq_integrations = integrations, rq_execution = execution, rq_source = source,
       rq_destinations = destinations, rq_metadata = metadata,
       rq_parentRunId = parent\<rparr>)))))))))))))"

section \<open>A request as a value\<close>

text \<open>
  What \<open>putJson\<close> stores and the worker parses again: a field that was left out is absent.
\<close>

definition field_of :: "string \<Rightarrow> ('a \<Rightarrow> jsval) \<Rightarrow> 'a option \<Rightarrow> fields" where
  "field_of k enc x = (case x of None \<Rightarrow> [] | Some a \<Rightarrow> [(k, enc a)])"

definition int_value :: "int \<Rightarrow> jsval" where
  "int_value i = JNum (Finite (of_int i))"

definition strings_value :: "string list \<Rightarrow> jsval" where
  "strings_value ss = JArr (map JStr ss)"

definition word_value :: "(string \<times> 'a) list \<Rightarrow> 'a \<Rightarrow> jsval" where
  "word_value table a = JStr (case find (\<lambda>(s, b). b = a) table of None \<Rightarrow> [] | Some (s, _) \<Rightarrow> s)"

definition repository_value :: "repository_input \<Rightarrow> jsval" where
  "repository_value r = JObj ([(''provider'', repo_provider r), (''url'', JStr (repo_url r))] @
     field_of ''ref'' JStr (repo_ref r) @ field_of ''baseRef'' JStr (repo_baseRef r) @
     field_of ''installationId'' JStr (repo_installationId r) @
     field_of ''credentialSecretArn'' JStr (repo_credentialSecretArn r))"

definition capabilities_value :: "capability_request \<Rightarrow> jsval" where
  "capabilities_value c = JObj (field_of ''profile'' JStr (cap_profile c) @
     field_of ''networkAccess'' JBool (cap_networkAccess c) @
     field_of ''webSearch'' (word_value WEB_SEARCH_MODES) (cap_webSearch c) @
     field_of ''computerUse'' (word_value COMPUTER_USE_MODES) (cap_computerUse c) @
     field_of ''skills'' strings_value (cap_skills c) @
     field_of ''apps'' strings_value (cap_apps c) @
     field_of ''mcpServers'' strings_value (cap_mcpServers c))"

definition agent_value :: "agent_input \<Rightarrow> jsval" where
  "agent_value a = JObj (field_of ''driver'' id (ag_driver a) @
     field_of ''model'' JStr (ag_model a) @ field_of ''sandbox'' id (ag_sandbox a) @
     field_of ''reasoningEffort'' id (ag_reasoningEffort a) @
     field_of ''reasoningSummary'' (word_value REASONING_SUMMARIES) (ag_reasoningSummary a) @
     field_of ''personality'' (word_value AGENT_PERSONALITIES) (ag_personality a) @
     field_of ''capabilities'' capabilities_value (ag_capabilities a) @
     field_of ''outputSchema'' JObj (ag_outputSchema a))"

definition connection_value :: "connection_access_request \<Rightarrow> jsval" where
  "connection_value c = JObj ([(''connection'', JStr (car_connection c))] @
     field_of ''preset'' (word_value PERMISSION_PRESETS) (car_preset c) @
     field_of ''allowOperations'' strings_value (car_allowOperations c) @
     field_of ''denyOperations'' strings_value (car_denyOperations c))"

definition integrations_value :: "integration_access_request \<Rightarrow> jsval" where
  "integrations_value i = JObj (field_of ''connectionSet'' JStr (iar_connectionSet i) @
     field_of ''connections'' (\<lambda>cs. JArr (map connection_value cs)) (iar_connections i))"

definition execution_value :: "execution_input \<Rightarrow> jsval" where
  "execution_value e = JObj (field_of ''backend'' (word_value EXECUTION_BACKENDS) (ei_backend e) @
     field_of ''timeoutSeconds'' int_value (ei_timeoutSeconds e))"

fun source_value :: "run_source \<Rightarrow> jsval" where
  "source_value (Source_Api requestId) =
     JObj ([(''kind'', JStr ''api'')] @ field_of ''requestId'' JStr requestId)"
| "source_value (Source_Github deliveryId event repository issueNumber installationId) =
     JObj ([(''kind'', JStr ''github''), (''deliveryId'', JStr deliveryId), (''event'', JStr event),
        (''repository'', JStr repository)] @ field_of ''issueNumber'' int_value issueNumber @
        field_of ''installationId'' JStr installationId)"
| "source_value (Source_Gitlab event projectId iid) =
     JObj ([(''kind'', JStr ''gitlab''), (''event'', JStr event), (''projectId'', JStr projectId)] @
        field_of ''mergeRequestIid'' int_value iid)"
| "source_value (Source_Teams tenantId teamId channelId conversationId activityId senderId) =
     JObj ([(''kind'', JStr ''teams''), (''conversationId'', JStr conversationId),
        (''activityId'', JStr activityId)] @ field_of ''tenantId'' JStr tenantId @
        field_of ''teamId'' JStr teamId @ field_of ''channelId'' JStr channelId @
        field_of ''senderId'' JStr senderId)"
| "source_value (Source_Slack teamId channelId threadTs eventId userId) =
     JObj ([(''kind'', JStr ''slack''), (''channelId'', JStr channelId), (''eventId'', JStr eventId)] @
        field_of ''teamId'' JStr teamId @ field_of ''threadTs'' JStr threadTs @
        field_of ''userId'' JStr userId)"

definition destination_value :: "run_destination \<Rightarrow> jsval" where
  "destination_value d =
     JObj ([(''kind'', dst_kind d)] @ field_of ''route'' JStr (dst_route d))"

definition request_value :: "run_request \<Rightarrow> jsval" where
  "request_value r = JObj ([(''version'', JStr ''1''), (''prompt'', JStr (rq_prompt r))] @
     field_of ''repository'' repository_value (rq_repository r) @
     field_of ''agent'' agent_value (rq_agent r) @
     field_of ''integrations'' integrations_value (rq_integrations r) @
     field_of ''execution'' execution_value (rq_execution r) @
     field_of ''source'' source_value (rq_source r) @
     field_of ''destinations'' (\<lambda>ds. JArr (map destination_value ds)) (rq_destinations r) @
     field_of ''metadata'' JObj (rq_metadata r) @
     field_of ''parentRunId'' JStr (rq_parentRunId r))"

section \<open>Parsing again what was parsed\<close>

lemma get_prop_simps [simp]:
  "get_prop [] k = JUndef"
  "get_prop ((k', v) # fs) k = (if k' = k then v else get_prop fs k)"
  by (simp_all add: get_prop_def)

lemma get_prop_field_of [simp]:
  "get_prop (field_of k' enc x @ fs) k = (if k' = k \<and> x \<noteq> None then enc (the x) else get_prop fs k)"
  "get_prop (field_of k' enc x) k = (if k' = k \<and> x \<noteq> None then enc (the x) else JUndef)"
  by (cases x; simp add: field_of_def)+

lemma rejectUnknown_Inr:
  "rejectUnknown fs allowed label = Inr () \<longleftrightarrow> (\<forall>k \<in> fst ` set fs. k \<in> set allowed)"
proof (cases "filter (\<lambda>k. k \<notin> set allowed) (map fst fs)")
  case Nil
  then have "set (filter (\<lambda>k. k \<notin> set allowed) (map fst fs)) = {}" by simp
  with Nil show ?thesis by (force simp: rejectUnknown_def filter_empty_conv)
next
  case (Cons k ks)
  then have "k \<in> set (filter (\<lambda>k. k \<notin> set allowed) (map fst fs))" by simp
  then have "k \<in> fst ` set fs" "k \<notin> set allowed" by auto
  with Cons show ?thesis by (simp add: rejectUnknown_def invalid_def) blast
qed

lemma fields_of_field [simp]:
  "fst ` set (field_of k enc x) = (if x = None then {} else {k})"
  by (cases x) (simp_all add: field_of_def)

text \<open>\<open>f\<close> accepts again, unchanged, the value that stands for what it returned.\<close>

definition reparses :: "(jsval \<Rightarrow> error + 'a) \<Rightarrow> ('a \<Rightarrow> jsval) \<Rightarrow> bool" where
  "reparses f enc \<longleftrightarrow> (\<forall>v a. f v = Inr a \<longrightarrow> f (enc a) = Inr a \<and> enc a \<noteq> JUndef)"

lemma optional_again_if:
  assumes "optional fs k f = Inr x"
    and "\<And>v a. x = Some a \<Longrightarrow> f v = Inr a \<Longrightarrow> f (enc a) = Inr a \<and> enc a \<noteq> JUndef"
    and "get_prop fs' k = (if x \<noteq> None then enc (the x) else JUndef)"
  shows "optional fs' k f = Inr x"
  using assms by (auto simp: optional_def Let_def bindE_Inr split: if_splits)

lemma optional_again:
  "optional fs k f = Inr x \<Longrightarrow> reparses f enc \<Longrightarrow>
   get_prop fs' k = (if x \<noteq> None then enc (the x) else JUndef) \<Longrightarrow> optional fs' k f = Inr x"
  by (rule optional_again_if) (auto simp: reparses_def)

lemma requiredString_Inr:
  "requiredString v l n = Inr s \<longleftrightarrow> v = JStr s \<and> s \<noteq> [] \<and> utf8_length s \<le> n"
  by (auto simp: requiredString_def invalid_def split: jsval.splits)

lemma requiredRecord_Inr: "requiredRecord v l = Inr fs \<longleftrightarrow> v = JObj fs"
  by (auto simp: requiredRecord_def invalid_def split: jsval.splits)

lemma require_Inr [simp]: "require ok m = Inr u \<longleftrightarrow> ok"
  by (simp add: require_def)

lemma invalid_Inr [simp]: "invalid m = Inr a \<longleftrightarrow> False"
  by (simp add: invalid_def)

lemma require_True [simp]: "require True m = Inr ()"
  by simp

lemma reparses_required: "reparses (\<lambda>x. requiredString x l n) JStr"
  by (auto simp: reparses_def requiredString_Inr)

lemma safe_ref_Inr:
  "safe_ref l v = Inr s \<longleftrightarrow> v = JStr s \<and> s \<noteq> [] \<and> utf8_length s \<le> 255 \<and> REF_PATTERN s \<and>
     \<not> includes_text s ''..'' \<and> \<not> ends_with s ''/'' \<and>
     \<not> includes_text s (CHR ''@'' # [char_of (123::nat)])"
  by (auto simp: safe_ref_def bindE_Inr requiredString_Inr split: if_splits)

lemma reparses_patterns:
  "reparses (safe_ref l) JStr"
  "reparses secret_arn JStr"
  "reparses model_name JStr"
  "reparses (\<lambda>x. safeIdentifier x l) JStr"
  "reparses network_flag JBool"
  by (auto simp: reparses_def safe_ref_Inr secret_arn_def model_name_def safeIdentifier_def
      network_flag_def bindE_Inr requiredString_Inr split: if_splits jsval.splits)

lemma js_int_value [simp]: "js_int (int_value i) = Some i"
  by (simp add: js_int_def int_value_def is_integer_def)

lemma int_value_JUndef [simp]: "int_value i \<noteq> JUndef"
  by (simp add: int_value_def)

lemma reparses_numbers:
  "reparses (\<lambda>x. positiveInteger x l) int_value"
  "reparses timeout_seconds int_value"
  by (auto simp: reparses_def positiveInteger_def timeout_seconds_def
      split: option.splits if_splits)

lemma one_of_Inr:
  "one_of table m v = Inr a \<longleftrightarrow> (\<exists>s. v = JStr s \<and> map_of table s = Some a)"
  by (auto simp: one_of_def split: jsval.splits option.splits)

lemma reparses_one_of:
  assumes "distinct (map fst table)"
  shows "reparses (one_of table m) (word_value table)"
proof -
  have "map_of table (case find (\<lambda>(s, b). b = a) table of None \<Rightarrow> [] | Some (s, _) \<Rightarrow> s) = Some a"
    if "map_of table s = Some a" for s a
  proof (cases "find (\<lambda>(s, b). b = a) table")
    case None
    from map_of_SomeD [OF that] None show ?thesis by (auto simp: find_None_iff)
  next
    case (Some sb)
    then have "sb \<in> set table" "snd sb = a" by (auto simp: find_Some_iff split_beta)
    with assms Some show ?thesis by (cases sb) (simp add: map_of_eq_Some_iff)
  qed
  then show ?thesis by (auto simp: reparses_def one_of_Inr word_value_def)
qed

lemma one_of_text_Inr:
  "one_of_text wp words m v = Inr a \<longleftrightarrow> v = a \<and> (\<exists>s. to_string wp a = Inr s \<and> s \<in> set words)"
  by (auto simp: one_of_text_def bindE_Inr split: if_splits)

lemma reparses_one_of_text:
  "''undefined'' \<notin> set words \<Longrightarrow> reparses (one_of_text wp words m) id"
  "reparses (sandbox_mode wp modes) id"
  by (auto simp: reparses_def one_of_text_Inr sandbox_mode_def bindE_Inr sandbox_words_def)

lemma mapE_enumerate_again:
  assumes "mapE (\<lambda>(i, x). f x (indexed label i)) (enumerate n xs) = Inr ys"
    and "\<And>x l y. f x l = Inr y \<Longrightarrow> f (enc y) l = Inr y"
  shows "mapE (\<lambda>(i, x). f x (indexed label i)) (enumerate n (map enc ys)) = Inr ys"
  using assms(1)
proof (induction xs arbitrary: ys n)
  case (Cons x xs)
  then show ?case by (auto simp: bindE_Inr dest: assms(2))
qed simp

lemma map_items_again:
  "map_items f label xs = Inr ys \<Longrightarrow> (\<And>x l y. f x l = Inr y \<Longrightarrow> f (enc y) l = Inr y) \<Longrightarrow>
   map_items f label (map enc ys) = Inr ys"
  unfolding map_items_def by (rule mapE_enumerate_again)

lemma map_items_length: "map_items f label xs = Inr ys \<Longrightarrow> length ys = length xs"
  unfolding map_items_def by (drule mapE_length) simp

lemma map_items_elem: "map_items f label xs = Inr ys \<Longrightarrow> y \<in> set ys \<Longrightarrow> \<exists>x l. f x l = Inr y"
  unfolding map_items_def by (drule mapE_elem) auto

lemma no_duplicate_Inr: "no_duplicate xs m = Inr () \<longleftrightarrow> first_duplicate [] xs = None"
  by (simp add: no_duplicate_def split: option.splits)

lemma reparses_lists:
  "reparses (\<lambda>x. identifierList x l n) strings_value"
  "reparses (\<lambda>x. operationList x l) strings_value"
proof -
  have id: "safeIdentifier (JStr y) k = Inr y" if "safeIdentifier x k = Inr y" for x y k
    using that reparses_patterns(4) [of k] by (auto simp: reparses_def)
  have op: "operation_item (JStr y) k = Inr y" if "operation_item x k = Inr y" for x y k
    using that by (auto simp: operation_item_def bindE_Inr requiredString_Inr split: if_splits)
  show "reparses (\<lambda>x. identifierList x l n) strings_value"
    unfolding reparses_def identifierList_def strings_value_def
    by (auto simp: bindE_Inr dest: map_items_length map_items_again [OF _ id]
        split: jsval.splits if_splits)
  show "reparses (\<lambda>x. operationList x l) strings_value"
    unfolding reparses_def operationList_def strings_value_def
    by (auto simp: bindE_Inr dest: map_items_length map_items_again [OF _ op]
        split: jsval.splits if_splits)
qed

lemma reparses_json: "reparses (json_record wp l n) JObj"
  by (auto simp: reparses_def json_record_def bindE_Inr requiredRecord_Inr)

lemma known_fields:
  "fst ` set fs \<subseteq> set allowed \<Longrightarrow> rejectUnknown fs allowed label = Inr ()"
  by (auto simp: rejectUnknown_Inr)

lemma words_distinct:
  "distinct (map fst WEB_SEARCH_MODES)" "distinct (map fst COMPUTER_USE_MODES)"
  "distinct (map fst REASONING_SUMMARIES)" "distinct (map fst AGENT_PERSONALITIES)"
  "distinct (map fst PERMISSION_PRESETS)" "distinct (map fst EXECUTION_BACKENDS)"
  by (simp_all add: WEB_SEARCH_MODES_def COMPUTER_USE_MODES_def REASONING_SUMMARIES_def
      AGENT_PERSONALITIES_def PERMISSION_PRESETS_def EXECUTION_BACKENDS_def)

lemmas reparses_words = words_distinct [THEN reparses_one_of]

lemma reparses_capabilities: "reparses parseAgentCapabilities capabilities_value"
  unfolding reparses_def
proof (intro allI impI)
  fix v c assume "parseAgentCapabilities v = Inr c"
  then obtain fs a1 a2 a3 a4 a5 a6 a7 where f:
    "optional fs ''profile'' (\<lambda>x. safeIdentifier x ''agent.capabilities.profile'') = Inr a1"
    "optional fs ''networkAccess'' network_flag = Inr a2"
    "optional fs ''webSearch''
       (one_of WEB_SEARCH_MODES ''agent.capabilities.webSearch is invalid'') = Inr a3"
    "optional fs ''computerUse''
       (one_of COMPUTER_USE_MODES ''agent.capabilities.computerUse is invalid'') = Inr a4"
    "optional fs ''skills'' (\<lambda>x. identifierList x ''agent.capabilities.skills'' 64) = Inr a5"
    "optional fs ''apps'' (\<lambda>x. identifierList x ''agent.capabilities.apps'' 64) = Inr a6"
    "optional fs ''mcpServers'' (\<lambda>x. identifierList x ''agent.capabilities.mcpServers'' 64) = Inr a7"
    and ok: "\<not> (a4 = Some Computer_Browser \<and> a2 = Some False)"
    and c: "c = \<lparr>cap_profile = a1, cap_networkAccess = a2, cap_webSearch = a3,
       cap_computerUse = a4, cap_skills = a5, cap_apps = a6, cap_mcpServers = a7\<rparr>"
    unfolding parseAgentCapabilities_def bindE_Inr require_Inr by blast
  note again = f(1) [THEN optional_again, OF reparses_patterns(4)]
    f(2) [THEN optional_again, OF reparses_patterns(5)]
    f(3) [THEN optional_again, OF reparses_words(1)] f(4) [THEN optional_again, OF reparses_words(2)]
    f(5-7) [THEN optional_again, OF reparses_lists(1)]
  show "parseAgentCapabilities (capabilities_value c) = Inr c \<and> capabilities_value c \<noteq> JUndef"
    using ok
    by (simp add: parseAgentCapabilities_def capabilities_value_def requiredRecord_def
        known_fields image_Un c again)
qed

lemma reparses_agent: "reparses (parseAgent wp modes) agent_value"
  unfolding reparses_def
proof (intro allI impI)
  fix v a assume "parseAgent wp modes v = Inr a"
  then obtain fs a1 a2 a3 a4 a5 a6 a7 a8 where f:
    "optional fs ''driver''
       (one_of_text wp driver_words ''agent.driver must be codex or mock'') = Inr a1"
    "optional fs ''model'' model_name = Inr a2"
    "optional fs ''sandbox'' (sandbox_mode wp modes) = Inr a3"
    "optional fs ''reasoningEffort''
       (one_of_text wp effort_words ''agent.reasoningEffort is invalid'') = Inr a4"
    "optional fs ''reasoningSummary''
       (one_of REASONING_SUMMARIES ''agent.reasoningSummary is invalid'') = Inr a5"
    "optional fs ''personality''
       (one_of AGENT_PERSONALITIES ''agent.personality is invalid'') = Inr a6"
    "optional fs ''capabilities'' parseAgentCapabilities = Inr a7"
    "optional fs ''outputSchema'' (json_record wp ''agent.outputSchema'' 32000) = Inr a8"
    and a: "a = \<lparr>ag_driver = a1, ag_model = a2, ag_sandbox = a3, ag_reasoningEffort = a4,
       ag_reasoningSummary = a5, ag_personality = a6, ag_capabilities = a7, ag_outputSchema = a8\<rparr>"
    unfolding parseAgent_def bindE_Inr require_Inr by blast
  have words: "''undefined'' \<notin> set driver_words" "''undefined'' \<notin> set effort_words"
    by (simp_all add: driver_words_def effort_words_def)
  note again = f(1) [THEN optional_again, OF reparses_one_of_text(1), OF words(1)]
    f(2) [THEN optional_again, OF reparses_patterns(3)]
    f(3) [THEN optional_again, OF reparses_one_of_text(2)]
    f(4) [THEN optional_again, OF reparses_one_of_text(1), OF words(2)]
    f(5) [THEN optional_again, OF reparses_words(3)]
    f(6) [THEN optional_again, OF reparses_words(4)]
    f(7) [THEN optional_again, OF reparses_capabilities]
    f(8) [THEN optional_again, OF reparses_json]
  show "parseAgent wp modes (agent_value a) = Inr a \<and> agent_value a \<noteq> JUndef"
    by (simp add: parseAgent_def agent_value_def requiredRecord_def known_fields image_Un a again
        del: id_apply)
qed

lemma parse_connection_again:
  assumes "parse_connection v label = Inr c"
  shows "parse_connection (connection_value c) label = Inr c"
proof -
  from assms obtain fs a1 a2 a3 a4 u where
    con: "safeIdentifier (get_prop fs ''connection'') (label @ ''.connection'') = Inr a1"
    and f: "optional fs ''preset''
       (one_of PERMISSION_PRESETS (label @ ''.preset is invalid'')) = Inr a2"
    "optional fs ''allowOperations'' (\<lambda>x. operationList x (label @ ''.allowOperations'')) = Inr a3"
    "optional fs ''denyOperations'' (\<lambda>x. operationList x (label @ ''.denyOperations'')) = Inr a4"
    and overlap: "no_overlap a3 a4 = Inr u"
    and ok: "\<not> (a2 = Some Custom_Access \<and> (a3 = None \<or> a3 = Some []))"
    and c: "c = \<lparr>car_connection = a1, car_preset = a2, car_allowOperations = a3,
       car_denyOperations = a4\<rparr>"
    unfolding parse_connection_def bindE_Inr require_Inr by blast
  note again = f(1) [THEN optional_again, OF reparses_words(5)]
    f(2,3) [THEN optional_again, OF reparses_lists(2)]
  from con have "safeIdentifier (JStr a1) (label @ ''.connection'') = Inr a1"
    using reparses_patterns(4) by (auto simp: reparses_def)
  with ok show ?thesis
    by (simp add: parse_connection_def connection_value_def requiredRecord_def known_fields image_Un
        c again overlap)
qed

lemma reparses_connections: "reparses parse_connections (\<lambda>cs. JArr (map connection_value cs))"
  unfolding reparses_def parse_connections_def
  by (auto simp: bindE_Inr dest: map_items_length map_items_again [OF _ parse_connection_again]
      split: jsval.splits if_splits)

lemma reparses_integrations: "reparses parseIntegrations integrations_value"
  unfolding reparses_def
proof (intro allI impI)
  fix v i assume "parseIntegrations v = Inr i"
  then obtain fs a1 a2 where f:
    "optional fs ''connectionSet'' (\<lambda>x. safeIdentifier x ''integrations.connectionSet'') = Inr a1"
    "optional fs ''connections'' parse_connections = Inr a2"
    and ok: "truthy a1 \<or> (a2 \<noteq> None \<and> a2 \<noteq> Some [])"
    and i: "i = \<lparr>iar_connectionSet = a1, iar_connections = a2\<rparr>"
    unfolding parseIntegrations_def bindE_Inr require_Inr by blast
  note again = f(1) [THEN optional_again, OF reparses_patterns(4)]
    f(2) [THEN optional_again, OF reparses_connections]
  from ok show "parseIntegrations (integrations_value i) = Inr i \<and> integrations_value i \<noteq> JUndef"
    by (simp add: parseIntegrations_def integrations_value_def requiredRecord_def known_fields
        image_Un i again)
qed

lemma reparses_execution: "reparses parseExecution execution_value"
  unfolding reparses_def
proof (intro allI impI)
  fix v e assume "parseExecution v = Inr e"
  then obtain fs a1 a2 where f:
    "optional fs ''backend''
       (one_of EXECUTION_BACKENDS ''execution.backend must be microvm or ec2'') = Inr a1"
    "optional fs ''timeoutSeconds'' timeout_seconds = Inr a2"
    and e: "e = \<lparr>ei_backend = a1, ei_timeoutSeconds = a2\<rparr>"
    unfolding parseExecution_def bindE_Inr by blast
  note again = f(1) [THEN optional_again, OF reparses_words(6)]
    f(2) [THEN optional_again, OF reparses_numbers(2)]
  show "parseExecution (execution_value e) = Inr e \<and> execution_value e \<noteq> JUndef"
    by (simp add: parseExecution_def execution_value_def requiredRecord_def known_fields image_Un
        e again)
qed

lemma parse_destination_again:
  assumes "parse_destination wp v label = Inr d"
  shows "parse_destination wp (destination_value d) label = Inr d"
proof -
  from assms obtain fs a1 a2 where
    k: "one_of_text wp destination_words (label @ ''.kind is invalid'') (get_prop fs ''kind'') = Inr a1"
    and f: "optional fs ''route'' (\<lambda>x. requiredString x (label @ ''.route'') 128) = Inr a2"
    and d: "d = \<lparr>dst_kind = a1, dst_route = a2\<rparr>"
    unfolding parse_destination_def bindE_Inr by blast
  from k have "one_of_text wp destination_words (label @ ''.kind is invalid'') a1 = Inr a1"
    by (auto simp: one_of_text_Inr)
  then show ?thesis
    by (simp add: parse_destination_def destination_value_def requiredRecord_def known_fields
        image_Un d f [THEN optional_again, OF reparses_required])
qed

lemma reparses_destinations:
  "reparses (parse_destinations wp) (\<lambda>ds. JArr (map destination_value ds))"
  unfolding reparses_def parse_destinations_def
  by (auto dest: map_items_length map_items_again [OF _ parse_destination_again]
      split: jsval.splits if_splits)

lemmas source_field_defs = source_text_def source_option_def source_number_def

lemma source_fields_again:
  "source_text fs k n = Inr a \<Longrightarrow> get_prop fs' k = JStr a \<Longrightarrow> source_text fs' k n = Inr a"
  "source_option fs k n = Inr x \<Longrightarrow> get_prop fs' k = (if x \<noteq> None then JStr (the x) else JUndef) \<Longrightarrow>
   source_option fs' k n = Inr x"
  "source_number fs k = Inr i \<Longrightarrow> get_prop fs' k = (if i \<noteq> None then int_value (the i) else JUndef) \<Longrightarrow>
   source_number fs' k = Inr i"
  by (auto simp: source_field_defs requiredString_Inr
      intro: optional_again [OF _ reparses_required] optional_again [OF _ reparses_numbers(1)])

lemma source_kinds:
  "requiredString (JStr ''api'') l 32 = Inr ''api''"
  "requiredString (JStr ''github'') l 32 = Inr ''github''"
  "requiredString (JStr ''gitlab'') l 32 = Inr ''gitlab''"
  "requiredString (JStr ''teams'') l 32 = Inr ''teams''"
  "requiredString (JStr ''slack'') l 32 = Inr ''slack''"
  by (simp_all add: requiredString_Inr utf8_length_def)

lemma api_source_again:
  assumes "api_source fs = Inr s"
  shows "parseSource (source_value s) = Inr s"
proof -
  from assms obtain a1 where f:
    "source_option fs ''requestId'' 128 = Inr a1"
    and s: "s = Source_Api a1"
    unfolding api_source_def bindE_Inr by blast
  note again = f [THEN source_fields_again(2)]
  show ?thesis
    by (simp add: parseSource_def source_kinds api_source_def requiredRecord_def known_fields image_Un
        s again)
qed

lemma github_source_again:
  assumes "github_source fs = Inr s"
  shows "parseSource (source_value s) = Inr s"
proof -
  from assms obtain a1 a2 a3 a4 a5 where f:
    "source_text fs ''deliveryId'' 128 = Inr a1"
    "source_text fs ''event'' 128 = Inr a2"
    "source_text fs ''repository'' 512 = Inr a3"
    "source_number fs ''issueNumber'' = Inr a4"
    "source_option fs ''installationId'' 64 = Inr a5"
    and s: "s = Source_Github a1 a2 a3 a4 a5"
    unfolding github_source_def bindE_Inr by blast
  note again = f(1) [THEN source_fields_again(1)]
    f(2) [THEN source_fields_again(1)]
    f(3) [THEN source_fields_again(1)]
    f(4) [THEN source_fields_again(3)]
    f(5) [THEN source_fields_again(2)]
  show ?thesis
    by (simp add: parseSource_def source_kinds github_source_def requiredRecord_def known_fields image_Un
        s again)
qed

lemma gitlab_source_again:
  assumes "gitlab_source fs = Inr s"
  shows "parseSource (source_value s) = Inr s"
proof -
  from assms obtain a1 a2 a3 where f:
    "source_text fs ''event'' 128 = Inr a1"
    "source_text fs ''projectId'' 128 = Inr a2"
    "source_number fs ''mergeRequestIid'' = Inr a3"
    and s: "s = Source_Gitlab a1 a2 a3"
    unfolding gitlab_source_def bindE_Inr by blast
  note again = f(1) [THEN source_fields_again(1)]
    f(2) [THEN source_fields_again(1)]
    f(3) [THEN source_fields_again(3)]
  show ?thesis
    by (simp add: parseSource_def source_kinds gitlab_source_def requiredRecord_def known_fields image_Un
        s again)
qed

lemma teams_source_again:
  assumes "teams_source fs = Inr s"
  shows "parseSource (source_value s) = Inr s"
proof -
  from assms obtain a1 a2 a3 a4 a5 a6 where f:
    "source_text fs ''conversationId'' 512 = Inr a1"
    "source_text fs ''activityId'' 512 = Inr a2"
    "source_option fs ''tenantId'' 512 = Inr a3"
    "source_option fs ''teamId'' 512 = Inr a4"
    "source_option fs ''channelId'' 512 = Inr a5"
    "source_option fs ''senderId'' 512 = Inr a6"
    and s: "s = Source_Teams a3 a4 a5 a1 a2 a6"
    unfolding teams_source_def bindE_Inr by blast
  note again = f(1) [THEN source_fields_again(1)]
    f(2) [THEN source_fields_again(1)]
    f(3) [THEN source_fields_again(2)]
    f(4) [THEN source_fields_again(2)]
    f(5) [THEN source_fields_again(2)]
    f(6) [THEN source_fields_again(2)]
  show ?thesis
    by (simp add: parseSource_def source_kinds teams_source_def requiredRecord_def known_fields image_Un
        s again)
qed

lemma slack_source_again:
  assumes "slack_source fs = Inr s"
  shows "parseSource (source_value s) = Inr s"
proof -
  from assms obtain a1 a2 a3 a4 a5 where f:
    "source_text fs ''channelId'' 128 = Inr a1"
    "source_text fs ''eventId'' 128 = Inr a2"
    "source_option fs ''teamId'' 128 = Inr a3"
    "source_option fs ''threadTs'' 128 = Inr a4"
    "source_option fs ''userId'' 128 = Inr a5"
    and s: "s = Source_Slack a3 a1 a4 a2 a5"
    unfolding slack_source_def bindE_Inr by blast
  note again = f(1) [THEN source_fields_again(1)]
    f(2) [THEN source_fields_again(1)]
    f(3) [THEN source_fields_again(2)]
    f(4) [THEN source_fields_again(2)]
    f(5) [THEN source_fields_again(2)]
  show ?thesis
    by (simp add: parseSource_def source_kinds slack_source_def requiredRecord_def known_fields image_Un
        s again)
qed

lemma reparses_source: "reparses parseSource source_value"
proof -
  have "parseSource (source_value s) = Inr s" if parsed: "parseSource v = Inr s" for v s
  proof -
    from parsed obtain fs where "api_source fs = Inr s \<or> github_source fs = Inr s \<or>
        gitlab_source fs = Inr s \<or> teams_source fs = Inr s \<or> slack_source fs = Inr s"
      by (auto simp: parseSource_def bindE_Inr split: if_splits)
    then show ?thesis
      using api_source_again github_source_again gitlab_source_again teams_source_again
        slack_source_again by blast
  qed
  moreover have "source_value s \<noteq> JUndef" for s by (cases s) simp_all
  ultimately show ?thesis by (simp add: reparses_def)
qed

text \<open>A URL the platform's parser has written is one it reads back the same.\<close>

definition url_parser_ok :: "web_platform \<Rightarrow> bool" where
  "url_parser_ok wp \<longleftrightarrow> (\<forall>s u. parse_url wp s = Some u \<longrightarrow>
     u_href u \<noteq> [] \<and> parse_url wp (u_href u) = Some u)"

lemma parseRepository_again:
  assumes "parseRepository wp hosts v = Inr r" "url_parser_ok wp" "utf8_length (repo_url r) \<le> 2048"
  shows "parseRepository wp hosts (repository_value r) = Inr r"
proof -
  from assms(1) obtain fs a1 a2 a3 a4 a5 a6 where
    prov: "one_of_text wp provider_words ''repository.provider must be github, gitlab, or generic''
       (get_prop fs ''provider'') = Inr a1"
    and url: "repository_url wp hosts (get_prop fs ''url'') = Inr a2"
    and f: "optional fs ''ref'' (safe_ref ''repository.ref'') = Inr a3"
    "optional fs ''baseRef'' (safe_ref ''repository.baseRef'') = Inr a4"
    "optional fs ''installationId''
       (\<lambda>x. requiredString x ''repository.installationId'' 64) = Inr a5"
    "optional fs ''credentialSecretArn'' secret_arn = Inr a6"
    and r: "r = \<lparr>repo_provider = a1, repo_url = a2, repo_ref = a3, repo_baseRef = a4,
       repo_installationId = a5, repo_credentialSecretArn = a6\<rparr>"
    unfolding parseRepository_def bindE_Inr by blast
  note again = f(1,2) [THEN optional_again, OF reparses_patterns(1)]
    f(3) [THEN optional_again, OF reparses_required]
    f(4) [THEN optional_again, OF reparses_patterns(2)]
  from prov have prov': "one_of_text wp provider_words
      ''repository.provider must be github, gitlab, or generic'' a1 = Inr a1"
    by (auto simp: one_of_text_Inr)
  from url assms(2,3) have url': "repository_url wp hosts (JStr a2) = Inr a2"
    unfolding repository_url_def url_parser_ok_def
    by (auto simp: bindE_Inr requiredString_Inr r split: option.splits if_splits)
  show ?thesis
    by (simp add: parseRepository_def repository_value_def requiredRecord_def known_fields image_Un
        r again prov' url')
qed

section \<open>An example request\<close>

definition example_web :: web_platform where
  "example_web = \<lparr>parse_url = (\<lambda>s. if starts_with s ''https://github.com/''
     then Some \<lparr>u_protocol = ''https:'', u_username = [], u_password = [], u_search = [],
       u_hash = [], u_hostname = ''github.com'', u_href = s\<rparr> else None), number_text = (\<lambda>_. [])\<rparr>"

definition open_options :: validation_options where
  "open_options = \<lparr>allowedRepositoryHosts = None, allowedSandboxModes = None\<rparr>"

definition example_repository :: repository_input where
  "example_repository = \<lparr>repo_provider = JStr ''github'', repo_url = ''https://github.com/o/r'',
     repo_ref = Some ''main'', repo_baseRef = None, repo_installationId = None,
     repo_credentialSecretArn = None\<rparr>"

definition example_integrations :: integration_access_request where
  "example_integrations = \<lparr>iar_connectionSet = None, iar_connections = Some
     [\<lparr>car_connection = ''c'', car_preset = Some Custom_Access,
       car_allowOperations = Some [''issues.read''], car_denyOperations = None\<rparr>]\<rparr>"

definition example_limits :: execution_input where
  "example_limits = \<lparr>ei_backend = Some Ec2, ei_timeoutSeconds = Some 60\<rparr>"

definition example_source :: run_source where
  "example_source = Source_Slack None ''C1'' (Some ''1.2'') ''E1'' None"

definition example_destinations :: "run_destination list" where
  "example_destinations = [\<lparr>dst_kind = JStr ''source'', dst_route = None\<rparr>]"

definition example_request :: run_request where
  "example_request = \<lparr>rq_prompt = ''fix it'', rq_repository = Some example_repository,
     rq_agent = None, rq_integrations = Some example_integrations,
     rq_execution = Some example_limits, rq_source = Some example_source,
     rq_destinations = Some example_destinations, rq_metadata = None, rq_parentRunId = None\<rparr>"

lemma example_parts:
  "parseRepository example_web None (repository_value example_repository) = Inr example_repository"
  "parseIntegrations (integrations_value example_integrations) = Inr example_integrations"
  "parseExecution (execution_value example_limits) = Inr example_limits"
  "parseSource (source_value example_source) = Inr example_source"
  "parse_destinations example_web (JArr (map destination_value example_destinations)) =
     Inr example_destinations"
  by code_simp+

lemma values_defined:
  "repository_value r \<noteq> JUndef" "integrations_value i \<noteq> JUndef" "execution_value e \<noteq> JUndef"
  "source_value s \<noteq> JUndef"
  by (cases s; simp add: repository_value_def integrations_value_def execution_value_def)+

lemma example_request_parsed:
  "parseRunRequest example_web open_options (request_value example_request) = Inr example_request"
proof -
  have "requiredString (JStr ''fix it'') l 100000 = Inr ''fix it''" for l
    by (simp add: requiredString_Inr utf8_length_def)
  moreover have "js_trim ''fix it'' = ''fix it''"
    by code_simp
  ultimately show ?thesis
    unfolding example_request_def request_value_def
    by (simp add: parseRunRequest_def requiredRecord_def known_fields image_Un optional_def
        example_parts open_options_def values_defined)
qed

lemma example_web_ok: "url_parser_ok example_web"
  by (auto simp: url_parser_ok_def example_web_def starts_with_def)

section \<open>Properties\<close>

text \<open>
  C25. What the service accepts and stores, the worker accepts again and reads as the same
  request: parsing the stored form of a parsed request returns it unchanged, provided the
  normalised repository URL is still within the limit of 2048 bytes.
\<close>
theorem parsed_request_parses_again:
  assumes "parseRunRequest wp options v = Inr r" "url_parser_ok wp"
    and "\<And>repo. rq_repository r = Some repo \<Longrightarrow> utf8_length (repo_url repo) \<le> 2048"
  shows "parseRunRequest wp options (request_value r) = Inr r"
proof -
  from assms(1) obtain fs prompt a1 a2 a3 a4 a5 a6 a7 a8 where
    p: "requiredString (get_prop fs ''prompt'') ''prompt'' 100000 = Inr prompt" "js_trim prompt \<noteq> []"
    and repo: "optional fs ''repository'' (parseRepository wp (allowedRepositoryHosts options)) = Inr a1"
    and f: "optional fs ''agent'' (parseAgent wp (allowedSandboxModes options)) = Inr a2"
    "optional fs ''integrations'' parseIntegrations = Inr a3"
    "optional fs ''execution'' parseExecution = Inr a4"
    "optional fs ''source'' parseSource = Inr a5"
    "optional fs ''destinations'' (parse_destinations wp) = Inr a6"
    "optional fs ''metadata'' (json_record wp ''metadata'' 32000) = Inr a7"
    "optional fs ''parentRunId'' (\<lambda>x. requiredString x ''parentRunId'' 128) = Inr a8"
    and r: "r = \<lparr>rq_prompt = prompt, rq_repository = a1, rq_agent = a2, rq_integrations = a3,
       rq_execution = a4, rq_source = a5, rq_destinations = a6, rq_metadata = a7,
       rq_parentRunId = a8\<rparr>"
    unfolding parseRunRequest_def bindE_Inr require_Inr by blast
  note again = f(1) [THEN optional_again, OF reparses_agent]
    f(2) [THEN optional_again, OF reparses_integrations]
    f(3) [THEN optional_again, OF reparses_execution]
    f(4) [THEN optional_again, OF reparses_source]
    f(5) [THEN optional_again, OF reparses_destinations]
    f(6) [THEN optional_again, OF reparses_json]
    f(7) [THEN optional_again, OF reparses_required]
  have repo': "optional fs' ''repository'' (parseRepository wp (allowedRepositoryHosts options)) = Inr a1"
    if "get_prop fs' ''repository'' = (if a1 \<noteq> None then repository_value (the a1) else JUndef)" for fs'
  proof (rule optional_again_if [OF repo, where enc = repository_value])
    fix v a assume "a1 = Some a" "parseRepository wp (allowedRepositoryHosts options) v = Inr a"
    then show "parseRepository wp (allowedRepositoryHosts options) (repository_value a) = Inr a \<and>
        repository_value a \<noteq> JUndef"
      using parseRepository_again assms(2,3) r by (simp add: repository_value_def)
  qed (rule that)
  from p have "requiredString (JStr prompt) ''prompt'' 100000 = Inr prompt"
    by (auto simp: requiredString_Inr)
  with p(2) show ?thesis
    by (simp add: parseRunRequest_def request_value_def requiredRecord_def known_fields image_Un
        r again repo')
qed

text \<open>Witness: the example request, stored and parsed again.\<close>
theorem parsed_request_parses_again_witness:
  "parseRunRequest example_web open_options (request_value example_request) = Inr example_request"
  by (rule parsed_request_parses_again [OF example_request_parsed example_web_ok])
    (simp add: example_request_def example_repository_def le_trans [OF utf8_length_le])

text \<open>
  What an accepted request can contain, however it was written: a prompt that is not blank,
  a time limit within the deployment's bounds, at most 8 destinations of a known kind, and
  connections that are distinct, never allow and deny one operation, and name the operations
  they need.
\<close>

definition connection_ok :: "connection_access_request \<Rightarrow> bool" where
  "connection_ok c \<longleftrightarrow> identifier_pattern (car_connection c) \<and>
     (\<forall>ops op. car_allowOperations c = Some ops \<longrightarrow> op \<in> set ops \<longrightarrow> operation_pattern op \<and>
        (\<forall>denied. car_denyOperations c = Some denied \<longrightarrow> op \<notin> set denied)) \<and>
     (car_preset c = Some Custom_Access \<longrightarrow> (\<exists>op ops. car_allowOperations c = Some (op # ops)))"

definition integrations_ok :: "integration_access_request \<Rightarrow> bool" where
  "integrations_ok i \<longleftrightarrow> (\<forall>cs. iar_connections i = Some cs \<longrightarrow> length cs \<le> 32 \<and>
       distinct (map car_connection cs) \<and> list_all connection_ok cs) \<and>
     (iar_connectionSet i \<noteq> None \<or> (\<exists>c cs. iar_connections i = Some (c # cs)))"

definition request_ok :: "web_platform \<Rightarrow> run_request \<Rightarrow> bool" where
  "request_ok wp r \<longleftrightarrow> js_trim (rq_prompt r) \<noteq> [] \<and> utf8_length (rq_prompt r) \<le> 100000 \<and>
     (\<forall>e i. rq_execution r = Some e \<longrightarrow> ei_timeoutSeconds e = Some i \<longrightarrow> 30 \<le> i \<and> i \<le> 28000) \<and>
     (\<forall>ds. rq_destinations r = Some ds \<longrightarrow> length ds \<le> 8 \<and>
        (\<forall>d \<in> set ds. \<exists>k \<in> set destination_words. to_string wp (dst_kind d) = Inr k)) \<and>
     (\<forall>i. rq_integrations r = Some i \<longrightarrow> integrations_ok i)"

lemma first_duplicate_None: "first_duplicate seen xs = None \<longleftrightarrow> distinct xs \<and> set xs \<inter> set seen = {}"
  by (induction seen xs rule: first_duplicate.induct) auto

lemma optional_Some: "optional fs k f = Inr (Some a) \<Longrightarrow> \<exists>v. f v = Inr a"
  by (auto simp: optional_def Let_def bindE_Inr split: if_splits)

lemma no_overlap_Inr:
  "no_overlap allow deny = Inr u \<Longrightarrow> allow = Some ops \<Longrightarrow> deny = Some denied \<Longrightarrow> op \<in> set ops \<Longrightarrow>
   op \<notin> set denied"
  by (auto simp: no_overlap_def find_None_iff split: option.splits)

lemma operationList_patterns: "operationList v l = Inr ops \<Longrightarrow> op \<in> set ops \<Longrightarrow> operation_pattern op"
  unfolding operationList_def operation_item_def
  by (auto simp: bindE_Inr dest!: map_items_elem split: jsval.splits if_splits)

lemma safeIdentifier_pattern: "safeIdentifier v l = Inr s \<Longrightarrow> identifier_pattern s"
  by (auto simp: safeIdentifier_def bindE_Inr split: if_splits)

lemma parse_connection_ok:
  assumes "parse_connection v label = Inr c"
  shows "connection_ok c"
proof -
  from assms obtain fs a1 a2 a3 a4 u where
    con: "safeIdentifier (get_prop fs ''connection'') (label @ ''.connection'') = Inr a1"
    and allow: "optional fs ''allowOperations''
      (\<lambda>x. operationList x (label @ ''.allowOperations'')) = Inr a3"
    and overlap: "no_overlap a3 a4 = Inr u"
    and ok: "\<not> (a2 = Some Custom_Access \<and> (a3 = None \<or> a3 = Some []))"
    and c: "c = \<lparr>car_connection = a1, car_preset = a2, car_allowOperations = a3,
       car_denyOperations = a4\<rparr>"
    unfolding parse_connection_def bindE_Inr require_Inr by blast
  have "operation_pattern op" if "a3 = Some ops" "op \<in> set ops" for ops op
    using allow that by (auto dest!: optional_Some operationList_patterns)
  moreover have "\<exists>op ops. a3 = Some (op # ops)" if "a2 = Some Custom_Access"
    using ok that by (cases a3) (auto simp: neq_Nil_conv)
  ultimately show ?thesis
    using safeIdentifier_pattern [OF con] no_overlap_Inr [OF overlap]
    by (simp add: connection_ok_def c)
qed

lemma parseIntegrations_ok:
  assumes "parseIntegrations v = Inr i"
  shows "integrations_ok i"
proof -
  from assms obtain fs a1 a2 where
    cons: "optional fs ''connections'' parse_connections = Inr a2"
    and ok: "truthy a1 \<or> (a2 \<noteq> None \<and> a2 \<noteq> Some [])"
    and i: "i = \<lparr>iar_connectionSet = a1, iar_connections = a2\<rparr>"
    unfolding parseIntegrations_def bindE_Inr require_Inr by blast
  have "length cs \<le> 32 \<and> distinct (map car_connection cs) \<and> list_all connection_ok cs"
    if "a2 = Some cs" for cs
  proof -
    from cons that obtain w where "parse_connections w = Inr cs" by (auto dest: optional_Some)
    then show ?thesis
      unfolding parse_connections_def list_all_iff
      by (auto simp: bindE_Inr no_duplicate_Inr first_duplicate_None
          dest: map_items_length map_items_elem parse_connection_ok split: jsval.splits if_splits)
  qed
  moreover have "a1 \<noteq> None \<or> (\<exists>c cs. a2 = Some (c # cs))"
    using ok by (cases a2) (auto simp: truthy_def neq_Nil_conv)
  ultimately show ?thesis by (simp add: integrations_ok_def i)
qed

lemma timeout_bounds: "parseExecution v = Inr e \<Longrightarrow> ei_timeoutSeconds e = Some i \<Longrightarrow> 30 \<le> i \<and> i \<le> 28000"
  unfolding parseExecution_def bindE_Inr
  by (auto simp: timeout_seconds_def dest!: optional_Some split: option.splits if_splits)

lemma parse_destinations_ok:
  assumes "parse_destinations wp v = Inr ds"
  shows "length ds \<le> 8 \<and>
     (\<forall>d \<in> set ds. \<exists>k \<in> set destination_words. to_string wp (dst_kind d) = Inr k)"
proof -
  from assms obtain xs where "length xs \<le> 8"
    and items: "map_items (parse_destination wp) ''destinations'' xs = Inr ds"
    by (auto simp: parse_destinations_def not_less split: jsval.splits if_splits)
  moreover have "\<exists>k \<in> set destination_words. to_string wp (dst_kind d) = Inr k" if "d \<in> set ds" for d
    using map_items_elem [OF items that]
    by (auto simp: parse_destination_def bindE_Inr one_of_text_Inr)
  ultimately show ?thesis using map_items_length [OF items] by simp
qed

text \<open>
  Every request the parser accepts is within its limits, whatever value it was parsed
  from.
\<close>
theorem parsed_request_ok:
  assumes "parseRunRequest wp options v = Inr r"
  shows "request_ok wp r"
proof -
  from assms obtain fs prompt a1 a2 a3 a4 a5 a6 a7 a8 where
    p: "requiredString (get_prop fs ''prompt'') ''prompt'' 100000 = Inr prompt" "js_trim prompt \<noteq> []"
    and f: "optional fs ''integrations'' parseIntegrations = Inr a3"
    "optional fs ''execution'' parseExecution = Inr a4"
    "optional fs ''destinations'' (parse_destinations wp) = Inr a6"
    and r: "r = \<lparr>rq_prompt = prompt, rq_repository = a1, rq_agent = a2, rq_integrations = a3,
       rq_execution = a4, rq_source = a5, rq_destinations = a6, rq_metadata = a7,
       rq_parentRunId = a8\<rparr>"
    unfolding parseRunRequest_def bindE_Inr require_Inr by blast
  from p f show ?thesis
    unfolding request_ok_def r
    by (auto simp: requiredString_Inr dest!: optional_Some parseIntegrations_ok timeout_bounds
        parse_destinations_ok)
qed

text \<open>Witness: the example request.\<close>
theorem parsed_request_ok_witness: "request_ok example_web example_request"
  by (rule parsed_request_ok [OF example_request_parsed])

text \<open>
  A repository the service lets a worker clone is an HTTPS address without credentials,
  query or fragment, on an allowed host, and its refs cannot escape the ref namespace.
\<close>
theorem parsed_repository_safe:
  assumes "parseRepository wp hosts v = Inr r"
  shows "(\<exists>raw u. parse_url wp raw = Some u \<and> repo_url r = u_href u \<and> u_protocol u = ''https:'' \<and>
      u_username u = [] \<and> u_password u = [] \<and> u_search u = [] \<and> u_hash u = [] \<and>
      js_lower (u_hostname u) \<in> js_lower ` set (case hosts of
        None \<Rightarrow> [''github.com'', ''gitlab.com''] | Some hs \<Rightarrow> hs)) \<and>
    (\<forall>ref. repo_ref r = Some ref \<or> repo_baseRef r = Some ref \<longrightarrow>
      REF_PATTERN ref \<and> \<not> includes_text ref ''..'')"
proof -
  from assms obtain fs a1 a2 a3 a4 a5 a6 where
    url: "repository_url wp hosts (get_prop fs ''url'') = Inr a2"
    and f: "optional fs ''ref'' (safe_ref ''repository.ref'') = Inr a3"
    "optional fs ''baseRef'' (safe_ref ''repository.baseRef'') = Inr a4"
    and r: "r = \<lparr>repo_provider = a1, repo_url = a2, repo_ref = a3, repo_baseRef = a4,
       repo_installationId = a5, repo_credentialSecretArn = a6\<rparr>"
    unfolding parseRepository_def bindE_Inr by blast
  from url obtain raw u where u: "parse_url wp raw = Some u" "a2 = u_href u"
    "u_protocol u = ''https:''" "u_username u = []" "u_password u = []" "u_search u = []"
    "u_hash u = []" "js_lower (u_hostname u) \<in> js_lower ` set (case hosts of
        None \<Rightarrow> [''github.com'', ''gitlab.com''] | Some hs \<Rightarrow> hs)"
    unfolding repository_url_def by (auto simp: bindE_Inr split: option.splits if_splits)
  have "REF_PATTERN ref \<and> \<not> includes_text ref ''..''" if "a3 = Some ref \<or> a4 = Some ref" for ref
    using f that by (auto simp: safe_ref_Inr dest!: optional_Some)
  with u show ?thesis by (auto simp: r)
qed

text \<open>Witness: the example repository.\<close>
theorem parsed_repository_safe_witness: "\<not> includes_text ''main'' ''..''"
proof -
  have "parseRepository example_web None (repository_value example_repository) = Inr example_repository"
    by (rule example_parts(1))
  from parsed_repository_safe [OF this] show ?thesis by (simp add: example_repository_def)
qed

text \<open>
  A field the request format does not have is refused, with an error that names it.
\<close>
theorem unknown_field_refused:
  assumes "k \<in> fst ` set fs" "k \<notin> {''version'', ''prompt'', ''repository'', ''agent'',
    ''integrations'', ''execution'', ''source'', ''destinations'', ''metadata'', ''parentRunId''}"
  shows "\<exists>k' \<in> fst ` set fs. parseRunRequest wp options (JObj fs) =
    Inl (Validation_Error (''unknown field: '' @ k'))"
proof -
  let ?allowed = "[''version'', ''prompt'', ''repository'', ''agent'',
    ''integrations'', ''execution'', ''source'', ''destinations'', ''metadata'', ''parentRunId'']"
  from assms have "filter (\<lambda>k. k \<notin> set ?allowed) (map fst fs) \<noteq> []"
    by (auto simp: filter_empty_conv)
  then obtain k' ks where ks: "filter (\<lambda>k. k \<notin> set ?allowed) (map fst fs) = k' # ks"
    by (auto simp: neq_Nil_conv)
  then have "k' \<in> set (filter (\<lambda>k. k \<notin> set ?allowed) (map fst fs))" by simp
  then have "k' \<in> fst ` set fs" by auto
  with ks show ?thesis
    by (intro bexI [of _ k'])
      (simp_all add: parseRunRequest_def requiredRecord_def rejectUnknown_def invalid_def del: set_simps)
qed

text \<open>Witness: a request with a field \<open>shell\<close>.\<close>
theorem unknown_field_refused_witness:
  "parseRunRequest example_web open_options (JObj [(''shell'', JNull)]) =
     Inl (Validation_Error ''unknown field: shell'')"
  using unknown_field_refused [of "''shell''" "[(''shell'', JNull)]" example_web open_options]
  by simp

text \<open>
  The fields checked through their text accept an array that holds one of the words: such
  a repository is stored with an array where the contract has a provider's name.
\<close>
theorem provider_array_accepted:
  "parseRepository example_web None
     (JObj [(''provider'', JArr [JStr ''github'']), (''url'', JStr ''https://github.com/o/r'')]) =
   Inr \<lparr>repo_provider = JArr [JStr ''github''], repo_url = ''https://github.com/o/r'',
     repo_ref = None, repo_baseRef = None, repo_installationId = None,
     repo_credentialSecretArn = None\<rparr>"
  by code_simp

end
