(* ===== verification/Run_Execution.thy ===== *)
theory Run_Execution
  imports Run_Port
begin

text \<open>
  Starting, watching and retiring the execution of a Run: the dispatcher and its planning
  (\<open>src/execution/dispatcher.ts\<close>, \<open>dispatch-planning.ts\<close>), the registry of executors
  (\<open>registry.ts\<close>), the reconciler and its planning (\<open>reconciler.ts\<close>,
  \<open>reconciliation-planning.ts\<close>), the retirement of leaked workers
  (\<open>terminal-worker-reconciler.ts\<close>) and the worker's heartbeat (\<open>src/runner/heartbeat.ts\<close>).

  The executors, the inspector of their machines and the artifact store are ports: records of
  operations on the world. \<open>Date.parse\<close> is \<open>None\<close> where the code gets \<open>NaN\<close>.
\<close>

section \<open>Ports\<close>

record 'w executor =
  xr_start :: "run_record \<Rightarrow> run_request \<Rightarrow> string \<Rightarrow> ('w, error, execution_ref) io"
  xr_stop :: "string \<Rightarrow> string \<Rightarrow> ('w, error, unit) io"

type_synonym 'w registry = "backend \<Rightarrow> 'w executor option"

definition backend_text :: "backend \<Rightarrow> string" where
  "backend_text b = (case b of Microvm \<Rightarrow> ''microvm'' | Ec2 \<Rightarrow> ''ec2'')"

fun add_executors :: "(backend \<times> 'w executor) list \<Rightarrow> 'w registry \<Rightarrow> error + 'w registry" where
  "add_executors [] reg = Inr reg"
| "add_executors ((b, x) # xs) reg =
     (if reg b \<noteq> None then Inl (Plain_Error (''duplicate execution backend '' @ backend_text b))
      else add_executors xs (reg(b \<mapsto> x)))"

definition new_registry :: "(backend \<times> 'w executor) list \<Rightarrow> error + 'w registry" where
  "new_registry xs = add_executors xs Map.empty"

definition registry_get :: "'w registry \<Rightarrow> backend \<Rightarrow> error + 'w executor" where
  "registry_get reg b = (case reg b of
       Some x \<Rightarrow> Inr x
     | None \<Rightarrow> Inl (Plain_Error (''execution backend '' @ backend_text b @ '' is not enabled'')))"

definition registry_stop :: "'w registry \<Rightarrow> execution_ref \<Rightarrow> string \<Rightarrow> ('w, error, unit) io" where
  "registry_stop reg execution reason =
     bind_io (lift_io (registry_get reg (ex_backend execution))) (\<lambda>x.
       xr_stop x (ex_id execution) reason)"

section \<open>Dispatch\<close>

definition unattached :: "run_record \<Rightarrow> bool" where
  "unattached r = (case rr_execution r of None \<Rightarrow> True | Some e \<Rightarrow> ex_id e = ''pending'')"

definition isDispatchable :: "run_record \<Rightarrow> bool" where
  "isDispatchable r \<longleftrightarrow> rr_status r = Queued \<or>
     (rr_status r = Dispatching \<and> unattached r) \<or> (rr_status r = Running \<and> unattached r)"

definition dispatchAdmission :: "run_record option \<Rightarrow> (run_record \<times> artifact_ref) option" where
  "dispatchAdmission run = (case run of
       None \<Rightarrow> None
     | Some r \<Rightarrow> if isRetiredRun r \<or> \<not> isDispatchable r then None else Some (r, rr_input r))"

definition safeMessage :: "error \<Rightarrow> string" where
  "safeMessage err = take 1000 (error_message err)"

definition retryableStartError :: "error \<Rightarrow> bool" where
  "retryableStartError err \<longleftrightarrow>
     (let name = error_name err; message = js_lower (safeMessage err) in
      name \<in> {''ThrottlingException'', ''ServiceUnavailableException'', ''TooManyRequestsException''} \<or>
      (includes_text message ''deserialization error'' \<and>
       includes_text message ''is not valid json'') \<or>
      (case error_http_status err of None \<Rightarrow> False | Some status \<Rightarrow> status = 429 \<or> status \<ge> 500) \<or>
      (name = ''ConflictException'' \<and> includes_text message ''creation in progress'' \<and>
       includes_text message ''clienttoken''))"

text \<open>\<open>None\<close> is a failure the delivery is retried for.\<close>

definition executorStartFailure :: "error \<Rightarrow> run_error option" where
  "executorStartFailure err = (if retryableStartError err then None
     else Some \<lparr>err_code = ''executor_start_failed'', err_message = safeMessage err,
       err_retryable = False\<rparr>)"

definition identity_mismatch :: run_error where
  "identity_mismatch = \<lparr>err_code = ''executor_identity_mismatch'',
     err_message = ''executor returned an invalid execution identity'', err_retryable = False\<rparr>"

definition run_generation :: "platform \<Rightarrow> run_record \<Rightarrow> string" where
  "run_generation p r = (case rr_execution r of
       None \<Rightarrow> executionGeneration p r
     | Some e \<Rightarrow> (case ex_generation e of None \<Rightarrow> executionGeneration p r | Some g \<Rightarrow> g))"

definition chosen_backend :: "run_request \<Rightarrow> backend \<Rightarrow> backend" where
  "chosen_backend request fallback = (case rq_execution request of
       None \<Rightarrow> fallback
     | Some e \<Rightarrow> (case ei_backend e of None \<Rightarrow> fallback | Some b \<Rightarrow> b))"

text \<open>
  Claiming a queued Run: \<open>None\<close> means another delivery has it. A Run that is already
  dispatching is taken as it was read.
\<close>

definition claim_run ::
  "'w run_store \<Rightarrow> run_record \<Rightarrow> backend \<Rightarrow> string \<Rightarrow> ('w, error, run_record option) io" where
  "claim_run st current backend generation =
     (if rr_status current = Queued then
        try_io (st_transition st (rr_runId current) [Queued] Dispatching
            (no_patch\<lparr>p_execution := Some \<lparr>ex_backend = backend, ex_id = ''pending'',
               ex_generation = Some generation, ex_startedAt = None\<rparr>\<rparr>))
          (\<lambda>r. ret (Some r))
          (\<lambda>err. case err of
             Invalid_Transition _ _ \<Rightarrow>
               bind_io (st_get st (rr_runId current)) (\<lambda>latest.
                 case latest of
                   None \<Rightarrow> throw err
                 | Some l \<Rightarrow> if rr_status l \<noteq> Queued then ret None else throw err)
           | _ \<Rightarrow> throw err)
      else ret (Some current))"

definition attach_started ::
  "'w run_store \<Rightarrow> 'w executor \<Rightarrow> string \<Rightarrow> execution_ref \<Rightarrow> ('w, error, unit) io" where
  "attach_started st executor runId execution =
     try_io (st_attachExecution st runId execution)
       (\<lambda>_. ret ())
       (\<lambda>err. bind_io (xr_stop executor (ex_id execution)
           ''run was cancelled while the executor was starting'') (\<lambda>_.
         case err of
           Invalid_Transition _ _ \<Rightarrow>
             bind_io (st_get st runId) (\<lambda>latest.
               case latest of
                 None \<Rightarrow> throw err
               | Some l \<Rightarrow>
                   if rr_status l = Cancelling
                   then bind_io (st_transition st runId [Cancelling] Cancelled no_patch) (\<lambda>_. ret ())
                   else throw err)
         | _ \<Rightarrow> throw err))"

definition start_claimed ::
  "'w run_store \<Rightarrow> 'w executor \<Rightarrow> string \<Rightarrow> run_record \<Rightarrow> run_request \<Rightarrow> string \<Rightarrow> string
     \<Rightarrow> ('w, error, unit) io" where
  "start_claimed st executor runId dispatching request traceId generation =
     try_io (xr_start executor dispatching request traceId)
       (\<lambda>execution.
          if ex_generation execution \<noteq> Some generation
          then bind_io (xr_stop executor (ex_id execution)
                 ''executor returned the wrong execution generation'') (\<lambda>_.
               bind_io (st_fail st runId identity_mismatch [Dispatching]) (\<lambda>_. ret ()))
          else attach_started st executor runId execution)
       (\<lambda>err. case executorStartFailure err of
          None \<Rightarrow> throw err
        | Some failure \<Rightarrow> bind_io (st_fail st runId failure [Dispatching]) (\<lambda>_. ret ()))"

definition dispatch_run ::
  "platform \<Rightarrow> 'w run_store \<Rightarrow> (artifact_ref \<Rightarrow> ('w, error, run_request) io) \<Rightarrow> 'w registry \<Rightarrow> backend
     \<Rightarrow> string \<Rightarrow> run_record \<Rightarrow> artifact_ref \<Rightarrow> ('w, error, unit) io" where
  "dispatch_run p st getJson executors defaultBackend traceId current input =
     bind_io (getJson input) (\<lambda>request.
     bind_io (lift_io (registry_get executors (chosen_backend request defaultBackend))) (\<lambda>executor.
     bind_io (claim_run st current (chosen_backend request defaultBackend)
         (run_generation p current)) (\<lambda>claimed.
       case claimed of
         None \<Rightarrow> ret ()
       | Some dispatching \<Rightarrow>
           start_claimed st executor (rr_runId current) dispatching request traceId
             (run_generation p current))))"

definition dispatch ::
  "platform \<Rightarrow> 'w run_store \<Rightarrow> (artifact_ref \<Rightarrow> ('w, error, run_request) io) \<Rightarrow> 'w registry \<Rightarrow> backend
     \<Rightarrow> queue_message \<Rightarrow> ('w, error, unit) io" where
  "dispatch p st getJson executors defaultBackend message =
     bind_io (st_get st (qm_runId message)) (\<lambda>run.
       case dispatchAdmission run of
         None \<Rightarrow> ret ()
       | Some (current, input) \<Rightarrow>
           dispatch_run p st getJson executors defaultBackend (qm_traceId message) current input)"

section \<open>Reconciliation\<close>

datatype inspection =
    Active (in_lastResumedAt: "string option")
  | Suspended
  | Inactive string
  | Terminal string
  | Absent string
  | Conflict string
  | Unknown string

datatype outcome =
    Outcome_Active | Outcome_Suspended | Outcome_Failed | Outcome_Cancelled | Stop_Requested
  | Heartbeat_Expired | Deferred | Quarantined | Raced | Legacy

datatype reconciliation_target = Skip outcome | Inspect_Target execution_ref string

datatype liveness_decision =
    Observe_Active | Observe_Suspended | Observe_Conflict nat string | Observe_Unknown nat string

datatype decision =
    Observe liveness_decision | Decide_Cancel | Decide_Stop string | Decide_Fail run_error
  | Decide_Expire run_error

definition boundedReason :: "string \<Rightarrow> string" where
  "boundedReason v = take 1000 (collapse_newlines False v)"

definition reconciliationTarget :: "platform \<Rightarrow> run_record \<Rightarrow> reconciliation_target" where
  "reconciliationTarget p run = (case (rr_execution run, rr_heartbeatAt run) of
       (Some execution, Some heartbeatAt) \<Rightarrow>
         if ex_id execution = ''pending'' \<or> \<not> truthy (ex_generation execution) \<or> heartbeatAt = []
         then Skip Legacy
         else if date_parse p heartbeatAt = None then Skip Quarantined
         else if rr_status run \<notin> {Dispatching, Running, Cancelling} then Skip Raced
         else Inspect_Target execution heartbeatAt
     | _ \<Rightarrow> Skip Legacy)"

definition prior_uncertain :: "run_record \<Rightarrow> liveness_outcome \<Rightarrow> nat" where
  "prior_uncertain run seen = (case rr_liveness run of
       None \<Rightarrow> 0 | Some obs \<Rightarrow> if lo_outcome obs = seen then lo_consecutiveUncertain obs else 0)"

definition execution_lost :: "string \<Rightarrow> run_error" where
  "execution_lost message =
     \<lparr>err_code = ''execution_lost'', err_message = message, err_retryable = True\<rparr>"

text \<open>An age of \<open>None\<close> is \<open>NaN\<close>: it is not at least one hour.\<close>

definition reconciliationDecision :: "run_record \<Rightarrow> inspection \<Rightarrow> int option \<Rightarrow> decision" where
  "reconciliationDecision run seen heartbeatAgeMs = (case seen of
       Conflict reason \<Rightarrow> Observe (Observe_Conflict (prior_uncertain run Conflict_Seen + 1) reason)
     | Unknown reason \<Rightarrow> Observe (Observe_Unknown (prior_uncertain run Unknown_Seen + 1) reason)
     | _ \<Rightarrow>
         if rr_status run = Cancelling
         then (case seen of
                 Terminal _ \<Rightarrow> Decide_Cancel
               | Absent _ \<Rightarrow> Decide_Cancel
               | _ \<Rightarrow> Decide_Stop ''reconciler finalized a stale cancellation'')
         else (case seen of
                 Suspended \<Rightarrow> Observe Observe_Suspended
               | Active _ \<Rightarrow>
                   if (case heartbeatAgeMs of None \<Rightarrow> False | Some age \<Rightarrow> age \<ge> 3600000)
                   then Decide_Expire (execution_lost ''Worker keep-alives stopped for one hour'')
                   else Observe Observe_Active
               | Inactive reason \<Rightarrow> Decide_Fail (execution_lost (boundedReason reason))
               | Terminal reason \<Rightarrow> Decide_Fail (execution_lost (boundedReason reason))
               | Absent reason \<Rightarrow> Decide_Fail (execution_lost (boundedReason reason))))"

definition uncertain_observation ::
  "liveness_outcome \<Rightarrow> nat \<Rightarrow> string \<Rightarrow> string \<Rightarrow> int option \<Rightarrow> liveness_observation" where
  "uncertain_observation seen n reason checkedAt quarantineAfter =
     \<lparr>lo_checkedAt = checkedAt, lo_outcome = seen, lo_consecutiveUncertain = n,
      lo_reason = Some (boundedReason reason),
      lo_quarantinedAt =
        (if int n \<ge> max 1 (case quarantineAfter of None \<Rightarrow> 3 | Some q \<Rightarrow> q)
         then Some checkedAt else None)\<rparr>"

fun livenessObservation ::
  "liveness_decision \<Rightarrow> string \<Rightarrow> int option \<Rightarrow> liveness_observation" where
  "livenessObservation Observe_Active checkedAt q = \<lparr>lo_checkedAt = checkedAt,
     lo_outcome = Active_Seen, lo_consecutiveUncertain = 0, lo_reason = None,
     lo_quarantinedAt = None\<rparr>"
| "livenessObservation Observe_Suspended checkedAt q = \<lparr>lo_checkedAt = checkedAt,
     lo_outcome = Suspended_Seen, lo_consecutiveUncertain = 0, lo_reason = None,
     lo_quarantinedAt = None\<rparr>"
| "livenessObservation (Observe_Conflict n reason) checkedAt q =
     uncertain_observation Conflict_Seen n reason checkedAt q"
| "livenessObservation (Observe_Unknown n reason) checkedAt q =
     uncertain_observation Unknown_Seen n reason checkedAt q"

definition executionHeartbeatAge :: "platform \<Rightarrow> string \<Rightarrow> inspection \<Rightarrow> string \<Rightarrow> int option" where
  "executionHeartbeatAge p heartbeatAt seen checkedAt =
     (let checked = date_parse p checkedAt;
          resumed = (case seen of
              Active (Some time) \<Rightarrow> if time = [] then None else date_parse p time
            | _ \<Rightarrow> None);
          beat = date_parse p heartbeatAt
      in case (checked, beat) of
           (Some c, Some b) \<Rightarrow>
             Some (max 0 (c - (case resumed of
               Some r \<Rightarrow> if r \<le> c then max b r else b | None \<Rightarrow> b)))
         | _ \<Rightarrow> None)"

record 'w reconciler =
  rc_store :: "'w reconciliation_store"
  rc_inspect :: "string \<Rightarrow> execution_ref \<Rightarrow> ('w, error, inspection) io"
  rc_stop :: "execution_ref \<Rightarrow> string \<Rightarrow> ('w, error, unit) io"
  rc_now :: "('w, error, string) io"
  rc_quarantineAfter :: "int option"

definition observed_outcome :: "liveness_observation \<Rightarrow> outcome" where
  "observed_outcome obs = (case lo_outcome obs of
       Active_Seen \<Rightarrow> Outcome_Active
     | Suspended_Seen \<Rightarrow> Outcome_Suspended
     | _ \<Rightarrow> if truthy (lo_quarantinedAt obs) then Quarantined else Deferred)"

definition act_on ::
  "'w reconciler \<Rightarrow> string \<Rightarrow> execution_ref \<Rightarrow> string \<Rightarrow> string option \<Rightarrow> decision
     \<Rightarrow> ('w, error, outcome) io" where
  "act_on rc runId execution heartbeatAt checkedAt d = (case d of
       Observe l \<Rightarrow>
         bind_io (case checkedAt of Some time \<Rightarrow> ret time | None \<Rightarrow> rc_now rc) (\<lambda>time.
           let obs = livenessObservation l time (rc_quarantineAfter rc) in
           bind_io (rs_recordLivenessInspection (rc_store rc) runId execution heartbeatAt obs)
             (\<lambda>retained. ret (if \<not> retained then Raced else observed_outcome obs)))
     | Decide_Cancel \<Rightarrow>
         bind_io (rs_cancelExecution (rc_store rc) runId execution)
           (\<lambda>ok. ret (if ok then Outcome_Cancelled else Raced))
     | Decide_Stop reason \<Rightarrow>
         bind_io (rc_stop rc execution reason) (\<lambda>_. ret Stop_Requested)
     | Decide_Expire err \<Rightarrow>
         bind_io (rs_failExecution (rc_store rc) runId execution heartbeatAt err) (\<lambda>failed.
           if \<not> failed then ret Raced
           else bind_io (rc_stop rc execution (err_message err)) (\<lambda>_. ret Heartbeat_Expired))
     | Decide_Fail err \<Rightarrow>
         bind_io (rs_failExecution (rc_store rc) runId execution heartbeatAt err)
           (\<lambda>failed. ret (if failed then Outcome_Failed else Raced)))"

definition reconcile :: "platform \<Rightarrow> 'w reconciler \<Rightarrow> run_record \<Rightarrow> ('w, error, outcome) io" where
  "reconcile p rc run = (case reconciliationTarget p run of
       Skip skipped \<Rightarrow> ret skipped
     | Inspect_Target execution heartbeatAt \<Rightarrow>
         bind_io (rc_inspect rc (rr_runId run) execution) (\<lambda>seen.
         bind_io (case seen of
             Active _ \<Rightarrow> if rr_status run \<noteq> Cancelling
               then bind_io (rc_now rc) (\<lambda>time. ret (Some time)) else ret None
           | _ \<Rightarrow> ret None) (\<lambda>checkedAt.
         act_on rc (rr_runId run) execution heartbeatAt checkedAt
           (reconciliationDecision run seen
             (if truthy checkedAt then executionHeartbeatAge p heartbeatAt seen (the checkedAt)
              else Some 0)))))"

section \<open>Leaked workers\<close>

record execution_target =
  et_runId :: string
  et_execution :: execution_ref

definition sameExecution :: "execution_target \<Rightarrow> execution_target \<Rightarrow> bool" where
  "sameExecution left right \<longleftrightarrow> et_runId left = et_runId right \<and>
     ex_backend (et_execution left) = ex_backend (et_execution right) \<and>
     ex_id (et_execution left) = ex_id (et_execution right) \<and>
     truthy (ex_generation (et_execution left)) \<and>
     ex_generation (et_execution left) = ex_generation (et_execution right)"

definition terminalWorkerReady ::
  "platform \<Rightarrow> execution_target \<Rightarrow> run_record option \<Rightarrow> int \<Rightarrow> bool" where
  "terminalWorkerReady p worker run cutoff = (case run of
       None \<Rightarrow> False
     | Some r \<Rightarrow> rr_agentsSession r \<noteq> None \<and>
         (case rr_execution r of None \<Rightarrow> False | Some e \<Rightarrow> isTerminal (rr_status r) \<and>
            ex_backend (et_execution worker) = Ec2 \<and> truthy (ex_generation (et_execution worker)) \<and>
            sameExecution worker \<lparr>et_runId = rr_runId r, et_execution = e\<rparr> \<and>
            (case date_parse p (rr_updatedAt r) of
               None \<Rightarrow> False | Some completedAt \<Rightarrow> completedAt \<le> cutoff)))"

fun retire_workers ::
  "platform \<Rightarrow> (string \<Rightarrow> ('w, error, run_record option) io) \<Rightarrow> (execution_target \<Rightarrow> ('w, error, unit) io)
     \<Rightarrow> int \<Rightarrow> execution_target list \<Rightarrow> nat \<Rightarrow> ('w, error, nat) io" where
  "retire_workers p getRun stop cutoff [] retired = ret retired"
| "retire_workers p getRun stop cutoff (worker # workers) retired =
     bind_io (getRun (et_runId worker)) (\<lambda>run.
       if \<not> terminalWorkerReady p worker run cutoff
       then retire_workers p getRun stop cutoff workers retired
       else bind_io (stop worker) (\<lambda>_. retire_workers p getRun stop cutoff workers (Suc retired)))"

text \<open>A grace period of \<open>None\<close> is one that is not finite.\<close>

definition reconcile_workers ::
  "platform \<Rightarrow> (string \<Rightarrow> ('w, error, run_record option) io) \<Rightarrow> (execution_target \<Rightarrow> ('w, error, unit) io)
     \<Rightarrow> ('w, error, int) io \<Rightarrow> int option \<Rightarrow> execution_target list \<Rightarrow> ('w, error, nat) io" where
  "reconcile_workers p getRun stop clock graceMs workers =
     (case graceMs of
        None \<Rightarrow> throw (Plain_Error ''Invalid retirement grace period'')
      | Some grace \<Rightarrow>
          if grace < 0 then throw (Plain_Error ''Invalid retirement grace period'')
          else bind_io clock (\<lambda>t. retire_workers p getRun stop (t - grace) workers 0))"

section \<open>The worker's heartbeat\<close>

text \<open>
  \<open>ExecutionHeartbeat\<close> as a state machine: its timer, the tick in flight, and how often it has
  told the worker that its authority is lost. A tick is served when its request returns or
  throws; the callbacks are taken not to throw.
\<close>

record heartbeat =
  hb_timer :: bool
  hb_inFlight :: bool
  hb_stopped :: bool
  hb_errors :: nat
  hb_lost :: nat

datatype heartbeat_event = Started | Stopped | Timer_Fired | Served_Tick "error + bool"

definition new_heartbeat :: "int \<Rightarrow> string option \<Rightarrow> int option \<Rightarrow> error + heartbeat" where
  "new_heartbeat intervalMs generation maxErrors =
     (if intervalMs < 10 \<or> intervalMs > 300000 then Inl (Plain_Error ''heartbeat interval is invalid'')
      else if \<not> truthy generation then Inl (Plain_Error ''execution heartbeat requires a generation'')
      else if maxErrors \<noteq> None \<and> the maxErrors < 1
      then Inl (Plain_Error ''heartbeat error limit is invalid'')
      else Inr \<lparr>hb_timer = False, hb_inFlight = False, hb_stopped = False, hb_errors = 0, hb_lost = 0\<rparr>)"

definition hb_schedule :: "heartbeat \<Rightarrow> heartbeat" where
  "hb_schedule s = (if hb_stopped s then s else s\<lparr>hb_timer := True\<rparr>)"

definition lose_authority :: "heartbeat \<Rightarrow> heartbeat" where
  "lose_authority s = s\<lparr>hb_stopped := True, hb_lost := Suc (hb_lost s)\<rparr>"

definition hb_tick :: "int option \<Rightarrow> error + bool \<Rightarrow> heartbeat \<Rightarrow> heartbeat" where
  "hb_tick maxErrors reply s = (case reply of
       Inr retained \<Rightarrow>
         (let s' = s\<lparr>hb_errors := 0\<rparr> in if retained then s' else lose_authority s')
     | Inl _ \<Rightarrow>
         (let s' = s\<lparr>hb_errors := Suc (hb_errors s)\<rparr>
          in if maxErrors \<noteq> None \<and> int (hb_errors s') \<ge> the maxErrors then lose_authority s' else s'))"

fun heartbeat_step :: "int option \<Rightarrow> heartbeat_event \<Rightarrow> heartbeat \<Rightarrow> heartbeat" where
  "heartbeat_step m Started s =
     (if hb_stopped s \<or> hb_timer s \<or> hb_inFlight s then s else hb_schedule s)"
| "heartbeat_step m Stopped s = s\<lparr>hb_stopped := True, hb_timer := False\<rparr>"
| "heartbeat_step m Timer_Fired s =
     (if hb_timer s then s\<lparr>hb_timer := False, hb_inFlight := True\<rparr> else s)"
| "heartbeat_step m (Served_Tick reply) s =
     (if hb_inFlight s then hb_schedule ((hb_tick m reply s)\<lparr>hb_inFlight := False\<rparr>) else s)"

definition heartbeat_run :: "int option \<Rightarrow> heartbeat_event list \<Rightarrow> heartbeat \<Rightarrow> heartbeat" where
  "heartbeat_run m = fold (heartbeat_step m)"

section \<open>A world with executors\<close>

text \<open>
  Executors that answer whatever a script says, and a log of every call they receive. A script
  that has run out answers with a network error.
\<close>

datatype call = Start_Call backend string string | Stop_Call backend string string

record exec_world = world +
  start_answers :: "(error + execution_ref) list"
  stop_answers :: "(error + unit) list"
  inspect_answers :: "(error + inspection) list"
  calls :: "call list"

definition scripted_start ::
  "backend \<Rightarrow> run_record \<Rightarrow> run_request \<Rightarrow> string \<Rightarrow> ('x exec_world_scheme, error, execution_ref) io" where
  "scripted_start b r request traceId w =
     (let w' = w\<lparr>start_answers := tl (start_answers w),
            calls := calls w @ [Start_Call b (rr_runId r) traceId]\<rparr>
      in (w', case start_answers w of [] \<Rightarrow> Inl network_error | a # _ \<Rightarrow> a))"

definition scripted_stop ::
  "backend \<Rightarrow> string \<Rightarrow> string \<Rightarrow> ('x exec_world_scheme, error, unit) io" where
  "scripted_stop b i reason w =
     (let w' = w\<lparr>stop_answers := tl (stop_answers w), calls := calls w @ [Stop_Call b i reason]\<rparr>
      in (w', case stop_answers w of [] \<Rightarrow> Inl network_error | a # _ \<Rightarrow> a))"

definition scripted_inspect ::
  "string \<Rightarrow> execution_ref \<Rightarrow> ('x exec_world_scheme, error, inspection) io" where
  "scripted_inspect runId e w =
     (w\<lparr>inspect_answers := tl (inspect_answers w)\<rparr>,
      case inspect_answers w of [] \<Rightarrow> Inl network_error | a # _ \<Rightarrow> a)"

definition scripted_registry :: "'x exec_world_scheme registry" where
  "scripted_registry = (\<lambda>b. Some \<lparr>xr_start = scripted_start b, xr_stop = scripted_stop b\<rparr>)"

definition world_time :: "platform \<Rightarrow> ('x world_scheme, error, string) io" where
  "world_time p w = (w, Inr (iso p (now w)))"

definition scripted_reconciler :: "platform \<Rightarrow> int option \<Rightarrow> 'x exec_world_scheme reconciler" where
  "scripted_reconciler p q = \<lparr>rc_store = dynamo_reconciliation_store p,
     rc_inspect = scripted_inspect, rc_stop = registry_stop scripted_registry,
     rc_now = world_time p, rc_quarantineAfter = q\<rparr>"

section \<open>Dispatch keeps the promise of the table\<close>

locale execution_port = run_store_port I G st
  for I :: "'w \<Rightarrow> bool" and G :: "'w \<Rightarrow> 'w \<Rightarrow> bool" and st :: "'w run_store" +
  fixes executors :: "'w registry" and getJson :: "artifact_ref \<Rightarrow> ('w, error, run_request) io"
  assumes start_ok: "executors b = Some x \<Longrightarrow> guarantees I G (xr_start x r q t)"
    and stop_ok: "executors b = Some x \<Longrightarrow> guarantees I G (xr_stop x i reason)"
    and json_ok: "guarantees I G (getJson a)"
begin

lemma attach_started_ok:
  assumes x: "executors b = Some x" and e: "truthy (ex_generation e)"
  shows "guarantees I G (attach_started st x k e)"
proof -
  have cancelled: "lawful_patch [Cancelling] (no_patch\<lparr>p_status := Some Cancelled\<rparr>)"
    by (simp add: lawful_patch_def no_patch_def canTransition_def)
  have "guarantees I G (case err of
      Invalid_Transition _ _ \<Rightarrow> bind_io (st_get st k) (\<lambda>latest. case latest of
          None \<Rightarrow> throw err
        | Some l \<Rightarrow> if rr_status l = Cancelling
            then bind_io (st_transition st k [Cancelling] Cancelled no_patch) (\<lambda>_. ret ())
            else throw err)
    | _ \<Rightarrow> throw err)" for err
    by (cases err) (auto intro!: composed get_ok transition_ok cancelled split: option.splits)
  then show ?thesis
    unfolding attach_started_def by (intro composed attach_ok e stop_ok [OF x])
qed

lemma start_claimed_ok:
  assumes x: "executors b = Some x" and g: "g \<noteq> []"
  shows "guarantees I G (start_claimed st x k r q t g)"
  unfolding start_claimed_def
  by (intro composed start_ok [OF x] stop_ok [OF x] fail_ok attach_started_ok [OF x])
    (use g in \<open>simp_all add: isTerminal_def truthy_def\<close>)

lemma claim_run_ok:
  assumes "g \<noteq> []"
  shows "guarantees I G (claim_run st r b g)"
proof -
  have claim: "lawful_patch [Queued] (no_patch\<lparr>p_execution := Some \<lparr>ex_backend = b, ex_id = ''pending'',
      ex_generation = Some g, ex_startedAt = None\<rparr>, p_status := Some Dispatching\<rparr>)"
    using assms by (simp add: lawful_patch_def no_patch_def canTransition_def)
  have "guarantees I G (case err of
      Invalid_Transition _ _ \<Rightarrow> bind_io (st_get st k) (\<lambda>latest. case latest of
          None \<Rightarrow> throw err
        | Some l \<Rightarrow> if rr_status l \<noteq> Queued then ret None else throw err)
    | _ \<Rightarrow> throw err)" for err k
    by (cases err) (auto intro!: composed get_ok split: option.splits)
  then show ?thesis
    unfolding claim_run_def by (intro composed transition_ok) (use claim in simp_all)
qed

lemma dispatch_run_ok:
  assumes g: "run_generation p current \<noteq> []"
  shows "guarantees I G (dispatch_run p st getJson executors b t current input)"
  unfolding dispatch_run_def
proof (rule composed(1) [OF json_ok])
  fix request
  let ?b = "chosen_backend request b" and ?g = "run_generation p current"
  let ?claimed = "\<lambda>x. bind_io (claim_run st current ?b ?g) (\<lambda>claimed. case claimed of
      None \<Rightarrow> ret ()
    | Some dispatching \<Rightarrow> start_claimed st x (rr_runId current) dispatching request t ?g)"
  show "guarantees I G (bind_io (lift_io (registry_get executors ?b)) ?claimed)"
  proof (rule guarantees_bind_result [OF trans refl])
    show "guarantees I G (lift_io (registry_get executors ?b))" by (intro composed)
    fix w w' x assume "lift_io (registry_get executors ?b) w = (w', Inr x)"
    then have x: "executors ?b = Some x"
      by (auto simp: lift_io_def registry_get_def split: option.splits)
    have "guarantees I G (case claimed of
        None \<Rightarrow> ret ()
      | Some dispatching \<Rightarrow> start_claimed st x (rr_runId current) dispatching request t ?g)" for claimed
      by (cases claimed) (simp_all add: composed start_claimed_ok [OF x g])
    then show "guarantees I G (?claimed x)"
      by (rule composed(1) [OF claim_run_ok [OF g]])
  qed
qed

lemma dispatch_ok:
  assumes sha: "\<And>s. sha256Hex p s \<noteq> []"
  shows "guarantees I G (dispatch p st getJson executors b m)"
  unfolding dispatch_def
proof (rule guarantees_bind_result [OF trans refl get_ok])
  fix w w' run assume w: "I w" "st_get st (qm_runId m) w = (w', Inr run)"
  show "guarantees I G (case dispatchAdmission run of
      None \<Rightarrow> ret ()
    | Some (current, input) \<Rightarrow> dispatch_run p st getJson executors b (qm_traceId m) current input)"
  proof (cases "dispatchAdmission run")
    case (Some ci)
    then obtain current input where ci: "run = Some current" "ci = (current, input)"
      by (auto simp: dispatchAdmission_def split: option.splits if_splits)
    with w get_result have "run_item_ok (qm_runId m) current" by blast
    with sha have "run_generation p current \<noteq> []"
      by (auto simp: run_generation_def executionGeneration_def run_item_ok_def split: option.splits)
    with Some ci show ?thesis by (simp add: dispatch_run_ok)
  qed (simp add: composed)
qed

end

interpretation scripted: execution_port
  "world_ok :: 'x exec_world_scheme \<Rightarrow> bool" world_evolves "dynamo_run_store p"
  scripted_registry "\<lambda>a. ret (inputs a)" for p inputs
proof unfold_locales
  have quiet: "guarantees world_ok world_evolves m"
    if "\<And>w. runs (fst (m w)) = runs w \<and> script (fst (m w)) = script w"
    for m :: "('x exec_world_scheme, error, 'a) io"
    using that by (auto simp: guarantees_def world_ok_def world_evolves_def)
  fix b r q t i reason a and x :: "'x exec_world_scheme executor"
  assume x: "scripted_registry b = Some x"
  show "guarantees world_ok world_evolves (xr_start x r q t)"
    using x by (intro quiet) (auto simp: scripted_registry_def scripted_start_def Let_def)
  show "guarantees world_ok world_evolves (xr_stop x i reason)"
    using x by (intro quiet) (auto simp: scripted_registry_def scripted_stop_def Let_def)
next
  fix a show "guarantees world_ok world_evolves (ret (inputs a) :: ('x exec_world_scheme, error, run_request) io)"
    by (intro world_guarantees)
qed

end
