(* ===== verification/Run_Execution_Props.thy ===== *)
theory Run_Execution_Props
  imports Run_Execution Run_Lifecycle
begin

text \<open>
  What dispatch, reconciliation, retirement and the heartbeat guarantee. The first group holds
  in every world, whatever other clients and the network do; the functional ones describe a
  quiet world, one whose script is empty.
\<close>

section \<open>A quiet world\<close>

lemma exec_world_fields [simp]:
  "start_answers (runs_update f w) = start_answers w"
  "stop_answers (runs_update f w) = stop_answers w"
  "inspect_answers (runs_update f w) = inspect_answers w"
  "calls (runs_update f w) = calls w"
  by (cases w; simp)+

lemma exec_world_base [simp]:
  "runs (start_answers_update f w) = runs w" "runs (stop_answers_update g w) = runs w"
  "runs (inspect_answers_update h w) = runs w" "runs (calls_update c w) = runs w"
  "script (start_answers_update f w) = script w" "script (stop_answers_update g w) = script w"
  "script (inspect_answers_update h w) = script w" "script (calls_update c w) = script w"
  "now (start_answers_update f w) = now w" "now (stop_answers_update g w) = now w"
  "now (inspect_answers_update h w) = now w" "now (calls_update c w) = now w"
  by (cases w; simp)+

lemma take_turn_quiet: "script w = [] \<Longrightarrow> take_turn w = (Served, w)"
  by (simp add: take_turn_def)

lemma send_write_quiet:
  "script w = [] \<Longrightarrow> send_write k cond f w =
     (if cond (runs w k) then (w\<lparr>runs := (runs w)(k \<mapsto> f (runs w k))\<rparr>, Acked (f (runs w k)))
      else (w, Rejected))"
  by (cases w) (simp add: send_write_def take_turn_quiet conditional_write_def)

lemma store_get_quiet: "script w = [] \<Longrightarrow> store_get k w = (w, Inr (runs w k))"
  by (simp add: store_get_def take_turn_quiet)

lemma store_update_quiet:
  assumes "script w = []" "runs w k = Some r" "rr_status r \<in> set from"
  shows "store_update p k v from w =
    (w\<lparr>runs := (runs w)(k \<mapsto> apply_patch v (iso p (now w)) r)\<rparr>,
     Inr (apply_patch v (iso p (now w)) r))"
  using assms
  by (simp add: store_update_def with_time_def reply_io_def send_write_quiet on_item_def ret_def)

lemma store_attach_quiet:
  assumes "script w = []" "runs w k = Some r" "attachable e r" "truthy (ex_generation e)"
  shows "store_attachExecution p k e w =
    (w\<lparr>runs := (runs w)(k \<mapsto> attach_execution e (iso p (now w)) r)\<rparr>,
     Inr (attach_execution e (iso p (now w)) r))"
  using assms
  by (simp add: store_attachExecution_def with_time_def reply_io_def send_write_quiet on_item_def
      ret_def)

lemmas quiet = store_get_quiet store_update_quiet store_attach_quiet

section \<open>Dispatch\<close>

definition dynamo_dispatch ::
  "platform \<Rightarrow> (artifact_ref \<Rightarrow> run_request) \<Rightarrow> backend \<Rightarrow> queue_message
     \<Rightarrow> ('x exec_world_scheme, error, unit) io" where
  "dynamo_dispatch p inputs b m =
     dispatch p (dynamo_run_store p) (\<lambda>a. ret (inputs a)) scripted_registry b m"

text \<open>
  C17. Whatever other clients do, whatever the network loses or repeats and whatever the
  executors answer, handling a wake-up never loses a Run, never moves one off the transition
  table, never touches a terminal one and never replaces an attached worker.
\<close>
theorem dispatch_keeps_promise:
  assumes "world_ok w" "\<And>s. sha256Hex p s \<noteq> []" "runs w k = Some r"
  shows "\<exists>r'. runs (fst (dynamo_dispatch p inputs b m w)) k = Some r' \<and> evolves r r'"
  using guarantees_rel [OF scripted.dispatch_ok [OF assms(2)] assms(1)] assms(3)
  by (auto simp: dynamo_dispatch_def world_evolves_def table_evolves_def)

definition empty_request :: run_request where
  "empty_request = \<lparr>rq_prompt = ''x'', rq_repository = None, rq_agent = None,
     rq_integrations = None, rq_execution = None, rq_source = None, rq_destinations = None,
     rq_metadata = None, rq_parentRunId = None\<rparr>"

definition wake_up :: queue_message where
  "wake_up = \<lparr>qm_runId = ''r'', qm_traceId = ''t''\<rparr>"

definition worker_of :: "string \<Rightarrow> execution_ref" where
  "worker_of g = \<lparr>ex_backend = Ec2, ex_id = ''i'', ex_generation = Some g, ex_startedAt = None\<rparr>"

definition exec_example :: "(error + execution_ref) list \<Rightarrow> exec_world" where
  "exec_example answers = \<lparr>runs = [''r'' \<mapsto> example_queued], script = [], now = 3,
     start_answers = answers, stop_answers = [Inr ()], inspect_answers = [], calls = []\<rparr>"

definition right_generation :: string where
  "right_generation = executionGeneration example_platform example_queued"

lemma exec_example_ok: "world_ok (exec_example answers)"
  by (simp add: world_ok_def exec_example_def table_ok_def run_item_ok_def example_queued_def)

definition busy_platform :: platform where
  "busy_platform = example_platform\<lparr>sha256Hex := (\<lambda>s. CHR ''0'' # s)\<rparr>"

text \<open>Witness: the example world, with the right answer.\<close>
theorem dispatch_keeps_promise_witness:
  "\<exists>r'. runs (fst (dynamo_dispatch busy_platform (\<lambda>_. empty_request) Ec2 wake_up
      (exec_example [Inr (worker_of ''g'')]))) ''r'' = Some r' \<and> evolves example_queued r'"
  by (rule dispatch_keeps_promise [OF exec_example_ok])
    (simp_all add: busy_platform_def exec_example_def)

lemma claimed_pending:
  "apply_patch (no_patch\<lparr>p_execution := Some e, p_status := Some Dispatching\<rparr>) t r =
   r\<lparr>rr_status := Dispatching, rr_execution := Some e, rr_updatedAt := t\<rparr>"
  by (simp add: apply_patch_def no_patch_def patched_def patched_opt_def)

text \<open>The claimed Run.\<close>

definition claimed :: "platform \<Rightarrow> string \<Rightarrow> backend \<Rightarrow> run_record \<Rightarrow> run_record" where
  "claimed p t b r = r\<lparr>rr_status := Dispatching, rr_execution := Some \<lparr>ex_backend = b,
     ex_id = ''pending'', ex_generation = Some (executionGeneration p r), ex_startedAt = None\<rparr>,
     rr_updatedAt := t\<rparr>"

lemma dispatch_queued:
  assumes "script w = []" "runs w (qm_runId m) = Some r" "rr_runId r = qm_runId m"
    and "queued_record r" "start_answers w = a # answers"
    and b: "b = chosen_backend (inputs (rr_input r)) fallback"
  shows "dynamo_dispatch p inputs fallback m w =
    (let w' = w\<lparr>runs := (runs w)(qm_runId m \<mapsto> claimed p (iso p (now w)) b r),
         start_answers := answers, calls := calls w @ [Start_Call b (qm_runId m) (qm_traceId m)]\<rparr>
     in start_claimed (dynamo_run_store p)
          \<lparr>xr_start = (\<lambda>_ _ _ w. (w, a)), xr_stop = scripted_stop b\<rparr> (qm_runId m)
          (claimed p (iso p (now w)) b r) (inputs (rr_input r)) (qm_traceId m)
          (executionGeneration p r) w')"
proof -
  have "dispatchAdmission (Some r) = Some (r, rr_input r)"
    using assms(4) by (simp add: dispatchAdmission_def isDispatchable_def isRetiredRun_def queued_record_def)
  then show ?thesis
    using assms(1-5)
    by (cases a) (simp_all add: dynamo_dispatch_def dispatch_def dispatch_run_def io_defs dynamo_run_store_def
        store_get_quiet claim_run_def store_transition_def store_update_quiet queued_record_def
        scripted_registry_def registry_get_def scripted_start_def start_claimed_def
        attach_started_def Let_def
        run_generation_def claimed_pending claimed_def b [symmetric])
qed

lemma claimed_simps [simp]:
  "rr_status (claimed p t b r) = Dispatching" "rr_runId (claimed p t b r) = rr_runId r"
  "attachable e (claimed p t b r) \<longleftrightarrow> ex_generation e = Some (executionGeneration p r)"
  by (auto simp: claimed_def attachable_def)

lemma store_fail_quiet:
  assumes "script w = []" "runs w k = Some r" "rr_status r \<in> set from"
  shows "store_fail p k err from w =
    (w\<lparr>runs := (runs w)(k \<mapsto> r\<lparr>rr_status := Failed, rr_error := Some err,
       rr_updatedAt := iso p (now w)\<rparr>)\<rparr>,
     Inr (r\<lparr>rr_status := Failed, rr_error := Some err, rr_updatedAt := iso p (now w)\<rparr>))"
proof -
  have "apply_patch (no_patch\<lparr>p_status := Some Failed, p_error := Some err\<rparr>) t r =
    r\<lparr>rr_status := Failed, rr_error := Some err, rr_updatedAt := t\<rparr>" for t
    by (simp add: apply_patch_def no_patch_def patched_def patched_opt_def)
  with assms show ?thesis by (simp add: store_fail_def store_update_quiet)
qed

text \<open>
  C26. A queued Run whose executor starts with the Run's own generation ends up dispatching and
  attached to that worker, after exactly one start.
\<close>
theorem dispatch_attaches:
  assumes "script w = []" "runs w (qm_runId m) = Some r" "rr_runId r = qm_runId m"
    and "queued_record r" "start_answers w = Inr e # answers"
    and "ex_generation e = Some (executionGeneration p r)" "executionGeneration p r \<noteq> []"
  shows "snd (dynamo_dispatch p inputs fallback m w) = Inr () \<and>
    (\<exists>r'. runs (fst (dynamo_dispatch p inputs fallback m w)) (qm_runId m) = Some r' \<and>
      rr_status r' = Dispatching \<and> rr_execution r' = Some e \<and> rr_heartbeatAt r' \<noteq> None) \<and>
    calls (fst (dynamo_dispatch p inputs fallback m w)) =
      calls w @ [Start_Call (chosen_backend (inputs (rr_input r)) fallback) (qm_runId m) (qm_traceId m)]"
  using assms
  by (simp add: dispatch_queued Let_def start_claimed_def attach_started_def io_defs
      dynamo_run_store_def store_attach_quiet truthy_def attach_execution_def)

lemma exec_example_queued: "queued_record example_queued"
  by (simp add: queued_record_def example_queued_def)

lemma exec_example_simps:
  "script (exec_example answers) = []" "runs (exec_example answers) = [''r'' \<mapsto> example_queued]"
  "start_answers (exec_example answers) = answers" "stop_answers (exec_example answers) = [Inr ()]"
  "calls (exec_example answers) = []" "rr_runId example_queued = ''r''" "qm_runId wake_up = ''r''"
  by (simp_all add: exec_example_def example_queued_def wake_up_def)

lemma right_generation: "right_generation \<noteq> []"
  "executionGeneration example_platform example_queued = right_generation"
  by (simp_all add: right_generation_def executionGeneration_def example_platform_def)

text \<open>Witness: the example world, with the right worker.\<close>
theorem dispatch_attaches_witness:
  "snd (dynamo_dispatch example_platform (\<lambda>_. empty_request) Ec2 wake_up
     (exec_example [Inr (worker_of right_generation)])) = Inr ()"
proof -
  have "ex_generation (worker_of right_generation) =
      Some (executionGeneration example_platform example_queued)"
    by (simp add: worker_of_def right_generation)
  from dispatch_attaches [of "exec_example [Inr (worker_of right_generation)]" wake_up example_queued
      "worker_of right_generation" "[]" example_platform "\<lambda>_. empty_request" Ec2, OF _ _ _ _ _ this]
  show ?thesis by (simp add: exec_example_simps exec_example_queued right_generation)
qed



text \<open>
  C35. When starting the executor fails, the Run is failed exactly if the failure is not one to
  retry; otherwise the delivery fails, and the Run is left so that the next delivery takes it.
\<close>
theorem dispatch_start_failure:
  assumes "script w = []" "runs w (qm_runId m) = Some r" "rr_runId r = qm_runId m"
    and "queued_record r" "start_answers w = Inl err # answers"
  shows "\<exists>r'. runs (fst (dynamo_dispatch p inputs fallback m w)) (qm_runId m) = Some r' \<and>
    (if retryableStartError err
     then snd (dynamo_dispatch p inputs fallback m w) = Inl err \<and>
       dispatchAdmission (Some r') = Some (r', rr_input r)
     else snd (dynamo_dispatch p inputs fallback m w) = Inr () \<and> rr_status r' = Failed)"
proof -
  have "dispatchAdmission (Some (claimed p t b r)) = Some (claimed p t b r, rr_input r)" for t b
    using assms(4) by (simp add: dispatchAdmission_def isRetiredRun_def isDispatchable_def
        unattached_def claimed_def queued_record_def)
  with assms show ?thesis
    by (simp add: dispatch_queued Let_def start_claimed_def io_defs dynamo_run_store_def
        executorStartFailure_def store_fail_quiet)
qed

text \<open>Witness: the example world, throttled.\<close>
theorem dispatch_start_failure_witness:
  "snd (dynamo_dispatch example_platform (\<lambda>_. empty_request) Ec2 wake_up
     (exec_example [Inl (Service_Error ''ThrottlingException'' [] None)])) =
   Inl (Service_Error ''ThrottlingException'' [] None)"
proof -
  let ?e = "Service_Error ''ThrottlingException'' [] None"
  have "retryableStartError ?e" by (simp add: retryableStartError_def)
  with dispatch_start_failure [of "exec_example [Inl ?e]" wake_up example_queued ?e "[]"
      example_platform "\<lambda>_. empty_request" Ec2]
  show ?thesis by (auto simp: exec_example_simps exec_example_queued)
qed

section \<open>Reconciliation\<close>

lemma update_exact_quiet:
  assumes "script w = []"
  shows "store_updateExactExecution k e expected hb f w =
    (if truthy (ex_generation e) \<and> on_item (fenced e expected hb) (runs w k)
     then (w\<lparr>runs := (runs w)(k \<mapsto> f (the (runs w k)))\<rparr>, Inr (Some (f (the (runs w k)))))
     else (w, Inr None))"
  using assms
  by (simp add: store_updateExactExecution_def reply_io_def send_write_quiet io_defs)

lemma record_liveness_quiet:
  assumes "script w = []"
  shows "store_recordLivenessInspection k e hb obs w = (w, Inr False) \<or>
    (\<exists>r. runs w k = Some r \<and> store_recordLivenessInspection k e hb obs w =
       (w\<lparr>runs := (runs w)(k \<mapsto> r\<lparr>rr_liveness := Some obs\<rparr>)\<rparr>, Inr True))"
  using update_exact_quiet [OF assms, of k e "[Dispatching, Running, Cancelling]" "Some hb"
      "\<lambda>r. r\<lparr>rr_liveness := Some obs\<rparr>"]
  by (auto simp: store_recordLivenessInspection_def bind_io_def ret_def on_item_def
      split: option.splits if_splits)

text \<open>
  C32. An inspection that cannot identify the worker (a conflict, or no answer that can be
  trusted) never stops an execution, and changes at most the record of what was observed.
\<close>
theorem uncertain_inspection_only_observed:
  assumes "script w = []" "inspect_answers w = Inr (Conflict reason) # rest \<or>
      inspect_answers w = Inr (Unknown reason) # rest"
  shows "calls (fst (reconcile p (scripted_reconciler p q) run w)) = calls w \<and>
    (runs (fst (reconcile p (scripted_reconciler p q) run w)) = runs w \<or>
     (\<exists>r obs. runs w (rr_runId run) = Some r \<and>
        runs (fst (reconcile p (scripted_reconciler p q) run w)) =
          (runs w)(rr_runId run \<mapsto> r\<lparr>rr_liveness := Some obs\<rparr>)))"
proof (cases "reconciliationTarget p run")
  case (Inspect_Target e hb)
  let ?w = "w\<lparr>inspect_answers := tl (inspect_answers w)\<rparr>"
  from assms(2) obtain d where
    "reconcile p (scripted_reconciler p q) run w =
      act_on (scripted_reconciler p q) (rr_runId run) e hb None (Observe d) ?w"
    by (auto simp: reconcile_def Inspect_Target scripted_reconciler_def scripted_inspect_def io_defs
        reconciliationDecision_def truthy_def)
  moreover have "script ?w = []" using assms(1) by simp
  ultimately show ?thesis
    using record_liveness_quiet [of ?w "rr_runId run" e hb
        "livenessObservation d (iso p (now ?w)) q"]
    by (auto simp: act_on_def scripted_reconciler_def dynamo_reconciliation_store_def io_defs
        world_time_def Let_def)
qed (simp add: reconcile_def ret_def)

definition running_run :: run_record where
  "running_run = example_queued\<lparr>rr_status := Running, rr_execution := Some (worker_of ''g''),
     rr_heartbeatAt := Some ''ii''\<rparr>"

definition watch_example :: "inspection \<Rightarrow> int \<Rightarrow> exec_world" where
  "watch_example seen t = \<lparr>runs = [''r'' \<mapsto> running_run], script = [], now = t,
     start_answers = [], stop_answers = [Inr ()], inspect_answers = [Inr seen], calls = []\<rparr>"

text \<open>Witness: an inspection of the running example that finds a conflict.\<close>
theorem uncertain_inspection_only_observed_witness:
  "calls (fst (reconcile example_platform (scripted_reconciler example_platform None) running_run
     (watch_example (Conflict ''two'') 5))) = []"
  using uncertain_inspection_only_observed [of "watch_example (Conflict ''two'') 5" "''two''" "[]"
      example_platform None running_run]
  by (simp add: watch_example_def)

text \<open>
  C36. A worker that is still seen active is given up only after an hour without a keep-alive,
  counted from its last heartbeat or from a later resumption the backend vouches for.
\<close>
theorem expiry_needs_a_silent_hour:
  assumes "reconciliationDecision run seen (executionHeartbeatAge p heartbeatAt seen checkedAt) =
      Decide_Expire err"
  shows "rr_status run \<noteq> Cancelling \<and> (\<exists>resumed c h. seen = Active resumed \<and>
    date_parse p checkedAt = Some c \<and> date_parse p heartbeatAt = Some h \<and> c - h \<ge> 3600000 \<and>
    (\<forall>time t. resumed = Some time \<longrightarrow> time \<noteq> [] \<longrightarrow> date_parse p time = Some t \<longrightarrow> t \<le> c \<longrightarrow>
       c - t \<ge> 3600000))"
  using assms
  by (auto simp: reconciliationDecision_def executionHeartbeatAge_def Let_def
      split: inspection.splits if_splits option.splits)

text \<open>Witness: the example, an hour after its last heartbeat.\<close>
theorem expiry_needs_a_silent_hour_witness: "rr_status running_run \<noteq> Cancelling"
proof -
  define p where "p = example_platform\<lparr>date_parse := (\<lambda>s. if s = ''ii'' then Some 0 else Some 3600000)\<rparr>"
  have "reconciliationDecision running_run (Active None)
      (executionHeartbeatAge p ''ii'' (Active None) ''now'') =
    Decide_Expire (execution_lost ''Worker keep-alives stopped for one hour'')"
    by (simp add: reconciliationDecision_def executionHeartbeatAge_def p_def running_run_def)
  from expiry_needs_a_silent_hour [OF this] show ?thesis by simp
qed

lemma terminalize_quiet:
  assumes "script w = []"
  shows "terminalize_attempts p (Suc n) k e expected hb status err res w =
    (if on_item (fenced e expected hb) (runs w k)
     then (w\<lparr>runs := (runs w)(k \<mapsto> settle status err res (iso p (now w)) (the (runs w k)))\<rparr>, Inr True)
     else (w, Inr False))"
  using assms
  by (simp add: store_get_quiet bind_io_def with_time_def reply_io_def send_write_quiet ret_def)

lemma fail_execution_quiet:
  assumes "script w = []" "truthy (ex_generation e)"
  shows "store_failExecution p k e hb err res w =
    (if on_item (fenced e [Dispatching, Running] (Some hb)) (runs w k)
     then (w\<lparr>runs := (runs w)(k \<mapsto> settle Failed (Some err) res (iso p (now w)) (the (runs w k)))\<rparr>, Inr True)
     else (w, Inr False))"
  using assms terminalize_quiet [OF assms(1), of p 9]
  by (simp add: store_failExecution_def store_terminalizeExactExecution_def numeral_eq_Suc
      del: terminalize_attempts.simps)

lemma reconcile_acts:
  assumes "reconciliationTarget p run = Inspect_Target e hb" "inspect_answers w = Inr seen # rest"
  shows "\<exists>checked age. reconcile p (scripted_reconciler p q) run w =
    act_on (scripted_reconciler p q) (rr_runId run) e hb checked
      (reconciliationDecision run seen age) (w\<lparr>inspect_answers := rest\<rparr>)"
  using assms
  by (cases seen; cases "rr_status run = Cancelling")
    (auto simp: reconcile_def scripted_reconciler_def scripted_inspect_def io_defs world_time_def)

lemma observe_calls:
  assumes "script w = []"
  shows "calls (fst (act_on (scripted_reconciler p q) k e hb checked (Observe l) w)) = calls w"
proof -
  have "calls (fst (store_recordLivenessInspection k e hb obs w)) = calls w" for obs
    using record_liveness_quiet [OF assms, of k e hb obs] by auto
  then show ?thesis
    using record_liveness_quiet [OF assms, of k e hb]
    by (cases checked) (auto simp: act_on_def scripted_reconciler_def
        dynamo_reconciliation_store_def io_defs world_time_def Let_def split: prod.splits sum.splits
        dest!: arg_cong [where f = fst])
qed

lemma decision_not_cancelling:
  assumes "rr_status run \<noteq> Cancelling"
  shows "reconciliationDecision run seen age \<noteq> Decide_Cancel"
    "reconciliationDecision run seen age \<noteq> Decide_Stop reason"
  using assms
  by (auto simp: reconciliationDecision_def split: inspection.splits if_splits)

lemma fail_calls:
  assumes "script w = []" "truthy (ex_generation e)"
  shows "calls (fst (act_on (scripted_reconciler p q) k e hb checked (Decide_Fail err) w)) = calls w"
  using assms
  by (simp add: act_on_def scripted_reconciler_def dynamo_reconciliation_store_def io_defs
      fail_execution_quiet)

lemma expire_settles:
  assumes "script w = []" "truthy (ex_generation e)"
    and "calls (fst (act_on (scripted_reconciler p q) k e hb checked (Decide_Expire err) w)) \<noteq> calls w"
  shows "\<exists>r. runs w k = Some r \<and> fenced e [Dispatching, Running] (Some hb) r \<and>
    runs (fst (act_on (scripted_reconciler p q) k e hb checked (Decide_Expire err) w)) k =
      Some (settle Failed (Some err) None (iso p (now w)) r)"
proof (cases "on_item (fenced e [Dispatching, Running] (Some hb)) (runs w k)")
  case True
  then obtain r where r: "runs w k = Some r" "fenced e [Dispatching, Running] (Some hb) r"
    by (auto simp: on_item_def split: option.splits)
  with True assms(1,2) show ?thesis
    by (cases "stop_answers w"; cases "hd (stop_answers w)")
      (simp_all add: act_on_def scripted_reconciler_def dynamo_reconciliation_store_def io_defs
        fail_execution_quiet registry_stop_def registry_get_def scripted_registry_def
        scripted_stop_def Let_def)
next
  case False
  with assms show ?thesis
    by (simp add: act_on_def scripted_reconciler_def dynamo_reconciliation_store_def io_defs
        fail_execution_quiet)
qed



section \<open>Leaked workers\<close>

definition logged_stop :: "execution_target \<Rightarrow> ('x exec_world_scheme, error, unit) io" where
  "logged_stop worker w = (w\<lparr>calls := calls w @
     [Stop_Call (ex_backend (et_execution worker)) (ex_id (et_execution worker)) []]\<rparr>, Inr ())"

lemma retire_workers_quiet:
  assumes "script w = []"
  shows "retire_workers p store_get logged_stop cutoff workers n w =
    (w\<lparr>calls := calls w @ map (\<lambda>worker. Stop_Call (ex_backend (et_execution worker))
        (ex_id (et_execution worker)) [])
       (filter (\<lambda>worker. terminalWorkerReady p worker (runs w (et_runId worker)) cutoff) workers)\<rparr>,
     Inr (n + length (filter (\<lambda>worker. terminalWorkerReady p worker (runs w (et_runId worker)) cutoff)
       workers)))"
  using assms
  by (induction workers arbitrary: w n)
    (simp_all add: ret_def bind_io_def store_get_quiet logged_stop_def)



section \<open>The heartbeat\<close>

definition hb_inv :: "int option \<Rightarrow> heartbeat \<Rightarrow> bool" where
  "hb_inv m s \<longleftrightarrow> (hb_stopped s \<longrightarrow> \<not> hb_timer s) \<and> \<not> (hb_timer s \<and> hb_inFlight s) \<and>
     (hb_lost s = 0 \<or> hb_lost s = 1 \<and> hb_stopped s \<and> \<not> hb_inFlight s)"

lemma hb_step_inv: "hb_inv m s \<Longrightarrow> hb_inv m (heartbeat_step m e s)"
  by (cases e)
    (auto simp: hb_inv_def hb_schedule_def hb_tick_def lose_authority_def Let_def split: sum.splits)

lemma hb_run_inv: "hb_inv m s \<Longrightarrow> hb_inv m (heartbeat_run m es s)"
  unfolding heartbeat_run_def by (induction es arbitrary: s) (simp_all add: hb_step_inv)

lemma new_heartbeat_inv: "new_heartbeat i g m = Inr s \<Longrightarrow> hb_inv m s"
  by (auto simp: new_heartbeat_def hb_inv_def split: if_splits)

text \<open>How a tick can lose authority: a refused heartbeat, or the last allowed error.\<close>

fun failed_tick :: "heartbeat_event \<Rightarrow> bool" where
  "failed_tick (Served_Tick (Inl _)) = True"
| "failed_tick _ = False"

definition errors_in :: "heartbeat_event list \<Rightarrow> nat" where
  "errors_in es = length (filter failed_tick es)"

lemma hb_errors_step:
  "hb_errors (heartbeat_step m e s) \<le> hb_errors s + (if failed_tick e then 1 else 0)"
  by (cases e rule: failed_tick.cases)
    (auto simp: hb_schedule_def hb_tick_def lose_authority_def Let_def)

lemma hb_errors_bound: "hb_errors (heartbeat_run m es s) \<le> hb_errors s + errors_in es"
proof (induction es arbitrary: s)
  case (Cons e es)
  from hb_errors_step [of m e s] Cons.IH [of "heartbeat_step m e s"] show ?case
    by (simp add: heartbeat_run_def errors_in_def split: if_splits)
qed (simp add: heartbeat_run_def)

text \<open>
  C31. However its timer, its requests and its owner interleave, the heartbeat reports lost
  authority at most once, and after that it sends nothing more.
\<close>
theorem authority_lost_once:
  assumes "new_heartbeat interval generation m = Inr s"
  shows "hb_lost (heartbeat_run m es s) \<le> 1 \<and>
    (hb_lost (heartbeat_run m es s) = 1 \<longrightarrow>
       heartbeat_run m (es @ es') s = (heartbeat_run m es s))"
proof -
  let ?s = "heartbeat_run m es s"
  have inv: "hb_inv m ?s" by (rule hb_run_inv [OF new_heartbeat_inv [OF assms]])
  have "heartbeat_run m es' u = u" if "hb_stopped u" "\<not> hb_timer u" "\<not> hb_inFlight u" for u
    unfolding heartbeat_run_def
  proof (induction es')
    case (Cons e es')
    have "heartbeat_step m e u = u" using that by (cases e) simp_all
    with Cons show ?case by simp
  qed simp
  with inv show ?thesis by (auto simp: hb_inv_def heartbeat_run_def)
qed

text \<open>Witness: a heartbeat whose second request is refused.\<close>
theorem authority_lost_once_witness:
  "hb_lost (heartbeat_run (Some 3) [Started, Timer_Fired, Served_Tick (Inr True), Timer_Fired,
      Served_Tick (Inr False), Started, Timer_Fired]
     \<lparr>hb_timer = False, hb_inFlight = False, hb_stopped = False, hb_errors = 0, hb_lost = 0\<rparr>) \<le> 1"
proof -
  have "new_heartbeat 100 (Some ''g'') (Some 3) = Inr \<lparr>hb_timer = False, hb_inFlight = False,
      hb_stopped = False, hb_errors = 0, hb_lost = 0\<rparr>"
    by (simp add: new_heartbeat_def truthy_def)
  from authority_lost_once [OF this] show ?thesis by blast
qed

text \<open>
  While no heartbeat is refused, authority is lost only when a limit on consecutive errors
  was set and at least that many requests have failed.
\<close>
theorem authority_kept:
  assumes "new_heartbeat interval generation m = Inr s" "Served_Tick (Inr False) \<notin> set es"
    and "m = None \<or> int (errors_in es) < the m"
  shows "hb_lost (heartbeat_run m es s) = 0"
  using assms(2,3)
proof (induction es rule: rev_induct)
  case Nil
  from assms(1) show ?case by (auto simp: new_heartbeat_def heartbeat_run_def split: if_splits)
next
  case (snoc e es)
  let ?u = "heartbeat_run m es s"
  have "hb_errors s = 0" using assms(1) by (auto simp: new_heartbeat_def split: if_splits)
  with hb_errors_bound [of m es s] have "hb_errors ?u \<le> errors_in es" by simp
  moreover from snoc have "hb_lost ?u = 0"
    by (auto simp: errors_in_def split: if_splits)
  ultimately show ?case
    using snoc.prems
    by (cases e rule: failed_tick.cases)
      (auto simp: heartbeat_run_def hb_schedule_def hb_tick_def lose_authority_def errors_in_def Let_def)
qed

text \<open>Witness: two failures of three allowed.\<close>
theorem authority_kept_witness:
  "hb_lost (heartbeat_run (Some 3) [Started, Timer_Fired, Served_Tick (Inl Type_Error), Timer_Fired,
      Served_Tick (Inl Type_Error)]
     \<lparr>hb_timer = False, hb_inFlight = False, hb_stopped = False, hb_errors = 0, hb_lost = 0\<rparr>) = 0"
  by (rule authority_kept [of 100 "Some ''g''"])
    (simp_all add: new_heartbeat_def truthy_def errors_in_def)

end
