(* ===== verification/Run_Service.thy ===== *)
theory Run_Service
  imports Run_Validation Run_Execution_Props "HOL-Library.List_Lexorder" "HOL-Library.Char_ord"
    "HOL-Library.Multiset"
begin

text \<open>
  The service in front of the Run table (\<open>src/core/run-service.ts\<close>) with its planning
  (\<open>run-planning.ts\<close>, \<open>run-recovery.ts\<close>, \<open>src/domain/run-bindings.ts\<close>) and the canonical
  JSON its request hash is taken from (\<open>src/domain/json.ts\<close>).

  A session binding is compared by value, where the code compares its canonical JSON.
\<close>

section \<open>Canonical JSON\<close>

text \<open>\<open>sort()\<close> orders strings by their code units.\<close>

fun canonicalJson :: "web_platform \<Rightarrow> jsval \<Rightarrow> string" where
  "canonicalJson wp JUndef = ''null''"
| "canonicalJson wp (JArr xs) = ''['' @ commas (map (canonicalJson wp) xs) @ '']''"
| "canonicalJson wp (JObj fs) = ''{'' @ commas (map (\<lambda>(k, text). json_string k @ '':'' @ text)
     (sort_key fst (map (\<lambda>(k, v). (k, canonicalJson wp v))
       (filter (\<lambda>(k, v). v \<noteq> JUndef) fs)))) @ ''}''"
| "canonicalJson wp v = json_text wp v"

section \<open>Planning\<close>

record submit_options =
  so_idempotencyKey :: "string option"
  so_traceId :: "string option"
  so_provenance :: "run_provenance option"
  so_capabilityOwnerId :: "string option"
  so_agentsSession :: "session_binding option"

definition runInputKey :: "platform \<Rightarrow> string \<Rightarrow> string \<Rightarrow> string \<Rightarrow> string" where
  "runInputKey p ownerId runId hash = ''owners/'' @ take 32 (sha256Hex p ownerId) @ ''/runs/'' @ runId @
     ''/input-'' @ hash @ ''.json''"

definition validateCapabilityOwner :: "string \<Rightarrow> error + string" where
  "validateCapabilityOwner v =
     (if js_trim v = [] \<or> utf8_length v > 1024
      then Inl (Validation_Error ''capability owner identity is invalid'') else Inr v)"

definition createQueuedRun ::
  "platform \<Rightarrow> string \<Rightarrow> string \<Rightarrow> run_request \<Rightarrow> string \<Rightarrow> artifact_ref \<Rightarrow> submit_options \<Rightarrow> int \<Rightarrow> int
     \<Rightarrow> error + run_record" where
  "createQueuedRun p ownerId runId request requestHash input options millis retentionSeconds =
     bindE (if truthy (so_capabilityOwnerId options)
            then bindE (validateCapabilityOwner (the (so_capabilityOwnerId options))) (\<lambda>owner. Inr (Some owner))
            else Inr None) (\<lambda>capabilityOwner.
     Inr \<lparr>rr_runId = runId, rr_ownerId = ownerId, rr_capabilityOwnerId = capabilityOwner,
       rr_ownerCreated = ownerId @ ''#'' @ iso p millis @ ''#'' @ runId, rr_status = Queued,
       rr_createdAt = iso p millis, rr_updatedAt = iso p millis,
       rr_expiresAt = millis div 1000 + retentionSeconds, rr_requestHash = requestHash,
       rr_input = input,
       rr_sourceKind = (case rq_source request of None \<Rightarrow> Api | Some s \<Rightarrow> source_kind_of s),
       rr_provenance = so_provenance options, rr_agentsSession = so_agentsSession options,
       rr_execution = None, rr_heartbeatAt = None, rr_liveness = None, rr_result = None,
       rr_error = None, rr_cancelRequestedAt = None, rr_legacyKeys = []\<rparr>)"

definition assertSameRequest :: "run_record \<Rightarrow> string \<Rightarrow> error + run_record" where
  "assertSameRequest r requestHash =
     (if rr_requestHash r \<noteq> requestHash
      then Inl (Conflict_Error ''the idempotency key was already used with a different request'')
      else Inr r)"

definition assertSameSubmission :: "run_record \<Rightarrow> string \<Rightarrow> submit_options \<Rightarrow> error + run_record" where
  "assertSameSubmission r requestHash options = bindE (assertSameRequest r requestHash) (\<lambda>same.
     if rr_agentsSession same \<noteq> so_agentsSession options
     then Inl (Conflict_Error ''Agents session launch binding changed on retry'') else Inr same)"

definition hex_value :: "char \<Rightarrow> nat" where
  "hex_value c = (if is_digit c then code_of c - 48
     else if 97 \<le> code_of c \<and> code_of c \<le> 102 then code_of c - 87
     else if 65 \<le> code_of c \<and> code_of c \<le> 70 then code_of c - 55 else 0)"

definition hex_digit :: "nat \<Rightarrow> char" where
  "hex_digit n = (if n < 10 then char_of (48 + n) else char_of (87 + n))"

text \<open>\<open>(variant & 0x3) | 0x8\<close> is 8 plus the variant modulo 4. A SHA-256 digest has 64 digits.\<close>

definition deterministicRunId :: "platform \<Rightarrow> string \<Rightarrow> string \<Rightarrow> string" where
  "deterministicRunId p ownerId key =
     (let hex = (take 32 (sha256Hex p (ownerId @ [char_of (0::nat)] @ key)))[12 := CHR ''5''];
          variant = hex_value (if 16 < length hex then hex ! 16 else CHR ''0'');
          joined = hex[16 := hex_digit (8 + variant mod 4)]
      in take 8 joined @ ''-'' @ take 4 (drop 8 joined) @ ''-'' @ take 4 (drop 12 joined) @ ''-'' @
         take 4 (drop 16 joined) @ ''-'' @ drop 20 joined)"

definition validateIdempotencyKey :: "string \<Rightarrow> error + string" where
  "validateIdempotencyKey v =
     (if 1 \<le> length v \<and> length v \<le> 200 \<and> plain_chars ''._:-'' v then Inr v
      else Inl (Validation_Error ''Idempotency-Key must be 1-200 safe ASCII characters''))"

definition assertOwner :: "run_record \<Rightarrow> string \<Rightarrow> error + unit" where
  "assertOwner r ownerId =
     check (rr_ownerId r = ownerId) (Forbidden_Error ''run belongs to another owner'')"

definition validateOwner :: "string \<Rightarrow> error + unit" where
  "validateOwner ownerId =
     (if js_trim ownerId = [] then Inl (Forbidden_Error ''an authenticated owner is required'')
      else if utf8_length ownerId > 1024 then Inl (Forbidden_Error ''owner identity is too large'')
      else Inr ())"

definition recoveryMessageForRun :: "run_record \<Rightarrow> int \<Rightarrow> queue_message option" where
  "recoveryMessageForRun r millis = (if isRetiredRun r then None
     else Some \<lparr>qm_runId = rr_runId r,
       qm_traceId = ''reconcile:'' @ rr_runId r @ '':'' @ show_int millis\<rparr>)"

section \<open>The service\<close>

record 'w run_service =
  sv_platform :: platform
  sv_web :: web_platform
  sv_options :: validation_options
  sv_retentionSeconds :: int
  sv_store :: "'w run_store"
  sv_putJson :: "string \<Rightarrow> run_request \<Rightarrow> ('w, error, artifact_ref) io"
  sv_enqueue :: "queue_message \<Rightarrow> ('w, error, unit) io"
  sv_stop :: "execution_ref \<Rightarrow> string \<Rightarrow> ('w, error, unit) io"
  sv_admit :: "string \<Rightarrow> string \<Rightarrow> ('w, error, unit) io"
  sv_now :: "('w, error, int) io"
  sv_random :: "('w, error, string) io"

definition idFor :: "platform \<Rightarrow> string \<Rightarrow> string \<Rightarrow> error + string" where
  "idFor p ownerId key = bindE (validateOwner ownerId) (\<lambda>_.
     bindE (validateIdempotencyKey key) (\<lambda>k. Inr (deterministicRunId p ownerId k)))"

definition enqueue_run :: "'w run_service \<Rightarrow> string \<Rightarrow> string option \<Rightarrow> ('w, error, unit) io" where
  "enqueue_run sv runId traceId = sv_enqueue sv \<lparr>qm_runId = runId,
     qm_traceId = (case traceId of None \<Rightarrow> runId | Some t \<Rightarrow> t)\<rparr>"

definition request_hash :: "platform \<Rightarrow> web_platform \<Rightarrow> run_request \<Rightarrow> string" where
  "request_hash p wp request = sha256Hex p (canonicalJson wp (request_value request))"

definition reuse_run ::
  "'w run_service \<Rightarrow> submit_options \<Rightarrow> string \<Rightarrow> run_record \<Rightarrow> ('w, error, run_record) io" where
  "reuse_run sv options requestHash existing =
     bind_io (lift_io (assertSameSubmission existing requestHash options)) (\<lambda>same.
     bind_io (if rr_status same = Queued then enqueue_run sv (rr_runId same) (so_traceId options)
              else ret ()) (\<lambda>_. ret same))"

definition create_run ::
  "'w run_service \<Rightarrow> string \<Rightarrow> submit_options \<Rightarrow> run_request \<Rightarrow> string \<Rightarrow> ('w, error, run_record) io"
where
  "create_run sv ownerId options request runId =
     (let requestHash = request_hash (sv_platform sv) (sv_web sv) request in
      bind_io (if so_agentsSession options = None then sv_admit sv ownerId (''run:'' @ runId)
               else ret ()) (\<lambda>_.
      bind_io (sv_putJson sv (runInputKey (sv_platform sv) ownerId runId requestHash) request) (\<lambda>input.
      bind_io (sv_now sv) (\<lambda>millis.
      bind_io (lift_io (createQueuedRun (sv_platform sv) ownerId runId request requestHash input options
          millis (sv_retentionSeconds sv))) (\<lambda>record.
      bind_io (st_create (sv_store sv) record) (\<lambda>created.
        if \<not> fst created then lift_io (assertSameSubmission (snd created) requestHash options)
        else bind_io (enqueue_run sv runId (so_traceId options)) (\<lambda>_. ret record)))))))"

definition submit ::
  "'w run_service \<Rightarrow> string \<Rightarrow> jsval \<Rightarrow> submit_options \<Rightarrow> ('w, error, run_record) io" where
  "submit sv ownerId rawRequest options =
     bind_io (lift_io (validateOwner ownerId)) (\<lambda>_.
     bind_io (lift_io (parseRunRequest (sv_web sv) (sv_options sv) rawRequest)) (\<lambda>request.
     bind_io (if truthy (so_idempotencyKey options)
              then lift_io (idFor (sv_platform sv) ownerId (the (so_idempotencyKey options)))
              else sv_random sv) (\<lambda>runId.
     bind_io (if truthy (so_idempotencyKey options) then st_get (sv_store sv) runId else ret None)
       (\<lambda>existing. case existing of
          Some e \<Rightarrow> reuse_run sv options (request_hash (sv_platform sv) (sv_web sv) request) e
        | None \<Rightarrow> create_run sv ownerId options request runId))))"

definition get_run :: "'w run_service \<Rightarrow> string \<Rightarrow> string \<Rightarrow> ('w, error, run_record) io" where
  "get_run sv ownerId runId =
     bind_io (st_get (sv_store sv) runId) (\<lambda>found. case found of
       None \<Rightarrow> throw (Not_Found_Error ''run not found'')
     | Some r \<Rightarrow> bind_io (lift_io (assertOwner r ownerId)) (\<lambda>_. ret r))"

text \<open>The limit a page of Runs is read with; the page itself is the store's.\<close>

definition bounded_limit :: "int \<Rightarrow> int" where
  "bounded_limit limit = max 1 (min 100 limit)"

definition now_text :: "'w run_service \<Rightarrow> ('w, error, string) io" where
  "now_text sv = bind_io (sv_now sv) (\<lambda>t. ret (iso (sv_platform sv) t))"

definition cancel_run :: "'w run_service \<Rightarrow> string \<Rightarrow> string \<Rightarrow> ('w, error, run_record) io" where
  "cancel_run sv ownerId runId =
     bind_io (get_run sv ownerId runId) (\<lambda>current.
       if isTerminal (rr_status current) then ret current
       else if rr_status current = Queued
       then bind_io (now_text sv) (\<lambda>t. st_transition (sv_store sv) runId [Queued] Cancelled
              (no_patch\<lparr>p_cancelRequestedAt := Some t\<rparr>))
       else
         bind_io (if rr_status current = Cancelling then ret current
           else bind_io (now_text sv) (\<lambda>t. st_transition (sv_store sv) runId [Dispatching, Running]
             Cancelling (no_patch\<lparr>p_cancelRequestedAt := Some t\<rparr>))) (\<lambda>cancelling.
         bind_io (case rr_execution cancelling of
             None \<Rightarrow> ret ()
           | Some e \<Rightarrow> if ex_id e \<noteq> ''pending'' then sv_stop sv e (''cancelled by '' @ ownerId)
               else ret ()) (\<lambda>_. ret cancelling)))"

section \<open>The service keeps the promise of the table\<close>

lemma createQueuedRun_Inr:
  assumes "createQueuedRun p ownerId runId request hash input options t n = Inr r"
  shows "run_item_ok runId r \<and> queued_record r \<and> rr_runId r = runId \<and> rr_ownerId r = ownerId \<and>
    rr_requestHash r = hash \<and> rr_agentsSession r = so_agentsSession options \<and> rr_input r = input"
  using assms
  by (auto simp: createQueuedRun_def bindE_Inr run_item_ok_def queued_record_def)

locale service_port = run_store_port I G "sv_store sv"
  for I :: "'w \<Rightarrow> bool" and G :: "'w \<Rightarrow> 'w \<Rightarrow> bool" and sv :: "'w run_service" +
  assumes putJson_ok: "guarantees I G (sv_putJson sv k q)"
    and enqueue_ok: "guarantees I G (sv_enqueue sv m)"
    and stop_execution_ok: "guarantees I G (sv_stop sv e reason)"
    and admit_ok: "guarantees I G (sv_admit sv owner operation)"
    and now_ok: "guarantees I G (sv_now sv)"
    and random_ok: "guarantees I G (sv_random sv)"
begin

lemma reuse_run_ok: "guarantees I G (reuse_run sv options h e)"
  unfolding reuse_run_def enqueue_run_def by (intro composed enqueue_ok)

lemma create_run_ok: "guarantees I G (create_run sv ownerId options request runId)"
proof -
  have created: "guarantees I G (bind_io (st_create (sv_store sv) r) (\<lambda>created.
      if \<not> fst created then lift_io (assertSameSubmission (snd created) h options)
      else bind_io (enqueue_run sv runId (so_traceId options)) (\<lambda>_. ret r)))"
    if "createQueuedRun (sv_platform sv) ownerId runId request h input options t n = Inr r"
    for h input t n r
  proof -
    have "run_item_ok (rr_runId r) r" using createQueuedRun_Inr [OF that] by simp
    then show ?thesis unfolding enqueue_run_def by (intro composed(1) composed create_ok enqueue_ok)
  qed
  have queued: "guarantees I G (bind_io (lift_io c) f)"
    if "\<And>r. c = Inr r \<Longrightarrow> guarantees I G (f r)" for c :: "error + run_record" and f :: "run_record \<Rightarrow> ('w, error, run_record) io"
    by (rule guarantees_bind_result [OF trans refl composed(7)])
      (use that in \<open>auto simp: lift_io_def\<close>)
  show ?thesis
    unfolding create_run_def Let_def
    by (intro composed(1) composed(8) composed(5) admit_ok putJson_ok now_ok queued created)
qed

lemma submit_ok: "guarantees I G (submit sv ownerId raw options)"
proof -
  have "guarantees I G (case existing of
      Some e \<Rightarrow> reuse_run sv options h e | None \<Rightarrow> create_run sv ownerId options request runId)"
    for existing h request runId
    by (cases existing) (simp_all add: reuse_run_ok create_run_ok)
  then show ?thesis
    unfolding submit_def by (intro composed(1) composed(7) composed(8) composed(5) random_ok get_ok)
qed

lemma get_run_ok: "guarantees I G (get_run sv ownerId runId)"
  unfolding get_run_def by (intro composed get_ok)

lemma cancel_run_ok: "guarantees I G (cancel_run sv ownerId runId)"
proof -
  have lawful: "lawful_patch [Queued] (no_patch\<lparr>p_cancelRequestedAt := Some t, p_status := Some Cancelled\<rparr>)"
    "lawful_patch [Dispatching, Running]
      (no_patch\<lparr>p_cancelRequestedAt := Some t, p_status := Some Cancelling\<rparr>)" for t
    by (simp_all add: lawful_patch_def no_patch_def canTransition_def)
  have transitions: "guarantees I G (st_transition (sv_store sv) runId [Queued] Cancelled
      (no_patch\<lparr>p_cancelRequestedAt := Some t\<rparr>))"
    "guarantees I G (st_transition (sv_store sv) runId [Dispatching, Running] Cancelling
      (no_patch\<lparr>p_cancelRequestedAt := Some t\<rparr>))" for t
    by (rule transition_ok, use lawful in simp)+
  show ?thesis
    unfolding cancel_run_def now_text_def
    by (intro composed(1) get_run_ok composed transitions now_ok stop_execution_ok)
qed

end

section \<open>A world with the service's own ports\<close>

text \<open>Each call to the queue, the artifact store or the rate limit takes the next fault.\<close>

record service_world = exec_world +
  faults :: "error option list"
  queue :: "queue_message list"
  inputs :: "string \<Rightarrow> run_request option"
  random_ids :: "string list"

definition faulty ::
  "('x service_world_scheme \<Rightarrow> 'x service_world_scheme) \<Rightarrow> 'a \<Rightarrow> ('x service_world_scheme, error, 'a) io" where
  "faulty f a w = (case faults w of
       Some e # rest \<Rightarrow> (w\<lparr>faults := rest\<rparr>, Inl e)
     | _ \<Rightarrow> (f (w\<lparr>faults := tl (faults w)\<rparr>), Inr a))"

definition scripted_random :: "('x service_world_scheme, error, string) io" where
  "scripted_random w = (w\<lparr>random_ids := tl (random_ids w)\<rparr>,
     Inr (case random_ids w of [] \<Rightarrow> ''random'' | i # _ \<Rightarrow> i))"

definition dynamo_service ::
  "platform \<Rightarrow> web_platform \<Rightarrow> validation_options \<Rightarrow> int \<Rightarrow> 'x service_world_scheme run_service" where
  "dynamo_service p wp options retention = \<lparr>sv_platform = p, sv_web = wp, sv_options = options,
     sv_retentionSeconds = retention, sv_store = dynamo_run_store p,
     sv_putJson = (\<lambda>k q. faulty (\<lambda>w. w\<lparr>inputs := (inputs w)(k \<mapsto> q)\<rparr>)
        \<lparr>bucket = ''inputs'', object_key = k, sha256 = sha256Hex p k\<rparr>),
     sv_enqueue = (\<lambda>m. faulty (\<lambda>w. w\<lparr>queue := queue w @ [m]\<rparr>) ()),
     sv_stop = registry_stop scripted_registry,
     sv_admit = (\<lambda>_ _. faulty (\<lambda>w. w) ()),
     sv_now = (\<lambda>w. (w, Inr (now w))), sv_random = scripted_random\<rparr>"

lemma service_world_base [simp]:
  "runs (faults_update f w) = runs w" "runs (queue_update g w) = runs w"
  "runs (inputs_update h w) = runs w" "runs (random_ids_update i w) = runs w"
  "script (faults_update f w) = script w" "script (queue_update g w) = script w"
  "script (inputs_update h w) = script w" "script (random_ids_update i w) = script w"
  "now (faults_update f w) = now w" "now (queue_update g w) = now w"
  "now (inputs_update h w) = now w" "now (random_ids_update i w) = now w"
  "calls (faults_update f w) = calls w" "calls (queue_update g w) = calls w"
  "calls (inputs_update h w) = calls w" "calls (random_ids_update i w) = calls w"
  by (cases w; simp)+

lemma quiet_guarantees:
  "(\<And>w. runs (fst (m w)) = runs w \<and> script (fst (m w)) = script w) \<Longrightarrow>
   guarantees world_ok world_evolves m"
  by (auto simp: guarantees_def world_ok_def world_evolves_def)

lemma faulty_base:
  assumes "\<And>w. runs (f w) = runs w \<and> script (f w) = script w"
  shows "runs (fst (faulty f a w)) = runs w" "script (fst (faulty f a w)) = script w"
  using assms by (auto simp: faulty_def split: list.splits option.splits)

lemma faulty_quiet: "faults w = [] \<Longrightarrow> faulty f a w = (f w, Inr a)"
  by (cases w) (simp add: faulty_def)

lemma registry_stop_ok:
  "guarantees world_ok world_evolves (registry_stop scripted_registry e reason)"
  by (rule quiet_guarantees)
    (simp add: registry_stop_def io_defs registry_get_def scripted_registry_def scripted_stop_def Let_def)

interpretation dynamo_sv: service_port
  "world_ok :: 'x service_world_scheme \<Rightarrow> bool" world_evolves "dynamo_service p wp options retention"
  for p wp options retention
proof (rule service_port.intro)
  show "run_store_port (world_ok :: 'x service_world_scheme \<Rightarrow> bool) world_evolves
      (sv_store (dynamo_service p wp options retention))"
    using dynamo.run_store_port_axioms by (simp add: dynamo_service_def)
  show "service_port_axioms (world_ok :: 'x service_world_scheme \<Rightarrow> bool) world_evolves
      (dynamo_service p wp options retention)"
    by (rule service_port_axioms.intro)
      (auto simp: dynamo_service_def scripted_random_def faulty_base
        intro!: registry_stop_ok quiet_guarantees)
qed

section \<open>Properties\<close>

text \<open>
  C28. Submitting and cancelling, under any interleaving and any failure, never lose a Run,
  never move one off the transition table and never touch a terminal one.
\<close>
theorem service_keeps_promise:
  assumes "world_ok w" "runs w k = Some r"
  shows "(\<exists>r'. runs (fst (submit (dynamo_service p wp opts n) ownerId raw options w)) k = Some r' \<and>
      evolves r r') \<and>
    (\<exists>r'. runs (fst (cancel_run (dynamo_service p wp opts n) ownerId runId w)) k = Some r' \<and>
      evolves r r')"
  using guarantees_rel [OF dynamo_sv.submit_ok assms(1)]
    guarantees_rel [OF dynamo_sv.cancel_run_ok assms(1)] assms(2)
  unfolding world_evolves_def table_evolves_def by blast

text \<open>A request that came through with this service, and the identity its retries share.\<close>

definition accepted :: "platform \<Rightarrow> web_platform \<Rightarrow> validation_options \<Rightarrow> string \<Rightarrow> jsval \<Rightarrow> submit_options
     \<Rightarrow> run_request \<Rightarrow> string \<Rightarrow> bool" where
  "accepted p wp opts ownerId raw options request runId \<longleftrightarrow> validateOwner ownerId = Inr () \<and>
     parseRunRequest wp opts raw = Inr request \<and> truthy (so_idempotencyKey options) \<and>
     idFor p ownerId (the (so_idempotencyKey options)) = Inr runId"

lemma assertSameSubmission_Inr:
  "assertSameSubmission e h options = Inr r \<longleftrightarrow>
     r = e \<and> rr_requestHash e = h \<and> rr_agentsSession e = so_agentsSession options"
  by (auto simp: assertSameSubmission_def assertSameRequest_def bindE_Inr split: if_splits)

text \<open>
  C13. A submission never hands out a Run of another request or another Session turn, whatever
  is stored under its identity and whatever happens to its calls.
\<close>
theorem submission_returns_its_request:
  assumes "submit sv ownerId raw options w = (w', Inr r)"
  shows "\<exists>request. parseRunRequest (sv_web sv) (sv_options sv) raw = Inr request \<and>
    rr_requestHash r = request_hash (sv_platform sv) (sv_web sv) request \<and> rr_agentsSession r = so_agentsSession options"
proof -
  from assms obtain request runId existing v where
    parsed: "parseRunRequest (sv_web sv) (sv_options sv) raw = Inr request"
    and last: "(case existing of
        Some e \<Rightarrow> reuse_run sv options (request_hash (sv_platform sv) (sv_web sv) request) e
      | None \<Rightarrow> create_run sv ownerId options request runId) v = (w', Inr r)"
    by (auto simp: submit_def io_defs split: prod.splits sum.splits)
  have "rr_requestHash r = request_hash (sv_platform sv) (sv_web sv) request \<and> rr_agentsSession r = so_agentsSession options"
  proof (cases existing)
    case (Some e)
    with last show ?thesis
      by (auto simp: reuse_run_def io_defs assertSameSubmission_Inr split: prod.splits sum.splits)
  next
    case None
    with last show ?thesis
      by (auto simp: create_run_def Let_def io_defs assertSameSubmission_Inr
          dest!: createQueuedRun_Inr split: prod.splits sum.splits if_splits)
  qed
  with parsed show ?thesis by blast
qed

lemma submit_existing_quiet:
  assumes "script w = []" "faults w = []" "accepted p wp opts ownerId raw options request runId"
    and "runs w runId = Some r"
  shows "submit (dynamo_service p wp opts n) ownerId raw options w =
    reuse_run (dynamo_service p wp opts n) options (request_hash p wp request) r w"
  using assms
  by (simp add: submit_def accepted_def io_defs dynamo_service_def dynamo_run_store_def
      store_get_quiet)

lemma retry_quiet:
  assumes "script w = []" "faults w = []" "accepted p wp opts ownerId raw options request runId"
    and "runs w runId = Some r" "rr_agentsSession r = so_agentsSession options"
    and "rr_requestHash r = request_hash p wp request"
  shows "submit (dynamo_service p wp opts n) ownerId raw options w =
    (if rr_status r = Queued then w\<lparr>queue := queue w @ [\<lparr>qm_runId = rr_runId r,
         qm_traceId = (case so_traceId options of None \<Rightarrow> rr_runId r | Some t \<Rightarrow> t)\<rparr>]\<rparr> else w, Inr r)"
proof -
  have "assertSameSubmission r (request_hash p wp request) options = Inr r"
    using assms(5,6) by (simp add: assertSameSubmission_Inr)
  with submit_existing_quiet [OF assms(1-4)] assms(1,2) show ?thesis
    by (simp add: reuse_run_def io_defs enqueue_run_def dynamo_service_def faulty_quiet)
qed

section \<open>An example of the service\<close>

definition example_options :: submit_options where
  "example_options = \<lparr>so_idempotencyKey = Some ''k'', so_traceId = None, so_provenance = None,
     so_capabilityOwnerId = None, so_agentsSession = None\<rparr>"

definition example_id :: string where
  "example_id = deterministicRunId example_platform ''o'' ''k''"

definition example_run :: "string \<Rightarrow> run_record" where
  "example_run hash = example_queued\<lparr>rr_runId := example_id, rr_requestHash := hash\<rparr>"

definition example_hash :: string where
  "example_hash = request_hash example_platform example_web example_request"

definition service_example :: "run_table \<Rightarrow> error option list \<Rightarrow> service_world" where
  "service_example t fs = \<lparr>runs = t, script = [], now = 3, start_answers = [], stop_answers = [Inr ()],
     inspect_answers = [], calls = [], faults = fs, queue = [], inputs = Map.empty,
     random_ids = []\<rparr>"

lemma service_example_simps [simp]:
  "runs (service_example t fs) = t" "script (service_example t fs) = []"
  "faults (service_example t fs) = fs" "queue (service_example t fs) = []"
  "calls (service_example t fs) = []" "stop_answers (service_example t fs) = [Inr ()]"
  by (simp_all add: service_example_def)

lemma example_run_simps [simp]:
  "rr_runId (example_run h) = example_id" "rr_requestHash (example_run h) = h"
  "rr_agentsSession (example_run h) = None" "rr_status (example_run h) = Queued"
  "rr_ownerId (example_run h) = ''o''"
  by (simp_all add: example_run_def example_queued_def)

lemma example_owner: "validateOwner ''o'' = Inr ()"
  by code_simp

lemma example_accepted:
  "accepted example_platform example_web open_options ''o'' (request_value example_request)
     example_options example_request example_id"
proof -
  have "validateIdempotencyKey ''k'' = Inr ''k''" by code_simp
  then show ?thesis
    by (simp add: accepted_def example_owner example_request_parsed example_options_def truthy_def
        idFor_def example_id_def)
qed

text \<open>
  C39. A retry of an accepted submission finds its Run: it returns the stored record, changes no
  Run, and wakes the dispatcher again exactly when the Run is still queued.
\<close>
theorem retry_returns_stored_run:
  assumes "script w = []" "faults w = []"
    and "accepted p wp opts ownerId raw options request runId"
    and "runs w runId = Some r" "rr_agentsSession r = so_agentsSession options"
    and "rr_requestHash r = request_hash p wp request"
  shows "snd (submit (dynamo_service p wp opts n) ownerId raw options w) = Inr r \<and>
    runs (fst (submit (dynamo_service p wp opts n) ownerId raw options w)) = runs w \<and>
    queue (fst (submit (dynamo_service p wp opts n) ownerId raw options w)) = queue w @
      (if rr_status r = Queued then [\<lparr>qm_runId = rr_runId r,
         qm_traceId = (case so_traceId options of None \<Rightarrow> rr_runId r | Some t \<Rightarrow> t)\<rparr>] else [])"
  using retry_quiet [OF assms] assms(1) by simp

text \<open>
  C40. An idempotency key that was used with another request is refused as a conflict, and the
  stored Run is neither changed nor woken.
\<close>
theorem reused_key_conflicts:
  assumes "script w = []" "faults w = []"
    and "accepted p wp opts ownerId raw options request runId"
    and "runs w runId = Some r"
    and "rr_requestHash r \<noteq> request_hash p wp request"
  shows "submit (dynamo_service p wp opts n) ownerId raw options w =
    (w, Inl (Conflict_Error ''the idempotency key was already used with a different request''))"
proof -
  have "assertSameSubmission r (request_hash p wp request) options =
      Inl (Conflict_Error ''the idempotency key was already used with a different request'')"
    using assms(5) by (simp add: assertSameSubmission_def assertSameRequest_def)
  then show ?thesis
    by (simp add: submit_existing_quiet [OF assms(1-4)] reuse_run_def io_defs)
qed

lemma service_world_fields [simp]:
  "faults (runs_update f w) = faults w" "queue (runs_update f w) = queue w"
  "inputs (runs_update f w) = inputs w" "random_ids (runs_update f w) = random_ids w"
  by (cases w; simp)+

lemma submit_lost_wakeup:
  assumes "script w = []" "faults w = [None, None, Some err]"
    and "accepted p wp opts ownerId raw options request runId" "runs w runId = None"
    and "so_agentsSession options = None" "so_capabilityOwnerId options = None"
  shows "\<exists>w1 r. submit (dynamo_service p wp opts n) ownerId raw options w = (w1, Inl err) \<and>
    script w1 = [] \<and> faults w1 = [] \<and> queue w1 = queue w \<and> runs w1 = (runs w)(runId \<mapsto> r) \<and>
    queued_record r \<and> rr_runId r = runId \<and> rr_requestHash r = request_hash p wp request \<and>
    rr_agentsSession r = None"
proof -
  let ?h = "request_hash p wp request"
  let ?input = "\<lparr>bucket = ''inputs'', object_key = runInputKey p ownerId runId ?h,
    sha256 = sha256Hex p (runInputKey p ownerId runId ?h)\<rparr>"
  obtain r where r: "createQueuedRun p ownerId runId request ?h ?input options (now w) n = Inr r"
    using assms(6) by (simp add: createQueuedRun_def truthy_def)
  from createQueuedRun_Inr [OF r] have q: "rr_runId r = runId" by simp
  let ?w = "w\<lparr>faults := [Some err], inputs := (inputs w)(runInputKey p ownerId runId ?h \<mapsto> request)\<rparr>"
  have "submit (dynamo_service p wp opts n) ownerId raw options w =
      (?w\<lparr>runs := (runs w)(runId \<mapsto> r), faults := []\<rparr>, Inl err)"
    using assms r q
    by (cases w) (simp add: submit_def accepted_def io_defs dynamo_service_def dynamo_run_store_def
        store_get_quiet create_run_def Let_def faulty_def store_create_def reply_io_def
        send_write_quiet enqueue_run_def)
  with createQueuedRun_Inr [OF r] assms(1,5) show ?thesis
    by (intro exI [of _ "?w\<lparr>runs := (runs w)(runId \<mapsto> r), faults := []\<rparr>"] exI [of _ r])
      (cases w; simp)
qed


lemma get_run_quiet:
  assumes "script w = []" "runs w runId = Some r"
  shows "get_run (dynamo_service p wp opts n) ownerId runId w =
    (if rr_ownerId r = ownerId then (w, Inr r)
     else (w, Inl (Forbidden_Error ''run belongs to another owner'')))"
  using assms
  by (simp add: get_run_def io_defs dynamo_service_def dynamo_run_store_def store_get_quiet
      assertOwner_def check_def)

lemma now_text_quiet: "now_text (dynamo_service p wp opts n) w = (w, Inr (iso p (now w)))"
  by (simp add: now_text_def io_defs dynamo_service_def)

definition cancelled_as :: "run_status \<Rightarrow> string \<Rightarrow> run_record \<Rightarrow> run_record" where
  "cancelled_as s t r = r\<lparr>rr_status := s, rr_cancelRequestedAt := Some t, rr_updatedAt := t\<rparr>"

lemma transition_cancel_quiet:
  assumes "script w = []" "runs w runId = Some r" "rr_status r \<in> set from"
  shows "st_transition (sv_store (dynamo_service p wp opts n)) runId from s
      (no_patch\<lparr>p_cancelRequestedAt := Some (iso p (now w))\<rparr>) w =
    (w\<lparr>runs := (runs w)(runId \<mapsto> cancelled_as s (iso p (now w)) r)\<rparr>,
     Inr (cancelled_as s (iso p (now w)) r))"
proof -
  have "apply_patch (no_patch\<lparr>p_cancelRequestedAt := Some t, p_status := Some s\<rparr>) t r =
      cancelled_as s t r" for t
    by (simp add: apply_patch_def no_patch_def patched_def patched_opt_def cancelled_as_def)
  with assms show ?thesis
    by (simp add: dynamo_service_def dynamo_run_store_def store_transition_def store_update_quiet)
qed

lemma stop_effect:
  "runs (fst (registry_stop scripted_registry e reason w)) = runs w"
  "calls (fst (registry_stop scripted_registry e reason w)) =
     calls w @ [Stop_Call (ex_backend e) (ex_id e) reason]"
  by (simp_all add: registry_stop_def io_defs registry_get_def scripted_registry_def scripted_stop_def
      Let_def)

text \<open>
  Nobody reads or cancels another owner's Run: both are refused, and no Run is changed, no
  worker stopped.
\<close>
theorem foreign_run_refused:
  assumes "script w = []" "runs w runId = Some r" "rr_ownerId r \<noteq> ownerId"
  shows "get_run (dynamo_service p wp opts n) ownerId runId w =
      (w, Inl (Forbidden_Error ''run belongs to another owner'')) \<and>
    cancel_run (dynamo_service p wp opts n) ownerId runId w =
      (w, Inl (Forbidden_Error ''run belongs to another owner''))"
  using get_run_quiet [OF assms(1,2), of p wp opts n ownerId] assms(3)
  by (simp add: cancel_run_def bind_io_def)

text \<open>
  What cancelling does: an ended Run is returned as it is; a queued one is cancelled at
  once; a dispatching or running one goes to cancelling, and its worker is asked to stop exactly
  when one is attached.
\<close>
theorem cancel_run_effect:
  fixes p :: platform and wp :: web_platform and opts :: validation_options and n :: int
  assumes "script w = []" "runs w runId = Some r" "rr_ownerId r = ownerId"
  defines "result \<equiv> cancel_run (dynamo_service p wp opts n) ownerId runId w"
  shows "(isTerminal (rr_status r) \<longrightarrow> result = (w, Inr r)) \<and>
    (rr_status r = Queued \<longrightarrow> calls (fst result) = calls w \<and>
       (\<exists>r'. runs (fst result) runId = Some r' \<and> snd result = Inr r' \<and> rr_status r' = Cancelled)) \<and>
    (rr_status r \<in> {Dispatching, Running} \<longrightarrow>
       (\<exists>r'. runs (fst result) runId = Some r' \<and> rr_status r' = Cancelling \<and>
          rr_execution r' = rr_execution r) \<and>
       calls (fst result) = calls w @ (case rr_execution r of
           None \<Rightarrow> []
         | Some e \<Rightarrow> if ex_id e = ''pending'' then []
             else [Stop_Call (ex_backend e) (ex_id e) (''cancelled by '' @ ownerId)]))"
proof -
  let ?sv = "dynamo_service p wp opts n"
  have get: "get_run ?sv ownerId runId w = (w, Inr r)"
    using get_run_quiet [OF assms(1,2), of p wp opts n ownerId] assms(3) by simp
  consider "isTerminal (rr_status r)" | "rr_status r = Queued" | "rr_status r \<in> {Dispatching, Running}"
    | "rr_status r = Cancelling"
    by (cases "rr_status r") (auto simp: isTerminal_def)
  then show ?thesis
  proof cases
    case 1
    then show ?thesis
      unfolding result_def cancel_run_def by (auto simp: bind_io_def get ret_def isTerminal_def)
  next
    case 2
    then have "result = (w\<lparr>runs := (runs w)(runId \<mapsto> cancelled_as Cancelled (iso p (now w)) r)\<rparr>,
        Inr (cancelled_as Cancelled (iso p (now w)) r))"
      unfolding result_def cancel_run_def bind_io_def get using assms(1,2)
      by (simp add: isTerminal_def now_text_quiet transition_cancel_quiet)
    with 2 show ?thesis by (simp add: cancelled_as_def isTerminal_def)
  next
    case 3
    let ?r = "cancelled_as Cancelling (iso p (now w)) r"
    let ?w = "w\<lparr>runs := (runs w)(runId \<mapsto> ?r)\<rparr>"
    from 3 have "\<not> isTerminal (rr_status r)" "rr_status r \<noteq> Queued" "rr_status r \<noteq> Cancelling"
      by (auto simp: isTerminal_def)
    then have "result = bind_io (case rr_execution ?r of
             None \<Rightarrow> ret ()
           | Some e \<Rightarrow> if ex_id e \<noteq> ''pending'' then sv_stop ?sv e (''cancelled by '' @ ownerId)
               else ret ()) (\<lambda>_. ret ?r) ?w"
      unfolding result_def cancel_run_def bind_io_def get using assms(1,2) 3
      by (simp add: now_text_quiet transition_cancel_quiet)
    moreover have "runs ?w runId = Some ?r" by simp
    ultimately show ?thesis
      using 3 stop_effect [of "the (rr_execution r)" "''cancelled by '' @ ownerId" ?w]
      by (cases "rr_execution r")
        (auto simp: cancelled_as_def bind_io_def ret_def isTerminal_def dynamo_service_def
          split: prod.splits sum.splits)
  qed (simp add: isTerminal_def)
qed

section \<open>Identities\<close>

definition hex_text :: "string \<Rightarrow> bool" where
  "hex_text s \<longleftrightarrow> (\<forall>c \<in> set s. is_hex c)"

lemma hex_digit_hex: "n < 16 \<Longrightarrow> is_hex (hex_digit n)"
  by (auto simp: hex_digit_def is_hex_def is_digit_def code_of_def)

lemma hex_digits:
  "hex_digit 8 = CHR ''8''" "hex_digit 9 = CHR ''9''" "hex_digit 10 = CHR ''a''"
  "hex_digit 11 = CHR ''b''"
  by code_simp+

lemma hex_text_parts:
  "hex_text (take n s)" "hex_text (drop n s)" if "hex_text s"
  using that by (auto simp: hex_text_def dest: in_set_takeD in_set_dropD)

lemma hex_text_update: "hex_text s \<Longrightarrow> is_hex c \<Longrightarrow> hex_text (s[i := c])"
  using set_update_subset_insert [of s i c] by (auto simp: hex_text_def)

text \<open>
  The identity of a submission with an idempotency key has the form of a version 5 UUID:
  five groups of hexadecimal digits, with the version and the variant in their places.
\<close>
theorem deterministic_id_is_uuid:
  assumes "length (sha256Hex p (ownerId @ [char_of (0::nat)] @ key)) = 64"
    and "hex_text (sha256Hex p (ownerId @ [char_of (0::nat)] @ key))"
  shows "\<exists>a b c d e. deterministicRunId p ownerId key =
      a @ ''-'' @ b @ ''-'' @ c @ ''-'' @ d @ ''-'' @ e \<and>
    length a = 8 \<and> length b = 4 \<and> length c = 4 \<and> length d = 4 \<and> length e = 12 \<and>
    hex_text (a @ b @ c @ d @ e) \<and> c ! 0 = CHR ''5'' \<and> d ! 0 \<in> set ''89ab''"
proof -
  let ?hex = "(take 32 (sha256Hex p (ownerId @ [char_of (0::nat)] @ key)))[12 := CHR ''5'']"
  define v where "v = hex_value (if 16 < length ?hex then ?hex ! 16 else CHR ''0'') mod 4"
  define joined where "joined = ?hex[16 := hex_digit (8 + v)]"
  have v: "v < 4" by (simp add: v_def)
  have len: "length joined = 32" using assms(1) by (simp add: joined_def)
  have "is_hex (CHR ''5'')" by (simp add: is_hex_def is_digit_def code_of_def)
  then have hex: "hex_text joined"
    using assms(2) v unfolding joined_def
    by (intro hex_text_update hex_text_parts hex_digit_hex) simp_all
  have at: "joined ! 12 = CHR ''5''" "joined ! 16 = hex_digit (8 + v)"
    using assms(1) by (simp_all add: joined_def)
  have "v = 0 \<or> v = 1 \<or> v = 2 \<or> v = 3" using v by auto
  then have variant: "hex_digit (8 + v) \<in> set ''89ab''"
    by (elim disjE) (simp_all add: hex_digits)
  have "deterministicRunId p ownerId key = take 8 joined @ ''-'' @ take 4 (drop 8 joined) @ ''-'' @
      take 4 (drop 12 joined) @ ''-'' @ take 4 (drop 16 joined) @ ''-'' @ drop 20 joined"
    by (simp only: deterministicRunId_def Let_def joined_def v_def)
  moreover have "hex_text (take 8 joined @ take 4 (drop 8 joined) @ take 4 (drop 12 joined) @
      take 4 (drop 16 joined) @ drop 20 joined)"
    using hex by (auto simp: hex_text_def dest: in_set_takeD in_set_dropD)
  moreover have "take 4 (drop 12 joined) ! 0 = CHR ''5''" "take 4 (drop 16 joined) ! 0 = hex_digit (8 + v)"
    using at len by simp_all
  ultimately show ?thesis
    using len variant
    by (intro exI [of _ "take 8 joined"] exI [of _ "take 4 (drop 8 joined)"]
        exI [of _ "take 4 (drop 12 joined)"] exI [of _ "take 4 (drop 16 joined)"]
        exI [of _ "drop 20 joined"]) (simp only: length_take length_drop, simp)
qed

text \<open>Two values that differ only in the order of the keys of their objects, at any depth.\<close>

inductive json_same :: "jsval \<Rightarrow> jsval \<Rightarrow> bool" where
  same: "json_same v v"
| elements: "list_all2 json_same xs ys \<Longrightarrow> json_same (JArr xs) (JArr ys)"
| members: "distinct (map fst fs) \<Longrightarrow>
    list_all2 (\<lambda>f g. fst f = fst g \<and> json_same (snd f) (snd g)) fs gs \<Longrightarrow> mset gs = mset hs \<Longrightarrow>
    json_same (JObj fs) (JObj hs)"

lemma sort_key_mset:
  assumes "mset xs = mset ys" "distinct (map fst xs)"
  shows "sort_key fst xs = sort_key fst ys"
  by (rule sort_key_inj_key_eq) (use assms in \<open>simp_all add: distinct_map\<close>)

lemma json_same_undefined: "json_same v v' \<Longrightarrow> v' = JUndef \<longleftrightarrow> v = JUndef"
  by (cases rule: json_same.cases) auto

definition canonical_members :: "web_platform \<Rightarrow> fields \<Rightarrow> (string \<times> string) list" where
  "canonical_members wp fs = map (\<lambda>(k, v). (k, canonicalJson wp v)) (filter (\<lambda>(k, v). v \<noteq> JUndef) fs)"

lemma canonical_members_same:
  assumes "list_all2 (\<lambda>f g. fst f = fst g \<and> json_same (snd f) (snd g) \<and>
      canonicalJson wp (snd f) = canonicalJson wp (snd g)) fs gs"
  shows "canonical_members wp fs = canonical_members wp gs"
  using assms
  by (induction rule: list_all2_induct)
    (auto simp: canonical_members_def split_beta dest: json_same_undefined)

lemma canonical_members_keys:
  "distinct (map fst fs) \<Longrightarrow> distinct (map fst (canonical_members wp fs))"
proof -
  have "map fst (canonical_members wp fs) = map fst (filter (\<lambda>(k, v). v \<noteq> JUndef) fs)"
    by (simp add: canonical_members_def split_beta comp_def)
  then show "distinct (map fst fs) \<Longrightarrow> ?thesis" by (simp add: distinct_map_filter)
qed

text \<open>
  The canonical encoding, and with it the hash that identifies a request, does not depend on
  the order in which the keys of any object were written.
\<close>
theorem canonical_json_order_free:
  assumes "json_same a b"
  shows "canonicalJson wp a = canonicalJson wp b"
  using assms
proof (induction rule: json_same.induct)
  case (elements xs ys)
  then have "map (canonicalJson wp) xs = map (canonicalJson wp) ys"
    by (induction rule: list_all2_induct) auto
  then show ?case by simp
next
  case (members fs gs hs)
  have "canonical_members wp fs = canonical_members wp gs"
    by (rule canonical_members_same, rule list_all2_mono [OF members.IH]) auto
  moreover have "mset (canonical_members wp gs) = mset (canonical_members wp hs)"
    using members.hyps(2) by (simp add: canonical_members_def)
  ultimately have "sort_key fst (canonical_members wp fs) = sort_key fst (canonical_members wp hs)"
    using canonical_members_keys [OF members.hyps(1), of wp] by (intro sort_key_mset) auto
  then show ?case by (simp add: canonical_members_def)
qed simp

text \<open>Witness: two orders of the keys of one object.\<close>
theorem canonical_json_order_free_witness:
  "canonicalJson example_web (JObj [(''b'', JNull), (''a'', JBool True)]) =
   canonicalJson example_web (JObj [(''a'', JBool True), (''b'', JNull)])"
proof -
  have "json_same (JObj [(''b'', JNull), (''a'', JBool True)])
      (JObj [(''a'', JBool True), (''b'', JNull)])"
    by (rule json_same.members [where gs = "[(''b'', JNull), (''a'', JBool True)]"])
      (simp_all add: json_same.same add_mset_commute)
  then show ?thesis by (rule canonical_json_order_free)
qed

section \<open>Witnesses\<close>

lemma example_service_ok: "world_ok (service_example [example_id \<mapsto> example_run h] fs)"
  by (simp add: world_ok_def table_ok_def run_item_ok_def example_run_def example_queued_def)

text \<open>Witness: the service over one queued Run.\<close>
theorem service_keeps_promise_witness:
  "\<exists>r'. runs (fst (cancel_run (dynamo_service example_platform example_web open_options 9) ''o'' example_id
      (service_example [example_id \<mapsto> example_run ''h''] []))) example_id = Some r' \<and>
    evolves (example_run ''h'') r'"
  using service_keeps_promise [OF example_service_ok [of "''h''" "[]"], of example_id
      "example_run ''h''" example_platform example_web open_options 9]
  by simp

text \<open>Witness: the example submission, retried.\<close>
theorem submission_returns_its_request_witness:
  "rr_requestHash (example_run example_hash) =
   request_hash example_platform example_web example_request"
proof -
  have "submit (dynamo_service example_platform example_web open_options 9) ''o''
      (request_value example_request) example_options
      (service_example [example_id \<mapsto> example_run example_hash] []) =
    (if rr_status (example_run example_hash) = Queued
     then (service_example [example_id \<mapsto> example_run example_hash] [])\<lparr>queue :=
       queue (service_example [example_id \<mapsto> example_run example_hash] []) @
       [\<lparr>qm_runId = rr_runId (example_run example_hash),
         qm_traceId = (case so_traceId example_options of
           None \<Rightarrow> rr_runId (example_run example_hash) | Some t \<Rightarrow> t)\<rparr>]\<rparr>
     else service_example [example_id \<mapsto> example_run example_hash] [], Inr (example_run example_hash))"
    by (rule retry_quiet [OF _ _ example_accepted]) (simp_all add: example_options_def example_hash_def)
  from submission_returns_its_request [OF this] show ?thesis
    by (simp add: dynamo_service_def example_request_parsed)
qed

text \<open>Witness: the example submission, retried.\<close>
theorem retry_returns_stored_run_witness:
  "queue (fst (submit (dynamo_service example_platform example_web open_options 9) ''o''
      (request_value example_request) example_options
      (service_example [example_id \<mapsto> example_run example_hash] []))) =
   [\<lparr>qm_runId = example_id, qm_traceId = example_id\<rparr>]"
  using retry_returns_stored_run [OF _ _ example_accepted,
      of "service_example [example_id \<mapsto> example_run example_hash] []" "example_run example_hash" 9]
  by (simp add: example_options_def example_hash_def)

text \<open>Witness: the example key, used before with another request.\<close>
theorem reused_key_conflicts_witness:
  "snd (submit (dynamo_service example_platform example_web open_options 9) ''o''
      (request_value example_request) example_options
      (service_example [example_id \<mapsto> example_run (CHR ''x'' # example_hash)] [])) =
   Inl (Conflict_Error ''the idempotency key was already used with a different request'')"
  using reused_key_conflicts [OF _ _ example_accepted,
      of "service_example [example_id \<mapsto> example_run (CHR ''x'' # example_hash)] []"
      "example_run (CHR ''x'' # example_hash)" 9]
  by (simp add: example_hash_def)


text \<open>Witness: another owner's example Run.\<close>
theorem foreign_run_refused_witness:
  "snd (get_run (dynamo_service example_platform example_web open_options 9) ''x'' example_id
     (service_example [example_id \<mapsto> example_run ''h''] [])) =
   Inl (Forbidden_Error ''run belongs to another owner'')"
  using foreign_run_refused [of "service_example [example_id \<mapsto> example_run ''h''] []" example_id
      "example_run ''h''" "''x''" example_platform example_web open_options 9]
  by simp

text \<open>Witness: the example Run, cancelled.\<close>
theorem cancel_run_effect_witness:
  "calls (fst (cancel_run (dynamo_service example_platform example_web open_options 9) ''o'' example_id
     (service_example [example_id \<mapsto> example_run ''h''] []))) = []"
  using cancel_run_effect [of "service_example [example_id \<mapsto> example_run ''h''] []" example_id
      "example_run ''h''" "''o''" example_platform example_web open_options 9]
  by simp

text \<open>Witness: a digest of zeros.\<close>
theorem deterministic_id_is_uuid_witness:
  "\<exists>a b c d e. deterministicRunId (example_platform\<lparr>sha256Hex := (\<lambda>_. replicate 64 (CHR ''0''))\<rparr>) [] [] =
      a @ ''-'' @ b @ ''-'' @ c @ ''-'' @ d @ ''-'' @ e \<and>
    length a = 8 \<and> length b = 4 \<and> length c = 4 \<and> length d = 4 \<and> length e = 12 \<and>
    hex_text (a @ b @ c @ d @ e) \<and> c ! 0 = CHR ''5'' \<and> d ! 0 \<in> set ''89ab''"
  by (rule deterministic_id_is_uuid) (simp_all add: hex_text_def is_hex_def is_digit_def code_of_def)

end
