(* ===== verification/Capabilities.thy ===== *)
theory Capabilities
  imports Run_Validation
begin

text \<open>
  Connections to outside services and what a Run may do with them
  (\<open>src/domain/capabilities.ts\<close>, \<open>src/plugins/connection-planning.ts\<close>,
  \<open>src/domain/event-policy.ts\<close>).

  The enumerations of the code are datatypes here, so the checks that a value is one of them
  are built in; the \<open>version\<close> field, always \<open>1\<close>, is left out for the same reason. A validator
  returns the value it was given, as \<open>structuredClone\<close> does.
\<close>

section \<open>Data\<close>

datatype access_level = Read_Access | Write_Access | All_Access

datatype operation_kind = Trigger | Search | Action | Tool

datatype operation_risk = Routine | Consequential | Destructive | Privileged

datatype connection_status = Usable | Expired | Revoked

datatype health_status = Health_Unknown | Healthy | Degraded | Reauth_Required

datatype health_code =
    Not_Tested | Verified | Provider_Unavailable | Credential_Rejected | Identity_Mismatch
  | Credential_Missing

datatype auth_scheme = Oauth2 | Api_Key | Session_Auth | Basic_Auth

datatype scope_model = Granular | Coarse | Unknown_Scopes

record provider_authorization =
  az_scheme :: auth_scheme
  az_access :: access_level
  az_scopeModel :: scope_model
  az_scopes :: "string list"

record connection =
  cn_connectionId :: string
  cn_ownerId :: string
  cn_pluginId :: string
  cn_alias :: string
  cn_displayName :: "string option"
  cn_label :: string
  cn_externalTenantId :: "string option"
  cn_externalSubjectId :: "string option"
  cn_authorization :: provider_authorization
  cn_status :: connection_status
  cn_createdAt :: string
  cn_updatedAt :: string

record connection_health =
  ch_ownerId :: string
  ch_connectionId :: string
  ch_status :: health_status
  ch_code :: health_code
  ch_checkedAt :: "string option"
  ch_lastHealthyAt :: "string option"
  ch_lastFailureAt :: "string option"

record operation =
  op_id :: string
  op_title :: string
  op_kind :: operation_kind
  op_access :: access_level
  op_risk :: operation_risk
  op_requiredScopes :: "string list option"
  op_inputSchema :: "fields option"

record grant =
  gr_grantId :: string
  gr_ownerId :: string
  gr_connectionId :: string
  gr_preset :: permission_preset
  gr_allowOperations :: "string list option"
  gr_denyOperations :: "string list option"
  gr_resourceConstraints :: "(string \<times> string list) list option"
  gr_expiresAt :: "string option"

record connection_set =
  cs_connectionSetId :: string
  cs_ownerId :: string
  cs_name :: string
  cs_connectionIds :: "string list"
  cs_defaults :: "(string \<times> string) list option"

record source_binding =
  bd_sourceKind :: source_kind
  bd_selector :: "(string \<times> string) list"

datatype enforcement = Provider_And_Broker | Broker

record authorization_decision =
  ad_allowed :: bool
  ad_enforcement :: enforcement
  ad_reason :: "string option"

section \<open>Access levels\<close>

fun level_index :: "access_level \<Rightarrow> nat" where
  "level_index Read_Access = 0"
| "level_index Write_Access = 1"
| "level_index All_Access = 2"

lemma level_index_inj: "level_index a = level_index b \<Longrightarrow> a = b"
  by (cases a; cases b) simp_all

instantiation access_level :: linorder
begin

definition less_eq_access_level :: "access_level \<Rightarrow> access_level \<Rightarrow> bool" where
  "less_eq_access_level a b \<longleftrightarrow> level_index a \<le> level_index b"

definition less_access_level :: "access_level \<Rightarrow> access_level \<Rightarrow> bool" where
  "less_access_level a b \<longleftrightarrow> level_index a < level_index b"

instance
  by standard
    (auto simp: less_eq_access_level_def less_access_level_def intro: level_index_inj)

end

definition accessIncludes :: "access_level \<Rightarrow> access_level \<Rightarrow> bool" where
  "accessIncludes granted required \<longleftrightarrow> level_index granted \<ge> level_index required"

lemma accessIncludes_le: "accessIncludes granted required \<longleftrightarrow> required \<le> granted"
  by (simp add: accessIncludes_def less_eq_access_level_def)

text \<open>The custom preset has no level of its own: its operations are listed.\<close>

fun presetAccess :: "permission_preset \<Rightarrow> access_level option" where
  "presetAccess Read_Only = Some Read_Access"
| "presetAccess Read_Write = Some Write_Access"
| "presetAccess Full_Access = Some All_Access"
| "presetAccess Custom_Access = None"

fun access_text :: "access_level \<Rightarrow> string" where
  "access_text Read_Access = ''read''"
| "access_text Write_Access = ''write''"
| "access_text All_Access = ''full''"

fun connection_status_text :: "connection_status \<Rightarrow> string" where
  "connection_status_text Usable = ''active''"
| "connection_status_text Expired = ''expired''"
| "connection_status_text Revoked = ''revoked''"

section \<open>Authorization\<close>

definition listed :: "'a \<Rightarrow> 'a list option \<Rightarrow> bool" where
  "listed x xs \<longleftrightarrow> (case xs of None \<Rightarrow> False | Some ys \<Rightarrow> x \<in> set ys)"

definition operationPolicyDenial ::
  "permission_preset \<Rightarrow> string list option \<Rightarrow> string list option \<Rightarrow> operation \<Rightarrow> string option" where
  "operationPolicyDenial preset allow deny operation =
     (if listed (op_id operation) deny then Some ''operation is explicitly denied''
      else if allow \<noteq> None \<and> \<not> listed (op_id operation) allow
      then Some ''operation is outside the grant allowlist''
      else if preset = Custom_Access \<and> \<not> listed (op_id operation) allow
      then Some ''custom grants require an explicit operation allowlist''
      else case presetAccess preset of
          None \<Rightarrow> None
        | Some level \<Rightarrow>
            if \<not> accessIncludes level (op_access operation)
            then Some (''operation requires '' @ access_text (op_access operation) @ '' access'')
            else None)"

definition operationEnforcement :: "connection \<Rightarrow> operation \<Rightarrow> enforcement" where
  "operationEnforcement connection operation =
     (if az_scopeModel (cn_authorization connection) = Granular \<and>
         (case op_requiredScopes operation of None \<Rightarrow> 0 | Some ss \<Rightarrow> length ss) > 0
      then Provider_And_Broker else Broker)"

definition grant_denial :: "grant \<Rightarrow> operation \<Rightarrow> string option" where
  "grant_denial g = operationPolicyDenial (gr_preset g) (gr_allowOperations g) (gr_denyOperations g)"

definition request_denial :: "connection_access_request option \<Rightarrow> operation \<Rightarrow> string option" where
  "request_denial requested operation = (case requested of
       None \<Rightarrow> None
     | Some r \<Rightarrow> operationPolicyDenial (case car_preset r of None \<Rightarrow> Full_Access | Some preset \<Rightarrow> preset)
         (car_allowOperations r) (car_denyOperations r) operation)"

definition profile_denial :: "permission_preset option \<Rightarrow> operation \<Rightarrow> string option" where
  "profile_denial maximum operation = (case maximum of
       None \<Rightarrow> None | Some preset \<Rightarrow> operationPolicyDenial preset None None operation)"

definition missing_scope :: "connection \<Rightarrow> operation \<Rightarrow> bool" where
  "missing_scope c operation \<longleftrightarrow> az_scopeModel (cn_authorization c) = Granular \<and>
     (case op_requiredScopes operation of
        None \<Rightarrow> False
      | Some scopes \<Rightarrow> \<exists>scope \<in> set scopes. scope \<notin> set (az_scopes (cn_authorization c)))"

text \<open>An expiry that is no date compares like \<open>NaN\<close>: it has not passed.\<close>

definition grant_expired :: "platform \<Rightarrow> grant \<Rightarrow> int \<Rightarrow> bool" where
  "grant_expired p g millis \<longleftrightarrow> truthy (gr_expiresAt g) \<and>
     (case date_parse p (the (gr_expiresAt g)) of None \<Rightarrow> False | Some t \<Rightarrow> t \<le> millis)"

definition authorization_denial ::
  "platform \<Rightarrow> connection \<Rightarrow> grant \<Rightarrow> operation \<Rightarrow> connection_access_request option
     \<Rightarrow> permission_preset option \<Rightarrow> int \<Rightarrow> string option" where
  "authorization_denial p c g operation requested maximum millis =
     (if cn_ownerId c \<noteq> gr_ownerId g then Some ''connection and grant owners do not match''
      else if cn_connectionId c \<noteq> gr_connectionId g then Some ''grant targets another connection''
      else if cn_status c \<noteq> Usable
      then Some (''connection is '' @ connection_status_text (cn_status c))
      else if grant_expired p g millis then Some ''grant has expired''
      else if grant_denial g operation \<noteq> None then grant_denial g operation
      else if \<not> accessIncludes (az_access (cn_authorization c)) (op_access operation)
      then Some (''provider authorization does not include '' @ access_text (op_access operation) @
        '' access'')
      else if missing_scope c operation
      then Some ''provider authorization is missing a required scope''
      else if request_denial requested operation \<noteq> None then request_denial requested operation
      else profile_denial maximum operation)"

definition authorizeConnectionOperation ::
  "platform \<Rightarrow> connection \<Rightarrow> grant \<Rightarrow> operation \<Rightarrow> connection_access_request option
     \<Rightarrow> permission_preset option \<Rightarrow> int \<Rightarrow> authorization_decision" where
  "authorizeConnectionOperation p c g operation requested maximum millis =
     (let denial = authorization_denial p c g operation requested maximum millis
      in \<lparr>ad_allowed = (denial = None), ad_enforcement = operationEnforcement c operation,
          ad_reason = denial\<rparr>)"

text \<open>The field of a source as JavaScript reads it.\<close>

definition source_field :: "run_source \<Rightarrow> string \<Rightarrow> jsval" where
  "source_field source k = (case source_value source of JObj fs \<Rightarrow> get_prop fs k | _ \<Rightarrow> JUndef)"

definition sourceBindingMatches :: "web_platform \<Rightarrow> source_binding \<Rightarrow> run_source \<Rightarrow> bool" where
  "sourceBindingMatches wp binding source \<longleftrightarrow> bd_sourceKind binding = source_kind_of source \<and>
     list_all (\<lambda>(key, expected). case source_field source key of
         JStr s \<Rightarrow> s = expected
       | JNum n \<Rightarrow> num_to_string wp n = expected
       | _ \<Rightarrow> False) (bd_selector binding)"

section \<open>Validation\<close>

definition plain :: "string \<Rightarrow> error + 'a" where
  "plain m = Inl (Plain_Error m)"

definition ensure :: "bool \<Rightarrow> string \<Rightarrow> error + unit" where
  "ensure ok m = check ok (Plain_Error m)"

definition requireId :: "string \<Rightarrow> string \<Rightarrow> error + unit" where
  "requireId v label = ensure (identifier_pattern v) (label @ '' is invalid'')"

definition requireOperationId :: "string \<Rightarrow> string \<Rightarrow> error + unit" where
  "requireOperationId v label = ensure (operation_pattern v) (label @ '' is invalid'')"

definition requireLabel :: "string \<Rightarrow> string \<Rightarrow> nat \<Rightarrow> error + unit" where
  "requireLabel v label maximum =
     ensure (js_trim v \<noteq> [] \<and> utf8_length v \<le> maximum) (label @ '' is invalid'')"

definition requireIdentity :: "string \<Rightarrow> string \<Rightarrow> error + unit" where
  "requireIdentity v label = requireLabel v label 1024"

text \<open>\<open>^\d{4}-\d{2}-\d{2}T\<close>\<close>

definition timestamp_pattern :: "string \<Rightarrow> bool" where
  "timestamp_pattern v \<longleftrightarrow> length v \<ge> 11 \<and> (\<forall>i \<in> {0, 1, 2, 3, 5, 6, 8, 9}. is_digit (v ! i)) \<and>
     v ! 4 = CHR ''-'' \<and> v ! 7 = CHR ''-'' \<and> v ! 10 = CHR ''T''"

definition requireTimestamp :: "platform \<Rightarrow> string \<Rightarrow> string \<Rightarrow> error + unit" where
  "requireTimestamp p v label =
     ensure (timestamp_pattern v \<and> date_parse p v \<noteq> None) (label @ '' is invalid'')"

definition optionally :: "('a \<Rightarrow> error + unit) \<Rightarrow> 'a option \<Rightarrow> error + unit" where
  "optionally f x = (case x of None \<Rightarrow> Inr () | Some a \<Rightarrow> f a)"

text \<open>\<open>if (value) f(value)\<close> on a text.\<close>

definition if_present :: "(string \<Rightarrow> error + unit) \<Rightarrow> string option \<Rightarrow> error + unit" where
  "if_present f x = (if truthy x then f (the x) else Inr ())"

fun each_new :: "(string \<Rightarrow> error + unit) \<Rightarrow> string \<Rightarrow> string list \<Rightarrow> string list \<Rightarrow> error + unit" where
  "each_new f label seen [] = Inr ()"
| "each_new f label seen (x # xs) = bindE (f x) (\<lambda>_.
     bindE (ensure (x \<notin> set seen) (label @ '' contains duplicate '' @ x)) (\<lambda>_.
     each_new f label (x # seen) xs))"

definition validateIdList :: "string list \<Rightarrow> string \<Rightarrow> nat \<Rightarrow> error + unit" where
  "validateIdList xs label maximum =
     bindE (ensure (length xs \<le> maximum) (label @ '' is invalid'')) (\<lambda>_.
     each_new (\<lambda>x. requireId x label) label [] xs)"

definition validateOperationList :: "string list \<Rightarrow> string \<Rightarrow> error + unit" where
  "validateOperationList xs label =
     bindE (ensure (length xs \<le> 128) (label @ '' is invalid'')) (\<lambda>_.
     each_new (\<lambda>x. requireOperationId x label) label [] xs)"

fun each :: "('a \<Rightarrow> error + unit) \<Rightarrow> 'a list \<Rightarrow> error + unit" where
  "each f [] = Inr ()"
| "each f (x # xs) = bindE (f x) (\<lambda>_. each f xs)"

definition validateIntegrationConnection :: "platform \<Rightarrow> connection \<Rightarrow> error + connection" where
  "validateIntegrationConnection p c =
     bindE (requireId (cn_connectionId c) ''connection ID'') (\<lambda>_.
     bindE (requireIdentity (cn_ownerId c) ''connection owner'') (\<lambda>_.
     bindE (requireId (cn_pluginId c) ''plugin ID'') (\<lambda>_.
     bindE (ensure (word_pattern ''._:@-'' 127 (cn_alias c)) ''connection alias is invalid'') (\<lambda>_.
     bindE (optionally (\<lambda>v. requireLabel v ''connection display name'' 256) (cn_displayName c)) (\<lambda>_.
     bindE (requireLabel (cn_label c) ''connection label'' 256) (\<lambda>_.
     bindE (optionally (\<lambda>v. requireLabel v ''external tenant ID'' 512) (cn_externalTenantId c)) (\<lambda>_.
     bindE (optionally (\<lambda>v. requireLabel v ''external subject ID'' 512) (cn_externalSubjectId c)) (\<lambda>_.
     bindE (validateIdList (az_scopes (cn_authorization c)) ''provider scopes'' 256) (\<lambda>_.
     bindE (requireTimestamp p (cn_createdAt c) ''connection createdAt'') (\<lambda>_.
     bindE (requireTimestamp p (cn_updatedAt c) ''connection updatedAt'') (\<lambda>_.
     Inr c)))))))))))"

definition validateConnectionHealth :: "platform \<Rightarrow> connection_health \<Rightarrow> error + connection_health" where
  "validateConnectionHealth p h =
     bindE (requireIdentity (ch_ownerId h) ''connection health owner'') (\<lambda>_.
     bindE (requireId (ch_connectionId h) ''connection health connection ID'') (\<lambda>_.
     bindE (if_present (\<lambda>v. requireTimestamp p v ''connection health checkedAt'') (ch_checkedAt h)) (\<lambda>_.
     bindE (if_present (\<lambda>v. requireTimestamp p v ''connection health lastHealthyAt'')
       (ch_lastHealthyAt h)) (\<lambda>_.
     bindE (if_present (\<lambda>v. requireTimestamp p v ''connection health lastFailureAt'')
       (ch_lastFailureAt h)) (\<lambda>_.
     bindE (ensure (\<not> (ch_status h = Healthy \<and> \<not> truthy (ch_checkedAt h)))
       ''healthy connection requires checkedAt'') (\<lambda>_.
     Inr h))))))"

fun assertJson :: "string \<Rightarrow> jsval \<Rightarrow> error + unit" where
  "assertJson label JNull = Inr ()"
| "assertJson label (JStr s) = Inr ()"
| "assertJson label (JBool b) = Inr ()"
| "assertJson label (JNum n) =
     (case n of Finite _ \<Rightarrow> Inr () | _ \<Rightarrow> plain (label @ '' contains a non-finite number''))"
| "assertJson label JUndef = plain (label @ '' must contain only JSON values'')"
| "assertJson label (JArr xs) = fold (\<lambda>r acc. bindE acc (\<lambda>_. r)) (map (assertJson label) xs) (Inr ())"
| "assertJson label (JObj fs) =
     fold (\<lambda>r acc. bindE acc (\<lambda>_. r)) (map (\<lambda>(k, v). assertJson label v) fs) (Inr ())"

definition validateOperationDefinition :: "operation \<Rightarrow> error + operation" where
  "validateOperationDefinition operation =
     bindE (requireOperationId (op_id operation) ''operation ID'') (\<lambda>_.
     bindE (requireLabel (op_title operation) ''operation title'' 256) (\<lambda>_.
     bindE (optionally (\<lambda>v. validateIdList v ''required provider scopes'' 64)
       (op_requiredScopes operation)) (\<lambda>_.
     bindE (optionally (\<lambda>v. assertJson ''operation input schema'' (JObj v))
       (op_inputSchema operation)) (\<lambda>_.
     Inr operation))))"

definition no_grant_overlap :: "grant \<Rightarrow> error + unit" where
  "no_grant_overlap g =
     (case find (\<lambda>operation. listed operation (gr_denyOperations g))
         (case gr_allowOperations g of None \<Rightarrow> [] | Some ops \<Rightarrow> ops) of
        None \<Rightarrow> Inr ()
      | Some overlap \<Rightarrow> plain (''operation '' @ overlap @ '' is both allowed and denied''))"

definition resource_constraints :: "(string \<times> string list) list \<Rightarrow> error + unit" where
  "resource_constraints rs =
     bindE (ensure (length rs \<le> 64) ''grant has too many resource constraints'') (\<lambda>_.
     each (\<lambda>(resource, ids). bindE (requireId resource ''resource constraint'') (\<lambda>_.
       validateIdList ids (''resource constraint '' @ resource) 256)) rs)"

definition validateConnectionGrant :: "platform \<Rightarrow> grant \<Rightarrow> error + grant" where
  "validateConnectionGrant p g =
     bindE (requireId (gr_grantId g) ''grant ID'') (\<lambda>_.
     bindE (requireIdentity (gr_ownerId g) ''grant owner'') (\<lambda>_.
     bindE (requireId (gr_connectionId g) ''grant connection ID'') (\<lambda>_.
     bindE (optionally (\<lambda>v. validateOperationList v ''allowed operations'') (gr_allowOperations g)) (\<lambda>_.
     bindE (optionally (\<lambda>v. validateOperationList v ''denied operations'') (gr_denyOperations g)) (\<lambda>_.
     bindE (no_grant_overlap g) (\<lambda>_.
     bindE (ensure (\<not> (gr_preset g = Custom_Access \<and>
         (gr_allowOperations g = None \<or> gr_allowOperations g = Some [])))
       ''custom grant requires allowed operations'') (\<lambda>_.
     bindE (optionally resource_constraints (gr_resourceConstraints g)) (\<lambda>_.
     bindE (if_present (\<lambda>v. requireTimestamp p v ''grant expiresAt'') (gr_expiresAt g)) (\<lambda>_.
     Inr g)))))))))"

definition validateConnectionSet :: "connection_set \<Rightarrow> error + connection_set" where
  "validateConnectionSet c =
     bindE (requireId (cs_connectionSetId c) ''connection set ID'') (\<lambda>_.
     bindE (requireIdentity (cs_ownerId c) ''connection set owner'') (\<lambda>_.
     bindE (requireLabel (cs_name c) ''connection set name'' 128) (\<lambda>_.
     bindE (validateIdList (cs_connectionIds c) ''connection set connections'' 128) (\<lambda>_.
     bindE (ensure (cs_connectionIds c \<noteq> []) ''connection set requires at least one connection'') (\<lambda>_.
     bindE (each (\<lambda>(capability, connectionId).
         bindE (requireId capability ''connection default capability'') (\<lambda>_.
         bindE (requireId connectionId ''connection default'') (\<lambda>_.
         ensure (connectionId \<in> set (cs_connectionIds c))
           (''default connection '' @ connectionId @ '' is not in the connection set''))))
       (case cs_defaults c of None \<Rightarrow> [] | Some ds \<Rightarrow> ds)) (\<lambda>_.
     Inr c))))))"

section \<open>Planning of connections\<close>

record verified_credential =
  vc_label :: string
  vc_externalTenantId :: "string option"
  vc_externalSubjectId :: "string option"
  vc_authorization :: provider_authorization

definition present :: "string option \<Rightarrow> string option" where
  "present x = (if truthy x then x else None)"

definition newConnection ::
  "platform \<Rightarrow> string \<Rightarrow> string \<Rightarrow> string \<Rightarrow> string \<Rightarrow> verified_credential \<Rightarrow> string \<Rightarrow> error + connection"
where
  "newConnection p connectionId ownerId pluginId alias verified timestamp =
     validateIntegrationConnection p \<lparr>cn_connectionId = connectionId, cn_ownerId = ownerId,
       cn_pluginId = pluginId, cn_alias = alias, cn_displayName = None, cn_label = vc_label verified,
       cn_externalTenantId = present (vc_externalTenantId verified),
       cn_externalSubjectId = present (vc_externalSubjectId verified),
       cn_authorization = vc_authorization verified, cn_status = Usable, cn_createdAt = timestamp,
       cn_updatedAt = timestamp\<rparr>"

definition connectionGrant ::
  "platform \<Rightarrow> string \<Rightarrow> string \<Rightarrow> string \<Rightarrow> grant \<Rightarrow> error + grant" where
  "connectionGrant p grantId ownerId connectionId policy =
     validateConnectionGrant p (policy\<lparr>gr_grantId := grantId, gr_ownerId := ownerId,
       gr_connectionId := connectionId\<rparr>)"

definition text_or_empty :: "string option \<Rightarrow> string" where
  "text_or_empty x = (case x of None \<Rightarrow> [] | Some s \<Rightarrow> s)"

definition sameProviderIdentity :: "connection \<Rightarrow> verified_credential \<Rightarrow> bool" where
  "sameProviderIdentity c verified \<longleftrightarrow>
     az_scheme (vc_authorization verified) = az_scheme (cn_authorization c) \<and>
     text_or_empty (vc_externalTenantId verified) = text_or_empty (cn_externalTenantId c) \<and>
     text_or_empty (vc_externalSubjectId verified) = text_or_empty (cn_externalSubjectId c)"

definition refreshedConnection ::
  "platform \<Rightarrow> connection \<Rightarrow> verified_credential \<Rightarrow> string \<Rightarrow> error + connection" where
  "refreshedConnection p c verified timestamp = validateIntegrationConnection p
     (c\<lparr>cn_label := vc_label verified, cn_authorization := vc_authorization verified,
        cn_status := Usable, cn_updatedAt := timestamp\<rparr>)"

definition connectionWithStatus ::
  "platform \<Rightarrow> connection \<Rightarrow> connection_status \<Rightarrow> string \<Rightarrow> error + connection" where
  "connectionWithStatus p c status timestamp =
     validateIntegrationConnection p (c\<lparr>cn_status := status, cn_updatedAt := timestamp\<rparr>)"

definition untestedConnectionHealth :: "platform \<Rightarrow> string \<Rightarrow> string \<Rightarrow> error + connection_health" where
  "untestedConnectionHealth p ownerId connectionId = validateConnectionHealth p
     \<lparr>ch_ownerId = ownerId, ch_connectionId = connectionId, ch_status = Health_Unknown,
      ch_code = Not_Tested, ch_checkedAt = None, ch_lastHealthyAt = None, ch_lastFailureAt = None\<rparr>"

definition connectionHealthObservation ::
  "platform \<Rightarrow> string \<Rightarrow> string \<Rightarrow> connection_health \<Rightarrow> health_status \<Rightarrow> health_code \<Rightarrow> string
     \<Rightarrow> error + connection_health" where
  "connectionHealthObservation p ownerId connectionId previous status code timestamp =
     validateConnectionHealth p \<lparr>ch_ownerId = ownerId, ch_connectionId = connectionId,
       ch_status = status, ch_code = code, ch_checkedAt = Some timestamp,
       ch_lastHealthyAt = (if status = Healthy then Some timestamp else present (ch_lastHealthyAt previous)),
       ch_lastFailureAt = (if status = Healthy then present (ch_lastFailureAt previous) else Some timestamp)\<rparr>"

definition connectionCredentialName :: "platform \<Rightarrow> string \<Rightarrow> string \<Rightarrow> string \<Rightarrow> string" where
  "connectionCredentialName p prefix ownerId connectionId =
     (if ends_with prefix ''/'' then butlast prefix else prefix) @ ''/'' @
     take 32 (sha256Hex p ownerId) @ ''/'' @ connectionId"

definition aliasCandidate :: "string \<Rightarrow> nat \<Rightarrow> string" where
  "aliasCandidate base suffix =
     (let ending = (if suffix = 1 then [] else ''-'' @ show_nat suffix)
      in take (128 - length ending) base @ ending)"

section \<open>Properties\<close>

text \<open>What a policy permits, stated without the order of the checks.\<close>

definition policy_permits ::
  "permission_preset \<Rightarrow> string list option \<Rightarrow> string list option \<Rightarrow> operation \<Rightarrow> bool" where
  "policy_permits preset allow deny operation \<longleftrightarrow>
     (\<forall>ops. deny = Some ops \<longrightarrow> op_id operation \<notin> set ops) \<and>
     (\<forall>ops. allow = Some ops \<longrightarrow> op_id operation \<in> set ops) \<and>
     (case presetAccess preset of
        None \<Rightarrow> \<exists>ops. allow = Some ops \<and> op_id operation \<in> set ops
      | Some level \<Rightarrow> op_access operation \<le> level)"

lemma no_policy_denial:
  "operationPolicyDenial preset allow deny operation = None \<longleftrightarrow> policy_permits preset allow deny operation"
  by (cases preset)
    (auto simp: operationPolicyDenial_def policy_permits_def listed_def accessIncludes_le
      split: option.splits)

lemma no_request_denial:
  "request_denial requested operation = None \<longleftrightarrow> (\<forall>r. requested = Some r \<longrightarrow>
     policy_permits (case car_preset r of None \<Rightarrow> Full_Access | Some preset \<Rightarrow> preset)
       (car_allowOperations r) (car_denyOperations r) operation)"
  by (simp add: request_denial_def no_policy_denial split: option.splits)

lemma no_profile_denial:
  "profile_denial maximum operation = None \<longleftrightarrow>
     (\<forall>preset. maximum = Some preset \<longrightarrow> policy_permits preset None None operation)"
  by (simp add: profile_denial_def no_policy_denial split: option.splits)

text \<open>What does not depend on the Run's selection or on the profile.\<close>

definition grant_permits :: "platform \<Rightarrow> connection \<Rightarrow> grant \<Rightarrow> operation \<Rightarrow> int \<Rightarrow> bool" where
  "grant_permits p c g operation millis \<longleftrightarrow>
     cn_ownerId c = gr_ownerId g \<and> cn_connectionId c = gr_connectionId g \<and> cn_status c = Usable \<and>
     \<not> grant_expired p g millis \<and>
     policy_permits (gr_preset g) (gr_allowOperations g) (gr_denyOperations g) operation \<and>
     op_access operation \<le> az_access (cn_authorization c) \<and> \<not> missing_scope c operation"

lemma allowed_iff:
  "ad_allowed (authorizeConnectionOperation p c g operation requested maximum millis) \<longleftrightarrow>
     grant_permits p c g operation millis \<and> request_denial requested operation = None \<and>
     profile_denial maximum operation = None"
  by (auto simp: authorizeConnectionOperation_def authorization_denial_def grant_permits_def Let_def
      grant_denial_def no_policy_denial accessIncludes_le split: if_splits)

text \<open>
  C23. An operation is allowed exactly when the grant is for this owner's connection, the
  connection is usable and the grant has not expired, and the grant, the provider's
  authorization and its scopes, the Run's own selection and the deployment's profile all permit
  it.
\<close>
theorem authorized_iff:
  "ad_allowed (authorizeConnectionOperation p c g operation requested maximum millis) \<longleftrightarrow>
     cn_ownerId c = gr_ownerId g \<and> cn_connectionId c = gr_connectionId g \<and> cn_status c = Usable \<and>
     \<not> grant_expired p g millis \<and>
     policy_permits (gr_preset g) (gr_allowOperations g) (gr_denyOperations g) operation \<and>
     op_access operation \<le> az_access (cn_authorization c) \<and> \<not> missing_scope c operation \<and>
     (case requested of None \<Rightarrow> True | Some r \<Rightarrow>
        policy_permits (case car_preset r of None \<Rightarrow> Full_Access | Some preset \<Rightarrow> preset)
          (car_allowOperations r) (car_denyOperations r) operation) \<and>
     (case maximum of None \<Rightarrow> True | Some preset \<Rightarrow> policy_permits preset None None operation)"
  by (simp add: allowed_iff grant_permits_def no_request_denial no_profile_denial split: option.splits)

definition example_connection :: connection where
  "example_connection = \<lparr>cn_connectionId = ''c'', cn_ownerId = ''o'', cn_pluginId = ''p'', cn_alias = ''a'',
     cn_displayName = None, cn_label = ''l'', cn_externalTenantId = None, cn_externalSubjectId = Some ''s'',
     cn_authorization = \<lparr>az_scheme = Oauth2, az_access = Write_Access, az_scopeModel = Granular,
       az_scopes = [''issues'']\<rparr>,
     cn_status = Usable, cn_createdAt = ''2024-01-01T'', cn_updatedAt = ''2024-01-01T''\<rparr>"

definition example_grant :: grant where
  "example_grant = \<lparr>gr_grantId = ''g'', gr_ownerId = ''o'', gr_connectionId = ''c'', gr_preset = Custom_Access,
     gr_allowOperations = Some [''issues.read''], gr_denyOperations = None,
     gr_resourceConstraints = None, gr_expiresAt = Some ''2024-01-01T''\<rparr>"

definition example_operation :: operation where
  "example_operation = \<lparr>op_id = ''issues.read'', op_title = ''Read'', op_kind = Search,
     op_access = Read_Access, op_risk = Routine, op_requiredScopes = Some [''issues''],
     op_inputSchema = None\<rparr>"

lemma example_authorized:
  "ad_allowed (authorizeConnectionOperation example_platform example_connection example_grant
     example_operation None (Some Read_Write) 5)"
  by (simp add: allowed_iff grant_permits_def example_connection_def example_grant_def
      example_operation_def grant_expired_def example_platform_def unary_parse_def truthy_def
      policy_permits_def missing_scope_def less_eq_access_level_def request_denial_def
      no_profile_denial)

text \<open>
  C24. What a Run selects and what the deployment's profile allows can only narrow a grant:
  without them, or under a wider profile, the operation is allowed too.
\<close>
theorem selection_only_narrows:
  assumes "ad_allowed (authorizeConnectionOperation p c g operation requested maximum millis)"
  shows "ad_allowed (authorizeConnectionOperation p c g operation None None millis) \<and>
    (\<forall>a b wider. maximum = Some a \<longrightarrow> presetAccess a = Some b \<longrightarrow>
       (\<exists>level. presetAccess wider = Some level \<and> b \<le> level) \<longrightarrow>
       ad_allowed (authorizeConnectionOperation p c g operation requested (Some wider) millis))"
  using assms
  by (auto simp: allowed_iff request_denial_def profile_denial_def no_policy_denial policy_permits_def)

text \<open>Witness: the example operation.\<close>
theorem selection_only_narrows_witness:
  "ad_allowed (authorizeConnectionOperation example_platform example_connection example_grant
     example_operation None None 5)"
  using selection_only_narrows [OF example_authorized] by blast

lemma ensure_Inr [simp]: "ensure ok m = Inr u \<longleftrightarrow> ok"
  by (simp add: ensure_def)

lemma plain_Inr [simp]: "plain m = Inr a \<longleftrightarrow> False"
  by (simp add: plain_def)

lemma each_new_Inr:
  "each_new f label seen xs = Inr u \<longleftrightarrow>
     (\<forall>x \<in> set xs. f x = Inr ()) \<and> distinct xs \<and> set xs \<inter> set seen = {}"
  by (induction f label seen xs rule: each_new.induct) (auto simp: bindE_Inr)

lemma validateOperationList_Inr:
  "validateOperationList xs label = Inr u \<longleftrightarrow>
     length xs \<le> 128 \<and> distinct xs \<and> (\<forall>x \<in> set xs. operation_pattern x)"
  by (auto simp: validateOperationList_def bindE_Inr each_new_Inr requireOperationId_def)

lemma no_grant_overlap_Inr:
  "no_grant_overlap g = Inr u \<longleftrightarrow> (\<forall>ops denied. gr_allowOperations g = Some ops \<longrightarrow>
     gr_denyOperations g = Some denied \<longrightarrow> set ops \<inter> set denied = {})"
proof -
  have "no_grant_overlap g = Inr u \<longleftrightarrow> find (\<lambda>operation. listed operation (gr_denyOperations g))
      (case gr_allowOperations g of None \<Rightarrow> [] | Some ops \<Rightarrow> ops) = None"
    by (simp add: no_grant_overlap_def split: option.splits)
  then show ?thesis
    by (cases "gr_allowOperations g"; cases "gr_denyOperations g") (auto simp: find_None_iff listed_def)
qed

lemma validateConnectionGrant_Inr:
  assumes "validateConnectionGrant p g = Inr g'"
  shows "g' = g" "no_grant_overlap g = Inr ()"
    "optionally (\<lambda>v. validateOperationList v ''allowed operations'') (gr_allowOperations g) = Inr ()"
    "optionally (\<lambda>v. validateOperationList v ''denied operations'') (gr_denyOperations g) = Inr ()"
    "gr_preset g = Custom_Access \<Longrightarrow> \<exists>op ops. gr_allowOperations g = Some (op # ops)"
    "if_present (\<lambda>v. requireTimestamp p v ''grant expiresAt'') (gr_expiresAt g) = Inr ()"
  using assms
  by (cases "gr_allowOperations g"; auto simp: validateConnectionGrant_def bindE_Inr neq_Nil_conv)+

text \<open>
  A validated grant is consistent: its lists are bounded and without duplicates, none of its
  operations is both allowed and denied, and a custom grant names at least one.
\<close>
theorem validated_grant_consistent:
  assumes "validateConnectionGrant p g = Inr g'"
  shows "g' = g \<and>
    (\<forall>ops. gr_allowOperations g = Some ops \<or> gr_denyOperations g = Some ops \<longrightarrow>
       length ops \<le> 128 \<and> distinct ops \<and> (\<forall>op \<in> set ops. operation_pattern op)) \<and>
    (\<forall>ops denied. gr_allowOperations g = Some ops \<longrightarrow> gr_denyOperations g = Some denied \<longrightarrow>
       set ops \<inter> set denied = {}) \<and>
    (gr_preset g = Custom_Access \<longrightarrow> (\<exists>op ops. gr_allowOperations g = Some (op # ops)))"
  using validateConnectionGrant_Inr [OF assms]
  by (auto simp: optionally_def validateOperationList_Inr no_grant_overlap_Inr)

lemma example_grant_valid: "validateConnectionGrant example_platform example_grant = Inr example_grant"
  by code_simp

text \<open>Witness: the example grant.\<close>
theorem validated_grant_consistent_witness: "distinct [''issues.read'']"
  using validated_grant_consistent [OF example_grant_valid] by (simp add: example_grant_def)

text \<open>
  A validated grant with an expiry is never honoured at or after it: its expiry is a date,
  so the comparison cannot be lost to one that does not parse.
\<close>
theorem validated_grant_expires:
  assumes "validateConnectionGrant p g = Inr g'" "gr_expiresAt g = Some e" "e \<noteq> []"
    and "ad_allowed (authorizeConnectionOperation p c g operation requested maximum millis)"
  shows "\<exists>t. date_parse p e = Some t \<and> millis < t"
proof -
  from validateConnectionGrant_Inr(6) [OF assms(1)] assms(2,3) obtain t where "date_parse p e = Some t"
    by (auto simp: if_present_def truthy_def requireTimestamp_def)
  moreover have "\<not> grant_expired p g millis"
    using assms(4) by (simp add: allowed_iff grant_permits_def)
  ultimately show ?thesis using assms(2,3) by (simp add: grant_expired_def truthy_def)
qed

text \<open>Witness: the example grant, before its expiry.\<close>
theorem validated_grant_expires_witness:
  "\<exists>t. date_parse example_platform ''2024-01-01T'' = Some t \<and> 5 < t"
  by (rule validated_grant_expires [OF example_grant_valid _ _ example_authorized])
    (simp_all add: example_grant_def)

text \<open>
  A connection keeps the identity of the account it was made for: a new one is the verified
  account's, and refreshing or changing the status keeps its owner, its account and its ID.
\<close>
theorem connection_identity_kept:
  "(newConnection p i ownerId pluginId alias verified t = Inr c \<longrightarrow>
      sameProviderIdentity c verified \<and> cn_ownerId c = ownerId \<and> cn_connectionId c = i) \<and>
   (refreshedConnection p c0 verified t = Inr c \<or> connectionWithStatus p c0 status t = Inr c \<longrightarrow>
      cn_ownerId c = cn_ownerId c0 \<and> cn_connectionId c = cn_connectionId c0 \<and>
      cn_externalTenantId c = cn_externalTenantId c0 \<and> cn_externalSubjectId c = cn_externalSubjectId c0)"
  by (auto simp: newConnection_def refreshedConnection_def connectionWithStatus_def
      validateIntegrationConnection_def bindE_Inr sameProviderIdentity_def present_def truthy_def
      text_or_empty_def)

text \<open>Witness: the example connection, revoked.\<close>
theorem connection_identity_kept_witness:
  "cn_ownerId (example_connection\<lparr>cn_status := Revoked\<rparr>) = ''o''"
proof -
  have "connectionWithStatus example_platform example_connection Revoked ''2024-01-01T'' =
      Inr (example_connection\<lparr>cn_status := Revoked\<rparr>)"
    by code_simp
  with connection_identity_kept [of example_platform _ _ _ _ _ "''2024-01-01T''"
      "example_connection\<lparr>cn_status := Revoked\<rparr>" example_connection Revoked]
  show ?thesis by (simp add: example_connection_def)
qed

text \<open>
  Recording a health check never forgets the last check with the opposite outcome.
\<close>
theorem health_keeps_opposite_outcome:
  assumes "connectionHealthObservation p ownerId i previous status code t = Inr h"
  shows "ch_status h = status \<and> ch_checkedAt h = Some t \<and>
    (if status = Healthy then ch_lastHealthyAt h = Some t \<and> ch_lastFailureAt h = present (ch_lastFailureAt previous)
     else ch_lastFailureAt h = Some t \<and> ch_lastHealthyAt h = present (ch_lastHealthyAt previous))"
  using assms
  by (auto simp: connectionHealthObservation_def validateConnectionHealth_def bindE_Inr)

text \<open>Witness: a failed check after a healthy one.\<close>
theorem health_keeps_opposite_outcome_witness:
  "\<exists>h. connectionHealthObservation example_platform ''o'' ''c'' \<lparr>ch_ownerId = ''o'',
      ch_connectionId = ''c'', ch_status = Healthy, ch_code = Verified,
      ch_checkedAt = Some ''2024-01-01T'', ch_lastHealthyAt = Some ''2024-01-01T'',
      ch_lastFailureAt = None\<rparr> Degraded Provider_Unavailable ''2024-01-02T'' = Inr h \<and>
    ch_lastHealthyAt h = Some ''2024-01-01T''"
proof -
  let ?previous = "\<lparr>ch_ownerId = ''o'', ch_connectionId = ''c'', ch_status = Healthy,
    ch_code = Verified, ch_checkedAt = Some ''2024-01-01T'',
    ch_lastHealthyAt = Some ''2024-01-01T'', ch_lastFailureAt = None\<rparr>"
  let ?h = "\<lparr>ch_ownerId = ''o'', ch_connectionId = ''c'', ch_status = Degraded,
    ch_code = Provider_Unavailable, ch_checkedAt = Some ''2024-01-02T'',
    ch_lastHealthyAt = Some ''2024-01-01T'', ch_lastFailureAt = Some ''2024-01-02T''\<rparr>"
  have h: "connectionHealthObservation example_platform ''o'' ''c'' ?previous Degraded
      Provider_Unavailable ''2024-01-02T'' = Inr ?h"
    by code_simp
  with health_keeps_opposite_outcome [OF h] show ?thesis by (simp add: present_def truthy_def)
qed

end
