(* ===== verification/Publications.thy ===== *)
theory Publications
  imports Run_Validation
begin

text \<open>
  Publications: immutable sets of files with a page to open them, shared by link
  (\<open>src/domain/publications.ts\<close>, \<open>src/domain/artifacts.ts\<close>, \<open>src/domain/media-type.ts\<close>,
  \<open>src/core/publication-builders.ts\<close>, \<open>src/core/publication-planning.ts\<close>,
  \<open>src/core/publication-sharing.ts\<close>).

  A byte sequence is a \<open>string\<close> whose characters are the bytes. The kinds and the two
  sources of a planned file are datatypes, so the checks that a value is one of them are
  built in; \<open>cause\<close>, which only carries the original error along, is left out.
\<close>

section \<open>Data\<close>

datatype publication_kind = File_Kind | Site_Kind | Video_Kind

datatype publication_spec =
    File_Spec string "string option"
  | Site_Spec "string option" "string option" "string option"
  | Video_Spec string "string option" "string option"

record blob_reference =
  br_id :: string
  br_digest :: string
  br_size :: js_number
  br_mediaType :: string

record publication_file =
  pf_path :: string
  pf_blob :: blob_reference

record publication_provenance =
  pv_runId :: "string option"
  pv_conversationId :: "string option"
  pv_sessionId :: "string option"
  pv_artifactIds :: "string list option"
  pv_builder :: string
  pv_createdAt :: string

record publication_manifest =
  pm_version :: string
  pm_publicationId :: string
  pm_kind :: publication_kind
  pm_entrypoint :: string
  pm_primaryPath :: "string option"
  pm_files :: "publication_file list"
  pm_provenance :: publication_provenance

datatype publication_error_code =
    Invalid_Request | Invalid_Path | Not_Found | Path_Collision | Unsupported_Media | Storage

record publication_diagnostic =
  pd_code :: publication_error_code
  pd_message :: string
  pd_path :: "string option"

datatype publication_error =
    Publication_Error publication_error_code string "publication_diagnostic list option"
  | Other_Error error

record share_grant =
  sg_version :: string
  sg_id :: string
  sg_publicationId :: string
  sg_ownerHash :: string
  sg_access :: string
  sg_expiresAt :: string
  sg_revokedAt :: "string option"

record publication_descriptor =
  ds_publicationId :: string
  ds_kind :: publication_kind
  ds_url :: string
  ds_expiresAt :: string
  ds_entrypoint :: string
  ds_primaryPath :: "string option"
  ds_paths :: "string list"

datatype planned_file =
    Blob_File string blob_reference
  | Generated_File string string string

record publication_plan =
  pl_kind :: publication_kind
  pl_entrypoint :: string
  pl_primaryPath :: "string option"
  pl_files :: "planned_file list"

fun kind_text :: "publication_kind \<Rightarrow> string" where
  "kind_text File_Kind = ''file''"
| "kind_text Site_Kind = ''site''"
| "kind_text Video_Kind = ''video''"

fun spec_kind :: "publication_spec \<Rightarrow> publication_kind" where
  "spec_kind (File_Spec path title) = File_Kind"
| "spec_kind (Site_Spec base entry title) = Site_Kind"
| "spec_kind (Video_Spec path poster title) = Video_Kind"

fun planned_path :: "planned_file \<Rightarrow> string" where
  "planned_path (Blob_File path blob) = path"
| "planned_path (Generated_File path bytes mediaType) = path"

definition fail :: "publication_error_code \<Rightarrow> string \<Rightarrow> publication_error + 'a" where
  "fail code message = Inl (Publication_Error code message None)"

definition demand :: "bool \<Rightarrow> publication_error_code \<Rightarrow> string \<Rightarrow> publication_error + unit" where
  "demand ok code message = (if ok then Inr () else fail code message)"

lemma demand_Inr [simp]: "demand ok code message = Inr u \<longleftrightarrow> ok"
  by (simp add: demand_def fail_def)

lemma demand_True [simp]: "demand True code message = Inr ()"
  by (simp add: demand_def)

section \<open>Paths\<close>

definition MAX_ARTIFACT_FILES :: nat where
  "MAX_ARTIFACT_FILES = 5000"

definition MAX_ARTIFACT_PATH_BYTES :: nat where
  "MAX_ARTIFACT_PATH_BYTES = 512"

definition is_control :: "char \<Rightarrow> bool" where
  "is_control c \<longleftrightarrow> code_of c \<le> 31 \<or> code_of c = 127"

definition part_ok :: "string \<Rightarrow> bool" where
  "part_ok part \<longleftrightarrow> part \<noteq> [] \<and> part \<noteq> ''.'' \<and> part \<noteq> ''..'' \<and> utf8_length part \<le> 255"

definition backslash :: char where
  "backslash = char_of (92::nat)"

definition artifact_path_ok :: "string \<Rightarrow> bool" where
  "artifact_path_ok path \<longleftrightarrow> path \<noteq> [] \<and> \<not> starts_with path ''/'' \<and> backslash \<notin> set path \<and>
     list_all part_ok (split_on (CHR ''/'') path) \<and>
     utf8_length path \<le> MAX_ARTIFACT_PATH_BYTES \<and> \<not> list_ex is_control path"

definition validateArtifactPath :: "string \<Rightarrow> error + unit" where
  "validateArtifactPath path =
     check (artifact_path_ok path) (Plain_Error (''invalid artifact path '' @ json_string path))"

lemma validateArtifactPath_Inr [simp]: "validateArtifactPath path = Inr u \<longleftrightarrow> artifact_path_ok path"
  by (simp add: validateArtifactPath_def)

text \<open>A path checked inside \<open>try\<close>, whose error is replaced.\<close>

definition checked_path :: "string \<Rightarrow> publication_error_code \<Rightarrow> string \<Rightarrow> publication_error + unit" where
  "checked_path path code message = (case validateArtifactPath path of
       Inr _ \<Rightarrow> Inr () | Inl _ \<Rightarrow> fail code message)"

lemma checked_path_Inr [simp]: "checked_path path code message = Inr u \<longleftrightarrow> artifact_path_ok path"
  by (simp add: checked_path_def validateArtifactPath_def check_def fail_def)

section \<open>A publication request\<close>

definition hex_string :: "nat \<Rightarrow> string \<Rightarrow> bool" where
  "hex_string n s \<longleftrightarrow> length s = n \<and> list_all is_hex s"

definition validatePublicationId :: "string \<Rightarrow> publication_error + unit" where
  "validatePublicationId v = demand (hex_string 24 v) Invalid_Request
     ''publication id must be 24 lowercase hexadecimal characters''"

definition requiredPath :: "jsval \<Rightarrow> string \<Rightarrow> publication_error + string" where
  "requiredPath v label = (case v of
       JStr s \<Rightarrow> bindE (checked_path s Invalid_Path (''publication '' @ label @ '' is invalid''))
                  (\<lambda>_. Inr s)
     | _ \<Rightarrow> fail Invalid_Request (''publication '' @ label @ '' must be a string''))"

definition optionalPath :: "jsval \<Rightarrow> string \<Rightarrow> publication_error + string option" where
  "optionalPath v label =
     (if v = JUndef then Inr None else bindE (requiredPath v label) (\<lambda>s. Inr (Some s)))"

definition optionalTitle :: "jsval \<Rightarrow> publication_error + string option" where
  "optionalTitle v = (case v of
       JUndef \<Rightarrow> Inr None
     | JStr s \<Rightarrow>
         if js_trim s = [] \<or> utf8_length s > 500
         then fail Invalid_Request ''publication title must be 1-500 UTF-8 bytes''
         else Inr (Some (js_trim s))
     | _ \<Rightarrow> fail Invalid_Request ''publication title must be 1-500 UTF-8 bytes'')"

text \<open>An unknown field named by the empty string is not reported: the code tests its name.\<close>

definition reject_unknown_field :: "fields \<Rightarrow> string list \<Rightarrow> publication_error + unit" where
  "reject_unknown_field fs allowed = (case filter (\<lambda>k. k \<notin> set allowed) (map fst fs) of
       [] \<Rightarrow> Inr ()
     | k # _ \<Rightarrow> demand (k = []) Invalid_Request
         (''publication request contains unknown field '' @ k))"

definition as_publication_error :: "error + 'a \<Rightarrow> publication_error + 'a" where
  "as_publication_error r = (case r of Inl e \<Rightarrow> Inl (Other_Error e) | Inr a \<Rightarrow> Inr a)"

definition SPEC_FIELDS :: "string list" where
  "SPEC_FIELDS = [''version'', ''kind'', ''path'', ''root'', ''entrypoint'', ''poster'', ''title'']"

text \<open>A field spread into the result only when it is truthy.\<close>

definition spread :: "string option \<Rightarrow> string option" where
  "spread x = (if truthy x then x else None)"

definition parse_site :: "fields \<Rightarrow> string option \<Rightarrow> publication_error + publication_spec" where
  "parse_site fs title =
     bindE (demand (get_prop fs ''path'' = JUndef \<and> get_prop fs ''poster'' = JUndef) Invalid_Request
       ''site publications do not accept path or poster'') (\<lambda>_.
     bindE (optionalPath (get_prop fs ''root'') ''root'') (\<lambda>root.
     bindE (optionalPath (get_prop fs ''entrypoint'') ''entrypoint'') (\<lambda>entrypoint.
     Inr (Site_Spec (spread root) (spread entrypoint) (spread title)))))"

definition parse_single :: "web_platform \<Rightarrow> fields \<Rightarrow> string option \<Rightarrow> publication_error + publication_spec"
where
  "parse_single wp fs title =
     bindE (if get_prop fs ''root'' = JUndef \<and> get_prop fs ''entrypoint'' = JUndef then Inr ()
            else bindE (as_publication_error (to_string wp (get_prop fs ''kind''))) (\<lambda>kind.
              fail Invalid_Request (kind @ '' publications do not accept root or entrypoint''))) (\<lambda>_.
     bindE (requiredPath (get_prop fs ''path'') ''path'') (\<lambda>path.
     if get_prop fs ''kind'' = JStr ''file'' then
       bindE (demand (get_prop fs ''poster'' = JUndef) Invalid_Request
         ''file publications do not accept poster'') (\<lambda>_. Inr (File_Spec path (spread title)))
     else bindE (optionalPath (get_prop fs ''poster'') ''poster'') (\<lambda>poster.
       Inr (Video_Spec path (spread poster) (spread title)))))"

definition parsePublicationSpec :: "web_platform \<Rightarrow> jsval \<Rightarrow> publication_error + publication_spec" where
  "parsePublicationSpec wp v = (case v of
       JObj fs \<Rightarrow>
         bindE (reject_unknown_field fs SPEC_FIELDS) (\<lambda>_.
         bindE (demand (get_prop fs ''version'' = JStr ''1'') Invalid_Request
           (''publication version must be '' @ [CHR 0x22] @ ''1'' @ [CHR 0x22])) (\<lambda>_.
         bindE (as_publication_error (to_string wp (get_prop fs ''kind''))) (\<lambda>kind.
         bindE (demand (kind \<in> {''file'', ''site'', ''video''}) Invalid_Request
           ''publication kind must be file, site, or video'') (\<lambda>_.
         bindE (optionalTitle (get_prop fs ''title'')) (\<lambda>title.
         if get_prop fs ''kind'' = JStr ''site'' then parse_site fs title
         else parse_single wp fs title)))))
     | _ \<Rightarrow> fail Invalid_Request ''publication request must be an object'')"

section \<open>Blobs, manifests and grants\<close>

definition safe_size :: "js_number \<Rightarrow> bool" where
  "safe_size n = (case n of
       Finite r \<Rightarrow> is_integer n \<and> abs r \<le> 9007199254740991 \<and> r \<ge> 0
     | _ \<Rightarrow> False)"

definition digest_pattern :: "string \<Rightarrow> bool" where
  "digest_pattern s \<longleftrightarrow> starts_with s ''sha256:'' \<and> hex_string 64 (drop 7 s)"

definition media_type_ok :: "string \<Rightarrow> bool" where
  "media_type_ok s \<longleftrightarrow> s \<noteq> [] \<and> length s \<le> 128 \<and> \<not> list_ex is_newline s"

definition blob_ok :: "blob_reference \<Rightarrow> bool" where
  "blob_ok b \<longleftrightarrow> br_id b \<noteq> [] \<and> length (br_id b) \<le> 1024 \<and> digest_pattern (br_digest b) \<and>
     safe_size (br_size b) \<and> media_type_ok (br_mediaType b)"

definition validateBlobReference :: "blob_reference \<Rightarrow> publication_error + unit" where
  "validateBlobReference b =
     demand (blob_ok b) Invalid_Request ''publication contains an invalid blob reference''"

lemma validateBlobReference_Inr [simp]: "validateBlobReference b = Inr u \<longleftrightarrow> blob_ok b"
  by (simp add: validateBlobReference_def)

definition validPublicationSource :: "publication_provenance \<Rightarrow> bool" where
  "validPublicationSource source = (case pv_sessionId source of
       Some session \<Rightarrow> starts_with session ''sess_'' \<and> pv_runId source = None \<and>
         pv_conversationId source = None \<and>
         (case pv_artifactIds source of None \<Rightarrow> False
          | Some ids \<Rightarrow> ids \<noteq> [] \<and> list_all (\<lambda>i. starts_with i ''art_'') ids)
     | None \<Rightarrow> (case pv_runId source of None \<Rightarrow> False | Some run \<Rightarrow> run \<noteq> []) \<and>
         pv_artifactIds source = None)"

text \<open>The loop over the files, with the paths seen so far.\<close>

fun validate_files :: "string list \<Rightarrow> publication_file list \<Rightarrow> publication_error + unit" where
  "validate_files seen [] = Inr ()"
| "validate_files seen (f # fs) =
     bindE (checked_path (pf_path f) Invalid_Path
       (''invalid publication path '' @ json_string (pf_path f))) (\<lambda>_.
     bindE (demand (pf_path f \<notin> set seen) Path_Collision
       (''duplicate publication path '' @ pf_path f)) (\<lambda>_.
     bindE (validateBlobReference (pf_blob f)) (\<lambda>_.
     validate_files (pf_path f # seen) fs)))"

definition validatePublicationManifest :: "platform \<Rightarrow> publication_manifest \<Rightarrow> publication_error + unit"
where
  "validatePublicationManifest p m =
     bindE (validatePublicationId (pm_publicationId m)) (\<lambda>_.
     bindE (demand (pm_version m = ''1'' \<and> pm_entrypoint m = ''index.html'' \<and> pm_files m \<noteq> [] \<and>
       length (pm_files m) \<le> MAX_ARTIFACT_FILES) Invalid_Request ''publication manifest is invalid'') (\<lambda>_.
     bindE (validate_files [] (pm_files m)) (\<lambda>_.
     bindE (demand (pm_entrypoint m \<in> pf_path ` set (pm_files m)) Invalid_Request
       ''publication entrypoint is missing from its manifest'') (\<lambda>_.
     bindE (demand (case pm_primaryPath m of None \<Rightarrow> True
                    | Some path \<Rightarrow> path \<in> pf_path ` set (pm_files m)) Invalid_Request
       ''publication primary path is missing from its manifest'') (\<lambda>_.
     demand (validPublicationSource (pm_provenance m) \<and> pv_builder (pm_provenance m) \<noteq> [] \<and>
         date_parse p (pv_createdAt (pm_provenance m)) \<noteq> None) Invalid_Request
       ''publication provenance is invalid'')))))"

definition share_grant_ok :: "platform \<Rightarrow> share_grant \<Rightarrow> bool" where
  "share_grant_ok p g \<longleftrightarrow> sg_version g = ''1'' \<and> sg_id g \<noteq> [] \<and> length (sg_id g) \<le> 256 \<and>
     \<not> list_ex is_control (sg_id g) \<and> hex_string 32 (sg_ownerHash g) \<and> sg_access g = ''bearer'' \<and>
     date_parse p (sg_expiresAt g) \<noteq> None \<and>
     (case sg_revokedAt g of None \<Rightarrow> True | Some t \<Rightarrow> date_parse p t \<noteq> None)"

definition validateShareGrant :: "platform \<Rightarrow> share_grant \<Rightarrow> publication_error + unit" where
  "validateShareGrant p g = bindE (validatePublicationId (sg_publicationId g)) (\<lambda>_.
     demand (share_grant_ok p g) Invalid_Request ''share grant is invalid'')"

section \<open>Media types\<close>

definition lower_alnum :: "char \<Rightarrow> bool" where
  "lower_alnum c \<longleftrightarrow> is_lower c \<or> is_digit c"

text \<open>\<open>path.toLowerCase().match(/\.([a-z0-9]+)$/)\<close>: the text after the last dot, when it is
  not empty and has only letters and digits.\<close>

definition extension_of :: "string \<Rightarrow> string option" where
  "extension_of path = (let r = rev (js_lower path); tail = takeWhile lower_alnum r in
     if tail \<noteq> [] \<and> starts_with (drop (length tail) r) ''.'' then Some (rev tail) else None)"

definition byte_slice :: "nat \<Rightarrow> nat \<Rightarrow> string \<Rightarrow> string" where
  "byte_slice a b bytes = drop a (take b bytes)"

text \<open>\<open>toString('ascii')\<close> clears the top bit of every byte.\<close>

definition ascii_slice :: "nat \<Rightarrow> nat \<Rightarrow> string \<Rightarrow> string" where
  "ascii_slice a b bytes = map (\<lambda>c. char_of (code_of c mod 128)) (byte_slice a b bytes)"

definition bytes_of :: "nat list \<Rightarrow> string" where
  "bytes_of ns = map char_of ns"

definition textual_types :: "(string \<times> string) list" where
  "textual_types =
     [(''css'', ''text/css; charset=utf-8''), (''csv'', ''text/csv; charset=utf-8''),
      (''htm'', ''text/html; charset=utf-8''), (''html'', ''text/html; charset=utf-8''),
      (''js'', ''text/javascript; charset=utf-8''), (''json'', ''application/json''),
      (''m3u8'', ''application/vnd.apple.mpegurl''), (''md'', ''text/markdown; charset=utf-8''),
      (''mjs'', ''text/javascript; charset=utf-8''), (''svg'', ''image/svg+xml''),
      (''txt'', ''text/plain; charset=utf-8''), (''vtt'', ''text/vtt; charset=utf-8''),
      (''webmanifest'', ''application/manifest+json''), (''xml'', ''application/xml'')]"

definition binary_types :: "(string \<times> string) list" where
  "binary_types =
     [(''ico'', ''image/x-icon''), (''mp3'', ''audio/mpeg''), (''oga'', ''audio/ogg''),
      (''ogg'', ''audio/ogg''), (''ogv'', ''video/ogg''), (''opus'', ''audio/ogg''),
      (''wasm'', ''application/wasm''), (''wav'', ''audio/wav''), (''woff'', ''font/woff''),
      (''woff2'', ''font/woff2'')]"

text \<open>
  \<open>table[extension]\<close> also finds what every object inherits. Of those names only
  \<open>constructor\<close> is a possible extension; it finds a function, so the result is then no
  text (\<open>None\<close>).
\<close>

definition type_by_extension ::
  "(string \<times> string) list \<Rightarrow> string option \<Rightarrow> string option option" where
  "type_by_extension table ext = (case ext of
       None \<Rightarrow> None
     | Some e \<Rightarrow> (case map_of table e of
           Some t \<Rightarrow> Some (Some t)
         | None \<Rightarrow> if e = ''constructor'' then Some None else None))"

definition detectMediaType :: "string \<Rightarrow> string \<Rightarrow> string option" where
  "detectMediaType bytes path = (let ext = extension_of path in
     if byte_slice 0 8 bytes = bytes_of [137, 80, 78, 71, 13, 10, 26, 10] then Some ''image/png''
     else if byte_slice 0 3 bytes = bytes_of [255, 216, 255] then Some ''image/jpeg''
     else if ascii_slice 0 6 bytes \<in> {''GIF87a'', ''GIF89a''} then Some ''image/gif''
     else if ascii_slice 0 4 bytes = ''RIFF'' \<and> ascii_slice 8 12 bytes = ''WEBP''
     then Some ''image/webp''
     else if ascii_slice 0 4 bytes = ''RIFF'' \<and> ascii_slice 8 12 bytes = ''WAVE''
     then Some ''audio/wav''
     else if ascii_slice 4 8 bytes = ''ftyp'' then
       (if ascii_slice 8 12 bytes \<in> {''avif'', ''avis''} then Some ''image/avif''
        else if ext \<in> {Some ''m4a'', Some ''m4b''} then Some ''audio/mp4''
        else if ext = Some ''mov'' then Some ''video/quicktime''
        else Some ''video/mp4'')
     else if byte_slice 0 4 bytes = bytes_of [26, 69, 223, 163] then Some ''video/webm''
     else if ascii_slice 0 5 bytes = ''%PDF-'' then Some ''application/pdf''
     else if ascii_slice 0 3 bytes = ''ID3'' then Some ''audio/mpeg''
     else if ascii_slice 0 4 bytes = ''OggS'' then
       (if ext = Some ''ogv'' then Some ''video/ogg'' else Some ''audio/ogg'')
     else case (if char_of (0::nat) \<in> set bytes then None else type_by_extension textual_types ext) of
         Some t \<Rightarrow> t
       | None \<Rightarrow> (case type_by_extension binary_types ext of
             Some t \<Rightarrow> t | None \<Rightarrow> Some ''application/octet-stream''))"

lemma textual_types_ok: "(e, t) \<in> set textual_types \<Longrightarrow> media_type_ok t"
  by (auto simp: textual_types_def media_type_ok_def is_newline_def code_of_def)

lemma binary_types_ok: "(e, t) \<in> set binary_types \<Longrightarrow> media_type_ok t"
  by (auto simp: binary_types_def media_type_ok_def is_newline_def code_of_def)

lemma type_by_extension_ok:
  "type_by_extension textual_types ext = Some (Some t) \<Longrightarrow> media_type_ok t"
  "type_by_extension binary_types ext = Some (Some t) \<Longrightarrow> media_type_ok t"
  by (auto simp: type_by_extension_def split: option.splits if_splits
      dest!: map_of_SomeD intro: textual_types_ok binary_types_ok)

lemma fixed_types_ok:
  "media_type_ok ''image/png''"
  "media_type_ok ''image/jpeg''"
  "media_type_ok ''image/gif''"
  "media_type_ok ''image/webp''"
  "media_type_ok ''audio/wav''"
  "media_type_ok ''image/avif''"
  "media_type_ok ''audio/mp4''"
  "media_type_ok ''video/quicktime''"
  "media_type_ok ''video/mp4''"
  "media_type_ok ''video/webm''"
  "media_type_ok ''application/pdf''"
  "media_type_ok ''audio/mpeg''"
  "media_type_ok ''video/ogg''"
  "media_type_ok ''audio/ogg''"
  "media_type_ok ''application/octet-stream''"
  by (simp_all add: media_type_ok_def is_newline_def code_of_def)

lemma detected_type_ok: "detectMediaType bytes path = Some t \<Longrightarrow> media_type_ok t"
  by (auto simp: detectMediaType_def Let_def type_by_extension_ok fixed_types_ok
      split: if_splits option.splits)

lemma detected_constructor: "detectMediaType ''text'' ''notes.constructor'' = None"
  by code_simp

text \<open>
  The kind is compared as text, so an array of one kind passes the check; it is then neither
  \<open>'site'\<close> nor \<open>'file'\<close> and becomes a video.
\<close>

lemma array_kind_becomes_video:
  "parsePublicationSpec wp (JObj [(''version'', JStr ''1''), (''kind'', JArr [JStr ''file'']),
     (''path'', JStr ''a.txt'')]) = Inr (Video_Spec ''a.txt'' None None)"
proof -
  have "artifact_path_ok ''a.txt''" by code_simp
  then show ?thesis
    by (simp add: parsePublicationSpec_def reject_unknown_field_def SPEC_FIELDS_def get_prop_def
        as_publication_error_def commas_def optionalTitle_def parse_single_def requiredPath_def
        checked_path_def validateArtifactPath_def optionalPath_def spread_def truthy_def)
qed

end
