(* ===== verification/Publication_Plans.thy ===== *)
theory Publication_Plans
  imports Publications
begin

text \<open>
  What a publication contains: the three builders and the pages they generate
  (\<open>src/core/publication-builders.ts\<close>), the check of a plan and the manifest
  (\<open>src/core/publication-planning.ts\<close>), and the link that shares it
  (\<open>src/core/publication-sharing.ts\<close>).

  Attribute values are written with \<open>quoted\<close>, so that the double quotes of the templates need
  no escapes. \<open>localeCompare\<close> is a parameter: it belongs to the ICU data of the platform.
\<close>

section \<open>Text of a page\<close>

definition quoted :: "string \<Rightarrow> string" where
  "quoted s = CHR 0x22 # s @ [CHR 0x22]"

text \<open>\<open>Buffer.from(text)\<close>: the bytes of the text in UTF-8.\<close>

definition utf8_char :: "char \<Rightarrow> string" where
  "utf8_char c = (let n = code_of c in
     if n < 128 then [c] else [char_of (192 + n div 64), char_of (128 + n mod 64)])"

definition utf8_bytes :: "string \<Rightarrow> string" where
  "utf8_bytes s = concat (map utf8_char s)"

definition escape_char :: "char \<Rightarrow> string" where
  "escape_char c =
     (if c = CHR 0x26 then ''&amp;'' else if c = CHR 0x3C then ''&lt;''
      else if c = CHR 0x3E then ''&gt;'' else if c = CHR 0x22 then ''&quot;''
      else if c = CHR 0x27 then ''&#39;'' else [c])"

definition escapeHtml :: "string \<Rightarrow> string" where
  "escapeHtml s = concat (map escape_char s)"

definition upper_hex :: "nat \<Rightarrow> char" where
  "upper_hex d = (if d < 10 then char_of (48 + d) else char_of (55 + d))"

definition percent :: "char \<Rightarrow> string" where
  "percent b = [CHR ''%'', upper_hex (code_of b div 16), upper_hex (code_of b mod 16)]"

definition uri_unreserved :: "char \<Rightarrow> bool" where
  "uri_unreserved c \<longleftrightarrow> is_alnum c \<or> c \<in> set (CHR 0x27 # ''-_.!~*()'')"

definition encodeURIComponent :: "string \<Rightarrow> string" where
  "encodeURIComponent s =
     concat (map (\<lambda>c. if uri_unreserved c then [c] else concat (map percent (utf8_char c))) s)"

fun join_text :: "char \<Rightarrow> string list \<Rightarrow> string" where
  "join_text d [] = []"
| "join_text d [s] = s"
| "join_text d (s # t # ss) = s @ d # join_text d (t # ss)"

definition encodePath :: "string \<Rightarrow> string" where
  "encodePath path = join_text (CHR ''/'') (map encodeURIComponent (split_on (CHR ''/'') path))"

definition publicationAssetAuthorizationScript :: string where
  "publicationAssetAuthorizationScript =
     ''(()=>{const names=['Policy','Signature','Key-Pair-Id'];const source=new URLSearchParams(location.search);'' @
     ''const auth=new URLSearchParams();for(const name of names){const value=source.get(name);if(value)auth.set(name,value)}'' @
     ''const resolve=(path)=>{const url=new URL(path,location.href);url.search=auth.toString();return url.toString()};'' @
     ''for(const element of document.querySelectorAll('[data-publication-src]'))element.src=resolve(element.dataset.publicationSrc);'' @
     ''for(const element of document.querySelectorAll('[data-publication-href]'))element.href=resolve(element.dataset.publicationHref);'' @
     ''for(const element of document.querySelectorAll('[data-publication-poster]'))element.poster=resolve(element.dataset.publicationPoster);})();''"

definition page_style :: string where
  "page_style =
     '':root{color-scheme:dark}*{box-sizing:border-box}body{margin:0;min-height:100vh;background:#101014;color:#f5f5f7;font:16px system-ui,sans-serif;display:grid;place-items:center}'' @
     ''main{width:min(1120px,100%);padding:24px;display:grid;gap:20px;text-align:center}h1{font-size:clamp(1.2rem,3vw,2rem);margin:0;overflow-wrap:anywhere}'' @
     ''img,video,iframe{display:block;max-width:100%;max-height:78vh;margin:auto;border:0;border-radius:12px;background:#08080a}iframe{width:100%;height:78vh}'' @
     ''audio{width:min(720px,100%);margin:auto}.download{color:#9dccff}''"

definition document_start :: string where
  "document_start = ''<!doctype html><html lang='' @ quoted ''en'' @ ''><head><meta charset='' @
     quoted ''utf-8'' @ ''>''"

definition viewport :: string where
  "viewport = ''<meta name='' @ quoted ''viewport'' @ '' content='' @
     quoted ''width=device-width,initial-scale=1'' @ ''>''"

definition htmlDocument :: "string \<Rightarrow> string \<Rightarrow> string" where
  "htmlDocument title body = utf8_bytes (document_start @ viewport @
     ''<title>'' @ escapeHtml title @ ''</title><style>'' @ page_style @ ''</style></head>'' @
     ''<body><main><h1>'' @ escapeHtml title @ ''</h1>'' @ body @ ''</main>'' @
     ''<script>'' @ publicationAssetAuthorizationScript @ ''</script></body></html>'')"

text \<open>\<open>basename\<close> of a path without a trailing separator, as every source path is.\<close>

definition basename :: "string \<Rightarrow> string" where
  "basename path = last (split_on (CHR ''/'') path)"

definition title_or :: "string option \<Rightarrow> string \<Rightarrow> string" where
  "title_or title name = (case title of Some t \<Rightarrow> t | None \<Rightarrow> name)"

definition download_link :: "string \<Rightarrow> string \<Rightarrow> string" where
  "download_link href name = ''<a class='' @ quoted ''download'' @ '' data-publication-href='' @
     quoted href @ '' download>Download '' @ escapeHtml name @ ''</a>''"

definition file_preview :: "string \<Rightarrow> string \<Rightarrow> string \<Rightarrow> string" where
  "file_preview mediaType href name =
     (if starts_with mediaType ''image/'' then
        ''<img data-publication-src='' @ quoted href @ '' alt='' @ quoted (escapeHtml name) @ ''>''
      else if starts_with mediaType ''audio/'' then
        ''<audio data-publication-src='' @ quoted href @ '' controls preload='' @ quoted ''metadata'' @
        ''></audio>''
      else if mediaType = ''application/pdf'' then
        ''<iframe data-publication-src='' @ quoted href @ '' title='' @ quoted (escapeHtml name) @
        ''></iframe>''
      else [])"

definition fileViewer :: "string option \<Rightarrow> publication_file \<Rightarrow> string \<Rightarrow> string" where
  "fileViewer title file assetPath =
     (let name = title_or title (basename (pf_path file)); href = encodePath assetPath
      in htmlDocument name (file_preview (br_mediaType (pf_blob file)) href name @
           download_link href (basename (pf_path file))))"

definition videoViewer ::
  "string option \<Rightarrow> publication_file \<Rightarrow> string \<Rightarrow> string option \<Rightarrow> string" where
  "videoViewer title video videoPath posterPath =
     (let name = title_or title (basename (pf_path video));
          poster = (case posterPath of None \<Rightarrow> []
            | Some path \<Rightarrow> '' data-publication-poster='' @ quoted (encodePath path))
      in htmlDocument name
           (''<video data-publication-src='' @ quoted (encodePath videoPath) @ poster @
            '' controls playsinline preload='' @ quoted ''metadata'' @ ''></video>'' @
            download_link (encodePath videoPath) (basename (pf_path video))))"

definition redirectViewer :: "string option \<Rightarrow> string \<Rightarrow> string" where
  "redirectViewer title entrypoint =
     (let href = encodePath entrypoint; name = title_or title ''Published site''
      in utf8_bytes (document_start @
           ''<meta http-equiv='' @ quoted ''refresh'' @ '' content='' @
           quoted (''0;url='' @ escapeHtml href) @ ''>'' @ viewport @
           ''<title>'' @ escapeHtml name @ ''</title></head><body>'' @
           ''<a href='' @ quoted (escapeHtml href) @ ''>Open '' @ escapeHtml name @ ''</a></body></html>''))"

section \<open>Builders\<close>

definition asset_path :: "string \<Rightarrow> string" where
  "asset_path path = ''assets/'' @ basename path"

type_synonym plan_result = "publication_diagnostic list + publication_plan"

definition failure :: "publication_error_code \<Rightarrow> string \<Rightarrow> string option \<Rightarrow> plan_result" where
  "failure code message path = Inl [\<lparr>pd_code = code, pd_message = message, pd_path = spread path\<rparr>]"

definition missing :: "string \<Rightarrow> plan_result" where
  "missing path = failure Not_Found (''publication source '' @ path @ '' was not found'') (Some path)"

definition mismatch :: "publication_kind \<Rightarrow> publication_kind \<Rightarrow> plan_result" where
  "mismatch expected actual =
     failure Invalid_Request (kind_text expected @ '' builder cannot publish '' @ kind_text actual) None"

definition success :: "publication_plan \<Rightarrow> plan_result" where
  "success plan = (case first_duplicate [] (map planned_path (pl_files plan)) of
       Some path \<Rightarrow> failure Path_Collision (''duplicate publication path '' @ path) (Some path)
     | None \<Rightarrow> Inr plan)"

definition findFile :: "publication_file list \<Rightarrow> string \<Rightarrow> publication_file option" where
  "findFile files path = find (\<lambda>f. pf_path f = path) files"

definition html_type :: string where
  "html_type = ''text/html; charset=utf-8''"

definition filePublicationPlan :: "publication_spec \<Rightarrow> publication_file list \<Rightarrow> plan_result" where
  "filePublicationPlan spec files = (case spec of
       File_Spec path title \<Rightarrow> (case findFile files path of
           None \<Rightarrow> missing path
         | Some file \<Rightarrow>
             (let assetPath = asset_path (pf_path file)
              in success \<lparr>pl_kind = File_Kind, pl_entrypoint = ''index.html'',
                pl_primaryPath = Some assetPath,
                pl_files = [Generated_File ''index.html'' (fileViewer title file assetPath) html_type,
                            Blob_File assetPath (pf_blob file)]\<rparr>))
     | _ \<Rightarrow> mismatch File_Kind (spec_kind spec))"

definition video_files ::
  "string option \<Rightarrow> publication_file \<Rightarrow> publication_file option \<Rightarrow> planned_file list" where
  "video_files title video poster =
     (let videoPath = asset_path (pf_path video);
          posterPath = map_option (\<lambda>f. asset_path (pf_path f)) poster
      in [Generated_File ''index.html'' (videoViewer title video videoPath posterPath) html_type,
          Blob_File videoPath (pf_blob video)] @
         (case poster of None \<Rightarrow> []
          | Some f \<Rightarrow> [Blob_File (asset_path (pf_path f)) (pf_blob f)]))"

definition video_plan ::
  "string option \<Rightarrow> publication_file \<Rightarrow> publication_file option \<Rightarrow> plan_result" where
  "video_plan title video poster =
     (let videoPath = asset_path (pf_path video)
      in if map_option (\<lambda>f. asset_path (pf_path f)) poster = Some videoPath
         then failure Path_Collision ''video and poster resolve to the same publication path''
           (Some (pf_path video))
         else success \<lparr>pl_kind = Video_Kind, pl_entrypoint = ''index.html'',
           pl_primaryPath = Some videoPath, pl_files = video_files title video poster\<rparr>)"

definition videoPublicationPlan :: "publication_spec \<Rightarrow> publication_file list \<Rightarrow> plan_result" where
  "videoPublicationPlan spec files = (case spec of
       Video_Spec path poster title \<Rightarrow> (case findFile files path of
           None \<Rightarrow> missing path
         | Some video \<Rightarrow>
             if \<not> starts_with (br_mediaType (pf_blob video)) ''video/''
             then failure Unsupported_Media (path @ '' is not a supported video'') (Some path)
             else if \<not> truthy poster then video_plan title video None
             else case findFile files (the poster) of
                 None \<Rightarrow> missing (the poster)
               | Some posterFile \<Rightarrow>
                   if \<not> starts_with (br_mediaType (pf_blob posterFile)) ''image/''
                   then failure Unsupported_Media (the poster @ '' is not a supported poster image'') poster
                   else video_plan title video (Some posterFile))
     | _ \<Rightarrow> mismatch Video_Kind (spec_kind spec))"

definition site_prefix :: "string option \<Rightarrow> string" where
  "site_prefix base = (if truthy base then the base @ ''/'' else [])"

text \<open>The files below the root, under the paths they have from there.\<close>

definition site_files :: "string \<Rightarrow> publication_file list \<Rightarrow> planned_file list" where
  "site_files prefix files = map (\<lambda>(path, blob). Blob_File path blob)
     (filter (\<lambda>(path, blob). path \<noteq> [])
       (map (\<lambda>f. (drop (length prefix) (pf_path f), pf_blob f))
         (filter (\<lambda>f. starts_with (pf_path f) prefix) files)))"

definition site_plan ::
  "string option \<Rightarrow> string \<Rightarrow> string \<Rightarrow> planned_file list \<Rightarrow> plan_result" where
  "site_plan title entrypoint sourceEntrypoint planned =
     (if entrypoint \<noteq> ''index.html'' \<and> ''index.html'' \<in> planned_path ` set planned
      then failure Path_Collision ''site already has index.html but declares another entrypoint''
        (Some sourceEntrypoint)
      else success \<lparr>pl_kind = Site_Kind, pl_entrypoint = ''index.html'', pl_primaryPath = None,
        pl_files = planned @ (if entrypoint \<noteq> ''index.html''
          then [Generated_File ''index.html'' (redirectViewer title entrypoint) html_type] else [])\<rparr>)"

definition sitePublicationPlan :: "publication_spec \<Rightarrow> publication_file list \<Rightarrow> plan_result" where
  "sitePublicationPlan spec files = (case spec of
       Site_Spec base entry title \<Rightarrow>
         (let prefix = site_prefix base; planned = site_files prefix files;
              entrypoint = title_or entry ''index.html''
          in if planned = [] then missing (title_or base ''index.html'')
             else if findFile files (prefix @ entrypoint) = None then missing (prefix @ entrypoint)
             else site_plan title entrypoint (prefix @ entrypoint) planned)
     | _ \<Rightarrow> mismatch Site_Kind (spec_kind spec))"

section \<open>Checking a plan\<close>

text \<open>The parts that identify a blob, joined by a zero character.\<close>

definition blobIdentity :: "web_platform \<Rightarrow> blob_reference \<Rightarrow> string" where
  "blobIdentity wp b = join_text (char_of (0::nat))
     [br_id b, br_digest b, num_to_string wp (br_size b), br_mediaType b]"

definition reserved_path :: "string \<Rightarrow> bool" where
  "reserved_path path \<longleftrightarrow> path = ''_rat'' \<or> starts_with path ''_rat/''"

fun validate_content ::
  "web_platform \<Rightarrow> publication_file list \<Rightarrow> planned_file \<Rightarrow> publication_error + unit" where
  "validate_content wp sources (Blob_File path blob) =
     bindE (validateBlobReference blob) (\<lambda>_.
     demand (blobIdentity wp blob \<in> (\<lambda>s. blobIdentity wp (pf_blob s)) ` set sources) Invalid_Request
       ''publication builder selected an unknown source blob'')"
| "validate_content wp sources (Generated_File path bytes mediaType) =
     demand (media_type_ok mediaType) Invalid_Request
       ''publication builder returned invalid generated bytes''"

fun validate_planned ::
  "web_platform \<Rightarrow> publication_file list \<Rightarrow> string list \<Rightarrow> planned_file list \<Rightarrow> publication_error + unit"
where
  "validate_planned wp sources seen [] = Inr ()"
| "validate_planned wp sources seen (f # fs) = (let path = planned_path f in
     bindE (checked_path path Invalid_Path
       (''publication builder returned invalid path '' @ json_string path)) (\<lambda>_.
     bindE (demand (\<not> reserved_path path) Invalid_Path
       (''publication path '' @ path @ '' uses the reserved _rat namespace'')) (\<lambda>_.
     bindE (demand (path \<notin> set seen) Path_Collision
       (''duplicate publication path '' @ path)) (\<lambda>_.
     bindE (validate_content wp sources f) (\<lambda>_.
     validate_planned wp sources (path # seen) fs)))))"

definition validatePublicationPlan ::
  "web_platform \<Rightarrow> publication_plan \<Rightarrow> publication_spec \<Rightarrow> publication_file list
     \<Rightarrow> publication_error + unit" where
  "validatePublicationPlan wp plan spec sources =
     bindE (demand (pl_kind plan = spec_kind spec \<and> pl_entrypoint plan = ''index.html'' \<and>
       pl_files plan \<noteq> []) Invalid_Request ''publication builder returned an invalid plan'') (\<lambda>_.
     bindE (demand (length (pl_files plan) \<le> MAX_ARTIFACT_FILES) Invalid_Request
       (''publication exceeds '' @ show_nat MAX_ARTIFACT_FILES @ '' files'')) (\<lambda>_.
     bindE (validate_planned wp sources [] (pl_files plan)) (\<lambda>_.
     bindE (demand (pl_entrypoint plan \<in> planned_path ` set (pl_files plan)) Invalid_Request
       ''publication plan does not contain its entrypoint'') (\<lambda>_.
     demand (case pl_primaryPath plan of None \<Rightarrow> True
             | Some path \<Rightarrow> path \<in> planned_path ` set (pl_files plan)) Invalid_Request
       ''publication plan does not contain its primary path''))))"

text \<open>\<open>sort(compare)\<close> is stable; with a consistent comparison its result is unique, and
  insertion gives it.\<close>

fun insert_by :: "('a \<Rightarrow> 'a \<Rightarrow> int) \<Rightarrow> 'a \<Rightarrow> 'a list \<Rightarrow> 'a list" where
  "insert_by compare x [] = [x]"
| "insert_by compare x (y # ys) =
     (if compare x y \<le> 0 then x # y # ys else y # insert_by compare x ys)"

definition sort_by :: "('a \<Rightarrow> 'a \<Rightarrow> int) \<Rightarrow> 'a list \<Rightarrow> 'a list" where
  "sort_by compare xs = foldr (insert_by compare) xs []"

lemma set_insert_by: "set (insert_by compare x xs) = insert x (set xs)"
  by (induction xs) auto

lemma set_sort_by [simp]: "set (sort_by compare xs) = set xs"
  by (induction xs) (simp_all add: sort_by_def set_insert_by)

lemma length_sort_by [simp]: "length (sort_by compare xs) = length xs"
proof -
  have "length (insert_by compare x ys) = Suc (length ys)" for x ys
    by (induction ys) auto
  then show ?thesis by (induction xs) (simp_all add: sort_by_def)
qed

record manifest_input =
  mi_publicationId :: string
  mi_plan :: publication_plan
  mi_files :: "publication_file list"
  mi_runId :: "string option"
  mi_sessionId :: "string option"
  mi_artifactIds :: "string list option"
  mi_builder :: string
  mi_createdAt :: string

type_synonym locale_order = "string \<Rightarrow> string \<Rightarrow> int"

definition manifest_of :: "locale_order \<Rightarrow> manifest_input \<Rightarrow> publication_manifest" where
  "manifest_of localeCompare input =
     \<lparr>pm_version = ''1'', pm_publicationId = mi_publicationId input,
      pm_kind = pl_kind (mi_plan input), pm_entrypoint = pl_entrypoint (mi_plan input),
      pm_primaryPath = spread (pl_primaryPath (mi_plan input)),
      pm_files = sort_by (\<lambda>left right. localeCompare (pf_path left) (pf_path right)) (mi_files input),
      pm_provenance = \<lparr>pv_runId = spread (mi_runId input), pv_conversationId = None,
        pv_sessionId = spread (mi_sessionId input),
        pv_artifactIds = (if truthy (mi_sessionId input)
          then Some (case mi_artifactIds input of None \<Rightarrow> [] | Some ids \<Rightarrow> ids) else None),
        pv_builder = mi_builder input, pv_createdAt = mi_createdAt input\<rparr>\<rparr>"

definition publicationManifest ::
  "platform \<Rightarrow> locale_order \<Rightarrow> manifest_input \<Rightarrow> publication_error + publication_manifest" where
  "publicationManifest p localeCompare input = (let m = manifest_of localeCompare input
     in bindE (validatePublicationManifest p m) (\<lambda>_. Inr m))"

section \<open>Sharing\<close>

definition validatePublicationTokenSuffix :: "string \<Rightarrow> error + unit" where
  "validatePublicationTokenSuffix s = check (hex_string 64 s)
     (Plain_Error ''publication token generator returned an invalid token'')"

definition publicationGrant ::
  "platform \<Rightarrow> string \<Rightarrow> string \<Rightarrow> string \<Rightarrow> int \<Rightarrow> int \<Rightarrow> share_grant" where
  "publicationGrant p publicationId ownerHash tokenSuffix millis ttlSeconds =
     \<lparr>sg_version = ''1'', sg_id = ownerHash @ ''-'' @ tokenSuffix, sg_publicationId = publicationId,
      sg_ownerHash = ownerHash, sg_access = ''bearer'',
      sg_expiresAt = iso p (millis + ttlSeconds * 1000), sg_revokedAt = None\<rparr>"

definition publicationHost :: "string \<Rightarrow> string \<Rightarrow> string \<Rightarrow> publication_error + string" where
  "publicationHost publicationId ownerHash domain =
     bindE (validatePublicationId publicationId) (\<lambda>_.
     bindE (as_publication_error (check (hex_string 32 ownerHash)
       (Plain_Error ''publication owner hash is invalid''))) (\<lambda>_.
     Inr (publicationId @ ''-'' @ ownerHash @ ''.'' @ domain)))"

definition publicationDescriptor ::
  "publication_manifest \<Rightarrow> share_grant \<Rightarrow> string \<Rightarrow> publication_error + publication_descriptor" where
  "publicationDescriptor manifest grant domain =
     bindE (publicationHost (sg_publicationId grant) (sg_ownerHash grant) domain) (\<lambda>host. Inr
       \<lparr>ds_publicationId = sg_publicationId grant, ds_kind = pm_kind manifest,
        ds_url = ''https://'' @ host @ ''/__share/'' @ sg_id grant,
        ds_expiresAt = sg_expiresAt grant, ds_entrypoint = pm_entrypoint manifest,
        ds_primaryPath = spread (pm_primaryPath manifest),
        ds_paths = map pf_path (pm_files manifest)\<rparr>)"

text \<open>\<open>Number(configured ?? 86400)\<close> is read by the caller; this is what becomes of the number.\<close>

definition publicationTtlSeconds :: "js_number \<Rightarrow> int" where
  "publicationTtlSeconds seconds = (case seconds of
       Finite r \<Rightarrow> max 60 (min 86400 (floor r)) | _ \<Rightarrow> 86400)"

definition trim_dots :: "string \<Rightarrow> string" where
  "trim_dots s = rev (dropWhile (\<lambda>c. c = CHR ''.'') (rev (dropWhile (\<lambda>c. c = CHR ''.'') s)))"

definition domain_label :: "string \<Rightarrow> bool" where
  "domain_label s \<longleftrightarrow> s \<noteq> [] \<and> length s \<le> 63 \<and> lower_alnum (hd s) \<and> lower_alnum (last s) \<and>
     (\<forall>c \<in> set s. lower_alnum c \<or> c = CHR ''-'')"

definition publicationDomain :: "string \<Rightarrow> error + string" where
  "publicationDomain v = (let domain = trim_dots (js_lower v)
     in if length domain > 253 \<or> CHR ''.'' \<notin> set domain \<or>
           \<not> list_all domain_label (split_on (CHR ''.'') domain)
        then Inl (Plain_Error ''publication base domain is invalid'') else Inr domain)"

end
