(* ===== verification/Publication_Service.thy ===== *)
theory Publication_Service
  imports Publication_Plans Run_Service
begin

text \<open>
  Publishing (\<open>src/core/publication-service.ts\<close>), the object store it stages into
  (\<open>S3PublicationObjectStore\<close> and \<open>S3PublicationGrantStore\<close> in
  \<open>src/adapters/aws-runtime.ts\<close>), and publishing from a session
  (\<open>src/core/session-publication-planning.ts\<close>, \<open>src/core/session-publication-service.ts\<close>).

  A request to the bucket is one turn: other clients act before it, and it may be refused with
  any error or lose its reply. A stored manifest is kept as the value its JSON stands for.
\<close>

section \<open>The bucket\<close>

datatype object_body = Raw_Bytes string | Json_Manifest publication_manifest

type_synonym bucket = "string \<Rightarrow> object_body option"

datatype bucket_fault = Bucket_Served | Bucket_Refused error | Bucket_Unacknowledged error

record bucket_turn =
  bt_others :: "bucket \<Rightarrow> bucket"
  bt_fault :: bucket_fault

record bucket_world =
  objects :: bucket
  bucket_script :: "bucket_turn list"

definition bucket_turn_of :: "'x bucket_world_scheme \<Rightarrow> bucket_fault \<times> 'x bucket_world_scheme" where
  "bucket_turn_of w = (case bucket_script w of
       [] \<Rightarrow> (Bucket_Served, w)
     | t # ts \<Rightarrow> (bt_fault t, w\<lparr>objects := bt_others t (objects w), bucket_script := ts\<rparr>))"

definition no_such_key :: error where
  "no_such_key = Service_Error ''NoSuchKey'' ''The specified key does not exist.'' (Some 404)"

definition get_object :: "string \<Rightarrow> ('x bucket_world_scheme, error, object_body) io" where
  "get_object key w = (let (fault, w1) = bucket_turn_of w in case fault of
       Bucket_Served \<Rightarrow> (w1, case objects w1 key of None \<Rightarrow> Inl no_such_key | Some body \<Rightarrow> Inr body)
     | Bucket_Refused e \<Rightarrow> (w1, Inl e)
     | Bucket_Unacknowledged e \<Rightarrow> (w1, Inl e))"

definition put_object :: "string \<Rightarrow> object_body \<Rightarrow> ('x bucket_world_scheme, error, unit) io" where
  "put_object key body w = (let (fault, w1) = bucket_turn_of w;
         w2 = w1\<lparr>objects := (objects w1)(key \<mapsto> body)\<rparr> in case fault of
       Bucket_Served \<Rightarrow> (w2, Inr ())
     | Bucket_Refused e \<Rightarrow> (w1, Inl e)
     | Bucket_Unacknowledged e \<Rightarrow> (w2, Inl e))"

text \<open>\<open>CopyObject\<close>: the service decodes the percent encoding of \<open>CopySource\<close>.\<close>

definition copy_object :: "string \<Rightarrow> string \<Rightarrow> ('x bucket_world_scheme, error, unit) io" where
  "copy_object source key w = (let (fault, w1) = bucket_turn_of w in case objects w1 source of
       None \<Rightarrow> (w1, Inl (case fault of Bucket_Refused e \<Rightarrow> e | _ \<Rightarrow> no_such_key))
     | Some body \<Rightarrow> (let w2 = w1\<lparr>objects := (objects w1)(key \<mapsto> body)\<rparr> in case fault of
         Bucket_Served \<Rightarrow> (w2, Inr ())
       | Bucket_Refused e \<Rightarrow> (w1, Inl e)
       | Bucket_Unacknowledged e \<Rightarrow> (w2, Inl e)))"

section \<open>The object store of publications\<close>

record published =
  pb_manifest :: publication_manifest
  pb_manifestBlob :: blob_reference

text \<open>What the model leaves open: \<open>JSON.parse\<close> on bytes nobody wrote as a manifest.\<close>

record publication_platform =
  pp_platform :: platform
  pp_web :: web_platform
  pp_localeCompare :: locale_order
  pp_parse :: "string \<Rightarrow> publication_manifest option"

definition ownerHashFor :: "platform \<Rightarrow> string \<Rightarrow> string" where
  "ownerHashFor p ownerId = take 32 (sha256Hex p ownerId)"

definition publicationObjectKey :: "string \<Rightarrow> string \<Rightarrow> string \<Rightarrow> string" where
  "publicationObjectKey ownerHash publicationId path =
     ''owners/'' @ ownerHash @ ''/publications/'' @ publicationId @ ''/'' @ path"

definition manifest_path :: string where
  "manifest_path = ''_rat/manifest.json''"

definition blob_value :: "blob_reference \<Rightarrow> jsval" where
  "blob_value b = JObj [(''id'', JStr (br_id b)), (''digest'', JStr (br_digest b)),
     (''size'', JNum (br_size b)), (''mediaType'', JStr (br_mediaType b))]"

definition file_value :: "publication_file \<Rightarrow> jsval" where
  "file_value f = JObj [(''path'', JStr (pf_path f)), (''blob'', blob_value (pf_blob f))]"

definition provenance_value :: "publication_provenance \<Rightarrow> jsval" where
  "provenance_value v = JObj (field_of ''runId'' JStr (pv_runId v) @
     field_of ''conversationId'' JStr (pv_conversationId v) @
     field_of ''sessionId'' JStr (pv_sessionId v) @
     field_of ''artifactIds'' strings_value (pv_artifactIds v) @
     [(''builder'', JStr (pv_builder v)), (''createdAt'', JStr (pv_createdAt v))])"

definition manifest_value :: "publication_manifest \<Rightarrow> jsval" where
  "manifest_value m = JObj ([(''version'', JStr (pm_version m)),
     (''publicationId'', JStr (pm_publicationId m)), (''kind'', JStr (kind_text (pm_kind m))),
     (''entrypoint'', JStr (pm_entrypoint m))] @ field_of ''primaryPath'' JStr (pm_primaryPath m) @
     [(''files'', JArr (map file_value (pm_files m))),
      (''provenance'', provenance_value (pm_provenance m))])"

definition manifest_bytes :: "web_platform \<Rightarrow> publication_manifest \<Rightarrow> string" where
  "manifest_bytes wp m = utf8_bytes (json_text wp (manifest_value m))"

definition body_bytes :: "web_platform \<Rightarrow> object_body \<Rightarrow> string" where
  "body_bytes wp body = (case body of Raw_Bytes b \<Rightarrow> b | Json_Manifest m \<Rightarrow> manifest_bytes wp m)"

definition read_manifest :: "publication_platform \<Rightarrow> object_body \<Rightarrow> publication_manifest option" where
  "read_manifest pp body = (case body of Raw_Bytes b \<Rightarrow> pp_parse pp b | Json_Manifest m \<Rightarrow> Some m)"

definition size_of :: "string \<Rightarrow> js_number" where
  "size_of bytes = Finite (of_nat (length bytes))"

definition stored_blob :: "publication_platform \<Rightarrow> string \<Rightarrow> string \<Rightarrow> string \<Rightarrow> blob_reference" where
  "stored_blob pp key bytes mediaType = \<lparr>br_id = key,
     br_digest = ''sha256:'' @ sha256Hex (pp_platform pp) bytes, br_size = size_of bytes,
     br_mediaType = mediaType\<rparr>"

text \<open>An error of the SDK names itself with its code, so \<open>Code\<close> adds nothing to \<open>name\<close>.\<close>

definition isMissingS3Object :: "error \<Rightarrow> bool" where
  "isMissingS3Object e = (case e of
       Service_Error name message status \<Rightarrow>
         name \<in> {''NoSuchKey'', ''NotFound'', ''404'', ''AccessDenied''} \<or>
         status \<in> {Some 403, Some 404}
     | _ \<Rightarrow> False)"

definition s3_io :: "('w, error, 'a) io \<Rightarrow> ('w, publication_error, 'a) io" where
  "s3_io m = (\<lambda>w. case m w of (w', r) \<Rightarrow> (w', as_publication_error r))"

definition read_committed ::
  "publication_platform \<Rightarrow> string \<Rightarrow> string \<Rightarrow> object_body \<Rightarrow> publication_error + published" where
  "read_committed pp key publicationId body = (case read_manifest pp body of
       None \<Rightarrow> Inl (Other_Error (Plain_Error ''Unexpected token in JSON''))
     | Some m \<Rightarrow>
         bindE (validatePublicationManifest (pp_platform pp) m) (\<lambda>_.
         if pm_publicationId m \<noteq> publicationId
         then Inl (Other_Error (Plain_Error
           ''committed publication identity does not match its storage key''))
         else Inr \<lparr>pb_manifest = m, pb_manifestBlob =
           stored_blob pp key (body_bytes (pp_web pp) body) ''application/json''\<rparr>))"

definition getCommitted :: "publication_platform \<Rightarrow> string \<Rightarrow> string
    \<Rightarrow> ('x bucket_world_scheme, publication_error, published option) io" where
  "getCommitted pp ownerId publicationId =
     (let key = publicationObjectKey (ownerHashFor (pp_platform pp) ownerId) publicationId manifest_path
      in try_io (get_object key)
           (\<lambda>body. lift_io (bindE (read_committed pp key publicationId body) (\<lambda>p. Inr (Some p))))
           (\<lambda>e. if isMissingS3Object e then ret None else throw (Other_Error e)))"

definition stageBlob :: "publication_platform \<Rightarrow> string \<Rightarrow> string \<Rightarrow> string \<Rightarrow> blob_reference
    \<Rightarrow> ('x bucket_world_scheme, publication_error, blob_reference) io" where
  "stageBlob pp ownerId publicationId path source =
     (let ownerHash = ownerHashFor (pp_platform pp) ownerId;
          key = publicationObjectKey ownerHash publicationId path
      in bind_io (lift_io (as_publication_error (validateArtifactPath path))) (\<lambda>_.
         if \<not> starts_with (br_id source) (''owners/'' @ ownerHash @ ''/'')
         then throw (Other_Error (Plain_Error ''publication source blob is outside its owner scope''))
         else bind_io (s3_io (copy_object (br_id source) key)) (\<lambda>_. ret (source\<lparr>br_id := key\<rparr>))))"

definition stageBytes :: "publication_platform \<Rightarrow> string \<Rightarrow> string \<Rightarrow> string \<Rightarrow> string \<Rightarrow> string
    \<Rightarrow> ('x bucket_world_scheme, publication_error, blob_reference) io" where
  "stageBytes pp ownerId publicationId path bytes mediaType =
     (let key = publicationObjectKey (ownerHashFor (pp_platform pp) ownerId) publicationId path
      in bind_io (lift_io (as_publication_error (validateArtifactPath path))) (\<lambda>_.
         bind_io (s3_io (put_object key (Raw_Bytes bytes))) (\<lambda>_.
         ret (stored_blob pp key bytes mediaType))))"

definition commit :: "publication_platform \<Rightarrow> string \<Rightarrow> publication_manifest
    \<Rightarrow> ('x bucket_world_scheme, publication_error, blob_reference) io" where
  "commit pp ownerId m =
     (let key = publicationObjectKey (ownerHashFor (pp_platform pp) ownerId) (pm_publicationId m)
                  manifest_path
      in bind_io (s3_io (put_object key (Json_Manifest m))) (\<lambda>_.
         ret (stored_blob pp key (manifest_bytes (pp_web pp) m) ''application/json'')))"

section \<open>The publication service\<close>

record 'w publication_store =
  ps_getCommitted :: "(string \<Rightarrow> string \<Rightarrow> ('w, publication_error, published option) io) option"
  ps_stageBlob :: "string \<Rightarrow> string \<Rightarrow> string \<Rightarrow> blob_reference
    \<Rightarrow> ('w, publication_error, blob_reference) io"
  ps_stageBytes :: "string \<Rightarrow> string \<Rightarrow> string \<Rightarrow> string \<Rightarrow> string
    \<Rightarrow> ('w, publication_error, blob_reference) io"
  ps_commit :: "string \<Rightarrow> publication_manifest \<Rightarrow> ('w, publication_error, blob_reference) io"

definition s3_publications ::
  "publication_platform \<Rightarrow> 'x bucket_world_scheme publication_store" where
  "s3_publications pp = \<lparr>ps_getCommitted = Some (getCommitted pp), ps_stageBlob = stageBlob pp,
     ps_stageBytes = stageBytes pp, ps_commit = commit pp\<rparr>"

record publication_builder =
  bl_kind :: publication_kind
  bl_name :: string
  bl_plan :: "publication_spec \<Rightarrow> publication_file list \<Rightarrow> plan_result"

text \<open>The registry: a map from kinds, refused when two builders share a kind.\<close>

fun register :: "(publication_kind \<Rightarrow> publication_builder option) \<Rightarrow> publication_builder list
    \<Rightarrow> error + (publication_kind \<Rightarrow> publication_builder option)" where
  "register known [] = Inr known"
| "register known (b # bs) =
     (if known (bl_kind b) \<noteq> None
      then Inl (Plain_Error (''duplicate publication builder for '' @ kind_text (bl_kind b)))
      else register (known(bl_kind b \<mapsto> b)) bs)"

definition builder_for :: "(publication_kind \<Rightarrow> publication_builder option) \<Rightarrow> publication_kind
    \<Rightarrow> publication_error + publication_builder" where
  "builder_for known kind = (case known kind of
       None \<Rightarrow> fail Unsupported_Media (''no publication builder for '' @ kind_text kind)
     | Some b \<Rightarrow> Inr b)"

definition defaultPublicationBuilders :: "publication_builder list" where
  "defaultPublicationBuilders =
     [\<lparr>bl_kind = File_Kind, bl_name = ''rat-things/file@2'', bl_plan = filePublicationPlan\<rparr>,
      \<lparr>bl_kind = Site_Kind, bl_name = ''rat-things/site@1'', bl_plan = sitePublicationPlan\<rparr>,
      \<lparr>bl_kind = Video_Kind, bl_name = ''rat-things/video@2'', bl_plan = videoPublicationPlan\<rparr>]"

definition storageError :: "string \<Rightarrow> publication_error" where
  "storageError message = Publication_Error Storage message None"

definition planned_or_fail :: "plan_result \<Rightarrow> publication_error + publication_plan" where
  "planned_or_fail r = (case r of
       Inr plan \<Rightarrow> Inr plan
     | Inl [] \<Rightarrow> Inl (Publication_Error Invalid_Request ''publication could not be planned'' (Some []))
     | Inl (d # ds) \<Rightarrow> Inl (Publication_Error (pd_code d) (pd_message d) (Some (d # ds))))"

record publish_input =
  pi_ownerId :: string
  pi_publicationId :: string
  pi_spec :: publication_spec
  pi_files :: "publication_file list"
  pi_runId :: "string option"
  pi_sessionId :: "string option"
  pi_artifactIds :: "string list option"
  pi_createdAt :: "string option"

definition stage_one :: "'w publication_store \<Rightarrow> string \<Rightarrow> string \<Rightarrow> planned_file
    \<Rightarrow> ('w, publication_error, publication_file) io" where
  "stage_one store ownerId publicationId f =
     try_io (case f of
         Blob_File path blob \<Rightarrow> ps_stageBlob store ownerId publicationId path blob
       | Generated_File path bytes mediaType \<Rightarrow>
           ps_stageBytes store ownerId publicationId path bytes mediaType)
       (\<lambda>blob. ret \<lparr>pf_path = planned_path f, pf_blob = blob\<rparr>)
       (\<lambda>e. throw (storageError (''could not stage publication path '' @ planned_path f)))"

fun stage_all :: "'w publication_store \<Rightarrow> string \<Rightarrow> string \<Rightarrow> planned_file list
    \<Rightarrow> ('w, publication_error, publication_file list) io" where
  "stage_all store ownerId publicationId [] = ret []"
| "stage_all store ownerId publicationId (f # fs) =
     bind_io (stage_one store ownerId publicationId f) (\<lambda>file.
     bind_io (stage_all store ownerId publicationId fs) (\<lambda>files. ret (file # files)))"

fun validate_sources :: "publication_file list \<Rightarrow> publication_error + unit" where
  "validate_sources [] = Inr ()"
| "validate_sources (f # fs) = bindE (validateBlobReference (pf_blob f)) (\<lambda>_. validate_sources fs)"

definition find_committed :: "platform \<Rightarrow> 'w publication_store \<Rightarrow> publish_input
    \<Rightarrow> ('w, publication_error, published option) io" where
  "find_committed p store input = (case ps_getCommitted store of
       None \<Rightarrow> ret None
     | Some f \<Rightarrow> catch_io
         (bind_io (f (pi_ownerId input) (pi_publicationId input)) (\<lambda>found. case found of
            None \<Rightarrow> ret None
          | Some c \<Rightarrow> lift_io (bindE (validatePublicationManifest p (pb_manifest c)) (\<lambda>_. Inr (Some c)))))
         (\<lambda>e. throw (storageError ''could not read committed publication'')))"

definition plan_publication :: "publication_platform \<Rightarrow> (publication_kind \<Rightarrow> publication_builder option)
    \<Rightarrow> publish_input \<Rightarrow> publication_error + (publication_builder \<times> publication_plan)" where
  "plan_publication pp builders input =
     bindE (builder_for builders (spec_kind (pi_spec input))) (\<lambda>builder.
     bindE (planned_or_fail (bl_plan builder (pi_spec input) (pi_files input))) (\<lambda>plan.
     bindE (validatePublicationPlan (pp_web pp) plan (pi_spec input) (pi_files input)) (\<lambda>_.
     Inr (builder, plan))))"

definition publish_manifest_input :: "platform \<Rightarrow> int \<Rightarrow> publish_input \<Rightarrow> publication_builder
    \<Rightarrow> publication_plan \<Rightarrow> publication_file list \<Rightarrow> manifest_input" where
  "publish_manifest_input p millis input builder plan files =
     \<lparr>mi_publicationId = pi_publicationId input, mi_plan = plan, mi_files = files,
      mi_runId = spread (pi_runId input), mi_sessionId = spread (pi_sessionId input),
      mi_artifactIds = (if truthy (pi_sessionId input)
        then Some (case pi_artifactIds input of None \<Rightarrow> [] | Some ids \<Rightarrow> ids) else None),
      mi_builder = bl_name builder,
      mi_createdAt = (case pi_createdAt input of Some t \<Rightarrow> t | None \<Rightarrow> iso p millis)\<rparr>"

definition commit_manifest :: "'w publication_store \<Rightarrow> string \<Rightarrow> publication_manifest
    \<Rightarrow> ('w, publication_error, published) io" where
  "commit_manifest store ownerId m = try_io (ps_commit store ownerId m)
     (\<lambda>blob. ret \<lparr>pb_manifest = m, pb_manifestBlob = blob\<rparr>)
     (\<lambda>e. throw (storageError ''could not commit publication manifest''))"

definition publish_new :: "publication_platform \<Rightarrow> int \<Rightarrow> 'w publication_store
    \<Rightarrow> (publication_kind \<Rightarrow> publication_builder option) \<Rightarrow> publish_input
    \<Rightarrow> ('w, publication_error, published) io" where
  "publish_new pp millis store builders input =
     bind_io (lift_io (plan_publication pp builders input)) (\<lambda>(builder, plan).
     bind_io (stage_all store (pi_ownerId input) (pi_publicationId input) (pl_files plan)) (\<lambda>files.
     bind_io (lift_io (publicationManifest (pp_platform pp) (pp_localeCompare pp)
       (publish_manifest_input (pp_platform pp) millis input builder plan files))) (\<lambda>m.
     commit_manifest store (pi_ownerId input) m)))"

text \<open>\<open>millis\<close> is the clock's reading, used when the input names no creation time.\<close>

definition publish :: "publication_platform \<Rightarrow> int \<Rightarrow> 'w publication_store
    \<Rightarrow> (publication_kind \<Rightarrow> publication_builder option) \<Rightarrow> publish_input
    \<Rightarrow> ('w, publication_error, published) io" where
  "publish pp millis store builders input =
     bind_io (lift_io (validatePublicationId (pi_publicationId input))) (\<lambda>_.
     bind_io (lift_io (validate_sources (pi_files input))) (\<lambda>_.
     bind_io (find_committed (pp_platform pp) store input) (\<lambda>found. case found of
       Some c \<Rightarrow> ret c
     | None \<Rightarrow> publish_new pp millis store builders input)))"

text \<open>What the constructor of the registry makes of the default builders.\<close>

definition default_registry :: "publication_kind \<Rightarrow> publication_builder option" where
  "default_registry kind = find (\<lambda>b. bl_kind b = kind) defaultPublicationBuilders"

lemma default_builders_register: "register (\<lambda>_. None) defaultPublicationBuilders = Inr default_registry"
proof -
  have "((\<lambda>_. None)(File_Kind \<mapsto> b1))(Site_Kind \<mapsto> b2, Video_Kind \<mapsto> b3) = (\<lambda>kind.
      case kind of File_Kind \<Rightarrow> Some b1 | Site_Kind \<Rightarrow> Some b2 | Video_Kind \<Rightarrow> Some b3)"
    for b1 b2 b3 :: publication_builder
    by (rule ext) (simp split: publication_kind.split)
  then show ?thesis
    by (auto simp: defaultPublicationBuilders_def default_registry_def fun_eq_iff split: publication_kind.split)
qed

end
