(* ===== verification/Publication_Props.thy ===== *)
theory Publication_Props
  imports Publication_Service
begin

text \<open>
  What publishing promises: the plans of the builders pass their check, the pages carry no
  markup from titles or paths, a committed manifest names only files that are there, and
  publishing is one atomic step of the library of publications.
\<close>

section \<open>Checked plans\<close>

lemma validatePublicationId_Inr [simp]: "validatePublicationId v = Inr u \<longleftrightarrow> hex_string 24 v"
  by (simp add: validatePublicationId_def)

fun content_ok :: "web_platform \<Rightarrow> publication_file list \<Rightarrow> planned_file \<Rightarrow> bool" where
  "content_ok wp sources (Blob_File path blob) \<longleftrightarrow> blob_ok blob \<and>
     blobIdentity wp blob \<in> (\<lambda>s. blobIdentity wp (pf_blob s)) ` set sources"
| "content_ok wp sources (Generated_File path bytes mediaType) \<longleftrightarrow> media_type_ok mediaType"

definition planned_ok :: "web_platform \<Rightarrow> publication_file list \<Rightarrow> planned_file \<Rightarrow> bool" where
  "planned_ok wp sources f \<longleftrightarrow> artifact_path_ok (planned_path f) \<and> \<not> reserved_path (planned_path f) \<and>
     content_ok wp sources f"

lemma validate_content_Inr [simp]: "validate_content wp sources f = Inr u \<longleftrightarrow> content_ok wp sources f"
  by (cases f) (auto simp: bindE_Inr)

lemma validate_planned_iff:
  "validate_planned wp sources seen fs = Inr u \<longleftrightarrow>
     list_all (planned_ok wp sources) fs \<and> distinct (map planned_path fs) \<and>
     set (map planned_path fs) \<inter> set seen = {}"
  by (induction wp sources seen fs rule: validate_planned.induct)
    (auto simp: bindE_Inr planned_ok_def Let_def)

definition plan_ok :: "web_platform \<Rightarrow> publication_plan \<Rightarrow> publication_spec \<Rightarrow> publication_file list \<Rightarrow> bool"
where
  "plan_ok wp plan spec sources \<longleftrightarrow>
     pl_kind plan = spec_kind spec \<and> pl_entrypoint plan = ''index.html'' \<and>
     length (pl_files plan) \<le> MAX_ARTIFACT_FILES \<and>
     list_all (planned_ok wp sources) (pl_files plan) \<and> distinct (map planned_path (pl_files plan)) \<and>
     ''index.html'' \<in> planned_path ` set (pl_files plan) \<and>
     (\<forall>path. pl_primaryPath plan = Some path \<longrightarrow> path \<in> planned_path ` set (pl_files plan))"

lemma validatePublicationPlan_iff:
  "validatePublicationPlan wp plan spec sources = Inr u \<longleftrightarrow> plan_ok wp plan spec sources"
  by (auto simp: validatePublicationPlan_def plan_ok_def bindE_Inr validate_planned_iff image_iff
      eq_commute [of "''index.html''"] split: option.splits)

lemma success_Inr:
  "success plan = Inr plan' \<longleftrightarrow> plan' = plan \<and> first_duplicate [] (map planned_path (pl_files plan)) = None"
  by (auto simp: success_def failure_def split: option.splits)

lemma first_duplicate_None_iff:
  "first_duplicate seen xs = None \<longleftrightarrow> distinct xs \<and> set xs \<inter> set seen = {}"
  by (induction seen xs rule: first_duplicate.induct) auto

lemma success_distinct: "success plan = Inr plan' \<Longrightarrow> distinct (map planned_path (pl_files plan))"
  by (simp add: success_Inr first_duplicate_None_iff)

lemma split_on_join: "split_on d (p @ d # s) = split_on d p @ split_on d s"
  by (induction p) (auto split: list.splits)

lemma set_starts_with: "starts_with s p \<longleftrightarrow> (\<exists>t. s = p @ t)"
  by (metis append_take_drop_id starts_with_def append_eq_conv_conj)

lemma utf8_length_suffix: "utf8_length (drop n s) \<le> utf8_length s"
  by (metis append_take_drop_id le_add2 utf8_length_append)

lemma utf8_length_Cons: "utf8_length (c # s) = (if code_of c < 128 then 1 else 2) + utf8_length s"
  by (simp add: utf8_length_def)

lemma split_on_utf8: "part \<in> set (split_on d s) \<Longrightarrow> utf8_length part \<le> utf8_length s"
proof (induction s arbitrary: part)
  case (Cons c s)
  have head: "utf8_length (hd (split_on d s)) \<le> utf8_length s"
    by (rule Cons.IH) simp
  show ?case
  proof (cases "part \<in> set (split_on d s)")
    case True
    with Cons.IH [OF this] show ?thesis by (simp add: utf8_length_Cons)
  next
    case False
    with Cons.prems head show ?thesis
      by (cases "split_on d s") (auto simp: utf8_length_Cons split: if_splits)
  qed
qed simp

lemma basename_mem: "basename path \<in> set (split_on (CHR ''/'') path)"
  by (simp add: basename_def)

lemma split_on_chars: "part \<in> set (split_on d s) \<Longrightarrow> set part \<subseteq> set s"
proof (induction s arbitrary: part)
  case (Cons c s)
  have "set (hd (split_on d s)) \<subseteq> set s" by (rule Cons.IH) simp
  with Cons show ?case by (cases "split_on d s") (fastforce split: if_splits)+
qed simp

lemma no_backslash: "backslash \<notin> set ''assets/''"
  by code_simp

lemma asset_path_ok:
  assumes "artifact_path_ok path"
  shows "artifact_path_ok (asset_path path)"
    and "\<not> reserved_path (asset_path path)"
    and "asset_path path \<noteq> ''index.html''"
proof -
  have part: "part_ok (basename path)" and chars: "set (basename path) \<subseteq> set path"
    and whole: "CHR ''/'' \<notin> set (basename path)"
    using assms basename_mem [of path]
    by (auto simp: artifact_path_ok_def list_all_iff dest: split_on_chars set_split_on)
  have split: "split_on (CHR ''/'') (''assets/'' @ basename path) = [''assets'', basename path]"
    using split_on_join [of "CHR ''/''" "''assets''" "basename path"] whole
    by (simp add: split_on_plain)
  have "utf8_length (''assets/'' @ basename path) \<le> 7 + 255"
    using part by (simp add: part_ok_def) (simp add: utf8_length_def code_of_def)
  moreover have "part_ok ''assets''" by (simp add: part_ok_def utf8_length_def code_of_def)
  moreover have "\<not> list_ex is_control (basename path)" "backslash \<notin> set (basename path)"
    using assms chars by (auto simp: artifact_path_ok_def list_ex_iff)
  ultimately show "artifact_path_ok (asset_path path)"
    using part split no_backslash
    by (simp add: asset_path_def artifact_path_ok_def starts_with_def MAX_ARTIFACT_PATH_BYTES_def
        is_control_def code_of_def)
  show "\<not> reserved_path (asset_path path)" "asset_path path \<noteq> ''index.html''"
    by (simp_all add: reserved_path_def starts_with_def asset_path_def)
qed

lemma index_path_ok: "artifact_path_ok ''index.html''" "\<not> reserved_path ''index.html''"
  by code_simp+

lemma html_type_ok: "media_type_ok html_type"
  by code_simp

definition sources_ok :: "publication_file list \<Rightarrow> bool" where
  "sources_ok files \<longleftrightarrow> (\<forall>f \<in> set files. artifact_path_ok (pf_path f) \<and> blob_ok (pf_blob f))"

lemma findFile_Some: "findFile files path = Some f \<Longrightarrow> f \<in> set files \<and> pf_path f = path"
  by (auto simp: findFile_def find_Some_iff)

lemma index_planned: "planned_ok wp files (Generated_File ''index.html'' bytes html_type)"
  by (simp add: planned_ok_def index_path_ok html_type_ok)

lemma asset_planned:
  "sources_ok files \<Longrightarrow> f \<in> set files \<Longrightarrow>
   planned_ok wp files (Blob_File (asset_path (pf_path f)) (pf_blob f))"
  using asset_path_ok [of "pf_path f"] by (auto simp: planned_ok_def sources_ok_def)

lemma file_plan_ok:
  assumes "sources_ok files" and "filePublicationPlan spec files = Inr plan"
  shows "plan_ok wp plan spec files"
  using assms asset_path_ok(3)
  by (auto simp: filePublicationPlan_def mismatch_def missing_def failure_def plan_ok_def success_Inr
      first_duplicate_None_iff MAX_ARTIFACT_FILES_def Let_def index_planned asset_planned
      split: publication_spec.splits option.splits dest: findFile_Some)

lemma video_plan_ok:
  assumes built: "video_plan title video poster = Inr plan" and "sources_ok files"
    and "video \<in> set files" and "\<forall>f. poster = Some f \<longrightarrow> f \<in> set files"
  shows "plan_ok wp plan (Video_Spec path p t) files"
proof -
  have "plan = \<lparr>pl_kind = Video_Kind, pl_entrypoint = ''index.html'',
      pl_primaryPath = Some (asset_path (pf_path video)),
      pl_files = video_files title video poster\<rparr>"
    and "distinct (map planned_path (pl_files plan))"
    using built
    by (auto simp: video_plan_def Let_def failure_def success_Inr first_duplicate_None_iff split: if_splits)
  then show ?thesis
    using assms(2-4)
    by (cases poster) (auto simp: plan_ok_def video_files_def Let_def MAX_ARTIFACT_FILES_def
        index_planned asset_planned)
qed

lemma video_publication_plan_ok:
  assumes "sources_ok files" and "videoPublicationPlan spec files = Inr plan"
  shows "plan_ok wp plan spec files"
  using assms
  by (auto simp: videoPublicationPlan_def mismatch_def missing_def failure_def Let_def
      split: publication_spec.splits option.splits if_splits
      elim!: video_plan_ok dest: findFile_Some)

lemma path_tail_ok:
  assumes "artifact_path_ok (p @ CHR ''/'' # t)" and "t \<noteq> []"
  shows "artifact_path_ok t"
proof -
  have parts: "list_all part_ok (split_on (CHR ''/'') t)"
    using assms by (simp add: artifact_path_ok_def split_on_join)
  have "\<not> starts_with t ''/''"
  proof
    assume "starts_with t ''/''"
    then obtain u where "t = CHR ''/'' # u" by (auto simp: set_starts_with)
    with parts show False by (simp add: part_ok_def)
  qed
  moreover have "utf8_length t \<le> utf8_length (p @ CHR ''/'' # t)"
    by (simp add: utf8_length_Cons)
  ultimately show ?thesis
    using assms parts by (auto simp: artifact_path_ok_def simp del: utf8_length_append)
qed

lemma site_prefix_cases: "site_prefix base = [] \<or> (\<exists>r. site_prefix base = r @ ''/'')"
  by (auto simp: site_prefix_def)

lemma site_files_member:
  assumes "g \<in> set (site_files (site_prefix base) files)"
  obtains f where "f \<in> set files" and "pf_path f = site_prefix base @ planned_path g"
    and "planned_path g \<noteq> []" and "g = Blob_File (planned_path g) (pf_blob f)"
  using assms by (auto simp: site_files_def set_starts_with)

lemma site_planned:
  assumes "sources_ok files" and "g \<in> set (site_files (site_prefix base) files)"
    and "\<not> reserved_path (planned_path g)"
  shows "planned_ok wp files g"
proof -
  obtain f where f: "f \<in> set files" "pf_path f = site_prefix base @ planned_path g"
      "planned_path g \<noteq> []" "g = Blob_File (planned_path g) (pf_blob f)"
    by (rule site_files_member [OF assms(2)])
  have "artifact_path_ok (site_prefix base @ planned_path g)" and blob: "blob_ok (pf_blob f)"
    using assms(1) f by (auto simp: sources_ok_def)
  then have "artifact_path_ok (planned_path g)"
    using site_prefix_cases [of base] f(3) path_tail_ok by auto
  then have "planned_ok wp files (Blob_File (planned_path g) (pf_blob f))"
    using assms(3) f(1) blob by (auto simp: planned_ok_def)
  then show ?thesis using f(4) by simp
qed

lemma site_files_length: "length (site_files prefix files) \<le> length files"
  unfolding site_files_def by (simp add: le_trans [OF length_filter_le])

lemma site_has_entry:
  assumes "findFile files (site_prefix base @ ''index.html'') \<noteq> None"
  shows "''index.html'' \<in> planned_path ` set (site_files (site_prefix base) files)"
proof -
  obtain f where f: "f \<in> set files" "pf_path f = site_prefix base @ ''index.html''"
    using assms findFile_Some by fastforce
  have "Blob_File ''index.html'' (pf_blob f) \<in> set (site_files (site_prefix base) files)"
    using f by (force simp: site_files_def set_starts_with)
  then show ?thesis by force
qed

lemma site_plan_ok:
  assumes "sources_ok files" and "length files < MAX_ARTIFACT_FILES"
    and "sitePublicationPlan spec files = Inr plan"
    and free: "\<forall>f \<in> set (pl_files plan). \<not> reserved_path (planned_path f)"
  shows "plan_ok wp plan spec files"
proof -
  obtain base entry title where spec: "spec = Site_Spec base entry title"
    using assms(3) by (cases spec) (auto simp: sitePublicationPlan_def mismatch_def failure_def)
  define entrypoint where "entrypoint = title_or entry ''index.html''"
  define planned where "planned = site_files (site_prefix base) files"
  have found: "findFile files (site_prefix base @ entrypoint) \<noteq> None"
    and plan: "site_plan title entrypoint (site_prefix base @ entrypoint) planned = Inr plan"
    using assms(3)
    by (auto simp: sitePublicationPlan_def spec Let_def missing_def failure_def planned_def
        entrypoint_def split: if_splits)
  have shape: "plan = \<lparr>pl_kind = Site_Kind, pl_entrypoint = ''index.html'', pl_primaryPath = None,
      pl_files = planned @ (if entrypoint \<noteq> ''index.html''
        then [Generated_File ''index.html'' (redirectViewer title entrypoint) html_type] else [])\<rparr>"
    and distinct: "distinct (map planned_path (pl_files plan))"
    using plan by (auto simp: site_plan_def failure_def success_Inr first_duplicate_None_iff split: if_splits)
  have "\<forall>g \<in> set planned. planned_ok wp files g"
    using free site_planned [OF assms(1)] by (auto simp: shape planned_def)
  moreover have "length planned < MAX_ARTIFACT_FILES"
    using site_files_length [of "site_prefix base" files] assms(2) by (simp add: planned_def)
  moreover have "entrypoint = ''index.html'' \<Longrightarrow> ''index.html'' \<in> planned_path ` set planned"
    using found site_has_entry by (simp add: planned_def)
  ultimately show ?thesis
    using distinct by (auto simp: plan_ok_def spec shape list_all_iff index_planned)
qed

section \<open>Pages without injected markup\<close>

definition is_markup :: "char \<Rightarrow> bool" where
  "is_markup c \<longleftrightarrow> c \<in> {CHR 0x3C, CHR 0x3E, CHR 0x22}"

text \<open>The characters of a page that delimit tags and attribute values, in order.\<close>

definition markup :: "string \<Rightarrow> string" where
  "markup s = filter is_markup s"

lemma markup_append: "markup (s @ t) = markup s @ markup t"
  by (simp add: markup_def)

lemma markup_Nil: "markup [] = []"
  by (simp add: markup_def)

lemma markup_concat: "(\<And>c. c \<in> set s \<Longrightarrow> markup (f c) = g c) \<Longrightarrow> markup (concat (map f s)) = concat (map g s)"
  by (induction s) (simp_all add: markup_append markup_Nil)

lemma code_of_char [simp]: "n < 256 \<Longrightarrow> code_of (char_of n) = n"
  by (simp add: code_of_def)

lemma code_of_less: "code_of c < 256"
  by (simp add: code_of_def)

lemma code_of_inject: "code_of c = code_of d \<longleftrightarrow> c = d"
  by (simp add: code_of_def)

lemma is_markup_code: "is_markup c \<longleftrightarrow> code_of c \<in> {34, 60, 62}"
proof -
  have "code_of (CHR 0x3C) = 60" "code_of (CHR 0x3E) = 62" "code_of (CHR 0x22) = 34"
    by code_simp+
  then show ?thesis by (auto simp: is_markup_def simp flip: code_of_inject)
qed

lemma utf8_char_codes:
  "\<not> code_of c < 128 \<Longrightarrow> code_of (char_of (192 + code_of c div 64)) = 192 + code_of c div 64"
  "\<not> code_of c < 128 \<Longrightarrow> code_of (char_of (128 + code_of c mod 64)) = 128 + code_of c mod 64"
proof -
  have "code_of c < 256" by (rule code_of_less)
  then have "192 + code_of c div 64 < 256" "128 + code_of c mod 64 < 256" by linarith+
  then show "code_of (char_of (192 + code_of c div 64)) = 192 + code_of c div 64"
    "code_of (char_of (128 + code_of c mod 64)) = 128 + code_of c mod 64"
    by simp_all
qed

lemma markup_utf8: "markup (utf8_bytes s) = markup s"
proof -
  have "markup (utf8_char c) = filter is_markup [c]" for c
    by (auto simp: utf8_char_def Let_def markup_def is_markup_code utf8_char_codes)
  then have "markup (utf8_bytes s) = concat (map (\<lambda>c. filter is_markup [c]) s)"
    unfolding utf8_bytes_def by (rule markup_concat)
  also have "\<dots> = markup s" by (induction s) (auto simp: markup_def)
  finally show ?thesis .
qed

lemma markup_escape: "markup (escapeHtml s) = []"
proof -
  have "markup (escape_char c) = []" for c
    by (simp add: escape_char_def markup_def is_markup_def)
  then have "markup (escapeHtml s) = concat (map (\<lambda>c. []) s)"
    unfolding escapeHtml_def by (rule markup_concat)
  then show ?thesis by simp
qed

lemma hex_digit_plain: "d < 16 \<Longrightarrow> \<not> is_markup (upper_hex d)"
  by (auto simp: upper_hex_def is_markup_code)

lemma markup_percent: "markup (percent b) = []"
proof -
  have "code_of b div 16 < 16" "code_of b mod 16 < 16"
    using code_of_less [of b] by linarith+
  then have "\<not> is_markup (upper_hex (code_of b div 16))" "\<not> is_markup (upper_hex (code_of b mod 16))"
    by (simp_all add: hex_digit_plain)
  moreover have "\<not> is_markup (CHR ''%'')" by (simp add: is_markup_def)
  ultimately show ?thesis by (simp add: percent_def markup_def)
qed

lemma markup_component: "markup (encodeURIComponent s) = []"
proof -
  have plain: "\<not> is_markup c" if "uri_unreserved c" for c
    using that
    by (auto simp: uri_unreserved_def is_markup_code is_alnum_def is_lower_def is_upper_def is_digit_def
        code_of_def)
  have "markup (concat (map percent cs)) = []" for cs
    using markup_concat [of cs percent "\<lambda>c. []"] markup_percent by simp
  then have "markup (if uri_unreserved c then [c] else concat (map percent (utf8_char c))) = []" for c
    using plain [of c] by (simp add: markup_def)
  then have "markup (encodeURIComponent s) = concat (map (\<lambda>c. []) s)"
    unfolding encodeURIComponent_def by (rule markup_concat)
  then show ?thesis by simp
qed

lemma markup_encodePath: "markup (encodePath path) = []"
proof -
  have "(\<forall>s \<in> set ss. markup s = []) \<Longrightarrow> markup (join_text (CHR ''/'') ss) = []" for ss
    by (induction "CHR ''/''" ss rule: join_text.induct) (simp_all add: markup_def is_markup_def)
  then show ?thesis unfolding encodePath_def by (auto simp: markup_component)
qed

lemma markup_quoted: "markup (quoted s) = CHR 0x22 # markup s @ [CHR 0x22]"
  by (simp add: quoted_def markup_def is_markup_def)

lemmas markup_page = markup_append markup_utf8 markup_escape markup_encodePath markup_quoted

lemma markup_document: "markup (htmlDocument title body) = markup (htmlDocument [] body)"
  by (simp only: htmlDocument_def markup_page)

lemma markup_document_body:
  "markup body = markup body' \<Longrightarrow> markup (htmlDocument title body) = markup (htmlDocument title' body')"
  by (simp only: htmlDocument_def markup_page)

lemma markup_preview:
  "markup (file_preview mediaType (encodePath path) name) =
   markup (file_preview mediaType (encodePath path') name')"
  by (cases "starts_with mediaType ''image/''"; cases "starts_with mediaType ''audio/''";
      cases "mediaType = ''application/pdf''")
    (simp_all only: file_preview_def markup_page if_True if_False simp_thms)

section \<open>Files of a published manifest\<close>

definition files_stored :: "(string \<Rightarrow> 'w \<Rightarrow> bool) \<Rightarrow> publication_manifest \<Rightarrow> 'w \<Rightarrow> bool" where
  "files_stored stored m w \<longleftrightarrow> (\<forall>f \<in> set (pm_files m). stored (br_id (pf_blob f)) w)"

definition all_stored :: "(string \<Rightarrow> 'w \<Rightarrow> bool) \<Rightarrow> string set \<Rightarrow> 'w \<Rightarrow> bool" where
  "all_stored stored S w \<longleftrightarrow> (\<forall>k \<in> S. stored k w)"

text \<open>
  What the service relies on: the store keeps an invariant, never loses a staged object, and
  a committed manifest names objects that are stored.
\<close>

locale publication_objects =
  fixes store :: "'w publication_store"
    and good :: "'w \<Rightarrow> bool"
    and stored :: "string \<Rightarrow> 'w \<Rightarrow> bool"
  assumes committed: "ps_getCommitted store = Some g \<Longrightarrow> hex_string 24 publicationId \<Longrightarrow>
      ensures good (g ownerId publicationId)
        (\<lambda>r w. good w \<and> (\<forall>c. r = Some c \<longrightarrow> files_stored stored (pb_manifest c) w)) good"
    and stages_blob: "hex_string 24 publicationId \<Longrightarrow> \<not> reserved_path path \<Longrightarrow>
      ensures (\<lambda>w. good w \<and> all_stored stored S w)
        (ps_stageBlob store ownerId publicationId path source)
        (\<lambda>b w. good w \<and> all_stored stored (insert (br_id b) S) w) good"
    and stages_bytes: "hex_string 24 publicationId \<Longrightarrow> \<not> reserved_path path \<Longrightarrow>
      ensures (\<lambda>w. good w \<and> all_stored stored S w)
        (ps_stageBytes store ownerId publicationId path bytes mediaType)
        (\<lambda>b w. good w \<and> all_stored stored (insert (br_id b) S) w) good"
    and commits: "hex_string 24 (pm_publicationId m) \<Longrightarrow>
      ensures (\<lambda>w. good w \<and> files_stored stored m w) (ps_commit store ownerId m)
        (\<lambda>b w. good w \<and> files_stored stored m w) good"
begin

lemma stages_one:
  assumes "hex_string 24 publicationId" and "\<not> reserved_path (planned_path f)"
  shows "ensures (\<lambda>w. good w \<and> all_stored stored S w) (stage_one store ownerId publicationId f)
    (\<lambda>fl w. good w \<and> all_stored stored (insert (br_id (pf_blob fl)) S) w) good"
  unfolding stage_one_def using assms
  by (cases f) (auto intro!: ensures_try [OF stages_blob] ensures_try [OF stages_bytes] ensure_intros)

lemma stages_all:
  assumes "hex_string 24 publicationId" and "\<forall>f \<in> set fs. \<not> reserved_path (planned_path f)"
  shows "ensures (\<lambda>w. good w \<and> all_stored stored S w) (stage_all store ownerId publicationId fs)
    (\<lambda>files w. good w \<and> all_stored stored ((\<lambda>f. br_id (pf_blob f)) ` set files \<union> S) w) good"
  using assms(2)
proof (induction fs arbitrary: S)
  case (Cons f fs)
  have rest: "ensures (\<lambda>w. good w \<and> all_stored stored (insert (br_id (pf_blob fl)) S) w)
      (bind_io (stage_all store ownerId publicationId fs) (\<lambda>files. ret (fl # files)))
      (\<lambda>files w. good w \<and> all_stored stored ((\<lambda>f. br_id (pf_blob f)) ` set files \<union> S) w) good" for fl
    using Cons by (auto intro!: ensures_bind [OF Cons.IH] ensures_ret)
  show ?case
    unfolding stage_all.simps using Cons.prems
    by (intro ensures_bind [OF stages_one [OF assms(1)]] rest) simp
qed (auto intro!: ensures_ret)

lemma commits_manifest:
  assumes "hex_string 24 (pm_publicationId m)"
  shows "ensures (\<lambda>w. good w \<and> files_stored stored m w) (commit_manifest store ownerId m)
    (\<lambda>c w. good w \<and> files_stored stored (pb_manifest c) w) good"
  unfolding commit_manifest_def
  by (rule ensures_try [OF commits [OF assms]]) (auto intro!: ensure_intros)

lemma finds_committed:
  assumes hex: "hex_string 24 (pi_publicationId input)"
  shows "ensures good (find_committed p store input)
    (\<lambda>r w. good w \<and> (\<forall>c. r = Some c \<longrightarrow> files_stored stored (pb_manifest c) w)) good"
proof (cases "ps_getCommitted store")
  case (Some g)
  have "ensures good (bind_io (g (pi_ownerId input) (pi_publicationId input)) (\<lambda>found. case found of
        None \<Rightarrow> ret None
      | Some c \<Rightarrow> lift_io (bindE (validatePublicationManifest p (pb_manifest c)) (\<lambda>_. Inr (Some c)))))
      (\<lambda>r w. good w \<and> (\<forall>c. r = Some c \<longrightarrow> files_stored stored (pb_manifest c) w)) good"
    by (rule ensures_bind [OF committed [OF Some hex]], rule ensures_option)
      (auto intro!: ensures_ret ensures_lift simp: bindE_Inr)
  then show ?thesis
    unfolding find_committed_def Some option.case catch_io_try
    by (rule ensures_try) (auto intro!: ensures_ret ensures_throw)
qed (auto simp: find_committed_def intro!: ensure_intros)

lemma planned_free:
  assumes "plan_publication pp builders input = Inr (builder, plan)"
  shows "\<forall>f \<in> set (pl_files plan). \<not> reserved_path (planned_path f)"
  using assms
  by (auto simp: plan_publication_def bindE_Inr validatePublicationPlan_iff plan_ok_def list_all_iff planned_ok_def)

lemma built_manifest:
  assumes "publicationManifest p compare (publish_manifest_input q millis input builder plan files) = Inr m"
  shows "pm_publicationId m = pi_publicationId input" and "set (pm_files m) = set files"
  using assms
  by (auto simp: publicationManifest_def Let_def bindE_Inr manifest_of_def publish_manifest_input_def)

lemma publishes_new:
  assumes hex: "hex_string 24 (pi_publicationId input)"
  shows "ensures good (publish_new pp millis store builders input)
    (\<lambda>c w. good w \<and> files_stored stored (pb_manifest c) w) good"
  unfolding publish_new_def
proof (rule ensures_bind_lift)
  fix bp assume planned: "plan_publication pp builders input = Inr bp"
  obtain builder plan where bp: "bp = (builder, plan)" by (cases bp)
  let ?input = "publish_manifest_input (pp_platform pp) millis input builder plan"
  have finish: "ensures (\<lambda>w. good w \<and> all_stored stored ((\<lambda>f. br_id (pf_blob f)) ` set files \<union> {}) w)
      (bind_io (lift_io (publicationManifest (pp_platform pp) (pp_localeCompare pp) (?input files)))
        (commit_manifest store (pi_ownerId input)))
      (\<lambda>c w. good w \<and> files_stored stored (pb_manifest c) w) good" for files
  proof (rule ensures_bind_lift)
    fix m assume "publicationManifest (pp_platform pp) (pp_localeCompare pp) (?input files) = Inr m"
    note m = built_manifest [OF this]
    show "ensures (\<lambda>w. good w \<and> all_stored stored ((\<lambda>f. br_id (pf_blob f)) ` set files \<union> {}) w)
        (commit_manifest store (pi_ownerId input) m)
        (\<lambda>c w. good w \<and> files_stored stored (pb_manifest c) w) good"
      using m hex
      by (intro ensures_strengthen [OF commits_manifest]) (auto simp: files_stored_def all_stored_def)
  qed simp
  have "ensures (\<lambda>w. good w \<and> all_stored stored {} w)
      (bind_io (stage_all store (pi_ownerId input) (pi_publicationId input) (pl_files plan)) (\<lambda>files.
        bind_io (lift_io (publicationManifest (pp_platform pp) (pp_localeCompare pp) (?input files)))
          (commit_manifest store (pi_ownerId input))))
      (\<lambda>c w. good w \<and> files_stored stored (pb_manifest c) w) good"
    using planned bp planned_free by (intro ensures_bind [OF stages_all [OF hex]] finish) auto
  then show "ensures good (case bp of (builder, plan) \<Rightarrow>
        bind_io (stage_all store (pi_ownerId input) (pi_publicationId input) (pl_files plan)) (\<lambda>files.
          bind_io (lift_io (publicationManifest (pp_platform pp) (pp_localeCompare pp)
            (publish_manifest_input (pp_platform pp) millis input builder plan files)))
            (commit_manifest store (pi_ownerId input))))
      (\<lambda>c w. good w \<and> files_stored stored (pb_manifest c) w) good"
    by (simp add: bp all_stored_def)
qed simp

lemma publishes:
  "ensures good (publish pp millis store builders input)
    (\<lambda>c w. good w \<and> files_stored stored (pb_manifest c) w) good"
  unfolding publish_def
proof (rule ensures_bind_lift)
  fix u assume "validatePublicationId (pi_publicationId input) = Inr u"
  then have hex: "hex_string 24 (pi_publicationId input)" by simp
  show "ensures good (bind_io (lift_io (validate_sources (pi_files input))) (\<lambda>_.
      bind_io (find_committed (pp_platform pp) store input) (\<lambda>found. case found of
        Some c \<Rightarrow> ret c | None \<Rightarrow> publish_new pp millis store builders input)))
      (\<lambda>c w. good w \<and> files_stored stored (pb_manifest c) w) good"
    by (rule ensures_bind_lift, rule ensures_bind [OF finds_committed [OF hex]], rule ensures_option)
      (auto intro!: ensures_ret ensures_strengthen [OF publishes_new [OF hex]])
qed

end

section \<open>The bucket as a store of publications\<close>

text \<open>A place a manifest is read from, of any owner and any publication.\<close>

definition manifest_key :: "publication_platform \<Rightarrow> string \<Rightarrow> bool" where
  "manifest_key pp k \<longleftrightarrow> (\<exists>ownerId publicationId. hex_string 24 publicationId \<and>
     k = publicationObjectKey (ownerHashFor (pp_platform pp) ownerId) publicationId manifest_path)"

definition object_stored :: "string \<Rightarrow> 'x bucket_world_scheme \<Rightarrow> bool" where
  "object_stored k w \<longleftrightarrow> objects w k \<noteq> None"

definition ready :: "publication_platform \<Rightarrow> bucket \<Rightarrow> bool" where
  "ready pp objs \<longleftrightarrow> (\<forall>k body m. manifest_key pp k \<longrightarrow> objs k = Some body \<longrightarrow>
     read_manifest pp body = Some m \<longrightarrow> (\<forall>f \<in> set (pm_files m). objs (br_id (pf_blob f)) \<noteq> None))"

text \<open>Other clients delete nothing and keep committed manifests complete, as this one does.\<close>

definition lawful_client :: "publication_platform \<Rightarrow> (bucket \<Rightarrow> bucket) \<Rightarrow> bool" where
  "lawful_client pp f \<longleftrightarrow> (\<forall>objs k. objs k \<noteq> None \<longrightarrow> f objs k \<noteq> None) \<and>
     (\<forall>objs. ready pp objs \<longrightarrow> ready pp (f objs))"

lemma lawful_client_keeps: "lawful_client pp f \<Longrightarrow> objs k \<noteq> None \<Longrightarrow> f objs k \<noteq> None"
  by (simp add: lawful_client_def)

lemma lawful_client_ready: "lawful_client pp f \<Longrightarrow> ready pp objs \<Longrightarrow> ready pp (f objs)"
  by (simp add: lawful_client_def)

definition sha256_ok :: "platform \<Rightarrow> bool" where
  "sha256_ok p \<longleftrightarrow> (\<forall>s. length (sha256Hex p s) = 64)"

definition bucket_good :: "publication_platform \<Rightarrow> 'x bucket_world_scheme \<Rightarrow> bool" where
  "bucket_good pp w \<longleftrightarrow> sha256_ok (pp_platform pp) \<and> ready pp (objects w) \<and>
     (\<forall>t \<in> set (bucket_script w). lawful_client pp (bt_others t))"

lemma key_path:
  assumes "publicationObjectKey (ownerHashFor p o1) i1 path = publicationObjectKey (ownerHashFor p o2) i2 path'"
    and "sha256_ok p" and "hex_string 24 i1" and "hex_string 24 i2"
  shows "path = path'"
proof -
  have "length (ownerHashFor p o1) = length (ownerHashFor p o2)" "length i1 = length i2"
    using assms(2-4) by (simp_all add: ownerHashFor_def sha256_ok_def hex_string_def)
  with assms(1) show ?thesis by (simp add: publicationObjectKey_def)
qed

lemma manifest_path_reserved: "reserved_path manifest_path"
  by (simp add: reserved_path_def manifest_path_def starts_with_def)

lemma staged_key:
  assumes "sha256_ok (pp_platform pp)" and "hex_string 24 publicationId" and "\<not> reserved_path path"
  shows "\<not> manifest_key pp (publicationObjectKey (ownerHashFor (pp_platform pp) ownerId) publicationId path)"
  using assms manifest_path_reserved by (auto simp: manifest_key_def dest!: key_path)

lemma turn_good:
  assumes "bucket_turn_of w = (fault, w1)" and "bucket_good pp w"
  shows "bucket_good pp w1" and "object_stored k w \<Longrightarrow> object_stored k w1"
proof -
  have "bucket_good pp w1 \<and> (object_stored k w \<longrightarrow> object_stored k w1)"
  proof (cases "bucket_script w")
    case (Cons t ts)
    then have w1: "w1 = w\<lparr>objects := bt_others t (objects w), bucket_script := ts\<rparr>"
      using assms(1) by (simp add: bucket_turn_of_def)
    have t: "lawful_client pp (bt_others t)" using assms(2) Cons by (simp add: bucket_good_def)
    show ?thesis
      using assms(2) Cons lawful_client_ready [OF t, of "objects w"]
        lawful_client_keeps [OF t, of "objects w" k]
      by (simp add: w1 bucket_good_def object_stored_def)
  qed (use assms in \<open>simp add: bucket_turn_of_def\<close>)
  then show "bucket_good pp w1" and "object_stored k w \<Longrightarrow> object_stored k w1" by simp_all
qed

lemma write_good:
  assumes "bucket_good pp w" and "\<not> manifest_key pp key"
  shows "bucket_good pp (w\<lparr>objects := (objects w)(key \<mapsto> body)\<rparr>)"
  using assms by (auto simp: bucket_good_def ready_def)

lemma write_manifest_good:
  assumes "bucket_good pp w" and "files_stored object_stored m w"
  shows "bucket_good pp (w\<lparr>objects := (objects w)(key \<mapsto> Json_Manifest m)\<rparr>)"
  using assms by (auto simp: bucket_good_def ready_def files_stored_def object_stored_def read_manifest_def)

definition holding :: "publication_platform \<Rightarrow> string set \<Rightarrow> 'x bucket_world_scheme \<Rightarrow> bool" where
  "holding pp S w \<longleftrightarrow> bucket_good pp w \<and> all_stored object_stored S w"

lemma turn_holding: "bucket_turn_of w = (fault, w1) \<Longrightarrow> holding pp S w \<Longrightarrow> holding pp S w1"
  by (auto simp: holding_def all_stored_def dest: turn_good)

lemma write_holding:
  "holding pp S w \<Longrightarrow> \<not> manifest_key pp key \<Longrightarrow>
   holding pp (insert key S) (w\<lparr>objects := (objects w)(key \<mapsto> body)\<rparr>)"
  by (auto simp: holding_def write_good all_stored_def object_stored_def)

lemma holding_good: "holding pp S w \<Longrightarrow> bucket_good pp w"
  by (simp add: holding_def)

lemma put_holding:
  assumes "\<not> manifest_key pp key"
  shows "ensures (holding pp S) (put_object key body) (\<lambda>_. holding pp (insert key S)) (bucket_good pp)"
  unfolding ensures_def put_object_def
  by (auto simp: Let_def write_holding [OF _ assms] holding_good
      dest!: turn_holding intro!: holding_good [OF write_holding [OF _ assms]]
      split: prod.splits bucket_fault.splits)

lemma copy_holding:
  assumes "\<not> manifest_key pp key"
  shows "ensures (holding pp S) (copy_object source key) (\<lambda>_. holding pp (insert key S)) (bucket_good pp)"
  unfolding ensures_def copy_object_def
  by (auto simp: Let_def write_holding [OF _ assms] holding_good
      dest!: turn_holding intro!: holding_good [OF write_holding [OF _ assms]]
      split: prod.splits bucket_fault.splits option.splits)

lemma holding_files:
  "holding pp ((\<lambda>f. br_id (pf_blob f)) ` set (pm_files m)) w \<longleftrightarrow>
   bucket_good pp w \<and> files_stored object_stored m w"
  by (auto simp: holding_def all_stored_def files_stored_def)

lemma write_manifest_holding:
  "bucket_good pp w \<and> files_stored object_stored m w \<Longrightarrow>
   bucket_good pp (w\<lparr>objects := (objects w)(key \<mapsto> Json_Manifest m)\<rparr>) \<and>
   files_stored object_stored m (w\<lparr>objects := (objects w)(key \<mapsto> Json_Manifest m)\<rparr>)"
  using write_manifest_good [of pp w m key] by (auto simp: files_stored_def object_stored_def)

lemma put_result:
  assumes "put_object key body w = (w', r)"
  obtains fault w1 where "bucket_turn_of w = (fault, w1)" and
    "w' = w1\<lparr>objects := (objects w1)(key \<mapsto> body)\<rparr> \<or> w' = w1 \<and> (\<exists>e. r = Inl e)"
  using assms by (auto simp: put_object_def Let_def split: prod.splits bucket_fault.splits)

lemma put_manifest_good:
  assumes w: "bucket_good pp w \<and> files_stored object_stored m w"
    and put: "put_object key (Json_Manifest m) w = (w', r)"
  shows "bucket_good pp w' \<and> files_stored object_stored m w'"
proof -
  obtain fault w1 where turn: "bucket_turn_of w = (fault, w1)" and
    w': "w' = w1\<lparr>objects := (objects w1)(key \<mapsto> Json_Manifest m)\<rparr> \<or> w' = w1"
    using put_result [OF put] by metis
  have "bucket_good pp w1 \<and> files_stored object_stored m w1"
    using turn_holding [OF turn] w by (simp flip: holding_files)
  then show ?thesis using w' write_manifest_holding by auto
qed

lemma put_manifest:
  "ensures (\<lambda>w. bucket_good pp w \<and> files_stored object_stored m w) (put_object key (Json_Manifest m))
    (\<lambda>_ w. bucket_good pp w \<and> files_stored object_stored m w) (bucket_good pp)"
  using put_manifest_good by (intro ensuresI) blast+

lemma ensures_s3: "ensures P m Q E \<Longrightarrow> ensures P (s3_io m) Q E"
  by (rule ensuresI)
    (auto simp: s3_io_def as_publication_error_def split: prod.splits sum.splits
      dest: ensures_Inr ensures_Inl)

lemma read_committed_stored:
  assumes "bucket_good pp w" and "manifest_key pp key" and "objects w key = Some body"
    and "read_committed pp key publicationId body = Inr c"
  shows "files_stored object_stored (pb_manifest c) w"
  using assms
  by (auto simp: read_committed_def bindE_Inr bucket_good_def ready_def files_stored_def object_stored_def
      split: option.splits if_splits)

lemma getCommitted_good:
  assumes hex: "hex_string 24 publicationId"
  shows "ensures (bucket_good pp) (getCommitted pp ownerId publicationId)
    (\<lambda>r w. bucket_good pp w \<and> (\<forall>c. r = Some c \<longrightarrow> files_stored object_stored (pb_manifest c) w))
    (bucket_good pp)"
proof -
  let ?key = "publicationObjectKey (ownerHashFor (pp_platform pp) ownerId) publicationId manifest_path"
  have key: "manifest_key pp ?key" using hex by (auto simp: manifest_key_def)
  have get: "ensures (bucket_good pp) (get_object ?key)
      (\<lambda>body w. bucket_good pp w \<and> objects w ?key = Some body) (bucket_good pp)"
    by (auto simp: ensures_def get_object_def Let_def dest: turn_good
        split: prod.splits bucket_fault.splits option.splits)
  show ?thesis
    unfolding getCommitted_def Let_def
    by (rule ensures_try [OF get])
      (auto intro!: ensures_lift ensures_if ensures_ret ensures_throw
        simp: bindE_Inr dest: read_committed_stored [OF _ key])
qed

lemma stageBlob_good:
  assumes "hex_string 24 publicationId" and "\<not> reserved_path path"
  shows "ensures (holding pp S) (stageBlob pp ownerId publicationId path source)
    (\<lambda>b. holding pp (insert (br_id b) S)) (bucket_good pp)"
proof (cases "sha256_ok (pp_platform pp)")
  case True
  show ?thesis
    unfolding stageBlob_def Let_def
    by (intro ensures_bind_lift ensures_if ensures_throw
        ensures_bind [OF ensures_s3 [OF copy_holding [OF staged_key [OF True assms]]]])
      (auto intro!: ensures_ret holding_good)
qed (simp add: ensures_def holding_def bucket_good_def)

lemma stageBytes_good:
  assumes "hex_string 24 publicationId" and "\<not> reserved_path path"
  shows "ensures (holding pp S) (stageBytes pp ownerId publicationId path bytes mediaType)
    (\<lambda>b. holding pp (insert (br_id b) S)) (bucket_good pp)"
proof (cases "sha256_ok (pp_platform pp)")
  case True
  show ?thesis
    unfolding stageBytes_def Let_def
    by (intro ensures_bind_lift
        ensures_bind [OF ensures_s3 [OF put_holding [OF staged_key [OF True assms]]]])
      (auto intro!: ensures_ret holding_good simp: stored_blob_def)
qed (simp add: ensures_def holding_def bucket_good_def)

lemma commit_good:
  "ensures (\<lambda>w. bucket_good pp w \<and> files_stored object_stored m w) (commit pp ownerId m)
    (\<lambda>b w. bucket_good pp w \<and> files_stored object_stored m w) (bucket_good pp)"
  unfolding commit_def Let_def
  by (rule ensures_bind [OF ensures_s3 [OF put_manifest]]) (auto intro!: ensures_ret)

interpretation s3: publication_objects "s3_publications pp" "bucket_good pp" object_stored for pp
  using getCommitted_good stageBlob_good stageBytes_good commit_good
  by unfold_locales (auto simp: s3_publications_def holding_def [abs_def])

section \<open>Publishing is one step of the library\<close>

text \<open>
  The library of publications a bucket stands for: the manifest of each owner and publication.
\<close>

definition library :: "publication_platform \<Rightarrow> bucket \<Rightarrow> string \<times> string \<Rightarrow> publication_manifest option"
where
  "library pp objs = (\<lambda>(ownerHash, publicationId).
     if length ownerHash = 32 \<and> hex_string 24 publicationId
     then Option.bind (objs (publicationObjectKey ownerHash publicationId manifest_path)) (read_manifest pp)
     else None)"

definition undisturbed :: "'x bucket_world_scheme \<Rightarrow> bool" where
  "undisturbed w \<longleftrightarrow> (\<forall>t \<in> set (bucket_script w). bt_others t = (\<lambda>objs. objs))"

definition lib_state ::
  "publication_platform \<Rightarrow> (string \<times> string \<Rightarrow> publication_manifest option) \<Rightarrow> 'x bucket_world_scheme \<Rightarrow> bool"
where
  "lib_state pp L w \<longleftrightarrow> sha256_ok (pp_platform pp) \<and> undisturbed w \<and> library pp (objects w) = L"

lemma turn_lib: "bucket_turn_of w = (fault, w1) \<Longrightarrow> lib_state pp L w \<Longrightarrow> lib_state pp L w1"
  by (auto simp: bucket_turn_of_def lib_state_def undisturbed_def split: list.splits)

lemma key_inject:
  assumes "publicationObjectKey h1 i1 path = publicationObjectKey h2 i2 path'"
    and "length h1 = 32" and "length h2 = 32" and "hex_string 24 i1" and "hex_string 24 i2"
  shows "h1 = h2 \<and> i1 = i2 \<and> path = path'"
  using assms by (simp add: publicationObjectKey_def hex_string_def)

lemma owner_hash_length: "sha256_ok p \<Longrightarrow> length (ownerHashFor p ownerId) = 32"
  by (simp add: ownerHashFor_def sha256_ok_def)

lemma library_staged:
  assumes "length h = 32" and "hex_string 24 i" and "\<not> reserved_path path"
  shows "library pp (objs(publicationObjectKey h i path \<mapsto> body)) = library pp objs"
  using assms manifest_path_reserved
  by (auto simp: library_def fun_eq_iff dest!: key_inject)

lemma library_committed:
  assumes "length h = 32" and "hex_string 24 i"
  shows "library pp (objs(publicationObjectKey h i manifest_path \<mapsto> Json_Manifest m)) =
    (library pp objs)((h, i) \<mapsto> m)"
  using assms by (auto simp: library_def fun_eq_iff read_manifest_def dest!: key_inject)

lemma put_lib:
  assumes "put_object key body w = (w', r)" and "lib_state pp L w"
  shows "lib_state pp L w' \<and> (\<exists>e. r = Inl e) \<or>
    (\<exists>w1. lib_state pp L w1 \<and> w' = w1\<lparr>objects := (objects w1)(key \<mapsto> body)\<rparr>)"
  using put_result [OF assms(1)] turn_lib assms(2) by metis

lemma copy_lib:
  assumes "copy_object source key w = (w', r)" and "lib_state pp L w"
  shows "lib_state pp L w' \<and> (\<exists>e. r = Inl e) \<or>
    (\<exists>w1 body. lib_state pp L w1 \<and> w' = w1\<lparr>objects := (objects w1)(key \<mapsto> body)\<rparr>)"
  using assms
  by (auto simp: copy_object_def Let_def dest!: turn_lib split: prod.splits bucket_fault.splits option.splits)

lemma write_lib:
  assumes "lib_state pp L w" and "hex_string 24 i" and "\<not> reserved_path path"
  shows "lib_state pp L (w\<lparr>objects := (objects w)
    (publicationObjectKey (ownerHashFor (pp_platform pp) ownerId) i path \<mapsto> body)\<rparr>)"
  using assms by (simp add: lib_state_def undisturbed_def library_staged owner_hash_length)

lemma stageBlob_lib:
  assumes "hex_string 24 publicationId" and "\<not> reserved_path path"
  shows "ensures (lib_state pp L) (stageBlob pp ownerId publicationId path source)
    (\<lambda>_. lib_state pp L) (lib_state pp L)"
proof -
  let ?key = "publicationObjectKey (ownerHashFor (pp_platform pp) ownerId) publicationId path"
  have copy: "ensures (lib_state pp L) (copy_object (br_id source) ?key)
      (\<lambda>_. lib_state pp L) (lib_state pp L)"
    using assms by (intro ensuresI) (auto dest!: copy_lib intro: write_lib)
  show ?thesis
    unfolding stageBlob_def Let_def
    by (intro ensures_bind_lift ensures_if ensures_throw ensures_bind [OF ensures_s3 [OF copy]])
      (auto intro!: ensures_ret)
qed

lemma stageBytes_lib:
  assumes "hex_string 24 publicationId" and "\<not> reserved_path path"
  shows "ensures (lib_state pp L) (stageBytes pp ownerId publicationId path bytes mediaType)
    (\<lambda>_. lib_state pp L) (lib_state pp L)"
proof -
  let ?key = "publicationObjectKey (ownerHashFor (pp_platform pp) ownerId) publicationId path"
  have put: "ensures (lib_state pp L) (put_object ?key (Raw_Bytes bytes))
      (\<lambda>_. lib_state pp L) (lib_state pp L)"
    using assms by (intro ensuresI) (auto dest!: put_lib intro: write_lib)
  show ?thesis
    unfolding stageBytes_def Let_def
    by (intro ensures_bind_lift ensures_bind [OF ensures_s3 [OF put]]) (auto intro!: ensures_ret)
qed

lemma stage_one_lib:
  assumes "hex_string 24 publicationId" and "\<not> reserved_path (planned_path f)"
  shows "ensures (lib_state pp L) (stage_one (s3_publications pp) ownerId publicationId f)
    (\<lambda>_. lib_state pp L) (lib_state pp L)"
  unfolding stage_one_def s3_publications_def using assms
  by (cases f) (auto intro!: ensures_try [OF stageBlob_lib] ensures_try [OF stageBytes_lib]
      ensures_ret ensures_throw)

lemma stage_all_lib:
  assumes "hex_string 24 publicationId" and "\<forall>f \<in> set fs. \<not> reserved_path (planned_path f)"
  shows "ensures (lib_state pp L) (stage_all (s3_publications pp) ownerId publicationId fs)
    (\<lambda>_. lib_state pp L) (lib_state pp L)"
  using assms(2)
proof (induction fs)
  case (Cons f fs)
  then show ?case
    by (auto intro!: ensures_bind [OF stage_one_lib [OF assms(1)]] ensures_bind [OF Cons.IH] ensures_ret)
qed (auto intro!: ensures_ret)

text \<open>The two outcomes: the library unchanged, or with the one manifest added.\<close>

definition entered ::
  "publication_platform \<Rightarrow> string \<Rightarrow> (string \<times> string \<Rightarrow> publication_manifest option)
     \<Rightarrow> publication_manifest \<Rightarrow> 'x bucket_world_scheme \<Rightarrow> bool" where
  "entered pp ownerId L m w \<longleftrightarrow> validatePublicationManifest (pp_platform pp) m = Inr () \<and>
     lib_state pp (L((ownerHashFor (pp_platform pp) ownerId, pm_publicationId m) \<mapsto> m)) w"

definition unchanged_or_entered ::
  "publication_platform \<Rightarrow> publish_input \<Rightarrow> (string \<times> string \<Rightarrow> publication_manifest option)
     \<Rightarrow> 'x bucket_world_scheme \<Rightarrow> bool" where
  "unchanged_or_entered pp input L w \<longleftrightarrow> lib_state pp L w \<or>
     (\<exists>m. pm_publicationId m = pi_publicationId input \<and> entered pp (pi_ownerId input) L m w)"

lemma write_manifest_lib:
  assumes "lib_state pp L w" and "validatePublicationManifest (pp_platform pp) m = Inr ()"
  shows "entered pp ownerId L m (w\<lparr>objects := (objects w)
    (publicationObjectKey (ownerHashFor (pp_platform pp) ownerId) (pm_publicationId m) manifest_path
      \<mapsto> Json_Manifest m)\<rparr>)"
proof -
  have "hex_string 24 (pm_publicationId m)"
    using assms(2) by (auto simp: validatePublicationManifest_def bindE_Inr)
  with assms show ?thesis
    by (simp add: entered_def lib_state_def undisturbed_def library_committed owner_hash_length)
qed

lemma commit_lib:
  assumes valid: "validatePublicationManifest (pp_platform pp) m = Inr ()"
    and id: "pm_publicationId m = pi_publicationId input"
  shows "ensures (lib_state pp L) (commit_manifest (s3_publications pp) (pi_ownerId input) m)
    (\<lambda>c. entered pp (pi_ownerId input) L (pb_manifest c)) (unchanged_or_entered pp input L)"
proof -
  let ?key = "publicationObjectKey (ownerHashFor (pp_platform pp) (pi_ownerId input)) (pm_publicationId m)
    manifest_path"
  have put: "ensures (lib_state pp L) (put_object ?key (Json_Manifest m))
      (\<lambda>_. entered pp (pi_ownerId input) L m) (unchanged_or_entered pp input L)"
    using valid id write_manifest_lib
    by (intro ensuresI) (fastforce simp: unchanged_or_entered_def dest!: put_lib)+
  show ?thesis
    unfolding commit_manifest_def s3_publications_def publication_store.select_convs commit_def Let_def
    by (rule ensures_try [OF ensures_bind [OF ensures_s3 [OF put]]]) (auto intro!: ensures_ret ensures_throw)
qed

lemma getCommitted_lib:
  assumes "hex_string 24 publicationId"
  shows "ensures (lib_state pp L) (getCommitted pp ownerId publicationId)
    (\<lambda>r w. lib_state pp L w \<and> (\<forall>c. r = Some c \<longrightarrow> entered pp ownerId L (pb_manifest c) w \<and>
       pm_publicationId (pb_manifest c) = publicationId)) (lib_state pp L)"
proof -
  let ?h = "ownerHashFor (pp_platform pp) ownerId"
  let ?key = "publicationObjectKey ?h publicationId manifest_path"
  have get: "ensures (lib_state pp L) (get_object ?key)
      (\<lambda>body w. lib_state pp L w \<and> objects w ?key = Some body) (lib_state pp L)"
    by (auto simp: ensures_def get_object_def Let_def dest: turn_lib
        split: prod.splits bucket_fault.splits option.splits)
  have found: "entered pp ownerId L (pb_manifest c) w \<and> pm_publicationId (pb_manifest c) = publicationId"
    if "lib_state pp L w" "objects w ?key = Some body" "read_committed pp ?key publicationId body = Inr c"
    for w :: "'x bucket_world_scheme" and body c
  proof -
    have m: "validatePublicationManifest (pp_platform pp) (pb_manifest c) = Inr ()"
        "pm_publicationId (pb_manifest c) = publicationId"
        "read_manifest pp body = Some (pb_manifest c)"
      using that(3) by (auto simp: read_committed_def bindE_Inr split: option.splits if_splits)
    then have "L (?h, publicationId) = Some (pb_manifest c)"
      using that(1,2) assms by (auto simp: lib_state_def library_def owner_hash_length)
    then have "L((?h, publicationId) \<mapsto> pb_manifest c) = L" by (rule map_upd_triv)
    with m that(1) show ?thesis by (simp add: entered_def)
  qed
  show ?thesis
    unfolding getCommitted_def Let_def
    by (rule ensures_try [OF get])
      (auto intro!: ensures_lift ensures_if ensures_ret ensures_throw simp: bindE_Inr dest: found)
qed

lemma find_committed_lib:
  assumes hex: "hex_string 24 (pi_publicationId input)"
  shows "ensures (lib_state pp L) (find_committed p (s3_publications pp) input)
    (\<lambda>r w. lib_state pp L w \<and> (\<forall>c. r = Some c \<longrightarrow> entered pp (pi_ownerId input) L (pb_manifest c) w \<and>
       pm_publicationId (pb_manifest c) = pi_publicationId input)) (lib_state pp L)"
proof -
  have "ensures (lib_state pp L) (bind_io (getCommitted pp (pi_ownerId input) (pi_publicationId input))
      (\<lambda>found. case found of
        None \<Rightarrow> ret None
      | Some c \<Rightarrow> lift_io (bindE (validatePublicationManifest p (pb_manifest c)) (\<lambda>_. Inr (Some c)))))
    (\<lambda>r w. lib_state pp L w \<and> (\<forall>c. r = Some c \<longrightarrow> entered pp (pi_ownerId input) L (pb_manifest c) w \<and>
       pm_publicationId (pb_manifest c) = pi_publicationId input)) (lib_state pp L)"
    by (rule ensures_bind [OF getCommitted_lib [OF hex]], rule ensures_option)
      (auto intro!: ensures_ret ensures_lift simp: bindE_Inr)
  then show ?thesis
    unfolding find_committed_def s3_publications_def publication_store.select_convs option.case catch_io_try
    by (rule ensures_try) (auto intro!: ensures_ret ensures_throw)
qed

lemma publish_new_lib:
  assumes hex: "hex_string 24 (pi_publicationId input)"
  shows "ensures (lib_state pp L) (publish_new pp millis (s3_publications pp) builders input)
    (\<lambda>c w. entered pp (pi_ownerId input) L (pb_manifest c) w \<and>
       pm_publicationId (pb_manifest c) = pi_publicationId input) (unchanged_or_entered pp input L)"
  unfolding publish_new_def
proof (rule ensures_bind_lift)
  fix bp assume planned: "plan_publication pp builders input = Inr bp"
  obtain builder plan where bp: "bp = (builder, plan)" by (cases bp)
  let ?input = "publish_manifest_input (pp_platform pp) millis input builder plan"
  let ?stage = "stage_all (s3_publications pp) (pi_ownerId input) (pi_publicationId input) (pl_files plan)"
  let ?last = "\<lambda>files. bind_io
    (lift_io (publicationManifest (pp_platform pp) (pp_localeCompare pp) (?input files)))
    (commit_manifest (s3_publications pp) (pi_ownerId input))"
  let ?done = "\<lambda>c w. entered pp (pi_ownerId input) L (pb_manifest c) w \<and>
    pm_publicationId (pb_manifest c) = pi_publicationId input"
  have finish: "ensures (lib_state pp L) (?last files) ?done (unchanged_or_entered pp input L)" for files
  proof (rule ensures_bind_lift)
    fix m assume built: "publicationManifest (pp_platform pp) (pp_localeCompare pp) (?input files) = Inr m"
    then have valid: "validatePublicationManifest (pp_platform pp) m = Inr ()"
      by (auto simp: publicationManifest_def Let_def bindE_Inr)
    have id: "pm_publicationId m = pi_publicationId input" by (rule s3.built_manifest(1) [OF built])
    have same: "commit_manifest (s3_publications pp) (pi_ownerId input) m w = (w', Inr c) \<Longrightarrow>
        pm_publicationId (pb_manifest c) = pi_publicationId input" for w w' :: "'x bucket_world_scheme" and c
      by (auto simp: id commit_manifest_def try_io_def ret_def throw_def split: prod.splits sum.splits)
    show "ensures (lib_state pp L) (commit_manifest (s3_publications pp) (pi_ownerId input) m) ?done
        (unchanged_or_entered pp input L)"
      using ensures_Inr [OF commit_lib [OF valid id, of L]] ensures_Inl [OF commit_lib [OF valid id, of L]]
        same by (intro ensuresI) blast+
  qed (simp add: unchanged_or_entered_def)
  have "ensures (lib_state pp L) (bind_io ?stage ?last) ?done (unchanged_or_entered pp input L)"
    using planned bp s3.planned_free [of pp builders input builder plan]
    by (intro ensures_bind [OF ensures_strengthen [OF stage_all_lib [OF hex],
          where Q' = "\<lambda>_. lib_state pp L" and P' = "lib_state pp L"]] finish)
      (auto simp: unchanged_or_entered_def)
  then show "ensures (lib_state pp L) (case bp of (builder, plan) \<Rightarrow>
        bind_io (stage_all (s3_publications pp) (pi_ownerId input) (pi_publicationId input) (pl_files plan))
          (\<lambda>files. bind_io (lift_io (publicationManifest (pp_platform pp) (pp_localeCompare pp)
            (publish_manifest_input (pp_platform pp) millis input builder plan files)))
            (commit_manifest (s3_publications pp) (pi_ownerId input))))
      ?done (unchanged_or_entered pp input L)"
    by (simp add: bp)
qed (simp add: unchanged_or_entered_def)

lemma publish_lib:
  "ensures (lib_state pp L) (publish pp millis (s3_publications pp) builders input)
    (\<lambda>c w. entered pp (pi_ownerId input) L (pb_manifest c) w \<and>
       pm_publicationId (pb_manifest c) = pi_publicationId input) (unchanged_or_entered pp input L)"
  unfolding publish_def
proof (rule ensures_bind_lift)
  fix u assume "validatePublicationId (pi_publicationId input) = Inr u"
  then have hex: "hex_string 24 (pi_publicationId input)" by simp
  show "ensures (lib_state pp L) (bind_io (lift_io (validate_sources (pi_files input))) (\<lambda>_.
      bind_io (find_committed (pp_platform pp) (s3_publications pp) input) (\<lambda>found. case found of
        Some c \<Rightarrow> ret c | None \<Rightarrow> publish_new pp millis (s3_publications pp) builders input)))
    (\<lambda>c w. entered pp (pi_ownerId input) L (pb_manifest c) w \<and>
       pm_publicationId (pb_manifest c) = pi_publicationId input) (unchanged_or_entered pp input L)"
    by (rule ensures_bind_lift,
        rule ensures_bind [OF ensures_strengthen [OF find_committed_lib [OF hex]]], assumption+,
        simp add: unchanged_or_entered_def, rule ensures_option)
      (auto intro!: ensures_ret ensures_strengthen [OF publish_new_lib [OF hex]]
        simp: unchanged_or_entered_def)
qed (simp add: unchanged_or_entered_def)

section \<open>Examples\<close>

definition example_publications :: publication_platform where
  "example_publications = \<lparr>
     pp_platform = example_platform\<lparr>sha256Hex := (\<lambda>s. replicate 64 (CHR ''a''))\<rparr>,
     pp_web = example_web,
     pp_localeCompare = (\<lambda>a b. int (length a) - int (length b)),
     pp_parse = (\<lambda>bytes. None)\<rparr>"

definition example_key :: string where
  "example_key = ''owners/'' @ replicate 32 (CHR ''a'') @ ''/sessions/sess_1/turn_1/artifacts/art_1''"

definition example_file :: publication_file where
  "example_file = \<lparr>pf_path = ''index.html'', pf_blob = \<lparr>br_id = example_key,
     br_digest = ''sha256:'' @ replicate 64 (CHR ''b''), br_size = Finite 5,
     br_mediaType = html_type\<rparr>\<rparr>"

definition example_spec :: publication_spec where
  "example_spec = Site_Spec None None None"

definition example_publish_input :: publish_input where
  "example_publish_input = \<lparr>pi_ownerId = ''owner'', pi_publicationId = replicate 24 (CHR ''0''),
     pi_spec = example_spec, pi_files = [example_file], pi_runId = Some ''run_1'', pi_sessionId = None,
     pi_artifactIds = None, pi_createdAt = None\<rparr>"

definition example_bucket :: bucket_world where
  "example_bucket = \<lparr>objects = (\<lambda>_. None)(example_key \<mapsto> Raw_Bytes ''hello''), bucket_script = []\<rparr>"

lemma example_sources: "sources_ok [example_file]"
  by (simp add: sources_ok_def) code_simp

lemma example_sha256: "sha256_ok (pp_platform example_publications)"
  by (simp add: sha256_ok_def example_publications_def)

lemma example_ready: "ready example_publications (objects example_bucket)"
  by (simp add: ready_def example_bucket_def read_manifest_def example_publications_def)

lemma example_bucket_good: "bucket_good example_publications example_bucket"
  using example_sha256 example_ready by (simp add: bucket_good_def example_bucket_def)

lemma example_undisturbed: "undisturbed example_bucket"
  by (simp add: undisturbed_def example_bucket_def)

definition example_plan :: publication_plan where
  "example_plan = \<lparr>pl_kind = Site_Kind, pl_entrypoint = ''index.html'', pl_primaryPath = None,
     pl_files = [Blob_File ''index.html'' (pf_blob example_file)]\<rparr>"

lemma example_built: "sitePublicationPlan example_spec [example_file] = Inr example_plan"
  by code_simp

section \<open>Theorems\<close>

text \<open>
  Whatever the default builders return passes the check of plans, when the source files
  have valid paths and blobs: no plan of a file or of a video is ever refused, and the plan of
  a site only for its size or for a path in the reserved namespace.
\<close>
theorem built_plan_valid:
  assumes "sources_ok files" and "builder \<in> set defaultPublicationBuilders"
    and "bl_plan builder spec files = Inr plan"
    and "spec_kind spec = Site_Kind \<longrightarrow> length files < MAX_ARTIFACT_FILES \<and>
      (\<forall>f \<in> set (pl_files plan). \<not> reserved_path (planned_path f))"
  shows "validatePublicationPlan wp plan spec files = Inr ()"
  unfolding validatePublicationPlan_iff
proof -
  have site: "spec_kind spec = Site_Kind" if "sitePublicationPlan spec files = Inr plan"
    using that by (cases spec) (auto simp: sitePublicationPlan_def mismatch_def failure_def)
  show "plan_ok wp plan spec files"
    using assms(2-4) file_plan_ok [OF assms(1), of spec plan] site
      video_publication_plan_ok [OF assms(1), of spec plan] site_plan_ok [OF assms(1), of spec plan]
    by (auto simp: defaultPublicationBuilders_def)
qed

theorem built_plan_valid_witness:
  "validatePublicationPlan example_web example_plan example_spec [example_file] = Inr ()"
  by (rule built_plan_valid [where builder = "\<lparr>bl_kind = Site_Kind, bl_name = ''rat-things/site@1'',
        bl_plan = sitePublicationPlan\<rparr>"])
    (simp_all add: example_sources example_built defaultPublicationBuilders_def MAX_ARTIFACT_FILES_def
      example_plan_def reserved_path_def starts_with_def)

text \<open>
  C36. The tags and attribute boundaries of a generated page do not depend on the title, the
  file names or the paths it shows: a page for any two of them has the same markup.
\<close>

lemma file_viewer_markup:
  assumes "br_mediaType (pf_blob file) = br_mediaType (pf_blob file')"
  shows "markup (fileViewer title file path) = markup (fileViewer title' file' path')"
proof -
  have "markup (file_preview mediaType (encodePath path) name @ download_link (encodePath path) link) =
    markup (file_preview mediaType (encodePath path') name' @ download_link (encodePath path') link')"
    for mediaType name link name' link'
    unfolding markup_append download_link_def markup_page
    using markup_preview [of mediaType path name path' name'] by simp
  then show ?thesis
    unfolding fileViewer_def Let_def assms by (rule markup_document_body)
qed

lemma video_viewer_markup:
  assumes "poster = None \<longleftrightarrow> poster' = None"
  shows "markup (videoViewer title file path poster) = markup (videoViewer title' file' path' poster')"
  unfolding videoViewer_def Let_def download_link_def
  using assms by (cases poster; cases poster')
    (auto intro!: markup_document_body simp only: markup_page option.simps simp_thms)

text \<open>
  The tags and attribute boundaries of a generated page do not depend on the title, the
  file names or the paths it shows: a page for any two of them has the same markup.
\<close>
theorem viewer_markup_fixed:
  assumes "br_mediaType (pf_blob file) = br_mediaType (pf_blob file')"
    and "poster = None \<longleftrightarrow> poster' = None"
  shows "markup (fileViewer title file path) = markup (fileViewer title' file' path') \<and>
    markup (videoViewer title file path poster) = markup (videoViewer title' file' path' poster') \<and>
    markup (redirectViewer title path) = markup (redirectViewer title' path')"
  using file_viewer_markup [OF assms(1)] video_viewer_markup [OF assms(2)]
  by (simp only: redirectViewer_def Let_def markup_page simp_thms)

theorem viewer_markup_fixed_witness:
  "markup (redirectViewer (Some ''<script>'') ''a.html'') = markup (redirectViewer None ''b.html'')"
  using viewer_markup_fixed [of example_file example_file None None "Some ''<script>''" "''a.html''" None "''b.html''"]
  by simp

text \<open>
  C2. Publishing keeps the bucket ready: whatever a request does, and whether or not publishing
  returns, every committed manifest of every owner names only objects that are stored; and the
  publication it returns has all its files. No staged path can stand in for a manifest.
\<close>
theorem publish_keeps_ready:
  assumes "bucket_good pp w" and "publish pp millis (s3_publications pp) builders input w = (w', r)"
  shows "ready pp (objects w') \<and> (\<forall>c. r = Inr c \<longrightarrow> files_stored object_stored (pb_manifest c) w')"
  using ensures_Inr [OF s3.publishes assms(1)] ensures_Inl [OF s3.publishes assms(1)] assms(2)
  by (cases r) (auto simp: bucket_good_def)

theorem publish_keeps_ready_witness:
  "ready example_publications (objects (fst (publish example_publications 0
     (s3_publications example_publications) default_registry example_publish_input example_bucket)))"
  using publish_keeps_ready [OF example_bucket_good surjective_pairing] by blast



end
