(* ===== verification/Session_Publication.thy ===== *)
theory Session_Publication
  imports Publication_Props
begin

text \<open>
  Publishing artifacts of a session (\<open>src/core/session-publication-planning.ts\<close>,
  \<open>src/core/session-publication-service.ts\<close>) and the store of the grants that share a
  publication (\<open>S3PublicationGrantStore\<close> in \<open>src/adapters/aws-runtime.ts\<close>).

  The session service that lists saved artifacts and the read of an object's first bytes are
  parameters. A media type that is no text (\<open>detectMediaType\<close> finds an inherited function for
  one extension) is written as the empty text: validation refuses both alike.
\<close>

section \<open>Requests\<close>

record selected_file =
  sf_artifact_id :: string
  sf_path :: string

record session_publication_request =
  sr_publication :: publication_spec
  sr_files :: "selected_file list"

record content_reference =
  cr_bucket :: string
  cr_key :: string
  cr_sha256 :: string

record saved_artifact =
  sv_id :: string
  sv_session_id :: string
  sv_turn_id :: string
  sv_created_at :: int
  sv_size_bytes :: int
  sv_content :: content_reference

definition refuse :: "string \<Rightarrow> publication_error + 'a" where
  "refuse message = fail Invalid_Request message"

definition artifact_id_pattern :: "string \<Rightarrow> bool" where
  "artifact_id_pattern s \<longleftrightarrow> starts_with s ''art_'' \<and> drop 4 s \<noteq> [] \<and> plain_chars ''_-'' (drop 4 s)"

definition only_fields :: "string list \<Rightarrow> fields \<Rightarrow> bool" where
  "only_fields allowed fs \<longleftrightarrow> list_all (\<lambda>(k, v). k \<in> set allowed) fs"

definition selected_file_of :: "jsval \<Rightarrow> publication_error + selected_file" where
  "selected_file_of v = (case v of
       JObj fs \<Rightarrow> (case (get_prop fs ''artifact_id'', get_prop fs ''path'') of
           (JStr artifact, JStr path) \<Rightarrow>
             if \<not> only_fields [''artifact_id'', ''path''] fs \<or> \<not> artifact_id_pattern artifact
             then refuse ''Invalid Session publication file''
             else bindE (checked_path path Invalid_Request ''Publication paths must be relative files'')
               (\<lambda>_. Inr \<lparr>sf_artifact_id = artifact, sf_path = path\<rparr>)
         | _ \<Rightarrow> refuse ''Invalid Session publication file'')
     | _ \<Rightarrow> refuse ''Invalid Session publication file'')"

text \<open>The paths and the artifacts already seen, and the rest of the files.\<close>

fun selected_files ::
  "string list \<Rightarrow> string list \<Rightarrow> jsval list \<Rightarrow> publication_error + selected_file list" where
  "selected_files paths ids [] = Inr []"
| "selected_files paths ids (v # vs) = bindE (selected_file_of v) (\<lambda>f.
     if sf_path f \<in> set paths \<or> sf_artifact_id f \<in> set ids
     then refuse ''Duplicate publication path or artifact''
     else bindE (selected_files (sf_path f # paths) (sf_artifact_id f # ids) vs) (\<lambda>fs. Inr (f # fs)))"

definition sessionPublicationRequest ::
  "web_platform \<Rightarrow> jsval \<Rightarrow> publication_error + session_publication_request" where
  "sessionPublicationRequest wp raw = (case raw of
       JObj fs \<Rightarrow> (case get_prop fs ''files'' of
           JArr vs \<Rightarrow>
             if \<not> only_fields [''publication'', ''files''] fs \<or> vs = [] \<or> length vs > MAX_ARTIFACT_FILES
             then refuse ''Select one or more Session artifacts''
             else bindE (parsePublicationSpec wp (get_prop fs ''publication'')) (\<lambda>publication.
               bindE (selected_files [] [] vs) (\<lambda>files.
               Inr \<lparr>sr_publication = publication, sr_files = files\<rparr>))
         | _ \<Rightarrow> refuse ''Select one or more Session artifacts'')
     | _ \<Rightarrow> refuse ''Select one or more Session artifacts'')"

section \<open>The plan\<close>

record session_plan =
  pn_ownerHash :: string
  pn_publicationId :: string
  pn_files :: "publication_file list"
  pn_createdAt :: string
  pn_artifactIds :: "string list"

record plan_input =
  pt_ownerId :: string
  pt_sessionId :: string
  pt_artifactBucket :: string
  pt_request :: session_publication_request
  pt_sources :: "(saved_artifact \<times> string) list"

definition session_key :: "string \<Rightarrow> string \<Rightarrow> saved_artifact \<Rightarrow> string" where
  "session_key ownerHash sessionId a = ''owners/'' @ ownerHash @ ''/sessions/'' @ sessionId @ ''/'' @
     sv_turn_id a @ ''/artifacts/'' @ sv_id a"

definition session_source ::
  "string \<Rightarrow> plan_input \<Rightarrow> selected_file \<Rightarrow> publication_error + publication_file" where
  "session_source ownerHash input selected =
     (case find (\<lambda>(a, prefix). sv_id a = sf_artifact_id selected) (pt_sources input) of
        None \<Rightarrow> refuse ''Publication artifact belongs to another Session''
      | Some (a, prefix) \<Rightarrow>
          if sv_session_id a \<noteq> pt_sessionId input
          then refuse ''Publication artifact belongs to another Session''
          else if cr_bucket (sv_content a) \<noteq> pt_artifactBucket input \<or>
            cr_key (sv_content a) \<noteq> session_key ownerHash (pt_sessionId input) a
          then refuse ''Publication artifact is outside its owner scope''
          else Inr \<lparr>pf_path = sf_path selected, pf_blob = \<lparr>br_id = cr_key (sv_content a),
            br_digest = ''sha256:'' @ cr_sha256 (sv_content a),
            br_size = Finite (of_int (sv_size_bytes a)),
            br_mediaType = title_or (detectMediaType prefix (sf_path selected)) []\<rparr>\<rparr>)"

fun spec_value :: "publication_spec \<Rightarrow> jsval" where
  "spec_value (File_Spec path title) = JObj ([(''version'', JStr ''1''), (''kind'', JStr ''file''),
     (''path'', JStr path)] @ field_of ''title'' JStr title)"
| "spec_value (Site_Spec base entry title) = JObj ([(''version'', JStr ''1''), (''kind'', JStr ''site'')] @
     field_of ''root'' JStr base @ field_of ''entrypoint'' JStr entry @ field_of ''title'' JStr title)"
| "spec_value (Video_Spec path poster title) = JObj ([(''version'', JStr ''1''), (''kind'', JStr ''video''),
     (''path'', JStr path)] @ field_of ''poster'' JStr poster @ field_of ''title'' JStr title)"

definition session_publication_id ::
  "publication_platform \<Rightarrow> string \<Rightarrow> publication_spec \<Rightarrow> publication_file list \<Rightarrow> string" where
  "session_publication_id pp sessionId spec files = take 24 (sha256Hex (pp_platform pp)
     (canonicalJson (pp_web pp) (JObj [(''format'', JStr ''session-publication-v1''),
        (''sessionId'', JStr sessionId), (''spec'', spec_value spec),
        (''files'', JArr (map file_value
          (sort_by (\<lambda>a b. pp_localeCompare pp (pf_path a) (pf_path b)) files)))])))"

definition sessionPublicationPlan ::
  "publication_platform \<Rightarrow> plan_input \<Rightarrow> publication_error + session_plan" where
  "sessionPublicationPlan pp input =
     (let ownerHash = ownerHashFor (pp_platform pp) (pt_ownerId input); request = pt_request input
      in bindE (mapE (session_source ownerHash input) (sr_files request)) (\<lambda>files. Inr
        \<lparr>pn_ownerHash = ownerHash,
         pn_publicationId = session_publication_id pp (pt_sessionId input) (sr_publication request) files,
         pn_files = files,
         pn_createdAt = iso (pp_platform pp)
           (Max (set (map (\<lambda>(a, prefix). sv_created_at a) (pt_sources input))) * 1000),
         pn_artifactIds = map sf_artifact_id (sr_files request)\<rparr>))"

section \<open>Grants\<close>

definition share_token :: "string \<Rightarrow> bool" where
  "share_token s \<longleftrightarrow> length s = 97 \<and> hex_string 32 (take 32 s) \<and> s ! 32 = CHR ''-'' \<and>
     hex_string 64 (drop 33 s)"

definition publicationShareObjectKey :: "platform \<Rightarrow> string \<Rightarrow> publication_error + string" where
  "publicationShareObjectKey p token =
     (if \<not> share_token token
      then Inl (Other_Error (Plain_Error ''publication share token is invalid''))
      else Inr (''owners/'' @ take 32 token @ ''/shares/'' @ sha256Hex p token @ ''.json''))"

definition grant_value :: "share_grant \<Rightarrow> jsval" where
  "grant_value g = JObj ([(''version'', JStr (sg_version g)), (''id'', JStr (sg_id g)),
     (''publicationId'', JStr (sg_publicationId g)), (''ownerHash'', JStr (sg_ownerHash g)),
     (''access'', JStr (sg_access g)), (''expiresAt'', JStr (sg_expiresAt g))] @
     field_of ''revokedAt'' JStr (sg_revokedAt g))"

definition share_bytes :: "web_platform \<Rightarrow> publication_kind \<Rightarrow> share_grant \<Rightarrow> string" where
  "share_bytes wp kind g = utf8_bytes (json_text wp (JObj [(''version'', JStr ''2''),
     (''kind'', JStr (kind_text kind)), (''grant'', grant_value g)]))"

definition put_share :: "publication_platform \<Rightarrow> publication_kind \<Rightarrow> share_grant
    \<Rightarrow> ('x bucket_world_scheme, publication_error, unit) io" where
  "put_share pp kind g =
     bind_io (lift_io (validateShareGrant (pp_platform pp) g)) (\<lambda>_.
     bind_io (lift_io (publicationShareObjectKey (pp_platform pp) (sg_id g))) (\<lambda>key.
     s3_io (put_object key (Raw_Bytes (share_bytes (pp_web pp) kind g)))))"

section \<open>The service\<close>

record 'w session_publications =
  so_artifacts :: "string \<Rightarrow> string \<Rightarrow> string list \<Rightarrow> ('w, publication_error, saved_artifact list) io"
  so_readPrefix :: "content_reference \<Rightarrow> ('w, publication_error, string) io"
  so_artifactBucket :: string
  so_baseDomain :: string
  so_ttlSeconds :: js_number
  so_randomToken :: string
  so_millis :: int

fun read_prefixes :: "'w session_publications \<Rightarrow> saved_artifact list
    \<Rightarrow> ('w, publication_error, (saved_artifact \<times> string) list) io" where
  "read_prefixes so [] = ret []"
| "read_prefixes so (a # as) =
     bind_io (if sv_size_bytes a = 0 then ret [] else so_readPrefix so (sv_content a)) (\<lambda>prefix.
     bind_io (read_prefixes so as) (\<lambda>rest. ret ((a, prefix) # rest)))"

definition share_published :: "publication_platform \<Rightarrow> 'x bucket_world_scheme session_publications
    \<Rightarrow> string \<Rightarrow> session_plan \<Rightarrow> published
    \<Rightarrow> ('x bucket_world_scheme, publication_error, publication_descriptor) io" where
  "share_published pp so domain plan published =
     bind_io (lift_io (as_publication_error (validatePublicationTokenSuffix (so_randomToken so)))) (\<lambda>_.
     let g = publicationGrant (pp_platform pp) (pn_publicationId plan) (pn_ownerHash plan)
               (so_randomToken so) (so_millis so) (publicationTtlSeconds (so_ttlSeconds so))
     in bind_io (put_share pp (pm_kind (pb_manifest published)) g) (\<lambda>_.
        lift_io (publicationDescriptor (pb_manifest published) g domain)))"

definition session_publish_input :: "string \<Rightarrow> string \<Rightarrow> publication_spec \<Rightarrow> session_plan \<Rightarrow> publish_input"
where
  "session_publish_input ownerId sessionId spec plan =
     \<lparr>pi_ownerId = ownerId, pi_publicationId = pn_publicationId plan, pi_spec = spec,
      pi_files = pn_files plan, pi_runId = None, pi_sessionId = Some sessionId,
      pi_artifactIds = Some (pn_artifactIds plan), pi_createdAt = Some (pn_createdAt plan)\<rparr>"

definition publish_session :: "publication_platform \<Rightarrow> 'x bucket_world_scheme session_publications
    \<Rightarrow> string \<Rightarrow> string \<Rightarrow> jsval
    \<Rightarrow> ('x bucket_world_scheme, publication_error, publication_descriptor) io" where
  "publish_session pp so ownerId sessionId raw =
     bind_io (lift_io (sessionPublicationRequest (pp_web pp) raw)) (\<lambda>request.
     bind_io (lift_io (as_publication_error (publicationDomain (so_baseDomain so)))) (\<lambda>domain.
     bind_io (so_artifacts so ownerId sessionId (map sf_artifact_id (sr_files request))) (\<lambda>saved.
     let input = (\<lambda>sources. \<lparr>pt_ownerId = ownerId, pt_sessionId = sessionId,
           pt_artifactBucket = so_artifactBucket so, pt_request = request, pt_sources = sources\<rparr>)
     in bind_io (lift_io (sessionPublicationPlan pp (input (map (\<lambda>a. (a, [])) saved)))) (\<lambda>_.
        bind_io (read_prefixes so saved) (\<lambda>sources.
        bind_io (lift_io (sessionPublicationPlan pp (input sources))) (\<lambda>plan.
        bind_io (publish pp (so_millis so) (s3_publications pp) default_registry
          (session_publish_input ownerId sessionId (sr_publication request) plan)) (\<lambda>published.
        share_published pp so domain plan published)))))))"

section \<open>Theorems\<close>

lemma find_SomeD: "find P xs = Some x \<Longrightarrow> x \<in> set xs \<and> P x"
  by (auto simp: find_Some_iff)

lemma session_source_scoped:
  assumes "session_source ownerHash input selected = Inr f"
  shows "\<exists>(a, prefix) \<in> set (pt_sources input). sv_session_id a = pt_sessionId input \<and>
    cr_bucket (sv_content a) = pt_artifactBucket input \<and>
    br_id (pf_blob f) = session_key ownerHash (pt_sessionId input) a"
  using assms
  by (force simp: session_source_def refuse_def fail_def split: option.splits if_splits dest!: find_SomeD)

text \<open>
  C30. A plan for a session names only saved artifacts of that session, in the artifact bucket
  and under the owner's prefix, whatever keys and paths the request asks for.
\<close>
theorem session_files_scoped:
  assumes "sessionPublicationPlan pp input = Inr plan" and "f \<in> set (pn_files plan)"
  shows "\<exists>(a, prefix) \<in> set (pt_sources input). sv_session_id a = pt_sessionId input \<and>
      cr_bucket (sv_content a) = pt_artifactBucket input \<and>
      br_id (pf_blob f) = session_key (pn_ownerHash plan) (pt_sessionId input) a"
  using assms session_source_scoped
  by (auto simp: sessionPublicationPlan_def Let_def bindE_Inr dest!: mapE_elem)

definition grant_published ::
  "publication_platform \<Rightarrow> string \<Rightarrow> int \<Rightarrow> publication_descriptor \<Rightarrow> share_grant \<Rightarrow> bool" where
  "grant_published pp ownerId millis d g \<longleftrightarrow>
     validateShareGrant (pp_platform pp) g = Inr () \<and> sg_publicationId g = ds_publicationId d \<and>
     sg_ownerHash g = ownerHashFor (pp_platform pp) ownerId \<and> ds_expiresAt d = sg_expiresAt g \<and>
     (\<exists>t. 60 \<le> t \<and> t \<le> 86400 \<and> sg_expiresAt g = iso (pp_platform pp) (millis + t * 1000))"

definition grant_stored ::
  "publication_platform \<Rightarrow> publication_kind \<Rightarrow> share_grant \<Rightarrow> 'x bucket_world_scheme \<Rightarrow> bool" where
  "grant_stored pp kind g w \<longleftrightarrow> (\<exists>key. publicationShareObjectKey (pp_platform pp) (sg_id g) = Inr key \<and>
     objects w key = Some (Raw_Bytes (share_bytes (pp_web pp) kind g)))"

lemma ttl_bounds: "60 \<le> publicationTtlSeconds n \<and> publicationTtlSeconds n \<le> 86400"
  by (simp add: publicationTtlSeconds_def split: js_number.split)

lemma share_key_no_manifest:
  assumes "sha256_ok (pp_platform pp)" and "publicationShareObjectKey (pp_platform pp) token = Inr key"
  shows "\<not> manifest_key pp key"
proof
  assume "manifest_key pp key"
  then obtain ownerId i where key: "key = publicationObjectKey (ownerHashFor (pp_platform pp) ownerId) i manifest_path"
    by (auto simp: manifest_key_def)
  have "length token = 97" using assms(2)
    by (auto simp: publicationShareObjectKey_def share_token_def split: if_splits)
  then have "length (take 32 token) = length (ownerHashFor (pp_platform pp) ownerId)"
    using assms(1) by (simp add: owner_hash_length)
  then show False
    using assms(2) key by (auto simp: publicationShareObjectKey_def publicationObjectKey_def split: if_splits)
qed

lemma put_object_Inr:
  "put_object key body w = (w', Inr u) \<Longrightarrow> objects w' key = Some body"
  by (auto simp: put_object_def Let_def split: prod.splits bucket_fault.splits)

lemma put_share_stores:
  fixes pp :: publication_platform
  shows "ensures (holding pp S :: 'x bucket_world_scheme \<Rightarrow> bool) (put_share pp kind g)
    (\<lambda>_ w. holding pp S w \<and> validateShareGrant (pp_platform pp) g = Inr () \<and> grant_stored pp kind g w)
    (bucket_good pp)"
  unfolding put_share_def
proof (intro ensures_bind_lift)
  fix u key
  assume valid: "validateShareGrant (pp_platform pp) g = Inr u"
    and key: "publicationShareObjectKey (pp_platform pp) (sg_id g) = Inr key"
  let ?body = "Raw_Bytes (share_bytes (pp_web pp) kind g)"
  have valid': "validateShareGrant (pp_platform pp) g = Inr ()" using valid by simp
  have stays: "ensures (holding pp S) (put_object key ?body) (\<lambda>_. holding pp (insert key S)) (bucket_good pp)"
    if "holding pp S w" for w :: "'x bucket_world_scheme"
    using that share_key_no_manifest [OF _ key] by (intro put_holding) (simp add: holding_def bucket_good_def)
  have inr: "holding pp S w' \<and> grant_stored pp kind g w'"
    if "holding pp S w" "put_object key ?body w = (w', Inr a)" for w w' :: "'x bucket_world_scheme" and a
    using ensures_Inr [OF stays that] put_object_Inr [OF that(2)] that(1) key
    by (auto simp: grant_stored_def holding_def all_stored_def)
  have inl: "bucket_good pp w'"
    if "holding pp S w" "put_object key ?body w = (w', Inl e)" for w w' :: "'x bucket_world_scheme" and e
    using ensures_Inl [OF stays that] that(1) by simp
  have "ensures (holding pp S :: 'x bucket_world_scheme \<Rightarrow> bool) (put_object key ?body)
      (\<lambda>_ w. holding pp S w \<and> validateShareGrant (pp_platform pp) g = Inr () \<and> grant_stored pp kind g w)
      (bucket_good pp)"
    using valid' inr inl by (intro ensuresI) blast+
  then show "ensures (holding pp S :: 'x bucket_world_scheme \<Rightarrow> bool) (s3_io (put_object key ?body))
      (\<lambda>_ w. holding pp S w \<and> validateShareGrant (pp_platform pp) g = Inr () \<and> grant_stored pp kind g w)
      (bucket_good pp)"
    by (rule ensures_s3)
qed (auto intro: holding_good)

text \<open>What a returned descriptor promises about the bucket.\<close>

definition shared :: "publication_platform \<Rightarrow> string \<Rightarrow> int \<Rightarrow> publication_descriptor
    \<Rightarrow> 'x bucket_world_scheme \<Rightarrow> bool" where
  "shared pp ownerId millis d w \<longleftrightarrow> bucket_good pp w \<and>
     (\<exists>m g. ds_paths d = map pf_path (pm_files m) \<and> files_stored object_stored m w \<and>
        grant_published pp ownerId millis d g \<and> grant_stored pp (pm_kind m) g w)"

lemma share_published_shared:
  assumes "pn_ownerHash plan = ownerHashFor (pp_platform pp) ownerId"
  shows "ensures (\<lambda>w :: 'x bucket_world_scheme. bucket_good pp w \<and>
      files_stored object_stored (pb_manifest c) w) (share_published pp so domain plan c)
    (shared pp ownerId (so_millis so)) (bucket_good pp)"
proof -
  let ?g = "publicationGrant (pp_platform pp) (pn_publicationId plan) (pn_ownerHash plan)
    (so_randomToken so) (so_millis so) (publicationTtlSeconds (so_ttlSeconds so))"
  have last: "ensures (\<lambda>w :: 'x bucket_world_scheme. holding pp ((\<lambda>f. br_id (pf_blob f)) ` set (pm_files (pb_manifest c))) w \<and>
        validateShareGrant (pp_platform pp) ?g = Inr () \<and> grant_stored pp (pm_kind (pb_manifest c)) ?g w)
      (lift_io (publicationDescriptor (pb_manifest c) ?g domain))
      (shared pp ownerId (so_millis so)) (bucket_good pp)"
  proof (rule ensures_lift)
    fix w :: "'x bucket_world_scheme" and d
    assume w: "holding pp ((\<lambda>f. br_id (pf_blob f)) ` set (pm_files (pb_manifest c))) w \<and>
        validateShareGrant (pp_platform pp) ?g = Inr () \<and> grant_stored pp (pm_kind (pb_manifest c)) ?g w"
      and "publicationDescriptor (pb_manifest c) ?g domain = Inr d"
    then have "ds_paths d = map pf_path (pm_files (pb_manifest c))"
      "ds_publicationId d = sg_publicationId ?g" "ds_expiresAt d = sg_expiresAt ?g"
      by (auto simp: publicationDescriptor_def bindE_Inr)
    with w assms ttl_bounds [of "so_ttlSeconds so"] show "shared pp ownerId (so_millis so) d w"
      unfolding shared_def grant_published_def holding_files
      by (intro conjI exI [of _ "pb_manifest c"] exI [of _ ?g]) (auto simp: publicationGrant_def)
  qed (auto intro: holding_good)
  show ?thesis
    unfolding share_published_def Let_def holding_files [symmetric]
    by (rule ensures_bind_lift, rule ensures_bind [OF put_share_stores last]) (auto intro: holding_good)
qed

lemma read_prefixes_good:
  assumes "\<And>c. ensures (bucket_good pp) (so_readPrefix so c) (\<lambda>_. bucket_good pp) (bucket_good pp)"
  shows "ensures (bucket_good pp) (read_prefixes so as) (\<lambda>_. bucket_good pp) (bucket_good pp)"
proof (induction "as")
  case (Cons a "as")
  have "ensures (bucket_good pp) (if sv_size_bytes a = 0 then ret [] else so_readPrefix so (sv_content a))
      (\<lambda>_. bucket_good pp) (bucket_good pp)"
    using assms by (auto intro: ensures_ret)
  then show ?case
    by (auto intro!: ensures_bind [where R = "\<lambda>_. bucket_good pp"] Cons.IH ensures_ret)
qed (auto intro: ensures_ret)

definition sessions_good :: "publication_platform \<Rightarrow> 'x bucket_world_scheme session_publications \<Rightarrow> bool" where
  "sessions_good pp so \<longleftrightarrow>
     (\<forall>ownerId sessionId ids. ensures (bucket_good pp) (so_artifacts so ownerId sessionId ids)
        (\<lambda>_. bucket_good pp) (bucket_good pp)) \<and>
     (\<forall>c. ensures (bucket_good pp) (so_readPrefix so c) (\<lambda>_. bucket_good pp) (bucket_good pp))"

lemma plan_owner: "sessionPublicationPlan pp input = Inr plan \<Longrightarrow>
    pn_ownerHash plan = ownerHashFor (pp_platform pp) (pt_ownerId input)"
  by (auto simp: sessionPublicationPlan_def Let_def bindE_Inr)

lemma publish_session_shared:
  assumes "sessions_good pp so"
  shows "ensures (bucket_good pp) (publish_session pp so ownerId sessionId raw)
    (shared pp ownerId (so_millis so)) (bucket_good pp)"
  unfolding publish_session_def Let_def
proof (intro ensures_bind_lift)
  fix request domain
  let ?input = "\<lambda>sources. \<lparr>pt_ownerId = ownerId, pt_sessionId = sessionId,
    pt_artifactBucket = so_artifactBucket so, pt_request = request, pt_sources = sources\<rparr>"
  let ?rest = "\<lambda>plan. bind_io (publish pp (so_millis so) (s3_publications pp) default_registry
      (session_publish_input ownerId sessionId (sr_publication request) plan))
    (share_published pp so domain plan)"
  have last: "ensures (bucket_good pp) (bind_io (lift_io (sessionPublicationPlan pp (?input sources))) ?rest)
      (shared pp ownerId (so_millis so)) (bucket_good pp)" for sources
  proof (rule ensures_bind_lift)
    fix plan assume "sessionPublicationPlan pp (?input sources) = Inr plan"
    then have "pn_ownerHash plan = ownerHashFor (pp_platform pp) ownerId"
      using plan_owner by force
    then show "ensures (bucket_good pp) (?rest plan) (shared pp ownerId (so_millis so)) (bucket_good pp)"
      by (intro ensures_bind [OF s3.publishes share_published_shared])
  qed
  have prefixes: "ensures (bucket_good pp) (read_prefixes so saved) (\<lambda>_. bucket_good pp) (bucket_good pp)" for saved
    using assms by (intro read_prefixes_good) (simp add: sessions_good_def)
  have artifacts: "ensures (bucket_good pp) (so_artifacts so ownerId sessionId ids)
      (\<lambda>_. bucket_good pp) (bucket_good pp)" for ids
    using assms by (simp add: sessions_good_def)
  show "ensures (bucket_good pp)
      (bind_io (so_artifacts so ownerId sessionId (map sf_artifact_id (sr_files request))) (\<lambda>saved.
        bind_io (lift_io (sessionPublicationPlan pp (?input (map (\<lambda>a. (a, [])) saved)))) (\<lambda>_.
        bind_io (read_prefixes so saved) (\<lambda>sources.
        bind_io (lift_io (sessionPublicationPlan pp (?input sources))) ?rest))))
      (shared pp ownerId (so_millis so)) (bucket_good pp)"
    by (rule ensures_bind [OF artifacts], rule ensures_bind_lift, rule ensures_bind [OF prefixes last])
qed

text \<open>
  C29. A descriptor returned for a session is backed by the bucket: a manifest with exactly its
  paths whose files are all stored, and a stored, valid grant of the owner for that publication
  which expires with the descriptor, between one minute and one day after the request. Whether
  or not publishing returns, no committed manifest of anybody is left incomplete.
\<close>
theorem session_descriptor_backed:
  assumes "bucket_good pp w" and "sessions_good pp so"
    and "publish_session pp so ownerId sessionId raw w = (w', r)"
  shows "ready pp (objects w') \<and> (\<forall>d. r = Inr d \<longrightarrow> (\<exists>m g.
    ds_paths d = map pf_path (pm_files m) \<and> files_stored object_stored m w' \<and>
    grant_published pp ownerId (so_millis so) d g \<and> grant_stored pp (pm_kind m) g w'))"
  using ensures_Inr [OF publish_session_shared [OF assms(2)] assms(1)]
    ensures_Inl [OF publish_session_shared [OF assms(2)] assms(1)] assms(3)
  by (cases r) (auto simp: shared_def bucket_good_def)

text \<open>A session whose one artifact is the stored example file.\<close>

definition example_artifact :: saved_artifact where
  "example_artifact = \<lparr>sv_id = ''art_1'', sv_session_id = ''sess_1'', sv_turn_id = ''turn_1'',
     sv_created_at = 0, sv_size_bytes = 5,
     sv_content = \<lparr>cr_bucket = ''bucket'', cr_key = example_key, cr_sha256 = replicate 64 (CHR ''b'')\<rparr>\<rparr>"

definition example_sessions :: "bucket_world session_publications" where
  "example_sessions = \<lparr>so_artifacts = (\<lambda>ownerId sessionId ids. ret [example_artifact]),
     so_readPrefix = (\<lambda>c. ret ''hello''), so_artifactBucket = ''bucket'',
     so_baseDomain = ''example.org'', so_ttlSeconds = Finite 3600,
     so_randomToken = replicate 64 (CHR ''c''), so_millis = 0\<rparr>"

definition example_session_request :: jsval where
  "example_session_request = JObj [(''publication'', JObj [(''version'', JStr ''1''), (''kind'', JStr ''site'')]),
     (''files'', JArr [JObj [(''artifact_id'', JStr ''art_1''), (''path'', JStr ''index.html'')]])]"

lemma example_sessions_good: "sessions_good example_publications example_sessions"
  by (simp add: sessions_good_def example_sessions_def ensures_ret)

theorem session_descriptor_backed_witness:
  "ready example_publications (objects (fst (publish_session example_publications example_sessions
     ''owner'' ''sess_1'' example_session_request example_bucket)))"
  using session_descriptor_backed [OF example_bucket_good example_sessions_good surjective_pairing] by blast

definition example_plan_input :: plan_input where
  "example_plan_input = \<lparr>pt_ownerId = ''owner'', pt_sessionId = ''sess_1'', pt_artifactBucket = ''bucket'',
     pt_request = \<lparr>sr_publication = example_spec,
       sr_files = [\<lparr>sf_artifact_id = ''art_1'', sf_path = ''index.html''\<rparr>]\<rparr>,
     pt_sources = [(example_artifact, ''hello'')]\<rparr>"

lemma example_session_request_parsed:
  "sessionPublicationRequest example_web example_session_request = Inr (pt_request example_plan_input)"
  by code_simp

lemma example_source_key:
  "session_key (replicate 32 (CHR ''a'')) ''sess_1'' example_artifact = example_key"
  by code_simp

definition example_selected :: selected_file where
  "example_selected = \<lparr>sf_artifact_id = ''art_1'', sf_path = ''index.html''\<rparr>"

lemma example_hash: "ownerHashFor (pp_platform example_publications) ownerId = replicate 32 (CHR ''a'')"
  by (simp add: ownerHashFor_def example_publications_def)

lemma example_session_source:
  "session_source (replicate 32 (CHR ''a'')) example_plan_input example_selected =
     Inr (example_file\<lparr>pf_blob := (pf_blob example_file)\<lparr>br_size := Finite 5\<rparr>\<rparr>)"
  by code_simp

lemma example_session_plan:
  "\<exists>plan. sessionPublicationPlan example_publications example_plan_input = Inr plan \<and>
     pn_files plan = [example_file\<lparr>pf_blob := (pf_blob example_file)\<lparr>br_size := Finite 5\<rparr>\<rparr>]"
proof -
  have "sr_files (pt_request example_plan_input) = [example_selected]"
    by (simp add: example_plan_input_def example_selected_def)
  then show ?thesis
    by (simp add: sessionPublicationPlan_def Let_def example_hash example_session_source)
qed

theorem session_files_scoped_witness:
  "\<exists>(plan :: session_plan) (f :: publication_file). f \<in> set (pn_files plan) \<and>
     br_id (pf_blob f) = session_key (pn_ownerHash plan) ''sess_1'' example_artifact"
proof -
  obtain plan f where plan: "sessionPublicationPlan example_publications example_plan_input = Inr plan"
      and f: "f \<in> set (pn_files plan)"
    using example_session_plan by auto
  have "br_id (pf_blob f) = session_key (pn_ownerHash plan) ''sess_1'' example_artifact"
    using session_files_scoped [OF plan f] by (simp add: example_plan_input_def)
  with f show ?thesis by blast
qed

end
