(* ===== verification/Deliveries.thy ===== *)
theory Deliveries
  imports Publication_Plans
begin

text \<open>
  Delivering a result to the place a request came from (\<open>src/delivery/service.ts\<close>,
  \<open>src/delivery/http.ts\<close>, \<open>src/delivery/errors.ts\<close>, the adapters in
  \<open>src/delivery/providers\<close>) behind a fence that lets each message be sent at most once
  (\<open>DynamoDeliveryFence\<close> in \<open>src/adapters/dynamo-delivery-fence.ts\<close>).

  A request to the fence table is one turn: other clients act before it, the clock moves, and
  the request may be refused with any error, lose its reply, or be sent twice by the SDK. What
  the providers accepted is counted for each fence key in \<open>posted\<close>, and \<open>tokens\<close> are the
  keys other clients are about to send for; the code reads neither.
\<close>

section \<open>Destinations\<close>

record destination_context =
  dc_provider :: source_kind
  dc_destination :: run_destination
  dc_source :: "run_source option"

record delivery_execution =
  de_id :: string
  de_status :: string
  de_label :: string
  de_sessionId :: "string option"
  de_credentialOwnerId :: "string option"
  de_expiresAt :: "int option"

text \<open>The part of a Run request a delivery needs.\<close>

record delivery_subject =
  dl_source :: "run_source option"
  dl_destinations :: "run_destination list option"
  dl_integrations :: "integration_access_request option"

fun provider_text :: "source_kind \<Rightarrow> string" where
  "provider_text Api = ''api''"
| "provider_text Github = ''github''"
| "provider_text Gitlab = ''gitlab''"
| "provider_text Teams = ''teams''"
| "provider_text Slack = ''slack''"

definition destinationProvider :: "run_destination \<Rightarrow> delivery_subject \<Rightarrow> source_kind option" where
  "destinationProvider destination request =
     (if dst_kind destination = JStr ''none'' then None
      else if dst_kind destination = JStr ''teams'' then Some Teams
      else if dst_kind destination = JStr ''slack'' then Some Slack
      else case dl_source request of
          None \<Rightarrow> None
        | Some s \<Rightarrow> if source_kind_of s = Api then None else Some (source_kind_of s))"

definition normalized_destination :: "run_destination \<Rightarrow> source_kind \<Rightarrow> delivery_subject \<Rightarrow> run_destination"
where
  "normalized_destination destination provider request =
     (if dst_kind destination = JStr ''source'' \<and> provider = Teams
      then \<lparr>dst_kind = JStr ''teams'', dst_route = None\<rparr>
      else if dst_kind destination = JStr ''source'' \<and> provider = Slack
      then (case dl_source request of
          Some (Source_Slack team channel thread event user) \<Rightarrow>
            \<lparr>dst_kind = JStr ''slack'', dst_route = Some channel\<rparr>
        | _ \<Rightarrow> destination)
      else destination)"

definition resolved_contexts ::
  "delivery_subject \<Rightarrow> run_destination list \<Rightarrow> destination_context list" where
  "resolved_contexts request configured = concat (map (\<lambda>destination.
     case destinationProvider destination request of
       None \<Rightarrow> []
     | Some provider \<Rightarrow> [\<lparr>dc_provider = provider,
         dc_destination = normalized_destination destination provider request,
         dc_source = dl_source request\<rparr>]) configured)"

definition route_key :: "destination_context \<Rightarrow> string" where
  "route_key c = provider_text (dc_provider c) @ '':'' @ title_or (dst_route (dc_destination c)) []"

text \<open>\<open>[...new Map(entries).values()]\<close>: the last value of each key, in the order in which the
  keys first occur.\<close>

fun map_values :: "('a \<Rightarrow> string) \<Rightarrow> 'a list \<Rightarrow> 'a list" where
  "map_values key [] = []"
| "map_values key (x # xs) =
     last (x # filter (\<lambda>y. key y = key x) xs) # map_values key (filter (\<lambda>y. key y \<noteq> key x) xs)"

definition resolveDestinations ::
  "delivery_subject \<Rightarrow> run_destination list \<Rightarrow> destination_context list" where
  "resolveDestinations request defaults = map_values route_key
     (resolved_contexts request (case dl_destinations request of Some ds \<Rightarrow> ds | None \<Rightarrow> defaults))"

text \<open>An undefined element of an array is written as \<open>null\<close>.\<close>

definition text_or_null :: "string option \<Rightarrow> jsval" where
  "text_or_null x = (case x of None \<Rightarrow> JNull | Some s \<Rightarrow> JStr s)"

definition int_or_null :: "int option \<Rightarrow> jsval" where
  "int_or_null x = (case x of None \<Rightarrow> JNull | Some i \<Rightarrow> int_value i)"

fun thread_scope :: "run_source option \<Rightarrow> jsval list" where
  "thread_scope (Some (Source_Slack team channel thread event user)) =
     [text_or_null team, JStr channel, text_or_null thread]"
| "thread_scope (Some (Source_Teams tenant team channel conversation activity sender)) =
     [text_or_null tenant, JStr conversation, JStr activity]"
| "thread_scope (Some (Source_Github delivery event repository issue installation)) =
     [JStr repository, int_or_null issue]"
| "thread_scope (Some (Source_Gitlab event project iid)) = [JStr project, int_or_null iid]"
| "thread_scope _ = []"

definition destinationKey :: "web_platform \<Rightarrow> destination_context \<Rightarrow> string" where
  "destinationKey wp c = json_text wp (JArr ([JStr (provider_text (dc_provider c)),
     JStr (title_or (dst_route (dc_destination c)) ''default'')] @ thread_scope (dc_source c)))"

section \<open>Errors and the world\<close>

datatype delivery_error =
    Known_Not_Delivered string bool
  | Delivery_In_Progress string
  | Delivery_Failure error
  | Out_Of_Fuel

fun delivery_message :: "web_platform \<Rightarrow> delivery_error \<Rightarrow> string" where
  "delivery_message wp (Known_Not_Delivered m retryable) = m"
| "delivery_message wp (Delivery_In_Progress destination) =
     ''delivery '' @ destination @ '' is still in progress''"
| "delivery_message wp (Delivery_Failure e) = error_message e"
| "delivery_message wp Out_Of_Fuel = []"

datatype fence_status = Sending | Delivered | Not_Delivered | Outcome_Unknown

record fence_item =
  fi_status :: fence_status
  fi_leaseUntil :: "int option"
  fi_createdAt :: "string option"
  fi_updatedAt :: "string option"
  fi_details :: "(string \<times> string) list option"
  fi_expiresAt :: "int option"

record fence_state =
  fence :: "string \<Rightarrow> fence_item option"
  posted :: "string \<Rightarrow> nat"
  tokens :: "string set"

datatype fence_fault = Fence_Served | Fence_Refused error | Fence_Unacknowledged error | Fence_Resent

record fence_turn =
  ft_others :: "fence_state \<Rightarrow> fence_state"
  ft_now :: int
  ft_fault :: fence_fault

text \<open>What the provider makes of the next message: whether it took it, and what it answered.\<close>

record http_response =
  hr_status :: int
  hr_json :: "jsval option"
  hr_requestId :: "string option"

record provider_turn =
  pr_accepted :: bool
  pr_reply :: "error + http_response"

record delivery_world =
  state :: fence_state
  fence_script :: "fence_turn list"
  provider_script :: "provider_turn list"
  clock :: int

definition fence_turn_of :: "'x delivery_world_scheme \<Rightarrow> fence_fault \<times> 'x delivery_world_scheme" where
  "fence_turn_of w = (case fence_script w of
       [] \<Rightarrow> (Fence_Served, w)
     | t # ts \<Rightarrow> (ft_fault t,
         w\<lparr>state := ft_others t (state w), fence_script := ts, clock := ft_now t\<rparr>))"

definition conditional_failure :: error where
  "conditional_failure =
     Service_Error ''ConditionalCheckFailedException'' ''The conditional request failed'' (Some 400)"

definition isConditionalFailure :: "error \<Rightarrow> bool" where
  "isConditionalFailure e \<longleftrightarrow> error_name e = ''ConditionalCheckFailedException''"

definition write_item ::
  "string \<Rightarrow> (fence_item option \<Rightarrow> bool) \<Rightarrow> (fence_item option \<Rightarrow> fence_item option) \<Rightarrow> fence_state
     \<Rightarrow> fence_state \<times> (error + unit)" where
  "write_item key cond f s =
     (if cond (fence s key) then (s\<lparr>fence := (fence s)(key := f (fence s key))\<rparr>, Inr ())
      else (s, Inl conditional_failure))"

definition fence_write ::
  "string \<Rightarrow> (fence_item option \<Rightarrow> bool) \<Rightarrow> (fence_item option \<Rightarrow> fence_item option)
     \<Rightarrow> ('x delivery_world_scheme, error, unit) io" where
  "fence_write key cond f w = (let (fault, w1) = fence_turn_of w;
         (s1, r1) = write_item key cond f (state w1); (s2, r2) = write_item key cond f s1
     in case fault of
       Fence_Served \<Rightarrow> (w1\<lparr>state := s1\<rparr>, r1)
     | Fence_Refused e \<Rightarrow> (w1, Inl e)
     | Fence_Unacknowledged e \<Rightarrow> (w1\<lparr>state := s1\<rparr>, Inl e)
     | Fence_Resent \<Rightarrow> (w1\<lparr>state := s2\<rparr>, r2))"

definition fence_read :: "string \<Rightarrow> ('x delivery_world_scheme, error, fence_item option) io" where
  "fence_read key w = (let (fault, w1) = fence_turn_of w in case fault of
       Fence_Refused e \<Rightarrow> (w1, Inl e)
     | Fence_Unacknowledged e \<Rightarrow> (w1, Inl e)
     | _ \<Rightarrow> (w1, Inr (fence (state w1) key)))"

definition delivery_io :: "('w, error, 'a) io \<Rightarrow> ('w, delivery_error, 'a) io" where
  "delivery_io m = try_io m ret (\<lambda>e. throw (Delivery_Failure e))"

definition with_clock :: "(int \<Rightarrow> ('x delivery_world_scheme, 'e, 'a) io) \<Rightarrow> ('x delivery_world_scheme, 'e, 'a) io"
where
  "with_clock f = (\<lambda>w. f (clock w) w)"

section \<open>The fence\<close>

definition DEFAULT_LEASE_SECONDS :: int where
  "DEFAULT_LEASE_SECONDS = 120"

definition deliveryKey :: "platform \<Rightarrow> string \<Rightarrow> string \<Rightarrow> string" where
  "deliveryKey p runId destination =
     ''delivery#'' @ runId @ ''#'' @ take 24 (sha256Hex p destination)"

definition is_sending :: "fence_item option \<Rightarrow> bool" where
  "is_sending x \<longleftrightarrow> (case x of None \<Rightarrow> False | Some i \<Rightarrow> fi_status i = Sending)"

definition lease_over :: "int \<Rightarrow> fence_item option \<Rightarrow> bool" where
  "lease_over seconds x \<longleftrightarrow> (case x of None \<Rightarrow> True
     | Some i \<Rightarrow> (case fi_leaseUntil i of None \<Rightarrow> True | Some t \<Rightarrow> t \<le> seconds))"

definition new_claim :: "platform \<Rightarrow> int \<Rightarrow> delivery_execution \<Rightarrow> int \<Rightarrow> fence_item" where
  "new_claim p leaseSeconds execution millis = \<lparr>fi_status = Sending,
     fi_leaseUntil = Some (millis div 1000 + leaseSeconds), fi_createdAt = Some (iso p millis),
     fi_updatedAt = None, fi_details = None, fi_expiresAt = de_expiresAt execution\<rparr>"

text \<open>\<open>SET ... REMOVE leaseUntil\<close>: an update without a condition creates an absent item.\<close>

definition settled :: "fence_status \<Rightarrow> string \<Rightarrow> (string \<times> string) list option \<Rightarrow> fence_item option \<Rightarrow> fence_item"
where
  "settled status text details x = (case x of
       Some i \<Rightarrow> i\<lparr>fi_status := status, fi_leaseUntil := None, fi_updatedAt := Some text,
         fi_details := (case details of None \<Rightarrow> fi_details i | Some d \<Rightarrow> Some d)\<rparr>
     | None \<Rightarrow> \<lparr>fi_status = status, fi_leaseUntil = None, fi_createdAt = None,
         fi_updatedAt = Some text, fi_details = details, fi_expiresAt = None\<rparr>)"

definition expire_claim :: "platform \<Rightarrow> string \<Rightarrow> string \<Rightarrow> int
    \<Rightarrow> ('x delivery_world_scheme, delivery_error, bool) io" where
  "expire_claim p key destination millis =
     try_io (fence_write key (\<lambda>x. is_sending x \<and> lease_over (millis div 1000) x)
         (\<lambda>x. Some (settled Outcome_Unknown (iso p millis) None x)))
       (\<lambda>_. ret False)
       (\<lambda>e. throw (if isConditionalFailure e then Delivery_In_Progress destination else Delivery_Failure e))"

definition existing_claim :: "platform \<Rightarrow> string \<Rightarrow> string \<Rightarrow> int \<Rightarrow> fence_item
    \<Rightarrow> ('x delivery_world_scheme, delivery_error, bool) io" where
  "existing_claim p key destination millis item =
     (if fi_status item \<noteq> Sending then ret False
      else if (case fi_leaseUntil item of None \<Rightarrow> False | Some t \<Rightarrow> t > millis div 1000)
      then throw (Delivery_In_Progress destination)
      else expire_claim p key destination millis)"

text \<open>The code calls itself when the item it lost to is gone; \<open>n\<close> bounds the calls.\<close>

fun claim_again :: "platform \<Rightarrow> int \<Rightarrow> nat \<Rightarrow> delivery_execution \<Rightarrow> string
    \<Rightarrow> ('x delivery_world_scheme, delivery_error, bool) io" where
  "claim_again p leaseSeconds 0 execution destination = throw Out_Of_Fuel"
| "claim_again p leaseSeconds (Suc n) execution destination =
     with_clock (\<lambda>millis. let key = deliveryKey p (de_id execution) destination in
     try_io (fence_write key (\<lambda>x. x = None) (\<lambda>x. Some (new_claim p leaseSeconds execution millis)))
       (\<lambda>_. ret True)
       (\<lambda>e. if \<not> isConditionalFailure e then throw (Delivery_Failure e)
         else bind_io (delivery_io (fence_read key)) (\<lambda>existing. case existing of
             None \<Rightarrow> claim_again p leaseSeconds n execution destination
           | Some item \<Rightarrow> existing_claim p key destination millis item)))"

definition claim :: "platform \<Rightarrow> int \<Rightarrow> delivery_execution \<Rightarrow> string
    \<Rightarrow> ('x delivery_world_scheme, delivery_error, bool) io" where
  "claim p leaseSeconds execution destination =
     (\<lambda>w. claim_again p leaseSeconds (Suc (length (fence_script w))) execution destination w)"

definition update_fence :: "platform \<Rightarrow> string \<Rightarrow> string \<Rightarrow> fence_status \<Rightarrow> (string \<times> string) list
    \<Rightarrow> ('x delivery_world_scheme, delivery_error, unit) io" where
  "update_fence p runId destination status extra = with_clock (\<lambda>millis.
     delivery_io (fence_write (deliveryKey p runId destination) (\<lambda>_. True)
       (\<lambda>x. Some (settled status (iso p millis) (Some extra) x))))"

definition delivered :: "platform \<Rightarrow> string \<Rightarrow> string \<Rightarrow> string
    \<Rightarrow> ('x delivery_world_scheme, delivery_error, unit) io" where
  "delivered p runId destination receipt =
     update_fence p runId destination Delivered [(''receipt'', receipt)]"

definition failed :: "platform \<Rightarrow> web_platform \<Rightarrow> string \<Rightarrow> string \<Rightarrow> delivery_error
    \<Rightarrow> ('x delivery_world_scheme, delivery_error, unit) io" where
  "failed p wp runId destination e = update_fence p runId destination
     (case e of Known_Not_Delivered m retryable \<Rightarrow> Not_Delivered | _ \<Rightarrow> Outcome_Unknown)
     [(''failure'', take 1000 (delivery_message wp e))]"

definition release :: "platform \<Rightarrow> string \<Rightarrow> string
    \<Rightarrow> ('x delivery_world_scheme, delivery_error, unit) io" where
  "release p runId destination = delivery_io
     (fence_write (deliveryKey p runId destination) is_sending (\<lambda>x. None))"

section \<open>Messages and replies\<close>

definition AGENT_RESULT_MARKER :: string where
  "AGENT_RESULT_MARKER = ''<!-- rat-things:result -->''"

definition newline :: char where
  "newline = char_of (10::nat)"

definition message_suffix :: "delivery_execution \<Rightarrow> string" where
  "message_suffix execution = [newline, newline] @ ''---'' @ [newline] @ de_label execution @ '': '' @
     de_id execution @ (if truthy (de_sessionId execution)
       then [newline] @ ''Session: '' @ the (de_sessionId execution) else [])"

definition message_prefix :: "bool \<Rightarrow> string" where
  "message_prefix markSourceResult = (if markSourceResult then AGENT_RESULT_MARKER @ [newline] else [])"

definition formatMessage :: "string \<Rightarrow> delivery_execution \<Rightarrow> nat \<Rightarrow> bool \<Rightarrow> string" where
  "formatMessage body execution maximum markSourceResult =
     (let prefix = message_prefix markSourceResult; suffix = message_suffix execution
      in prefix @ take (maximum - length prefix - length suffix) body @ suffix)"

definition response_ok :: "http_response \<Rightarrow> bool" where
  "response_ok r \<longleftrightarrow> 200 \<le> hr_status r \<and> hr_status r \<le> 299"

definition checkedResponse :: "http_response \<Rightarrow> string \<Rightarrow> delivery_error + unit" where
  "checkedResponse r provider =
     (if response_ok r then Inr ()
      else if hr_status r \<ge> 500 then Inl (Delivery_Failure (Plain_Error
        (provider @ '' delivery outcome is unknown after HTTP '' @ show_int (hr_status r))))
      else Inl (Known_Not_Delivered (provider @ '' returned HTTP '' @ show_int (hr_status r))
        (hr_status r = 429)))"

definition checkedJson :: "http_response \<Rightarrow> string \<Rightarrow> delivery_error + fields" where
  "checkedJson r provider = bindE (checkedResponse r provider) (\<lambda>_. case hr_json r of
       None \<Rightarrow> Inl (Delivery_Failure (Plain_Error ''Unexpected end of JSON input''))
     | Some (JObj fs) \<Rightarrow> Inr fs
     | Some _ \<Rightarrow> Inr [])"

definition requiredDeliveryCredential :: "string option \<Rightarrow> string \<Rightarrow> delivery_error + string" where
  "requiredDeliveryCredential reference setting = (if truthy reference then Inr (the reference)
     else Inl (Known_Not_Delivered (''Configure '' @ setting @ '' before delivering results.'') False))"

definition validatedBaseUrl :: "web_platform \<Rightarrow> string \<Rightarrow> delivery_error + string" where
  "validatedBaseUrl wp v = (case parse_url wp v of
       None \<Rightarrow> Inl (Delivery_Failure Type_Error)
     | Some u \<Rightarrow>
         if u_protocol u \<noteq> ''https:'' \<or> u_username u \<noteq> [] \<or> u_password u \<noteq> [] \<or> u_search u \<noteq> [] \<or>
           u_hash u \<noteq> []
         then Inl (Delivery_Failure (Plain_Error ''provider API base URL must be credential-free HTTPS''))
         else Inr (if ends_with (u_href u) ''/'' then butlast (u_href u) else u_href u))"

section \<open>Adapters\<close>

record http_request =
  hq_url :: string
  hq_headers :: "(string \<times> string) list"
  hq_body :: jsval

record slack_post =
  sp_ownerId :: string
  sp_request :: integration_access_request
  sp_channel :: string
  sp_text :: string
  sp_threadTs :: "string option"

record delivery_request =
  dq_context :: destination_context
  dq_subject :: delivery_subject
  dq_execution :: delivery_execution
  dq_body :: string

text \<open>
  What an adapter sends through, for one delivery: \<open>fetch\<close> and the poster of a Slack
  connection, which may be absent. \<open>credentials.read\<close> is a function of the platform.
\<close>

record 'w sender =
  sn_fetch :: "http_request \<Rightarrow> ('w, delivery_error, http_response) io"
  sn_poster :: "(slack_post \<Rightarrow> ('w, delivery_error, jsval) io) option"

record delivery_platform =
  dp_platform :: platform
  dp_web :: web_platform
  dp_secret :: "string \<Rightarrow> string list \<Rightarrow> delivery_error + string"
  dp_leaseSeconds :: int
  dp_slackToken :: "string option"
  dp_githubToken :: "string option"
  dp_githubBase :: string
  dp_gitlabToken :: "string option"
  dp_gitlabBase :: string
  dp_teamsThreaded :: bool
  dp_teamsWorkflow :: "string option"
  dp_teamsGateway :: "string option"
  dp_teamsRoutes :: "(string \<times> string) list"

definition credential ::
  "delivery_platform \<Rightarrow> string option \<Rightarrow> string \<Rightarrow> string list \<Rightarrow> delivery_error + string" where
  "credential dp reference setting keys =
     bindE (requiredDeliveryCredential reference setting) (\<lambda>arn. dp_secret dp arn keys)"

definition slackReceipt :: "jsval \<Rightarrow> string" where
  "slackReceipt v = (case v of
       JObj fs \<Rightarrow> (case get_prop fs ''ts'' of JStr s \<Rightarrow> s | _ \<Rightarrow> ''accepted'')
     | _ \<Rightarrow> ''accepted'')"

fun slack_channel :: "run_source option \<Rightarrow> string option" where
  "slack_channel (Some (Source_Slack team channel thread event user)) = Some channel"
| "slack_channel _ = None"

fun slack_thread :: "run_source option \<Rightarrow> string option" where
  "slack_thread (Some (Source_Slack team channel thread event user)) = spread thread"
| "slack_thread _ = None"

definition slack_reply :: "web_platform \<Rightarrow> http_response \<Rightarrow> delivery_error + string" where
  "slack_reply wp r = bindE (checkedJson r ''Slack'') (\<lambda>fs.
     if get_prop fs ''ok'' = JBool True then Inr (slackReceipt (JObj fs))
     else bindE (case (let e = get_prop fs ''error'' in if e = JUndef \<or> e = JNull then Inr ''unknown''
           else to_string wp e) of Inl e \<Rightarrow> Inl (Delivery_Failure e) | Inr s \<Rightarrow> Inr s) (\<lambda>text.
       Inl (Known_Not_Delivered (''Slack rejected message: '' @ text) False)))"

definition slack_send ::
  "delivery_platform \<Rightarrow> 'w sender \<Rightarrow> delivery_request \<Rightarrow> string \<Rightarrow> string
     \<Rightarrow> ('w, delivery_error, string) io" where
  "slack_send dp sn input channel text =
     bind_io (lift_io (credential dp (dp_slackToken dp) ''SLACK_BOT_TOKEN_SECRET_ARN''
       [''token'', ''bot_token''])) (\<lambda>token.
     bind_io (sn_fetch sn \<lparr>hq_url = ''https://slack.com/api/chat.postMessage'',
       hq_headers = [(''authorization'', ''Bearer '' @ token), (''content-type'', ''application/json'')],
       hq_body = JObj ([(''channel'', JStr channel), (''text'', JStr text)] @
         field_of ''thread_ts'' JStr (slack_thread (dl_source (dq_subject input))))\<rparr>) (\<lambda>r.
     lift_io (slack_reply (dp_web dp) r)))"

definition slack_deliver ::
  "delivery_platform \<Rightarrow> 'w sender \<Rightarrow> delivery_request \<Rightarrow> ('w, delivery_error, string) io" where
  "slack_deliver dp sn input =
     (let source = dl_source (dq_subject input);
          channel = (case dst_route (dc_destination (dq_context input)) of
            Some c \<Rightarrow> Some c | None \<Rightarrow> slack_channel source);
          text = formatMessage (dq_body input) (dq_execution input) 38000 False
      in if \<not> truthy channel then throw (Known_Not_Delivered ''Slack destination lacks a channel'' False)
         else case (spread (de_credentialOwnerId (dq_execution input)),
             dl_integrations (dq_subject input), sn_poster sn) of
           (Some owner, Some integrations, Some post) \<Rightarrow>
             bind_io (post \<lparr>sp_ownerId = owner, sp_request = integrations, sp_channel = the channel,
               sp_text = text, sp_threadTs = slack_thread source\<rparr>) (\<lambda>v. ret (slackReceipt v))
         | _ \<Rightarrow> slack_send dp sn input (the channel) text)"

definition numeric_id :: "web_platform \<Rightarrow> fields \<Rightarrow> string" where
  "numeric_id wp fs = (case get_prop fs ''id'' of JNum n \<Rightarrow> num_to_string wp n | _ \<Rightarrow> ''accepted'')"

definition comment_body :: "delivery_request \<Rightarrow> jsval" where
  "comment_body input =
     JObj [(''body'', JStr (formatMessage (dq_body input) (dq_execution input) 60000 True))]"

definition github_send ::
  "delivery_platform \<Rightarrow> 'w sender \<Rightarrow> delivery_request \<Rightarrow> string \<Rightarrow> int
     \<Rightarrow> ('w, delivery_error, string) io" where
  "github_send dp sn input repository issue =
     bind_io (lift_io (credential dp (dp_githubToken dp) ''GITHUB_NOTIFY_TOKEN_SECRET_ARN''
       [''token'', ''access_token''])) (\<lambda>token.
     bind_io (lift_io (validatedBaseUrl (dp_web dp) (dp_githubBase dp))) (\<lambda>base.
     bind_io (sn_fetch sn
       \<lparr>hq_url = base @ ''/repos/'' @ repository @ ''/issues/'' @ show_int issue @ ''/comments'',
        hq_headers = [(''accept'', ''application/vnd.github+json''),
          (''authorization'', ''Bearer '' @ token), (''content-type'', ''application/json''),
          (''user-agent'', ''rat-things''), (''x-github-api-version'', ''2022-11-28'')],
        hq_body = comment_body input\<rparr>) (\<lambda>r.
     lift_io (bindE (checkedJson r ''GitHub'') (\<lambda>fs. Inr (numeric_id (dp_web dp) fs))))))"

definition github_deliver ::
  "delivery_platform \<Rightarrow> 'w sender \<Rightarrow> delivery_request \<Rightarrow> ('w, delivery_error, string) io" where
  "github_deliver dp sn input = (case dl_source (dq_subject input) of
       Some (Source_Github delivery event repository (Some issue) installation) \<Rightarrow>
         if issue = 0 then throw (Known_Not_Delivered ''GitHub destination lacks issue number'' False)
         else github_send dp sn input repository issue
     | _ \<Rightarrow> throw (Known_Not_Delivered ''GitHub destination lacks issue number'' False))"

definition gitlab_send ::
  "delivery_platform \<Rightarrow> 'w sender \<Rightarrow> delivery_request \<Rightarrow> string \<Rightarrow> int
     \<Rightarrow> ('w, delivery_error, string) io" where
  "gitlab_send dp sn input project iid =
     bind_io (lift_io (credential dp (dp_gitlabToken dp) ''GITLAB_NOTIFY_TOKEN_SECRET_ARN''
       [''token'', ''access_token''])) (\<lambda>token.
     bind_io (lift_io (validatedBaseUrl (dp_web dp) (dp_gitlabBase dp))) (\<lambda>base.
     bind_io (sn_fetch sn
       \<lparr>hq_url = base @ ''/projects/'' @ encodeURIComponent project @ ''/merge_requests/'' @
          show_int iid @ ''/notes'',
        hq_headers = [(''content-type'', ''application/json''), (''private-token'', token)],
        hq_body = comment_body input\<rparr>) (\<lambda>r.
     lift_io (bindE (checkedJson r ''GitLab'') (\<lambda>fs. Inr (numeric_id (dp_web dp) fs))))))"

definition gitlab_deliver ::
  "delivery_platform \<Rightarrow> 'w sender \<Rightarrow> delivery_request \<Rightarrow> ('w, delivery_error, string) io" where
  "gitlab_deliver dp sn input = (case dl_source (dq_subject input) of
       Some (Source_Gitlab event project (Some iid)) \<Rightarrow>
         if iid = 0 then throw (Known_Not_Delivered ''GitLab destination lacks merge request IID'' False)
         else gitlab_send dp sn input project iid
     | _ \<Rightarrow> throw (Known_Not_Delivered ''GitLab destination lacks merge request IID'' False))"

definition teams_receipt :: "string \<Rightarrow> http_response \<Rightarrow> delivery_error + string" where
  "teams_receipt provider r =
     bindE (checkedResponse r provider) (\<lambda>_. Inr (title_or (hr_requestId r) ''accepted''))"

definition adaptive_card :: "delivery_request \<Rightarrow> jsval" where
  "adaptive_card input = (let execution = dq_execution input in
     JObj [(''type'', JStr ''message''), (''attachments'', JArr [JObj
       [(''contentType'', JStr ''application/vnd.microsoft.card.adaptive''), (''contentUrl'', JNull),
        (''content'', JObj [(''type'', JStr ''AdaptiveCard''), (''version'', JStr ''1.5''),
          (''body'', JArr [
            JObj [(''type'', JStr ''TextBlock''), (''weight'', JStr ''Bolder''),
              (''text'', JStr (de_label execution @ '' '' @ de_status execution)), (''wrap'', JBool True)],
            JObj [(''type'', JStr ''TextBlock''), (''text'', JStr (take 20000 (dq_body input))),
              (''wrap'', JBool True)],
            JObj [(''type'', JStr ''FactSet''), (''facts'', JArr [JObj
              [(''title'', JStr (de_label execution)), (''value'', JStr (de_id execution))]])]])])]])])"

definition text_or_undefined :: "string option \<Rightarrow> jsval" where
  "text_or_undefined x = (case x of None \<Rightarrow> JUndef | Some s \<Rightarrow> JStr s)"

definition defined_fields :: "fields \<Rightarrow> fields" where
  "defined_fields fs = filter (\<lambda>(k, v). v \<noteq> JUndef) fs"

fun teams_reply_body :: "delivery_request \<Rightarrow> run_source \<Rightarrow> jsval" where
  "teams_reply_body input (Source_Teams tenant team channel conversation activity sender) =
     (let execution = dq_execution input in JObj
       [(''version'', JStr ''1''), (''operation'', JStr ''reply-to-activity''),
        (''conversationId'', JStr conversation), (''replyToActivityId'', JStr activity),
        (''activity'', JObj [(''type'', JStr ''message''),
          (''text'', JStr (formatMessage (dq_body input) execution 20000 False)),
          (''conversation'', JObj [(''id'', JStr conversation)]), (''replyToId'', JStr activity)]),
        (''source'', JObj (defined_fields [(''tenantId'', text_or_undefined tenant),
          (''teamId'', text_or_undefined team), (''channelId'', text_or_undefined channel),
          (''senderId'', text_or_undefined sender)])),
        (''execution'', JObj (defined_fields [(''id'', JStr (de_id execution)),
          (''status'', JStr (de_status execution)),
          (''sessionId'', text_or_undefined (de_sessionId execution)),
          (''type'', JStr (js_lower (de_label execution)))]))])"
| "teams_reply_body input _ = JNull"

definition teams_threaded ::
  "delivery_platform \<Rightarrow> 'w sender \<Rightarrow> delivery_request \<Rightarrow> ('w, delivery_error, string) io" where
  "teams_threaded dp sn input = (case dc_source (dq_context input) of
       Some (Source_Teams tenant team channel conversation activity sender) \<Rightarrow>
         if truthy (dst_route (dc_destination (dq_context input)))
         then throw (Known_Not_Delivered ''Teams threaded delivery does not accept named Workflow routes'' False)
         else bind_io (lift_io (credential dp (dp_teamsGateway dp) ''TEAMS_REPLY_GATEWAY_URL_SECRET_ARN''
             [''url'', ''webhook_url''])) (\<lambda>url.
           bind_io (sn_fetch sn \<lparr>hq_url = url,
             hq_headers = [(''content-type'', ''application/json''),
               (''idempotency-key'', de_id (dq_execution input))],
             hq_body = teams_reply_body input
               (Source_Teams tenant team channel conversation activity sender)\<rparr>) (\<lambda>r.
           lift_io (teams_receipt ''Teams reply gateway'' r)))
     | _ \<Rightarrow> throw (Known_Not_Delivered
         ''Teams threaded delivery requires a Teams source conversation'' False))"

definition teams_deliver ::
  "delivery_platform \<Rightarrow> 'w sender \<Rightarrow> delivery_request \<Rightarrow> ('w, delivery_error, string) io" where
  "teams_deliver dp sn input = (if dp_teamsThreaded dp then teams_threaded dp sn input
     else let route = spread (dst_route (dc_destination (dq_context input)));
              routed = (case route of None \<Rightarrow> None | Some r \<Rightarrow> map_of (dp_teamsRoutes dp) r)
       in if route \<noteq> None \<and> \<not> truthy routed
          then throw (Known_Not_Delivered (''unknown Teams destination route '' @ the route) False)
          else bind_io (lift_io (credential dp (if routed = None then dp_teamsWorkflow dp else routed)
              ''TEAMS_WORKFLOW_URL_SECRET_ARN'' [''url'', ''webhook_url''])) (\<lambda>url.
            bind_io (sn_fetch sn \<lparr>hq_url = url, hq_headers = [(''content-type'', ''application/json'')],
              hq_body = adaptive_card input\<rparr>) (\<lambda>r. lift_io (teams_receipt ''Teams'' r))))"

section \<open>The service\<close>

text \<open>\<open>deliveryFor\<close>: the enabled adapters; there is none for the API itself.\<close>

definition adapter_for ::
  "source_kind list \<Rightarrow> delivery_platform \<Rightarrow> 'w sender \<Rightarrow> delivery_request
     \<Rightarrow> ('w, delivery_error, string) io" where
  "adapter_for enabled dp sn input = (let provider = dc_provider (dq_context input) in
     if provider \<notin> set enabled \<or> provider = Api
     then throw (Delivery_Failure (Plain_Error (''delivery plugin '' @ provider_text provider @ '' is not enabled'')))
     else case provider of
         Slack \<Rightarrow> slack_deliver dp sn input
       | Github \<Rightarrow> github_deliver dp sn input
       | Gitlab \<Rightarrow> gitlab_deliver dp sn input
       | Teams \<Rightarrow> teams_deliver dp sn input)"

text \<open>One destination whose claim was won; \<open>pending\<close> is the first retryable failure so far.\<close>

definition send_claimed ::
  "delivery_platform \<Rightarrow> (delivery_request \<Rightarrow> ('x delivery_world_scheme, delivery_error, string) io)
     \<Rightarrow> delivery_request \<Rightarrow> string \<Rightarrow> ('x delivery_world_scheme, delivery_error, delivery_error option) io"
where
  "send_claimed dp adapter input destination =
     (let p = dp_platform dp; runId = de_id (dq_execution input) in
      try_io (bind_io (adapter input) (\<lambda>receipt. delivered p runId destination receipt))
        (\<lambda>_. ret None)
        (\<lambda>e. case e of
            Known_Not_Delivered m True \<Rightarrow>
              bind_io (release p runId destination) (\<lambda>_. ret (Some (Known_Not_Delivered m True)))
          | _ \<Rightarrow> bind_io (failed p (dp_web dp) runId destination e) (\<lambda>_. ret None)))"

definition first_failure :: "delivery_error option \<Rightarrow> delivery_error option \<Rightarrow> delivery_error option" where
  "first_failure old new = (case old of Some e \<Rightarrow> Some e | None \<Rightarrow> new)"

fun deliver_each ::
  "delivery_platform \<Rightarrow> (string \<Rightarrow> delivery_request \<Rightarrow> ('x delivery_world_scheme, delivery_error, string) io)
     \<Rightarrow> delivery_subject \<Rightarrow> delivery_execution \<Rightarrow> string \<Rightarrow> delivery_error option
     \<Rightarrow> destination_context list \<Rightarrow> ('x delivery_world_scheme, delivery_error, unit) io" where
  "deliver_each dp adapter request execution body pending [] =
     (case pending of None \<Rightarrow> ret () | Some e \<Rightarrow> throw e)"
| "deliver_each dp adapter request execution body pending (c # cs) =
     (let destination = destinationKey (dp_web dp) c;
          key = deliveryKey (dp_platform dp) (de_id execution) destination;
          input = \<lparr>dq_context = c, dq_subject = request, dq_execution = execution, dq_body = body\<rparr>
      in bind_io (claim (dp_platform dp) (dp_leaseSeconds dp) execution destination) (\<lambda>won.
         if \<not> won then deliver_each dp adapter request execution body pending cs
         else bind_io (send_claimed dp (adapter key) input destination) (\<lambda>new.
           deliver_each dp adapter request execution body (first_failure pending new) cs)))"

definition deliver ::
  "delivery_platform \<Rightarrow> (string \<Rightarrow> delivery_request \<Rightarrow> ('x delivery_world_scheme, delivery_error, string) io)
     \<Rightarrow> run_destination list \<Rightarrow> delivery_subject \<Rightarrow> string \<Rightarrow> delivery_execution
     \<Rightarrow> ('x delivery_world_scheme, delivery_error, unit) io" where
  "deliver dp adapter defaults request body execution =
     deliver_each dp adapter request execution body None (resolveDestinations request defaults)"

definition message_body :: "run_record \<Rightarrow> string option \<Rightarrow> string" where
  "message_body run output = (case rr_result run of
       Some r \<Rightarrow> if rr_status run = Succeeded then title_or output (res_preview r)
         else if rr_status run = Cancelled then ''Agent run '' @ rr_runId run @ '' was cancelled.''
         else ''Agent run '' @ rr_runId run @ '' failed: '' @
           (case rr_error run of None \<Rightarrow> ''unknown error'' | Some e \<Rightarrow> err_message e)
     | None \<Rightarrow> if rr_status run = Cancelled then ''Agent run '' @ rr_runId run @ '' was cancelled.''
         else ''Agent run '' @ rr_runId run @ '' failed: '' @
           (case rr_error run of None \<Rightarrow> ''unknown error'' | Some e \<Rightarrow> err_message e))"

record 'w result_ports =
  rp_getRun :: "string \<Rightarrow> ('w, delivery_error, run_record option) io"
  rp_getRequest :: "artifact_ref \<Rightarrow> ('w, delivery_error, delivery_subject) io"
  rp_readResult :: "run_record \<Rightarrow> ('w, delivery_error, string option) io"

definition run_execution :: "run_record \<Rightarrow> delivery_execution" where
  "run_execution run = \<lparr>de_id = rr_runId run, de_status = status_text (rr_status run), de_label = ''Run'',
     de_sessionId = None, de_credentialOwnerId = spread (rr_capabilityOwnerId run),
     de_expiresAt = Some (rr_expiresAt run)\<rparr>"

definition handle_event ::
  "delivery_platform \<Rightarrow> (string \<Rightarrow> delivery_request \<Rightarrow> ('x delivery_world_scheme, delivery_error, string) io)
     \<Rightarrow> 'x delivery_world_scheme result_ports \<Rightarrow> run_destination list \<Rightarrow> string \<Rightarrow> run_status
     \<Rightarrow> ('x delivery_world_scheme, delivery_error, unit) io" where
  "handle_event dp adapter ports defaults runId status =
     (if status \<notin> {Succeeded, Failed, Cancelled} then ret ()
      else bind_io (rp_getRun ports runId) (\<lambda>found. case found of
          None \<Rightarrow> throw (Delivery_Failure (Plain_Error (''run '' @ runId @ '' not found'')))
        | Some run \<Rightarrow> if rr_agentsSession run \<noteq> None then ret ()
            else bind_io (rp_getRequest ports (rr_input run)) (\<lambda>request.
              bind_io (if rr_status run = Succeeded \<and> rr_result run \<noteq> None
                then rp_readResult ports run else ret None) (\<lambda>output.
              deliver dp adapter defaults request (message_body run output) (run_execution run)))))"

end
