(* ===== verification/Delivery_Props.thy ===== *)
theory Delivery_Props
  imports Deliveries
begin

text \<open>
  A result is sent at most once to each destination: whatever other deliverers, the network, the
  fence table and the providers do, and wherever a deliverer stops.
\<close>

section \<open>The invariant of the fence\<close>

text \<open>
  Nothing was sent, and nobody is about to send, for a key without an item; and whoever is about
  to send for a key is the first to do so.
\<close>

definition fence_inv :: "fence_state \<Rightarrow> bool" where
  "fence_inv s \<longleftrightarrow> (\<forall>k. posted s k \<le> 1 \<and> (k \<in> tokens s \<longrightarrow> posted s k = 0) \<and>
     (fence s k = None \<longrightarrow> posted s k = 0 \<and> k \<notin> tokens s))"

text \<open>A key with an item for which no other client is about to send.\<close>

definition parked :: "string \<Rightarrow> nat \<Rightarrow> fence_state \<Rightarrow> bool" where
  "parked k n s \<longleftrightarrow> fence s k \<noteq> None \<and> k \<notin> tokens s \<and> posted s k = n"

text \<open>
  What another deliverer does to the table and to the providers: it claims a free key, sends for
  a key it claimed, gives it back unsent, crashes, or settles an item (its own, or one whose
  lease is over). Items do not expire while their key is in use.
\<close>

inductive other_step :: "fence_state \<Rightarrow> fence_state \<Rightarrow> bool" where
  claims: "fence s k = None \<Longrightarrow> fi_status i = Sending \<Longrightarrow>
    other_step s (s\<lparr>fence := (fence s)(k := Some i), tokens := insert k (tokens s)\<rparr>)"
| sends: "k \<in> tokens s \<Longrightarrow>
    other_step s (s\<lparr>posted := (posted s)(k := Suc (posted s k)), tokens := tokens s - {k}\<rparr>)"
| releases: "k \<in> tokens s \<Longrightarrow>
    other_step s (s\<lparr>fence := (fence s)(k := None), tokens := tokens s - {k}\<rparr>)"
| crashes: "other_step s (s\<lparr>tokens := tokens s - {k}\<rparr>)"
| settles: "fi_status i \<noteq> Sending \<Longrightarrow> other_step s (s\<lparr>fence := (fence s)(k := Some i)\<rparr>)"

definition lawful_deliverer :: "(fence_state \<Rightarrow> fence_state) \<Rightarrow> bool" where
  "lawful_deliverer f \<longleftrightarrow> (\<forall>s. other_step\<^sup>*\<^sup>* s (f s))"

lemma other_step_inv: "other_step s t \<Longrightarrow> fence_inv s \<Longrightarrow> fence_inv t"
  by (induction rule: other_step.induct) (auto simp: fence_inv_def)

lemma other_step_parked: "other_step s t \<Longrightarrow> parked k n s \<Longrightarrow> parked k n t"
  by (induction rule: other_step.induct) (auto simp: parked_def)

lemma other_steps_keep:
  assumes "other_step\<^sup>*\<^sup>* s t"
  shows "fence_inv s \<Longrightarrow> fence_inv t" and "parked k n s \<Longrightarrow> parked k n t"
  using assms by (induction rule: rtranclp_induct) (blast intro: other_step_inv other_step_parked)+

lemma lawful_keeps:
  assumes "lawful_deliverer f"
  shows "fence_inv s \<Longrightarrow> fence_inv (f s)" and "parked k n s \<Longrightarrow> parked k n (f s)"
  using assms unfolding lawful_deliverer_def by (blast intro: other_steps_keep)+

text \<open>A provider that answers with a client error did not take the message.\<close>

definition lawful_provider :: "provider_turn \<Rightarrow> bool" where
  "lawful_provider t \<longleftrightarrow> (pr_accepted t \<longrightarrow> (case pr_reply t of
       Inl e \<Rightarrow> True | Inr r \<Rightarrow> response_ok r \<or> hr_status r \<ge> 500))"

definition delivering :: "'x delivery_world_scheme \<Rightarrow> bool" where
  "delivering w \<longleftrightarrow> fence_inv (state w) \<and> (\<forall>t \<in> set (fence_script w). lawful_deliverer (ft_others t)) \<and>
     (\<forall>t \<in> set (provider_script w). lawful_provider t)"

text \<open>The invariant, with one parked key to watch.\<close>

definition watching :: "(string \<times> nat) option \<Rightarrow> 'x delivery_world_scheme \<Rightarrow> bool" where
  "watching x w \<longleftrightarrow> delivering w \<and> (\<forall>k n. x = Some (k, n) \<longrightarrow> parked k n (state w))"

lemma turn_watching:
  assumes "fence_turn_of w = (fault, w1)" and "delivering w"
  shows "delivering w1" and "parked k n (state w) \<Longrightarrow> parked k n (state w1)"
proof -
  have "delivering w1 \<and> (parked k n (state w) \<longrightarrow> parked k n (state w1))"
  proof (cases "fence_script w")
    case (Cons t ts)
    then have w1: "w1 = w\<lparr>state := ft_others t (state w), fence_script := ts, clock := ft_now t\<rparr>"
      using assms(1) by (simp add: fence_turn_of_def)
    have "lawful_deliverer (ft_others t)" using assms(2) Cons by (simp add: delivering_def)
    then have "fence_inv (state w) \<Longrightarrow> fence_inv (ft_others t (state w))"
      "parked k n (state w) \<Longrightarrow> parked k n (ft_others t (state w))"
      by (auto intro: lawful_keeps)
    then show ?thesis using assms(2) Cons by (simp add: w1 delivering_def)
  qed (use assms in \<open>simp add: fence_turn_of_def\<close>)
  then show "delivering w1" and "parked k n (state w) \<Longrightarrow> parked k n (state w1)" by simp_all
qed

lemma turn_watches:
  "fence_turn_of w = (fault, w1) \<Longrightarrow> watching x w \<Longrightarrow> watching x w1"
  by (auto simp: watching_def dest: turn_watching)

lemma delivering_state:
  "delivering w \<Longrightarrow> fence_inv s \<Longrightarrow> delivering (w\<lparr>state := s\<rparr>)"
  by (simp add: delivering_def)

text \<open>A write that leaves an item keeps everything.\<close>

definition keeps_item :: "(fence_item option \<Rightarrow> fence_item option) \<Rightarrow> bool" where
  "keeps_item f \<longleftrightarrow> (\<forall>x. f x \<noteq> None)"

lemma keeps_itemD: "keeps_item f \<Longrightarrow> f x = None \<longleftrightarrow> False"
  by (simp add: keeps_item_def)

lemma keeps_itemS: "keeps_item f \<Longrightarrow> \<exists>y. f x = Some y"
  by (simp add: keeps_item_def)

lemma write_item_inv:
  assumes "write_item key cond f s = (s', r)" and "keeps_item f" and "fence_inv s"
  shows "fence_inv s'" and "parked k n s \<Longrightarrow> parked k n s'"
  using assms(1,3)
  by (auto simp: keeps_itemD [OF assms(2)] keeps_itemS [OF assms(2)] write_item_def fence_inv_def parked_def
      split: if_splits)

lemma fence_write_cases:
  assumes "fence_write key cond f w = (w', r)"
  obtains fault w1 s1 r1 s2 r2 where "fence_turn_of w = (fault, w1)"
    and "write_item key cond f (state w1) = (s1, r1)" and "write_item key cond f s1 = (s2, r2)"
    and "w' = w1\<lparr>state := s1\<rparr> \<and> (r = r1 \<or> (\<exists>e. r = Inl e)) \<or> w' = w1 \<and> (\<exists>e. r = Inl e) \<or>
      w' = w1\<lparr>state := s2\<rparr> \<and> r = r2"
  using assms
  by (auto simp: fence_write_def Let_def split: prod.splits fence_fault.splits)

lemma fence_write_watching:
  assumes "fence_write key cond f w = (w', r)" and "keeps_item f" and "watching x w"
  shows "watching x w'"
proof -
  obtain fault w1 s1 r1 s2 r2 where turn: "fence_turn_of w = (fault, w1)"
    and s1: "write_item key cond f (state w1) = (s1, r1)" and s2: "write_item key cond f s1 = (s2, r2)"
    and w': "w' = w1\<lparr>state := s1\<rparr> \<or> w' = w1 \<or> w' = w1\<lparr>state := s2\<rparr>"
    using fence_write_cases [OF assms(1)] by metis
  have w1: "watching x w1" by (rule turn_watches [OF turn assms(3)])
  then have "fence_inv (state w1)" by (simp add: watching_def delivering_def)
  note 1 = write_item_inv [OF s1 assms(2) this]
  note 2 = write_item_inv [OF s2 assms(2) 1(1)]
  from w1 w' 1 2 show ?thesis by (auto simp: watching_def delivering_state)
qed

lemma ensures_write:
  "keeps_item f \<Longrightarrow> ensures (watching x) (fence_write key cond f) (\<lambda>_. watching x) (watching x)"
  by (intro ensuresI) (blast intro: fence_write_watching)+

lemma ensures_read: "ensures (watching x) (fence_read key) (\<lambda>_. watching x) (watching x)"
  by (auto simp: ensures_def fence_read_def Let_def dest: turn_watches split: prod.splits fence_fault.splits)

lemma ensures_delivery: "ensures P m Q E \<Longrightarrow> ensures P (delivery_io m) Q E"
  unfolding delivery_io_def by (rule ensures_try) (auto intro!: ensures_ret ensures_throw)

lemma ensures_clock: "(\<And>t. ensures P (f t) Q E) \<Longrightarrow> ensures P (with_clock f) Q E"
  by (simp add: ensures_def with_clock_def)

section \<open>Claiming\<close>

text \<open>A claim that is won: the key had no item before, so it is not the watched one.\<close>

definition won_claim :: "(string \<times> nat) option \<Rightarrow> string \<Rightarrow> 'x delivery_world_scheme \<Rightarrow> bool" where
  "won_claim x k w \<longleftrightarrow> watching x w \<and> parked k 0 (state w) \<and> (\<forall>n. x \<noteq> Some (k, n))"

lemma claim_write:
  assumes "fence_write key (\<lambda>x. x = None) f w = (w', Inr u)" and "keeps_item f" and "watching x w"
  shows "won_claim x key w'"
proof -
  obtain fault w1 s1 r1 s2 r2 where turn: "fence_turn_of w = (fault, w1)"
    and s1: "write_item key (\<lambda>x. x = None) f (state w1) = (s1, r1)"
    and s2: "write_item key (\<lambda>x. x = None) f s1 = (s2, r2)"
    and w': "w' = w1\<lparr>state := s1\<rparr> \<and> Inr u = r1 \<or> w' = w1\<lparr>state := s2\<rparr> \<and> Inr u = r2"
    by (rule fence_write_cases [OF assms(1)]) blast
  have w1: "watching x w1" by (rule turn_watches [OF turn assms(3)])
  have "r2 = Inl conditional_failure"
    using s1 s2 by (auto simp: keeps_itemD [OF assms(2)] write_item_def split: if_splits)
  with w' have w': "w' = w1\<lparr>state := s1\<rparr>" and r1: "r1 = Inr u" by auto
  have none: "fence (state w1) key = None" and s1': "s1 = (state w1)\<lparr>fence := (fence (state w1))(key := f None)\<rparr>"
    using s1 r1 by (auto simp: write_item_def split: if_splits)
  have "parked key 0 s1"
    using w1 none
    by (auto simp: keeps_itemD [OF assms(2)] s1' parked_def watching_def delivering_def fence_inv_def)
  moreover have "x \<noteq> Some (key, n)" for n
    using w1 none by (auto simp: watching_def parked_def)
  ultimately show ?thesis
    using fence_write_watching [OF assms] by (simp add: won_claim_def w')
qed

lemma won_watching: "won_claim x k w \<Longrightarrow> watching x w"
  by (simp add: won_claim_def)

lemma expire_claim_watches:
  "ensures (watching x) (expire_claim p key destination millis) (\<lambda>won w. watching x w \<and> \<not> won) (watching x)"
  unfolding expire_claim_def
  by (rule ensures_try [OF ensures_write]) (auto simp: keeps_item_def intro!: ensures_ret ensures_throw)

lemma existing_claim_watches:
  "ensures (watching x) (existing_claim p key destination millis item)
    (\<lambda>won w. watching x w \<and> \<not> won) (watching x)"
  unfolding existing_claim_def
  by (intro ensures_if expire_claim_watches) (auto intro!: ensures_ret ensures_throw)

lemma claim_again_watches:
  "ensures (watching x) (claim_again p leaseSeconds n execution destination)
    (\<lambda>won w. watching x w \<and> (won \<longrightarrow> won_claim x (deliveryKey p (de_id execution) destination) w))
    (watching x)"
proof (induction n)
  case (Suc n)
  let ?key = "deliveryKey p (de_id execution) destination"
  let ?won = "\<lambda>won w. watching x w \<and> (won \<longrightarrow> won_claim x ?key w)"
  have put: "ensures (watching x) (fence_write ?key (\<lambda>x. x = None)
      (\<lambda>x. Some (new_claim p leaseSeconds execution millis))) (\<lambda>_. won_claim x ?key) (watching x)" for millis
    by (intro ensuresI)
      (auto intro: claim_write fence_write_watching simp: keeps_item_def)
  have busy: "ensures (watching x) (existing_claim p ?key destination millis item) ?won (watching x)"
    for millis item
    by (rule ensures_strengthen [OF existing_claim_watches]) auto
  show ?case
    unfolding claim_again.simps Let_def
    by (intro ensures_clock ensures_try [OF put] ensures_if ensures_throw
        ensures_bind [OF ensures_delivery [OF ensures_read]] ensures_option Suc.IH busy)
      (auto intro: ensures_ret won_watching)
qed (auto intro: ensures_throw)

lemma claim_watches:
  "ensures (watching x) (claim p leaseSeconds execution destination)
    (\<lambda>won w. watching x w \<and> (won \<longrightarrow> won_claim x (deliveryKey p (de_id execution) destination) w))
    (watching x)"
  unfolding claim_def
  by (intro ensuresI) (blast dest: ensures_Inr [OF claim_again_watches] ensures_Inl [OF claim_again_watches])+

section \<open>Sending\<close>

lemma update_watches:
  "ensures (watching x) (update_fence p runId destination status extra) (\<lambda>_. watching x) (watching x)"
  unfolding update_fence_def
  by (intro ensures_clock ensures_delivery ensures_write) (simp add: keeps_item_def)

lemma update_error:
  "update_fence p runId destination status extra w = (w', Inl e) \<Longrightarrow> \<exists>f. e = Delivery_Failure f"
  by (auto simp: update_fence_def with_clock_def delivery_io_def try_io_def ret_def throw_def
      split: prod.splits sum.splits)

text \<open>A claim may be taken back when nothing was sent.\<close>

lemma release_item_inv:
  assumes "write_item key is_sending (\<lambda>x. None) s = (s', r)" and "fence_inv s"
    and "posted s key = 0" and "key \<notin> tokens s"
  shows "fence_inv s'" and "k \<noteq> key \<Longrightarrow> parked k n s \<Longrightarrow> parked k n s'"
    and "posted s' key = 0" and "key \<notin> tokens s'"
  using assms by (auto simp: write_item_def fence_inv_def parked_def split: if_splits)

lemma release_write:
  assumes "fence_write key is_sending (\<lambda>x. None) w = (w', r)" and "won_claim x key w"
  shows "watching x w'"
proof -
  obtain fault w1 s1 r1 s2 r2 where turn: "fence_turn_of w = (fault, w1)"
    and s1: "write_item key is_sending (\<lambda>x. None) (state w1) = (s1, r1)"
    and s2: "write_item key is_sending (\<lambda>x. None) s1 = (s2, r2)"
    and w': "w' = w1\<lparr>state := s1\<rparr> \<or> w' = w1 \<or> w' = w1\<lparr>state := s2\<rparr>"
    using fence_write_cases [OF assms(1)] by metis
  have w: "delivering w" "parked key 0 (state w)" "watching x w" "\<forall>n. x \<noteq> Some (key, n)"
    using assms(2) by (simp_all add: won_claim_def watching_def)
  have w1: "watching x w1" "parked key 0 (state w1)"
    using turn_watches [OF turn w(3)] turn_watching(2) [OF turn w(1) w(2)] by simp_all
  then have start: "fence_inv (state w1)" "posted (state w1) key = 0" "key \<notin> tokens (state w1)"
    by (simp_all add: watching_def delivering_def parked_def)
  note 1 = release_item_inv [OF s1 start]
  note 2 = release_item_inv [OF s2 1(1) 1(3) 1(4)]
  from w1(1) w' w(4) 1(1,2) 2(1,2) show ?thesis
    by (auto simp: watching_def delivering_state)
qed

lemma release_watches:
  "ensures (won_claim x (deliveryKey p runId destination)) (release p runId destination)
    (\<lambda>_. watching x) (watching x)"
  unfolding release_def
  by (intro ensures_delivery ensuresI) (blast intro: release_write)+

text \<open>
  An adapter is honest about a key: it sends at most one message and only for this key, and a
  retryable failure it reports means that the provider took none.
\<close>

definition honest ::
  "string \<Rightarrow> ('x delivery_world_scheme, delivery_error, string) io \<Rightarrow> bool" where
  "honest k m \<longleftrightarrow> (\<forall>x w w' r. won_claim x k w \<longrightarrow> m w = (w', r) \<longrightarrow>
     watching x w' \<and> (\<forall>message. r = Inl (Known_Not_Delivered message True) \<longrightarrow> won_claim x k w'))"

lemma send_claimed_watches:
  fixes dp :: delivery_platform
    and adapter :: "delivery_request \<Rightarrow> ('x delivery_world_scheme, delivery_error, string) io"
  assumes "honest k (adapter input)"
    and k: "k = deliveryKey (dp_platform dp) (de_id (dq_execution input)) destination"
  shows "ensures (won_claim x k) (send_claimed dp adapter input destination) (\<lambda>_. watching x) (watching x)"
proof -
  let ?p = "dp_platform dp" and ?run = "de_id (dq_execution input)"
  let ?send = "bind_io (adapter input) (\<lambda>receipt. delivered ?p ?run destination receipt)"
  have sent: "watching x w' \<and> (\<forall>message. r = Inl (Known_Not_Delivered message True) \<longrightarrow> won_claim x k w')"
    if w: "won_claim x k w" and run: "?send w = (w', r)" for w w' :: "'x delivery_world_scheme" and r
  proof -
    obtain w1 r1 where adapter: "adapter input w = (w1, r1)" by (cases "adapter input w")
    from assms(1) w adapter have 1: "watching x w1"
      "\<And>message. r1 = Inl (Known_Not_Delivered message True) \<Longrightarrow> won_claim x k w1"
      unfolding honest_def by blast+
    show ?thesis
    proof (cases r1)
      case (Inl e)
      with run adapter 1 show ?thesis by (auto simp: bind_io_def)
    next
      case (Inr receipt)
      with run adapter have "delivered ?p ?run destination receipt w1 = (w', r)"
        by (simp add: bind_io_def)
      with 1(1) update_watches [of x ?p ?run destination Delivered] show ?thesis
        unfolding delivered_def
        by (cases r) (auto dest: ensures_Inr ensures_Inl update_error)
    qed
  qed
  have settle: "ensures (watching x :: 'x delivery_world_scheme \<Rightarrow> bool) (bind_io (failed ?p (dp_web dp) ?run destination e) (\<lambda>_. ret None))
      (\<lambda>_. watching x) (watching x)" for e
    unfolding failed_def by (rule ensures_bind [OF update_watches]) (auto intro: ensures_ret)
  have undo: "ensures (won_claim x k :: 'x delivery_world_scheme \<Rightarrow> bool) (bind_io (release ?p ?run destination) (\<lambda>_. ret y))
      (\<lambda>_. watching x) (watching x)" for y :: "delivery_error option"
    unfolding k by (rule ensures_bind [OF release_watches]) (auto intro: ensures_ret)
  show ?thesis
    unfolding ensures_def
  proof (intro allI impI)
    fix w :: "'x delivery_world_scheme" assume w: "won_claim x k w"
    obtain w1 r1 where run: "?send w = (w1, r1)" by (cases "?send w")
    note s = sent [OF w run]
    show "case send_claimed dp adapter input destination w of
        (w', Inl e) \<Rightarrow> watching x w' | (w', Inr a) \<Rightarrow> watching x w'"
    proof (cases r1)
      case (Inr u)
      with run s show ?thesis by (simp add: send_claimed_def Let_def try_io_def ret_def)
    next
      case (Inl e)
      show ?thesis
      proof (cases "\<exists>message. e = Known_Not_Delivered message True")
        case True
        with s Inl undo [of "Some e"] run show ?thesis
          by (auto simp: send_claimed_def Let_def try_io_def ensures_def)
      next
        case False
        with s Inl settle [of e] run show ?thesis
          by (cases e) (auto simp: send_claimed_def Let_def try_io_def ensures_def split_beta split: bool.splits
            dest!: spec [of _ w1])
      qed
    qed
  qed
qed

lemma deliver_each_watches:
  assumes "\<And>k input. honest k (adapter k input)"
  shows "ensures (watching x) (deliver_each dp adapter request execution body pending cs)
    (\<lambda>_. watching x) (watching x)"
proof (induction cs arbitrary: pending)
  case Nil
  then show ?case by (auto intro!: ensure_intros)
next
  case (Cons c cs)
  have sent: "ensures (won_claim x (deliveryKey (dp_platform dp) (de_id (dq_execution input)) destination))
      (bind_io (send_claimed dp (adapter k) input destination)
        (\<lambda>new. deliver_each dp adapter request execution body (first_failure pending new) cs))
      (\<lambda>_. watching x) (watching x)"
    if "k = deliveryKey (dp_platform dp) (de_id (dq_execution input)) destination" for k input destination
    using ensures_bind [OF send_claimed_watches [OF assms that] Cons.IH] by (simp add: that)
  show ?case
    unfolding deliver_each.simps Let_def
    by (intro ensures_bind [OF claim_watches] ensures_if
        ensures_strengthen [OF sent] ensures_strengthen [OF Cons.IH]) auto
qed

section \<open>Honest adapters\<close>

named_theorems honest_intros

lemma honest_throw [honest_intros]: "honest k (throw e)"
  by (simp add: honest_def throw_def won_watching)

lemma honest_lift [honest_intros]:
  "(\<And>a. r = Inr a \<Longrightarrow> honest k (f a)) \<Longrightarrow> honest k (bind_io (lift_io r) f)"
  by (cases r) (auto simp: honest_def bind_io_def lift_io_def won_watching)

lemma honest_if [honest_intros]:
  "(b \<Longrightarrow> honest k m) \<Longrightarrow> (\<not> b \<Longrightarrow> honest k n) \<Longrightarrow> honest k (if b then m else n)"
  by simp

lemma honest_Let [honest_intros]: "honest k (f a) \<Longrightarrow> honest k (let x = a in f x)"
  by simp

text \<open>A reply that makes the adapter report a retryable failure is a client error.\<close>

definition retries_refusals :: "(http_response \<Rightarrow> delivery_error + string) \<Rightarrow> bool" where
  "retries_refusals f \<longleftrightarrow> (\<forall>r message. f r = Inl (Known_Not_Delivered message True) \<longrightarrow>
     \<not> response_ok r \<and> hr_status r < 500)"

lemma checkedResponse_retries:
  "checkedResponse r provider = Inl (Known_Not_Delivered message True) \<Longrightarrow>
    \<not> response_ok r \<and> hr_status r < 500"
  by (auto simp: checkedResponse_def split: if_splits)

lemma checkedJson_retries:
  "checkedJson r provider = Inl (Known_Not_Delivered message True) \<Longrightarrow>
    \<not> response_ok r \<and> hr_status r < 500"
  by (auto simp: checkedJson_def bindE_Inl dest: checkedResponse_retries
      split: option.splits jsval.splits)

lemma retries_teams [honest_intros]: "retries_refusals (teams_receipt provider)"
  unfolding retries_refusals_def teams_receipt_def
  by (auto simp: bindE_Inl dest: checkedResponse_retries)

lemma retries_json [honest_intros]:
  "retries_refusals (\<lambda>r. bindE (checkedJson r provider) (\<lambda>fs. Inr (f fs)))"
  unfolding retries_refusals_def by (auto simp: bindE_Inl dest: checkedJson_retries)

lemma retries_slack [honest_intros]: "retries_refusals (slack_reply wp)"
  unfolding retries_refusals_def slack_reply_def
  by (auto simp: bindE_Inl Let_def dest: checkedJson_retries split: if_splits sum.splits)
    (metis sum.exhaust)+

text \<open>
  A provider reached by HTTP: the next turn of the script says whether it takes the message and
  what the caller sees; without one it takes the message and answers.
\<close>

definition accepted_reply :: http_response where
  "accepted_reply = \<lparr>hr_status = 200,
     hr_json = Some (JObj [(''ok'', JBool True), (''ts'', JStr ''1.0'')]), hr_requestId = None\<rparr>"

definition accept_post :: "string \<Rightarrow> fence_state \<Rightarrow> fence_state" where
  "accept_post k s = s\<lparr>posted := (posted s)(k := Suc (posted s k))\<rparr>"

definition provider_fetch ::
  "string \<Rightarrow> http_request \<Rightarrow> ('x delivery_world_scheme, delivery_error, http_response) io" where
  "provider_fetch k request w = (case provider_script w of
       [] \<Rightarrow> (w\<lparr>state := accept_post k (state w)\<rparr>, Inr accepted_reply)
     | t # ts \<Rightarrow> (w\<lparr>state := (if pr_accepted t then accept_post k (state w) else state w),
           provider_script := ts\<rparr>,
         case pr_reply t of Inl e \<Rightarrow> Inl (Delivery_Failure e) | Inr r \<Rightarrow> Inr r))"

definition http_sender :: "string \<Rightarrow> 'x delivery_world_scheme sender" where
  "http_sender k = \<lparr>sn_fetch = provider_fetch k, sn_poster = None\<rparr>"

lemma accept_post_watching:
  "won_claim x k w \<Longrightarrow> watching x (w\<lparr>state := accept_post k (state w)\<rparr>)"
  by (auto simp: won_claim_def watching_def parked_def delivering_def fence_inv_def accept_post_def)

lemma watching_script:
  "watching x w \<Longrightarrow> provider_script w = t # ts \<Longrightarrow> watching x (w\<lparr>provider_script := ts\<rparr>)"
  by (simp add: watching_def delivering_def)

lemma won_script:
  "won_claim x k w \<Longrightarrow> provider_script w = t # ts \<Longrightarrow> won_claim x k (w\<lparr>provider_script := ts\<rparr>)"
  by (simp add: won_claim_def watching_script)

lemma provider_fetch_honest:
  assumes "won_claim x k w" and "provider_fetch k request w = (w', r)"
  shows "watching x w'" and "won_claim x k w' \<or> (\<exists>e. r = Inl (Delivery_Failure e)) \<or>
    (\<exists>a. r = Inr a \<and> (response_ok a \<or> hr_status a \<ge> 500))"
proof -
  have "watching x w' \<and> (won_claim x k w' \<or> (\<exists>e. r = Inl (Delivery_Failure e)) \<or>
    (\<exists>a. r = Inr a \<and> (response_ok a \<or> hr_status a \<ge> 500)))"
  proof (cases "provider_script w")
    case Nil
    then show ?thesis
      using assms accept_post_watching [OF assms(1)]
      by (auto simp: provider_fetch_def accepted_reply_def response_ok_def)
  next
    case (Cons t ts)
    have "lawful_provider t" using assms(1) Cons by (simp add: won_claim_def watching_def delivering_def)
    moreover have "won_claim x k (w\<lparr>provider_script := ts\<rparr>)" by (rule won_script [OF assms(1) Cons])
    moreover from accept_post_watching [OF this]
    have "watching x (w\<lparr>state := accept_post k (state w), provider_script := ts\<rparr>)"
      by (simp add: watching_def delivering_def)
    ultimately show ?thesis
      using assms(2) Cons
      by (auto simp: provider_fetch_def lawful_provider_def split: if_splits sum.splits dest: won_watching)
  qed
  then show "watching x w'" and "won_claim x k w' \<or> (\<exists>e. r = Inl (Delivery_Failure e)) \<or>
    (\<exists>a. r = Inr a \<and> (response_ok a \<or> hr_status a \<ge> 500))" by simp_all
qed

lemma honest_fetch [honest_intros]:
  assumes "retries_refusals f"
  shows "honest k (bind_io (sn_fetch (http_sender k) request) (\<lambda>r. lift_io (f r)) ::
    ('x delivery_world_scheme, delivery_error, string) io)"
  unfolding honest_def
proof (intro allI impI)
  fix x and w w' :: "'x delivery_world_scheme" and r
  assume won: "won_claim x k w"
    and "bind_io (sn_fetch (http_sender k) request) (\<lambda>r. lift_io (f r)) w = (w', r)"
  moreover obtain w1 r1 where fetch: "provider_fetch k request w = (w1, r1)"
    by (cases "provider_fetch k request w")
  ultimately have "w' = w1" and "r = (case r1 of Inl e \<Rightarrow> Inl e | Inr a \<Rightarrow> f a)"
    by (auto simp: bind_io_def http_sender_def lift_io_def split: sum.splits)
  with provider_fetch_honest [OF won fetch] assms
  show "watching x w' \<and> (\<forall>message. r = Inl (Known_Not_Delivered message True) \<longrightarrow> won_claim x k w')"
    by (fastforce simp: retries_refusals_def split: sum.splits)
qed

lemma honest_slack: "honest k (slack_deliver dp (http_sender k) input)"
proof -
  have send: "honest k (slack_send dp (http_sender k) input channel msg)" for channel msg
    unfolding slack_send_def by (intro honest_intros)
  have none: "sn_poster (http_sender k) = None" by (simp add: http_sender_def)
  show ?thesis
    unfolding slack_deliver_def Let_def none
    by (auto intro!: honest_throw send split: option.splits)
qed

lemma honest_github: "honest k (github_deliver dp (http_sender k) input)"
proof -
  have "honest k (github_send dp (http_sender k) input repository issue)" for repository issue
    unfolding github_send_def by (intro honest_intros)
  then show ?thesis
    by (auto simp: github_deliver_def intro: honest_throw split: option.splits run_source.splits)
qed

lemma honest_gitlab: "honest k (gitlab_deliver dp (http_sender k) input)"
proof -
  have "honest k (gitlab_send dp (http_sender k) input project iid)" for project iid
    unfolding gitlab_send_def by (intro honest_intros)
  then show ?thesis
    by (auto simp: gitlab_deliver_def intro: honest_throw split: option.splits run_source.splits)
qed

lemma honest_teams: "honest k (teams_deliver dp (http_sender k) input)"
proof -
  have reply: "honest k (bind_io (lift_io c) (\<lambda>url. bind_io (sn_fetch (http_sender k) (q url))
      (\<lambda>r. lift_io (teams_receipt provider r))))" for c q provider
    by (intro honest_intros)
  then have "honest k (teams_threaded dp (http_sender k) input)"
    by (auto simp: teams_threaded_def intro: honest_throw split: option.splits run_source.splits)
  then show ?thesis
    unfolding teams_deliver_def Let_def
    by (intro honest_if honest_throw reply)
qed

lemma adapter_honest: "honest k (adapter_for enabled dp (http_sender k) input)"
  by (cases "dc_provider (dq_context input)")
    (simp_all add: adapter_for_def honest_throw honest_slack honest_github honest_gitlab honest_teams)

section \<open>At most one message\<close>

text \<open>What the service needs of the adapters; the adapter is told which fence key it sends for.\<close>

locale delivery_provider =
  fixes adapter :: "string \<Rightarrow> delivery_request \<Rightarrow> ('x delivery_world_scheme, delivery_error, string) io"
  assumes honest: "honest k (adapter k input)"
begin

lemma deliver_watches:
  "ensures (watching x) (deliver dp adapter defaults request body execution) (\<lambda>_. watching x) (watching x)"
  unfolding deliver_def by (rule deliver_each_watches [OF honest])

lemma deliver_watching:
  assumes "deliver dp adapter defaults request body execution w = (w', r)" and "watching x w"
  shows "watching x w'"
  using ensures_Inl [OF deliver_watches assms(2)] ensures_Inr [OF deliver_watches assms(2)] assms(1)
  by (cases r) blast+

lemma at_most_once:
  assumes run: "deliver dp adapter defaults request body execution w = (w', r)" and w: "delivering w"
  shows "posted (state w') k \<le> 1" and "parked k n (state w) \<Longrightarrow> posted (state w') k = n"
proof -
  have "watching None w'" by (rule deliver_watching [OF run]) (simp add: watching_def w)
  then show "posted (state w') k \<le> 1" by (simp add: watching_def delivering_def fence_inv_def)
  assume "parked k n (state w)"
  with w have "watching (Some (k, n)) w" by (simp add: watching_def)
  then have "watching (Some (k, n)) w'" by (rule deliver_watching [OF run])
  then show "posted (state w') k = n" by (simp add: watching_def parked_def)
qed

end

interpretation http: delivery_provider "\<lambda>k. adapter_for enabled dp (http_sender k)" for enabled dp
  by unfold_locales (rule adapter_honest)

section \<open>Claims return\<close>

lemma fence_write_script:
  assumes "fence_write key cond f w = (w', r)"
  shows "length (fence_script w') = length (fence_script w) - 1"
  using assms
  by (auto simp: fence_write_def fence_turn_of_def Let_def split: prod.splits fence_fault.splits list.splits)

lemma fence_read_script:
  assumes "fence_read key w = (w', r)"
  shows "length (fence_script w') = length (fence_script w) - 1"
  using assms
  by (auto simp: fence_read_def fence_turn_of_def Let_def split: prod.splits fence_fault.splits list.splits)

text \<open>Once nobody else acts, a claim that is lost finds the item it lost to.\<close>

lemma lost_claim:
  assumes "fence_write key (\<lambda>x. x = None) f w = (w1, Inl e)" and "isConditionalFailure e"
    and "fence_read key w1 = (w2, Inr None)"
  shows "fence_script w \<noteq> []"
  using assms
  by (auto simp: fence_write_def fence_read_def fence_turn_of_def write_item_def Let_def split: if_splits)

text \<open>A failure of the fence, or an unexpired claim of somebody else.\<close>

definition fence_error :: "delivery_error \<Rightarrow> bool" where
  "fence_error e \<longleftrightarrow> (\<exists>d. e = Delivery_In_Progress d) \<or> (\<exists>f. e = Delivery_Failure f)"

lemma fence_error_simps [simp]:
  "fence_error (Delivery_In_Progress d)" "fence_error (Delivery_Failure f)"
  "\<not> fence_error Out_Of_Fuel" "\<not> fence_error (Known_Not_Delivered m b)"
  by (simp_all add: fence_error_def)

lemma expire_error:
  "expire_claim p key destination millis w = (w', Inl e) \<Longrightarrow> fence_error e"
  by (auto simp: expire_claim_def try_io_def ret_def throw_def split: prod.splits sum.splits if_splits)

lemma existing_error:
  "existing_claim p key destination millis item w = (w', Inl e) \<Longrightarrow> fence_error e"
  by (auto simp: existing_claim_def ret_def throw_def dest: expire_error split: option.splits if_splits)

lemma claim_again_error:
  "claim_again p leaseSeconds n execution destination w = (w', Inl e) \<Longrightarrow>
   length (fence_script w) < n \<Longrightarrow> fence_error e"
proof (induction n arbitrary: w)
  case (Suc n)
  let ?key = "deliveryKey p (de_id execution) destination"
  let ?put = "fence_write ?key (\<lambda>x. x = None)
    (\<lambda>x. Some (new_claim p leaseSeconds execution (clock w))) w"
  obtain w1 r1 where put: "?put = (w1, r1)" by (cases ?put)
  show ?case
  proof (cases "\<exists>e. r1 = Inl e \<and> isConditionalFailure e")
    case True
    then obtain e1 where r1: "r1 = Inl e1" and e1: "isConditionalFailure e1" by blast
    obtain w2 r2 where get: "fence_read ?key w1 = (w2, r2)" by (cases "fence_read ?key w1")
    have len: "length (fence_script w2) < n" if "r2 = Inr None"
      using lost_claim [OF put [unfolded r1] e1] get that Suc.prems(2)
        fence_write_script [OF put] fence_read_script [OF get]
      by (cases "fence_script w") auto
    show ?thesis
      using put get r1 e1 Suc.prems(1) Suc.IH [OF _ len]
      by (auto simp: with_clock_def Let_def try_io_def bind_io_def delivery_io_def ret_def throw_def
          split: sum.splits option.splits dest: existing_error)
  next
    case False
    with put Suc.prems(1) show ?thesis
      by (cases r1) (auto simp: with_clock_def Let_def try_io_def ret_def throw_def)
  qed
qed simp

lemma claim_error: "claim p leaseSeconds execution destination w = (w', Inl e) \<Longrightarrow> fence_error e"
  unfolding claim_def by (erule claim_again_error) simp

text \<open>What a delivery of one destination can throw: only failures of the fence.\<close>

lemma release_error: "release p runId destination w = (w', Inl e) \<Longrightarrow> \<exists>f. e = Delivery_Failure f"
  by (auto simp: release_def delivery_io_def try_io_def ret_def throw_def split: prod.splits sum.splits)

lemma send_claimed_result:
  assumes "send_claimed dp adapter input destination w = (w', r)"
  shows "(\<exists>f. r = Inl (Delivery_Failure f)) \<or> r = Inr None \<or>
    (\<exists>message. r = Inr (Some (Known_Not_Delivered message True)))"
  using assms
  by (auto simp: send_claimed_def Let_def try_io_def bind_io_def failed_def delivered_def ret_def
      split: prod.splits sum.splits delivery_error.splits bool.splits
      dest: update_error release_error)

text \<open>The failure thrown at the end: the first retryable refusal.\<close>

definition retryable :: "delivery_error option \<Rightarrow> bool" where
  "retryable x \<longleftrightarrow> (\<forall>e. x = Some e \<longrightarrow> (\<exists>message. e = Known_Not_Delivered message True))"

lemma deliver_each_error:
  assumes "deliver_each dp adapter request execution body pending cs w = (w', Inl e)" and "retryable pending"
  shows "fence_error e \<or> (\<exists>message. e = Known_Not_Delivered message True)"
  using assms
proof (induction cs arbitrary: pending w)
  case Nil
  then show ?case by (auto simp: ret_def throw_def retryable_def split: option.splits)
next
  case (Cons c cs)
  let ?destination = "destinationKey (dp_web dp) c"
  let ?input = "\<lparr>dq_context = c, dq_subject = request, dq_execution = execution, dq_body = body\<rparr>"
  let ?send = "send_claimed dp (adapter (deliveryKey (dp_platform dp) (de_id execution) ?destination))
    ?input ?destination"
  obtain w1 r1 where won: "claim (dp_platform dp) (dp_leaseSeconds dp) execution ?destination w = (w1, r1)"
    by (cases "claim (dp_platform dp) (dp_leaseSeconds dp) execution ?destination w")
  obtain w2 r2 where send: "?send w1 = (w2, r2)" by (cases "?send w1")
  note step = send_claimed_result [OF send]
  consider (lost) e1 where "r1 = Inl e1" | (busy) "r1 = Inr False" | (sent) "r1 = Inr True"
    by (metis sum.exhaust_sel)
  then show ?case
  proof cases
    case lost
    with Cons.prems(1) won claim_error [OF won [unfolded lost]] show ?thesis
      by (simp add: Let_def bind_io_def)
  next
    case busy
    with Cons.prems won show ?thesis by (intro Cons.IH) (simp_all add: Let_def bind_io_def)
  next
    case sent
    show ?thesis
    proof (cases r2)
      case (Inl e2)
      with Cons.prems(1) won send sent step show ?thesis by (auto simp: Let_def bind_io_def)
    next
      case (Inr new)
      have "retryable (first_failure pending new)"
        using Cons.prems(2) step Inr by (auto simp: retryable_def first_failure_def split: option.splits)
      with Inr Cons.prems(1) won send sent show ?thesis
        by (intro Cons.IH) (simp_all add: Let_def bind_io_def)
    qed
  qed
qed

section \<open>Delivering again\<close>

definition settled_key :: "string \<Rightarrow> 'x delivery_world_scheme \<Rightarrow> bool" where
  "settled_key k w \<longleftrightarrow> (\<exists>i. fence (state w) k = Some i \<and> fi_status i \<noteq> Sending)"

text \<open>Nobody else uses the table and it does not fail; what is settled stays so.\<close>

definition quietly :: "'x delivery_world_scheme \<Rightarrow> 'x delivery_world_scheme \<Rightarrow> bool" where
  "quietly w w' \<longleftrightarrow> fence_script w' = [] \<and> (\<forall>k. settled_key k w \<longrightarrow> settled_key k w')"

lemma quietly_trans: "quietly w w1 \<Longrightarrow> quietly w1 w2 \<Longrightarrow> quietly w w2"
  by (simp add: quietly_def)

lemma quiet_write:
  "fence_script w = [] \<Longrightarrow> fence_write key cond f w =
     (if cond (fence (state w) key)
      then (w\<lparr>state := (state w)\<lparr>fence := (fence (state w))(key := f (fence (state w) key))\<rparr>\<rparr>, Inr ())
      else (w, Inl conditional_failure))"
  by (simp add: fence_write_def fence_turn_of_def write_item_def Let_def)

lemma quiet_read: "fence_script w = [] \<Longrightarrow> fence_read key w = (w, Inr (fence (state w) key))"
  by (simp add: fence_read_def fence_turn_of_def)

lemma conditional_failure_is [simp]: "isConditionalFailure conditional_failure"
  by (simp add: isConditionalFailure_def conditional_failure_def)

text \<open>A claim alone at the table.\<close>

lemma quiet_claim:
  assumes "fence_script w = []"
  shows "claim p leaseSeconds execution destination w =
    (let key = deliveryKey p (de_id execution) destination in case fence (state w) key of
       None \<Rightarrow> (w\<lparr>state := (state w)\<lparr>fence := (fence (state w))
         (key := Some (new_claim p leaseSeconds execution (clock w)))\<rparr>\<rparr>, Inr True)
     | Some item \<Rightarrow> existing_claim p key destination (clock w) item w)"
  using assms
  by (simp add: claim_def with_clock_def Let_def try_io_def bind_io_def delivery_io_def quiet_write
      quiet_read ret_def split: option.splits)

lemma claim_settled:
  assumes "fence_script w = []" and "settled_key (deliveryKey p (de_id execution) destination) w"
  shows "claim p leaseSeconds execution destination w = (w, Inr False)"
  using assms by (auto simp: quiet_claim settled_key_def existing_claim_def ret_def)

lemma quiet_claim_result:
  assumes "fence_script w = []" and "claim p leaseSeconds execution destination w = (w', Inr won)"
  shows "quietly w w'" and "\<not> won \<Longrightarrow> settled_key (deliveryKey p (de_id execution) destination) w'"
  using assms
  by (auto simp: quiet_claim Let_def existing_claim_def expire_claim_def quiet_write quietly_def settled_key_def
      settled_def try_io_def ret_def throw_def split: option.splits if_splits)

lemma quiet_update:
  assumes "fence_script w = []" and "status \<noteq> Sending"
    and "update_fence p runId destination status extra w = (w', r)"
  shows "quietly w w'" and "settled_key (deliveryKey p runId destination) w'" and "r = Inr ()"
  using assms
  by (auto simp: update_fence_def with_clock_def delivery_io_def try_io_def ret_def quiet_write quietly_def
      settled_key_def settled_def split: option.splits)

lemma quiet_release:
  "fence_script w = [] \<Longrightarrow> release p runId destination w = (w', r) \<Longrightarrow> quietly w w'"
  by (auto simp: release_def delivery_io_def try_io_def ret_def throw_def quiet_write quietly_def settled_key_def
      is_sending_def split: if_splits option.splits)

text \<open>An adapter does not touch the fence.\<close>

definition fence_is ::
  "(string \<Rightarrow> fence_item option) \<Rightarrow> fence_turn list \<Rightarrow> 'x delivery_world_scheme \<Rightarrow> bool" where
  "fence_is f script w \<longleftrightarrow> fence (state w) = f \<and> fence_script w = script"

definition leaves_fence :: "('x delivery_world_scheme, delivery_error, 'a) io \<Rightarrow> bool" where
  "leaves_fence m \<longleftrightarrow> (\<forall>w w' r. m w = (w', r) \<longrightarrow>
     fence (state w') = fence (state w) \<and> fence_script w' = fence_script w)"

lemma leaves_throw: "leaves_fence (throw e)"
  by (simp add: leaves_fence_def throw_def)

lemma leaves_lift: "leaves_fence (lift_io r)"
  by (simp add: leaves_fence_def lift_io_def)

lemma leaves_bind: "leaves_fence m \<Longrightarrow> (\<And>a. leaves_fence (f a)) \<Longrightarrow> leaves_fence (bind_io m f)"
  by (fastforce simp: leaves_fence_def bind_io_def split: prod.splits sum.splits)

lemma leaves_fetch: "leaves_fence (sn_fetch (http_sender k) request)"
  by (auto simp: leaves_fence_def http_sender_def provider_fetch_def accept_post_def split: list.splits)

lemmas leaves_intros = leaves_bind leaves_lift leaves_throw leaves_fetch

lemma adapter_leaves: "leaves_fence (adapter_for enabled dp (http_sender k) input)"
proof -
  have slack: "leaves_fence (slack_deliver dp (http_sender k) input)"
    unfolding slack_deliver_def slack_send_def Let_def
    by (auto simp: http_sender_def [of k, THEN arg_cong [of _ _ sn_poster]] intro!: leaves_intros
        split: option.splits)
  have github: "leaves_fence (github_deliver dp (http_sender k) input)"
    unfolding github_deliver_def github_send_def
    by (auto intro!: leaves_intros split: option.splits run_source.splits)
  have gitlab: "leaves_fence (gitlab_deliver dp (http_sender k) input)"
    unfolding gitlab_deliver_def gitlab_send_def
    by (auto intro!: leaves_intros split: option.splits run_source.splits)
  have teams: "leaves_fence (teams_deliver dp (http_sender k) input)"
    unfolding teams_deliver_def teams_threaded_def Let_def
    by (auto intro!: leaves_intros split: option.splits run_source.splits)
  show ?thesis
    by (cases "dc_provider (dq_context input)")
      (simp_all add: adapter_for_def leaves_throw slack github gitlab teams)
qed

locale quiet_provider = delivery_provider +
  assumes leaves: "leaves_fence (adapter k input)"
begin

lemma adapter_quiet:
  "fence_script w = [] \<Longrightarrow> adapter k input w = (w', r) \<Longrightarrow> quietly w w'"
  using leaves [of k input] unfolding leaves_fence_def quietly_def settled_key_def by fastforce

lemma quiet_send:
  assumes w: "fence_script w = []"
    and send: "send_claimed dp (adapter k) input destination w = (w', Inr new)"
  shows "quietly w w'"
    and "new = None \<Longrightarrow> settled_key (deliveryKey (dp_platform dp) (de_id (dq_execution input)) destination) w'"
proof -
  let ?settled = "settled_key (deliveryKey (dp_platform dp) (de_id (dq_execution input)) destination)"
  obtain w1 r1 where adapter: "adapter k input w = (w1, r1)" by (cases "adapter k input w")
  have w1: "quietly w w1" by (rule adapter_quiet [OF w adapter])
  then have script: "fence_script w1 = []" by (simp add: quietly_def)
  have update: "quietly w w'' \<and> ?settled w'' \<and> r = Inr ()"
    if "update_fence (dp_platform dp) (de_id (dq_execution input)) destination status extra w1 = (w'', r)"
      and "status \<noteq> Sending" for status extra w'' r
    using quiet_update [OF script that(2,1)] quietly_trans [OF w1] by blast
  have undo: "quietly w w''" if "release (dp_platform dp) (de_id (dq_execution input)) destination w1 = (w'', r)"
    for w'' r
    by (rule quietly_trans [OF w1 quiet_release [OF script that]])
  have "quietly w w' \<and> (new = None \<longrightarrow> ?settled w')"
  proof (cases r1)
    case (Inr receipt)
    with send adapter show ?thesis
      unfolding send_claimed_def Let_def try_io_def bind_io_def delivered_def
      by (auto simp: ret_def split: prod.splits sum.splits dest!: update)
  next
    case (Inl e)
    with send adapter show ?thesis
      unfolding send_claimed_def Let_def try_io_def bind_io_def failed_def
      by (auto simp: ret_def split: prod.splits sum.splits delivery_error.splits bool.splits
          dest!: update undo)
  qed
  then show "quietly w w'" and "new = None \<Longrightarrow> ?settled w'" by simp_all
qed

lemma delivered_settles:
  assumes "deliver_each dp adapter request execution body pending cs w = (w', Inr ())"
    and "fence_script w = []"
  shows "quietly w w' \<and> pending = None \<and>
    (\<forall>c \<in> set cs. settled_key (deliveryKey (dp_platform dp) (de_id execution) (destinationKey (dp_web dp) c)) w')"
  using assms
proof (induction cs arbitrary: pending w)
  case Nil
  then show ?case by (auto simp: ret_def throw_def quietly_def split: option.splits)
next
  case (Cons c cs)
  let ?destination = "destinationKey (dp_web dp) c"
  let ?input = "\<lparr>dq_context = c, dq_subject = request, dq_execution = execution, dq_body = body\<rparr>"
  let ?k = "deliveryKey (dp_platform dp) (de_id execution) ?destination"
  obtain w1 won where won: "claim (dp_platform dp) (dp_leaseSeconds dp) execution ?destination w = (w1, Inr won)"
    using Cons.prems(1) by (auto simp: Let_def bind_io_def split: prod.splits sum.splits)
  note 1 = quiet_claim_result [OF Cons.prems(2) won]
  then have script: "fence_script w1 = []" by (simp add: quietly_def)
  show ?case
  proof (cases won)
    case False
    with Cons.prems(1) won
    have "deliver_each dp adapter request execution body pending cs w1 = (w', Inr ())"
      by (simp add: Let_def bind_io_def)
    from Cons.IH [OF this script] 1 False show ?thesis by (auto simp: quietly_def)
  next
    case True
    then obtain w2 new where send: "send_claimed dp (adapter ?k) ?input ?destination w1 = (w2, Inr new)"
      and rest: "deliver_each dp adapter request execution body (first_failure pending new) cs w2 = (w', Inr ())"
      using Cons.prems(1) won by (auto simp: Let_def bind_io_def split: prod.splits sum.splits)
    note 2 = quiet_send [OF script send]
    then have "fence_script w2 = []" by (simp add: quietly_def)
    note 3 = Cons.IH [OF rest this]
    then have "pending = None" and "new = None" by (simp_all add: first_failure_def split: option.splits)
    with 1 2 3 show ?thesis by (auto simp: quietly_def)
  qed
qed

lemma redelivery:
  assumes "fence_script w = []"
    and "\<forall>c \<in> set cs. settled_key (deliveryKey (dp_platform dp) (de_id execution) (destinationKey (dp_web dp) c)) w"
  shows "deliver_each dp adapter request execution body None cs w = (w, Inr ())"
  using assms by (induction cs) (simp_all add: Let_def bind_io_def claim_settled ret_def)

lemma deliver_idempotent:
  assumes "fence_script w = []" and "deliver dp adapter defaults request body execution w = (w', Inr ())"
  shows "deliver dp adapter defaults request body' execution w' = (w', Inr ())"
  using delivered_settles [OF assms(2) [unfolded deliver_def] assms(1)]
  unfolding deliver_def by (intro redelivery) (auto simp: quietly_def)

end

interpretation http: quiet_provider "\<lambda>k. adapter_for enabled dp (http_sender k)" for enabled dp
  by unfold_locales (rule adapter_leaves)

section \<open>A delivery to Slack\<close>

definition example_delivery :: delivery_platform where
  "example_delivery = \<lparr>dp_platform = example_platform, dp_web = example_web,
     dp_secret = (\<lambda>reference names. Inr (''secret-'' @ reference)), dp_leaseSeconds = DEFAULT_LEASE_SECONDS,
     dp_slackToken = Some ''arn'', dp_githubToken = None, dp_githubBase = ''https://api.github.com'',
     dp_gitlabToken = None, dp_gitlabBase = ''https://gitlab.com/api/v4'', dp_teamsThreaded = False,
     dp_teamsWorkflow = None, dp_teamsGateway = None, dp_teamsRoutes = []\<rparr>"

definition example_subject :: delivery_subject where
  "example_subject = \<lparr>dl_source = Some (Source_Slack (Some ''T1'') ''C1'' None ''E1'' None),
     dl_destinations = None, dl_integrations = None\<rparr>"

definition source_destination :: run_destination where
  "source_destination = \<lparr>dst_kind = JStr ''source'', dst_route = None\<rparr>"

definition example_delivered_run :: delivery_execution where
  "example_delivered_run = \<lparr>de_id = ''r1'', de_status = ''succeeded'', de_label = ''Run'',
     de_sessionId = None, de_credentialOwnerId = None, de_expiresAt = None\<rparr>"

definition empty_fence :: fence_state where
  "empty_fence = \<lparr>fence = \<lambda>_. None, posted = \<lambda>_. 0, tokens = {}\<rparr>"

definition quiet_deliveries :: delivery_world where
  "quiet_deliveries = \<lparr>state = empty_fence, fence_script = [], provider_script = [], clock = 1000\<rparr>"


definition example_contexts :: "destination_context list" where
  "example_contexts = [\<lparr>dc_provider = Slack,
     dc_destination = \<lparr>dst_kind = JStr ''slack'', dst_route = Some ''C1''\<rparr>,
     dc_source = dl_source example_subject\<rparr>]"

definition example_delivery_key :: string where
  "example_delivery_key =
     deliveryKey example_platform ''r1'' (destinationKey example_web (hd example_contexts))"

abbreviation example_deliver :: "delivery_world \<Rightarrow> delivery_world \<times> (delivery_error + unit)" where
  "example_deliver \<equiv> deliver example_delivery
     (\<lambda>k. adapter_for [Slack] example_delivery (http_sender k)) [source_destination] example_subject
     ''hi'' example_delivered_run"

lemma example_resolved: "resolveDestinations example_subject [source_destination] = example_contexts"
  by code_simp

lemmas delivery_eval = Let_def bind_io_def try_io_def ret_def throw_def lift_io_def with_clock_def delivery_io_def
  send_claimed_def adapter_for_def slack_deliver_def slack_send_def credential_def
  requiredDeliveryCredential_def http_sender_def provider_fetch_def accept_post_def slack_reply_def
  checkedJson_def checkedResponse_def response_ok_def accepted_reply_def get_prop_def slackReceipt_def
  delivered_def update_fence_def truthy_def spread_def first_failure_def

lemmas delivery_examples = example_delivery_def example_subject_def example_delivered_run_def
  quiet_deliveries_def empty_fence_def example_contexts_def example_delivery_key_def

lemma example_posts:
  "snd (example_deliver quiet_deliveries) = Inr ()"
  "posted (state (fst (example_deliver quiet_deliveries))) example_delivery_key = 1"
  unfolding deliver_def example_resolved
  by (simp_all add: delivery_eval delivery_examples quiet_claim quiet_write)

text \<open>A lost reply, another deliverer that claims the key of another run, and a table that refuses.\<close>

definition other_claim :: "fence_state \<Rightarrow> fence_state" where
  "other_claim s = (if fence s ''other'' = None then s\<lparr>fence := (fence s)(''other'' :=
     Some (new_claim example_platform DEFAULT_LEASE_SECONDS example_delivered_run 0)),
     tokens := insert ''other'' (tokens s)\<rparr> else s)"

definition stormy_deliveries :: delivery_world where
  "stormy_deliveries = quiet_deliveries\<lparr>fence_script :=
     [\<lparr>ft_others = other_claim, ft_now = 2000, ft_fault = Fence_Unacknowledged Type_Error\<rparr>],
     provider_script := [\<lparr>pr_accepted = True, pr_reply = Inl Type_Error\<rparr>]\<rparr>"

lemma stormy_delivering: "delivering stormy_deliveries"
proof -
  have "other_step\<^sup>*\<^sup>* s (other_claim s)" for s
    by (auto simp: other_claim_def new_claim_def intro!: r_into_rtranclp claims)
  then have "lawful_deliverer other_claim" by (simp add: lawful_deliverer_def)
  then show ?thesis
    by (simp add: delivering_def stormy_deliveries_def quiet_deliveries_def empty_fence_def fence_inv_def
        lawful_provider_def)
qed

lemma stormy_fails: "snd (example_deliver stormy_deliveries) = Inl (Delivery_Failure Type_Error)"
  unfolding deliver_def example_resolved
  by (simp add: delivery_eval delivery_examples stormy_deliveries_def claim_def fence_write_def fence_turn_of_def
      isConditionalFailure_def split: prod.splits)

section \<open>Properties\<close>



text \<open>C34. A delivery always returns, and what it throws tells the queue to try again: another
  deliverer holds an unexpired claim, the fence table failed, or a provider refused with a
  retryable status (the first such refusal, thrown after every destination had its turn). The
  recursive claim never runs out of fuel, and a failed send that may have reached the provider is
  recorded instead of thrown.\<close>
theorem delivery_errors:
  assumes "deliver dp adapter defaults request body execution w = (w', Inl e)"
  shows "(\<exists>message. e = Known_Not_Delivered message True) \<or> (\<exists>d. e = Delivery_In_Progress d) \<or>
    (\<exists>f. e = Delivery_Failure f)"
  using deliver_each_error [OF assms [unfolded deliver_def]]
  by (auto simp: retryable_def fence_error_def)

theorem delivery_errors_witness:
  "snd (example_deliver stormy_deliveries) = Inl (Delivery_Failure Type_Error) \<and>
   ((\<exists>message. Delivery_Failure Type_Error = Known_Not_Delivered message True) \<or>
    (\<exists>d. Delivery_Failure Type_Error = Delivery_In_Progress d) \<or>
    (\<exists>f. Delivery_Failure Type_Error = Delivery_Failure f))"
proof -
  have "example_deliver stormy_deliveries =
      (fst (example_deliver stormy_deliveries), Inl (Delivery_Failure Type_Error))"
    using stormy_fails by (metis prod.collapse)
  then show ?thesis by (intro conjI stormy_fails delivery_errors)
qed

text \<open>C33. Once a delivery has succeeded, every destination of the request has a settled fence item,
  and delivering the same run again (a redelivered queue message), with whatever body, succeeds
  without a change: nothing is posted, the fence and the providers are as before. Here nobody else
  uses the fence table and it does not fail; the providers may fail in any way.\<close>
theorem redelivery_idempotent:
  assumes "fence_script w = []"
    and "deliver dp (\<lambda>k. adapter_for enabled dp (http_sender k)) defaults request body execution w = (w', Inr ())"
  shows "deliver dp (\<lambda>k. adapter_for enabled dp (http_sender k)) defaults request body' execution w'
      = (w', Inr ()) \<and>
    (\<forall>c \<in> set (resolveDestinations request defaults).
      settled_key (deliveryKey (dp_platform dp) (de_id execution) (destinationKey (dp_web dp) c)) w')"
  using http.deliver_idempotent [OF assms] http.delivered_settles [OF assms(2) [unfolded deliver_def] assms(1)]
  by blast+

theorem redelivery_idempotent_witness:
  "example_deliver (fst (example_deliver quiet_deliveries)) = (fst (example_deliver quiet_deliveries), Inr ())"
proof -
  have "example_deliver quiet_deliveries = (fst (example_deliver quiet_deliveries), Inr ())"
    using example_posts(1) by (metis prod.collapse)
  moreover have "fence_script quiet_deliveries = []" by (simp add: quiet_deliveries_def)
  ultimately show ?thesis using redelivery_idempotent by blast
qed

end
