(* ===== verification/Agents_Store.thy ===== *)
theory Agents_Store
  imports Run_Service "HOL-Library.Product_Lexorder"
begin

text \<open>
  The store of API resources (\<open>AgentsStore\<close> in \<open>src/core/agents-ports.ts\<close>) with its two
  providers: \<open>DynamoAgentsStore\<close> (\<open>src/adapters/dynamo-agents-store.ts\<close>) keeps an index in a
  table and the values in a bucket, \<open>SqliteAgentsStore\<close> (\<open>src/adapters/sqlite-agents-store.ts\<close>)
  keeps encrypted rows in one file.

  A request to the table or the bucket is one turn: other clients act before it, the clock moves,
  and it may be refused or lose its reply. A transaction carries the SDK's request token, so that
  a repeated one has no further effect. The cipher of the local store is left out: a row is
  decrypted with the key and identity it was encrypted with.
\<close>

section \<open>Resources and errors\<close>

record agent_resource =
  rs_id :: string
  rs_ownerId :: string
  rs_collection :: string
  rs_createdAt :: int
  rs_revision :: int
  rs_expiresAt :: "int option"
  rs_value :: jsval

record resource_write =
  rw_resource :: agent_resource
  rw_expectedRevision :: int

text \<open>\<open>AgentsApiError\<close>, an error of an SDK with its cancellation codes, and a plain error.\<close>

datatype agents_error =
    Agents_Api_Error int string "string option" "string option" "int option"
  | Sdk_Error string "string list option"
  | Agents_Plain_Error string

definition AgentsResourceConflictError :: agents_error where
  "AgentsResourceConflictError = Agents_Api_Error 409
     ''Resource changed concurrently. Retry the request.'' (Some ''conflict'') None None"

fun agents_error_type :: "agents_error \<Rightarrow> string" where
  "agents_error_type (Agents_Api_Error status m c q r) =
     (if status = 401 then ''authentication_error''
      else if status = 403 then ''permission_error''
      else if status = 429 then ''rate_limit_error''
      else if status \<ge> 500 then ''server_error'' else ''invalid_request_error'')"
| "agents_error_type _ = []"

definition invalid_request :: "string \<Rightarrow> string option \<Rightarrow> agents_error" where
  "invalid_request message param = Agents_Api_Error 400 message (Some ''invalid_request'') param None"

definition resourceNotFound :: agents_error where
  "resourceNotFound = Agents_Api_Error 404 ''Resource not found.'' (Some ''resource_not_found'') None None"

fun confirmedContention :: "agents_error \<Rightarrow> bool" where
  "confirmedContention (Sdk_Error name codes) \<longleftrightarrow>
     name = ''ConditionalCheckFailedException'' \<or> name = ''TransactionConflictException'' \<or>
     name = ''TransactionCanceledException'' \<and> (case codes of None \<Rightarrow> False | Some cs \<Rightarrow>
       (\<exists>c \<in> set cs. c = ''ConditionalCheckFailed'' \<or> c = ''TransactionConflict'') \<and>
       (\<forall>c \<in> set cs. c = ''None'' \<or> c = ''ConditionalCheckFailed'' \<or> c = ''TransactionConflict''))"
| "confirmedContention _ \<longleftrightarrow> False"

text \<open>\<open>JSON.parse(JSON.stringify(value))\<close>\<close>

fun json_copy :: "jsval \<Rightarrow> jsval" where
  "json_copy JUndef = JNull"
| "json_copy (JNum n) = (case n of Finite r \<Rightarrow> JNum n | _ \<Rightarrow> JNull)"
| "json_copy (JArr xs) = JArr (map json_copy xs)"
| "json_copy (JObj fs) =
     JObj (map (\<lambda>(k, v). (k, json_copy v)) (filter (\<lambda>(k, v). v \<noteq> JUndef) fs))"
| "json_copy v = v"

section \<open>The table and the bucket\<close>

type_synonym table_key = "string \<times> string"

record resource_index =
  ix_id :: string
  ix_ownerId :: string
  ix_collection :: string
  ix_createdAt :: int
  ix_revision :: int
  ix_expiresAt :: "int option"
  ix_reference :: artifact_ref
  ix_deleted :: bool

record agents_state =
  as_table :: "table_key \<Rightarrow> resource_index option"
  as_objects :: "string \<Rightarrow> jsval option"

datatype agents_fault = Agents_Served | Agents_Refused agents_error | Agents_Unacknowledged agents_error

record 's agents_turn =
  at_others :: "'s \<Rightarrow> 's"
  at_now :: int
  at_fault :: agents_fault

record 's agents_world =
  ag_state :: 's
  ag_script :: "'s agents_turn list"
  ag_clock :: int

definition agents_turn_of :: "'s agents_world \<Rightarrow> agents_fault \<times> 's agents_world" where
  "agents_turn_of w = (case ag_script w of
       [] \<Rightarrow> (Agents_Served, w)
     | t # ts \<Rightarrow> (at_fault t,
         w\<lparr>ag_state := at_others t (ag_state w), ag_script := ts, ag_clock := at_now t\<rparr>))"

text \<open>A request that reads, and one that writes.\<close>

definition agents_read :: "('s \<Rightarrow> agents_error + 'a) \<Rightarrow> ('s agents_world, agents_error, 'a) io" where
  "agents_read f w = (let (fault, w1) = agents_turn_of w in case fault of
       Agents_Served \<Rightarrow> (w1, f (ag_state w1))
     | Agents_Refused e \<Rightarrow> (w1, Inl e)
     | Agents_Unacknowledged e \<Rightarrow> (w1, Inl e))"

definition agents_write ::
  "('s \<Rightarrow> 's \<times> (agents_error + 'a)) \<Rightarrow> ('s agents_world, agents_error, 'a) io" where
  "agents_write f w = (let (fault, w1) = agents_turn_of w; (s, r) = f (ag_state w1) in case fault of
       Agents_Served \<Rightarrow> (w1\<lparr>ag_state := s\<rparr>, r)
     | Agents_Refused e \<Rightarrow> (w1, Inl e)
     | Agents_Unacknowledged e \<Rightarrow> (w1\<lparr>ag_state := s\<rparr>, Inl e))"

definition getJson :: "artifact_ref \<Rightarrow> (agents_state agents_world, agents_error, jsval) io" where
  "getJson ref = agents_read (\<lambda>s. case as_objects s (object_key ref) of
       None \<Rightarrow> Inl (Sdk_Error ''NoSuchKey'' None)
     | Some v \<Rightarrow> Inr v)"

text \<open>One item of a transaction: its key, its condition, and the item it leaves.\<close>

record table_write =
  tw_key :: table_key
  tw_condition :: "resource_index option \<Rightarrow> bool"
  tw_change :: "resource_index option \<Rightarrow> resource_index option"

definition apply_write ::
  "table_write \<Rightarrow> (table_key \<Rightarrow> resource_index option) \<Rightarrow> table_key \<Rightarrow> resource_index option" where
  "apply_write t table = table(tw_key t := tw_change t (table (tw_key t)))"

definition transact_items ::
  "table_write list \<Rightarrow> agents_state \<Rightarrow> agents_state \<times> (agents_error + unit)" where
  "transact_items items s =
     (if \<not> distinct (map tw_key items) then (s, Inl (Sdk_Error ''ValidationException'' None))
      else if \<forall>t \<in> set items. tw_condition t (as_table s (tw_key t))
      then (s\<lparr>as_table := fold apply_write items (as_table s)\<rparr>, Inr ())
      else (s, Inl (Sdk_Error ''TransactionCanceledException'' (Some (map
        (\<lambda>t. if tw_condition t (as_table s (tw_key t)) then ''None'' else ''ConditionalCheckFailed'')
        items)))))"

section \<open>The DynamoDB store\<close>

text \<open>
  \<open>dy_query\<close> is DynamoDB's \<open>Query\<close> on one partition: in the given order, at most so many items
  after the given sort key, and the sort key to go on from when there are more.
\<close>

record dynamo_platform =
  dy_platform :: platform
  dy_web :: web_platform
  dy_bucket :: string
  dy_query :: "(table_key \<Rightarrow> resource_index option) \<Rightarrow> string \<Rightarrow> bool \<Rightarrow> nat \<Rightarrow> string option
    \<Rightarrow> resource_index list \<times> string option"

definition hash_of :: "dynamo_platform \<Rightarrow> string \<Rightarrow> string" where
  "hash_of dy s = sha256Hex (dy_platform dy) s"

definition putJson ::
  "dynamo_platform \<Rightarrow> string \<Rightarrow> jsval \<Rightarrow> (agents_state agents_world, agents_error, artifact_ref) io"
where
  "putJson dy key v =
     (if v = JUndef then throw (Agents_Plain_Error ''The first argument must be of type string'')
      else agents_write (\<lambda>s. (s\<lparr>as_objects := (as_objects s)(key := Some (json_copy v))\<rparr>,
        Inr \<lparr>bucket = dy_bucket dy, object_key = key,
          sha256 = hash_of dy (json_text (dy_web dy) v)\<rparr>)))"

definition listScope :: "dynamo_platform \<Rightarrow> string \<Rightarrow> string \<Rightarrow> string" where
  "listScope dy ownerId collection = ''list:'' @ hash_of dy ownerId @ '':'' @ hash_of dy collection"

definition root_scope :: "dynamo_platform \<Rightarrow> string \<Rightarrow> string \<Rightarrow> string \<Rightarrow> string" where
  "root_scope dy ownerId collection i =
     ''resource:'' @ hash_of dy ownerId @ '':'' @ hash_of dy collection @ '':'' @ i"

definition rootKey :: "dynamo_platform \<Rightarrow> string \<Rightarrow> string \<Rightarrow> string \<Rightarrow> table_key" where
  "rootKey dy ownerId collection i = (root_scope dy ownerId collection i, ''root'')"

definition pad_start :: "nat \<Rightarrow> string \<Rightarrow> string" where
  "pad_start n s = replicate (n - length s) (CHR ''0'') @ s"

definition orderKey :: "agent_resource \<Rightarrow> string" where
  "orderKey r = pad_start 16 (show_int (rs_createdAt r)) @ '':'' @ rs_id r"

definition value_digest :: "dynamo_platform \<Rightarrow> jsval \<Rightarrow> string" where
  "value_digest dy v = hash_of dy (canonicalJson (dy_web dy) v)"

definition value_folder :: "dynamo_platform \<Rightarrow> agent_resource \<Rightarrow> string" where
  "value_folder dy r = ''owners/'' @ hash_of dy (rs_ownerId r) @ ''/agents/'' @
     hash_of dy (rs_collection r) @ ''/'' @ rs_id r"

definition content_key :: "string \<Rightarrow> string \<Rightarrow> string" where
  "content_key folder digest = folder @ ''/'' @ digest @ ''.json''"

definition index_of :: "agent_resource \<Rightarrow> artifact_ref \<Rightarrow> resource_index" where
  "index_of r reference = \<lparr>ix_id = rs_id r, ix_ownerId = rs_ownerId r, ix_collection = rs_collection r,
     ix_createdAt = rs_createdAt r, ix_revision = rs_revision r,
     ix_expiresAt = (case rs_expiresAt r of Some t \<Rightarrow> if t = 0 then None else Some t | None \<Rightarrow> None),
     ix_reference = reference, ix_deleted = False\<rparr>"

definition revision_expected :: "int \<Rightarrow> resource_index option \<Rightarrow> bool" where
  "revision_expected expected x \<longleftrightarrow> (if expected = 0 then x = None
     else case x of None \<Rightarrow> False | Some i \<Rightarrow> ix_revision i = expected \<and> \<not> ix_deleted i)"

definition put_items :: "dynamo_platform \<Rightarrow> resource_write \<Rightarrow> artifact_ref \<Rightarrow> table_write list" where
  "put_items dy w reference = (let r = rw_resource w in
     [\<lparr>tw_key = rootKey dy (rs_ownerId r) (rs_collection r) (rs_id r),
       tw_condition = revision_expected (rw_expectedRevision w),
       tw_change = (\<lambda>_. Some (index_of r reference))\<rparr>,
      \<lparr>tw_key = (listScope dy (rs_ownerId r) (rs_collection r), orderKey r),
       tw_condition = (\<lambda>_. True), tw_change = (\<lambda>_. Some (index_of r reference))\<rparr>])"

fun write_each ::
  "dynamo_platform \<Rightarrow> resource_write list \<Rightarrow> (agents_state agents_world, agents_error, table_write list) io"
where
  "write_each dy [] = ret []"
| "write_each dy (w # ws) =
     (let r = rw_resource w in
      if rs_revision r \<noteq> rw_expectedRevision w + 1
      then throw (Agents_Plain_Error ''Invalid resource revision'')
      else bind_io (putJson dy
          (content_key (value_folder dy r) (value_digest dy (rs_value r))) (rs_value r)) (\<lambda>reference.
        bind_io (write_each dy ws) (\<lambda>items. ret (put_items dy w reference @ items))))"

definition writeItems ::
  "dynamo_platform \<Rightarrow> resource_write list \<Rightarrow> (agents_state agents_world, agents_error, table_write list) io"
where
  "writeItems dy ws =
     (if length ws > 50
      then throw (Agents_Plain_Error ''Agents storage transaction exceeds its item limit'')
      else write_each dy ws)"

definition dynamo_transact :: "table_write list \<Rightarrow> (agents_state agents_world, agents_error, unit) io" where
  "dynamo_transact items = try_io (agents_write (transact_items items)) ret
     (\<lambda>e. throw (if confirmedContention e then AgentsResourceConflictError else e))"

definition dynamo_commit ::
  "dynamo_platform \<Rightarrow> resource_write list \<Rightarrow> (agents_state agents_world, agents_error, unit) io" where
  "dynamo_commit dy ws = (if ws = [] then ret () else bind_io (writeItems dy ws) dynamo_transact)"

definition dynamo_put ::
  "dynamo_platform \<Rightarrow> agent_resource \<Rightarrow> int \<Rightarrow> (agents_state agents_world, agents_error, unit) io" where
  "dynamo_put dy r expected = dynamo_commit dy [\<lparr>rw_resource = r, rw_expectedRevision = expected\<rparr>]"

definition tombstone :: "int \<Rightarrow> resource_index option \<Rightarrow> resource_index option" where
  "tombstone revision x = (case x of None \<Rightarrow> None
     | Some i \<Rightarrow> Some (i\<lparr>ix_deleted := True, ix_revision := revision\<rparr>))"

definition delete_items :: "dynamo_platform \<Rightarrow> agent_resource \<Rightarrow> table_write list" where
  "delete_items dy r =
     [\<lparr>tw_key = rootKey dy (rs_ownerId r) (rs_collection r) (rs_id r),
       tw_condition = (\<lambda>x. case x of None \<Rightarrow> False
         | Some i \<Rightarrow> ix_revision i = rs_revision r \<and> \<not> ix_deleted i),
       tw_change = tombstone (rs_revision r + 1)\<rparr>,
      \<lparr>tw_key = (listScope dy (rs_ownerId r) (rs_collection r), orderKey r),
       tw_condition = (\<lambda>_. True), tw_change = (\<lambda>_. None)\<rparr>]"

definition dynamo_delete ::
  "dynamo_platform \<Rightarrow> agent_resource \<Rightarrow> resource_write list
     \<Rightarrow> (agents_state agents_world, agents_error, unit) io" where
  "dynamo_delete dy r ws =
     (if length ws > 49
      then throw (Agents_Plain_Error ''Agents storage transaction exceeds its item limit'')
      else bind_io (writeItems dy ws) (\<lambda>items. dynamo_transact (items @ delete_items dy r)))"

definition dynamo_index ::
  "dynamo_platform \<Rightarrow> string \<Rightarrow> string \<Rightarrow> string
     \<Rightarrow> (agents_state agents_world, agents_error, resource_index option) io" where
  "dynamo_index dy ownerId collection i =
     agents_read (\<lambda>s. Inr (as_table s (rootKey dy ownerId collection i)))"

definition hydrate :: "resource_index \<Rightarrow> (agents_state agents_world, agents_error, agent_resource) io" where
  "hydrate x = bind_io (getJson (ix_reference x)) (\<lambda>v. ret
     \<lparr>rs_id = ix_id x, rs_ownerId = ix_ownerId x, rs_collection = ix_collection x,
      rs_createdAt = ix_createdAt x, rs_revision = ix_revision x, rs_expiresAt = ix_expiresAt x,
      rs_value = v\<rparr>)"

definition dynamo_get ::
  "dynamo_platform \<Rightarrow> string \<Rightarrow> string \<Rightarrow> string
     \<Rightarrow> (agents_state agents_world, agents_error, agent_resource option) io" where
  "dynamo_get dy ownerId collection i = bind_io (dynamo_index dy ownerId collection i) (\<lambda>x. case x of
       None \<Rightarrow> ret None
     | Some index \<Rightarrow> if ix_deleted index then ret None
         else bind_io (hydrate index) (\<lambda>r. ret (Some r)))"

section \<open>The SQLite store\<close>

type_synonym resource_key = "string \<times> string \<times> string"

text \<open>The rows of the table, one for each key.\<close>

type_synonym sqlite_rows = "agent_resource list"

definition row_key :: "agent_resource \<Rightarrow> resource_key" where
  "row_key r = (rs_ownerId r, rs_collection r, rs_id r)"

definition row_of :: "sqlite_rows \<Rightarrow> resource_key \<Rightarrow> agent_resource option" where
  "row_of rows k = find (\<lambda>r. row_key r = k) rows"

definition sqlite_get ::
  "string \<Rightarrow> string \<Rightarrow> string \<Rightarrow> (sqlite_rows agents_world, agents_error, agent_resource option) io" where
  "sqlite_get ownerId collection i = agents_read (\<lambda>rows. Inr (row_of rows (ownerId, collection, i)))"

definition sqlite_expect :: "sqlite_rows \<Rightarrow> resource_key \<Rightarrow> int \<Rightarrow> agents_error + unit" where
  "sqlite_expect rows k revision =
     check ((case row_of rows k of None \<Rightarrow> 0 | Some r \<Rightarrow> rs_revision r) = revision)
       (Agents_Api_Error 409 ''Resource changed concurrently.'' (Some ''conflict'') None None)"

fun validateWrites :: "sqlite_rows \<Rightarrow> resource_key set \<Rightarrow> resource_write list \<Rightarrow> agents_error + unit" where
  "validateWrites rows identities [] = Inr ()"
| "validateWrites rows identities (w # ws) =
     (let k = row_key (rw_resource w) in
      if k \<in> identities \<or> rs_revision (rw_resource w) \<noteq> rw_expectedRevision w + 1
      then Inl (Agents_Plain_Error ''Invalid local transaction.'')
      else bindE (sqlite_expect rows k (rw_expectedRevision w)) (\<lambda>_.
        validateWrites rows (insert k identities) ws))"

definition sqlite_remove :: "resource_key \<Rightarrow> sqlite_rows \<Rightarrow> sqlite_rows" where
  "sqlite_remove k rows = filter (\<lambda>r. row_key r \<noteq> k) rows"

definition sqlite_write :: "agent_resource \<Rightarrow> sqlite_rows \<Rightarrow> sqlite_rows" where
  "sqlite_write r rows = sqlite_remove (row_key r) rows @ [r\<lparr>rs_value := json_copy (rs_value r)\<rparr>]"

text \<open>\<open>BEGIN IMMEDIATE\<close>, the action, and \<open>COMMIT\<close> or \<open>ROLLBACK\<close>.\<close>

definition sqlite_transaction ::
  "(sqlite_rows \<Rightarrow> agents_error + sqlite_rows) \<Rightarrow> (sqlite_rows agents_world, agents_error, unit) io" where
  "sqlite_transaction action = agents_write (\<lambda>rows. case action rows of
       Inl e \<Rightarrow> (rows, Inl e)
     | Inr rows' \<Rightarrow> (rows', Inr ()))"

definition sqlite_writes :: "resource_write list \<Rightarrow> sqlite_rows \<Rightarrow> sqlite_rows" where
  "sqlite_writes ws rows = fold (\<lambda>w. sqlite_write (rw_resource w)) ws rows"

definition sqlite_commit ::
  "resource_write list \<Rightarrow> (sqlite_rows agents_world, agents_error, unit) io" where
  "sqlite_commit ws = sqlite_transaction (\<lambda>rows.
     bindE (validateWrites rows {} ws) (\<lambda>_. Inr (sqlite_writes ws rows)))"

definition sqlite_put ::
  "agent_resource \<Rightarrow> int \<Rightarrow> (sqlite_rows agents_world, agents_error, unit) io" where
  "sqlite_put r expected = sqlite_commit [\<lparr>rw_resource = r, rw_expectedRevision = expected\<rparr>]"

definition sqlite_delete ::
  "agent_resource \<Rightarrow> resource_write list \<Rightarrow> (sqlite_rows agents_world, agents_error, unit) io" where
  "sqlite_delete r ws = sqlite_transaction (\<lambda>rows.
     bindE (sqlite_expect rows (row_key r) (rs_revision r)) (\<lambda>_.
     bindE (validateWrites rows {} ws) (\<lambda>_.
     Inr (sqlite_remove (row_key r) (sqlite_writes ws rows)))))"

section \<open>Pages of a list\<close>

record list_query =
  lq_after :: "string option"
  lq_limit :: "int option"
  lq_order :: "string option"

record resource_page =
  rp_data :: "agent_resource list"
  rp_has_more :: bool

definition list_position :: "agent_resource \<Rightarrow> int \<times> string" where
  "list_position r = (rs_createdAt r, rs_id r)"

definition ordered_rows :: "bool \<Rightarrow> sqlite_rows \<Rightarrow> sqlite_rows" where
  "ordered_rows ascending rows =
     (if ascending then sort_key list_position rows else rev (sort_key list_position rows))"

text \<open>\<open>LIMIT n\<close> and \<open>slice(0, n)\<close>: a negative limit is none, a negative end counts from the end.\<close>

definition sql_limit :: "int \<Rightarrow> 'a list \<Rightarrow> 'a list" where
  "sql_limit n xs = (if n < 0 then xs else take (nat n) xs)"

definition slice_to :: "int \<Rightarrow> 'a list \<Rightarrow> 'a list" where
  "slice_to n xs = take (nat (if n < 0 then int (length xs) + n else n)) xs"

definition sqlite_page ::
  "string \<Rightarrow> string \<Rightarrow> list_query \<Rightarrow> agent_resource option \<Rightarrow> sqlite_rows \<Rightarrow> resource_page" where
  "sqlite_page ownerId collection q cursor rows =
     (let ascending = lq_order q = Some ''asc'';
          limit = (case lq_limit q of None \<Rightarrow> 20 | Some n \<Rightarrow> n);
          after = (\<lambda>r. case cursor of None \<Rightarrow> True | Some c \<Rightarrow>
            if ascending then list_position c < list_position r
            else list_position r < list_position c);
          found = sql_limit (limit + 1) (ordered_rows ascending (filter
            (\<lambda>r. rs_ownerId r = ownerId \<and> rs_collection r = collection \<and> after r) rows))
      in \<lparr>rp_data = slice_to limit found, rp_has_more = int (length found) > limit\<rparr>)"

definition sqlite_list ::
  "string \<Rightarrow> string \<Rightarrow> list_query \<Rightarrow> (sqlite_rows agents_world, agents_error, resource_page) io" where
  "sqlite_list ownerId collection q =
     bind_io (if truthy (lq_after q)
       then bind_io (sqlite_get ownerId collection (the (lq_after q))) (\<lambda>x. case x of
           None \<Rightarrow> throw (invalid_request ''Invalid pagination cursor.'' (Some ''after''))
         | Some r \<Rightarrow> ret (Some r))
       else ret None) (\<lambda>cursor.
     agents_read (\<lambda>rows. Inr (sqlite_page ownerId collection q cursor rows)))"

text \<open>
  The DynamoDB store asks for one item more than the page holds, and goes on while DynamoDB names a
  next key. The first argument bounds the requests; \<open>dynamo_pages_enough\<close> shows that one more than
  the items asked for is enough when a page that names a next key is not empty.
\<close>

fun hydrate_all :: "resource_index list \<Rightarrow> (agents_state agents_world, agents_error, agent_resource list) io" where
  "hydrate_all [] = ret []"
| "hydrate_all (x # xs) = bind_io (hydrate x) (\<lambda>r. bind_io (hydrate_all xs) (\<lambda>rs. ret (r # rs)))"

fun dynamo_pages ::
  "nat \<Rightarrow> dynamo_platform \<Rightarrow> string \<Rightarrow> bool \<Rightarrow> nat \<Rightarrow> string option \<Rightarrow> agent_resource list
     \<Rightarrow> (agents_state agents_world, agents_error, agent_resource list) io" where
  "dynamo_pages 0 dy scope ascending maximum key found = ret found"
| "dynamo_pages (Suc n) dy scope ascending maximum key found =
     bind_io (agents_read (\<lambda>s. Inr (dy_query dy (as_table s) scope ascending (maximum + 1 - length found) key)))
       (\<lambda>page. bind_io (hydrate_all (fst page)) (\<lambda>rs.
         if snd page \<noteq> None \<and> length (found @ rs) \<le> maximum
         then dynamo_pages n dy scope ascending maximum (snd page) (found @ rs)
         else ret (found @ rs)))"

definition index_order_key :: "resource_index \<Rightarrow> string" where
  "index_order_key x = pad_start 16 (show_int (ix_createdAt x)) @ '':'' @ ix_id x"

definition dynamo_maximum :: "list_query \<Rightarrow> int" where
  "dynamo_maximum q = min (case lq_limit q of None \<Rightarrow> 20 | Some n \<Rightarrow> n) 100"

definition dynamo_list ::
  "dynamo_platform \<Rightarrow> string \<Rightarrow> string \<Rightarrow> list_query \<Rightarrow> (agents_state agents_world, agents_error, resource_page) io" where
  "dynamo_list dy ownerId collection q =
     bind_io (if truthy (lq_after q) then dynamo_index dy ownerId collection (the (lq_after q)) else ret None) (\<lambda>cursor.
     if truthy (lq_after q) \<and> cursor = None
     then throw (invalid_request ''Invalid pagination cursor'' (Some ''after''))
     else if dynamo_maximum q < 1
     then throw (invalid_request ''limit must be a positive integer'' (Some ''limit''))
     else (let maximum = nat (dynamo_maximum q) in
       bind_io (dynamo_pages (maximum + 2) dy (listScope dy ownerId collection) (lq_order q = Some ''asc'') maximum
         (map_option index_order_key cursor) []) (\<lambda>found.
       ret \<lparr>rp_data = take maximum found, rp_has_more = length found > maximum\<rparr>)))"

section \<open>The contract\<close>

text \<open>
  What a view of the store shows for each address: the revision and the value of a live resource.
\<close>

type_synonym 'k store_view = "'k \<Rightarrow> (int \<times> jsval) option"

definition shown :: "agent_resource option \<Rightarrow> (int \<times> jsval) option" where
  "shown x = map_option (\<lambda>r. (rs_revision r, rs_value r)) x"

definition write_address :: "(string \<Rightarrow> string \<Rightarrow> string \<Rightarrow> 'k) \<Rightarrow> resource_write \<Rightarrow> 'k" where
  "write_address address w =
     address (rs_ownerId (rw_resource w)) (rs_collection (rw_resource w)) (rs_id (rw_resource w))"

text \<open>Every write names the revision it replaces, and no address is written twice.\<close>

definition writes_fit :: "(string \<Rightarrow> string \<Rightarrow> string \<Rightarrow> 'k) \<Rightarrow> 'k store_view \<Rightarrow> resource_write list \<Rightarrow> bool" where
  "writes_fit address v ws \<longleftrightarrow> distinct (map (write_address address) ws) \<and>
     (\<forall>w \<in> set ws. rs_revision (rw_resource w) = rw_expectedRevision w + 1 \<and>
       map_option fst (v (write_address address w)) =
         (if rw_expectedRevision w = 0 then None else Some (rw_expectedRevision w)))"

definition written_view ::
  "(string \<Rightarrow> string \<Rightarrow> string \<Rightarrow> 'k) \<Rightarrow> resource_write list \<Rightarrow> 'k store_view \<Rightarrow> 'k store_view" where
  "written_view address ws v = fold (\<lambda>w u. u(write_address address w :=
     Some (rs_revision (rw_resource w), rs_value (rw_resource w)))) ws v"

text \<open>
  \<open>others\<close> is what other clients may do to the view between two requests; \<open>values\<close> are the values
  in use. A request that throws may still have been carried out.
\<close>

locale resource_store =
  fixes fetch :: "string \<Rightarrow> string \<Rightarrow> string \<Rightarrow> ('w, agents_error, agent_resource option) io"
    and store :: "resource_write list \<Rightarrow> ('w, agents_error, unit) io"
    and view :: "'w \<Rightarrow> 'k store_view"
    and address :: "string \<Rightarrow> string \<Rightarrow> string \<Rightarrow> 'k"
    and usable :: "jsval set"
    and good :: "'w \<Rightarrow> bool"
    and others :: "'k store_view \<Rightarrow> 'k store_view \<Rightarrow> bool"
  assumes fetch_good: "good w \<Longrightarrow> fetch ownerId collection i w = (w', r) \<Longrightarrow> good w'"
    and fetch_view: "good w \<Longrightarrow> fetch ownerId collection i w = (w', r) \<Longrightarrow>
      \<exists>v. others (view w) v \<and> others v (view w') \<and>
        (\<forall>x. r = Inr x \<longrightarrow> v (address ownerId collection i) = shown x)"
    and fetch_address: "good w \<Longrightarrow> fetch ownerId collection i w = (w', Inr (Some p)) \<Longrightarrow>
      address (rs_ownerId p) (rs_collection p) (rs_id p) = address ownerId collection i"
    and store_good: "good w \<Longrightarrow> \<forall>u \<in> set ws. rs_value (rw_resource u) \<in> usable \<Longrightarrow>
      store ws w = (w', q) \<Longrightarrow> good w'"
    and store_view: "good w \<Longrightarrow> \<forall>u \<in> set ws. rs_value (rw_resource u) \<in> usable \<Longrightarrow>
      store ws w = (w', q) \<Longrightarrow> \<exists>v. others (view w) v \<and>
        (view w' = v \<and> (q = Inr () \<longrightarrow> ws = []) \<or>
         writes_fit address v ws \<and> view w' = written_view address ws v)"

text \<open>A store that also lists a collection: to the view, a list is a read.\<close>

locale listing_store = resource_store +
  fixes listing :: "string \<Rightarrow> string \<Rightarrow> list_query \<Rightarrow> ('a, agents_error, resource_page) io"
  assumes listing_good: "good w \<Longrightarrow> listing ownerId collection q w = (w', r) \<Longrightarrow> good w'"
    and listing_view: "good w \<Longrightarrow> listing ownerId collection q w = (w', r) \<Longrightarrow> others (view w) (view w')"

text \<open>A store that also deletes a resource, together with other writes, as one compare and swap.\<close>

locale deleting_store = listing_store +
  fixes erase :: "agent_resource \<Rightarrow> resource_write list \<Rightarrow> ('a, agents_error, unit) io"
  assumes erase_good: "good w \<Longrightarrow> \<forall>u \<in> set ws. rs_value (rw_resource u) \<in> usable \<Longrightarrow>
      erase p ws w = (w', q) \<Longrightarrow> good w'"
    and erase_view: "good w \<Longrightarrow> \<forall>u \<in> set ws. rs_value (rw_resource u) \<in> usable \<Longrightarrow>
      k = address (rs_ownerId p) (rs_collection p) (rs_id p) \<Longrightarrow> k \<notin> write_address address ` set ws \<Longrightarrow>
      erase p ws w = (w', q) \<Longrightarrow> \<exists>v. others (view w) v \<and>
        (view w' = v \<and> q \<noteq> Inr () \<or>
         writes_fit address v ws \<and>
         map_option fst (v k) = (if rs_revision p = 0 then None else Some (rs_revision p)) \<and>
         view w' = (written_view address ws v)(k := None))"

section \<open>Clients\<close>

text \<open>What a client of the store uses, and the numbers it keeps there.\<close>

record 'w agents_store =
  st_get :: "string \<Rightarrow> string \<Rightarrow> string \<Rightarrow> ('w, agents_error, agent_resource option) io"
  st_commit :: "resource_write list \<Rightarrow> ('w, agents_error, unit) io"

definition safe_integer :: "js_number \<Rightarrow> bool" where
  "safe_integer n \<longleftrightarrow> (case n of
       Finite r \<Rightarrow> of_int (floor r) = r \<and> \<bar>r\<bar> \<le> 9007199254740991
     | _ \<Rightarrow> False)"

definition number_value :: "int \<Rightarrow> jsval" where
  "number_value i = JNum (Finite (of_int i))"

definition int_number :: "js_number \<Rightarrow> int" where
  "int_number n = (case n of Finite r \<Rightarrow> floor r | _ \<Rightarrow> 0)"

fun is_conflict :: "agents_error \<Rightarrow> bool" where
  "is_conflict (Agents_Api_Error status m code p r) \<longleftrightarrow> code = Some ''conflict''"
| "is_conflict _ \<longleftrightarrow> False"

end
