(* ===== verification/Rate_Limit.thy ===== *)
theory Rate_Limit
  imports Agents_Store
begin

text \<open>
  The rate limit of an owner (\<open>src/core/owner-rate-limiter.ts\<close>): an admission and the owner's
  counter of the current minute are committed together, and a lost race is tried again at most
  20 times. The store is any provider of the contract \<open>resource_store\<close> below.

  The stored counter and the stored admission are the numbers this code wrote; a sum of two
  safe integers is compared exactly.
\<close>

section \<open>The limiter\<close>

definition counter_value :: "int \<Rightarrow> int \<Rightarrow> jsval" where
  "counter_value minute requests =
     JObj [(''minute'', number_value minute), (''requests'', number_value requests)]"

definition counter_field :: "string \<Rightarrow> jsval \<Rightarrow> int" where
  "counter_field k v = (case v of
       JObj fs \<Rightarrow> (case get_prop fs k of JNum n \<Rightarrow> int_number n | _ \<Rightarrow> 0)
     | _ \<Rightarrow> 0)"

definition counter_minute :: "int \<Rightarrow> agent_resource option \<Rightarrow> int" where
  "counter_minute seconds previous = max (seconds div 60)
     (case previous of None \<Rightarrow> 0 | Some c \<Rightarrow> counter_field ''minute'' (rs_value c))"

definition counter_total :: "int \<Rightarrow> agent_resource option \<Rightarrow> int \<Rightarrow> int" where
  "counter_total minute previous requests =
     (case previous of None \<Rightarrow> 0 | Some c \<Rightarrow> if counter_field ''minute'' (rs_value c) = minute
        then counter_field ''requests'' (rs_value c) else 0) + requests"

definition admission_writes ::
  "string \<Rightarrow> string \<Rightarrow> int \<Rightarrow> agent_resource option \<Rightarrow> int \<Rightarrow> int \<Rightarrow> int \<Rightarrow> resource_write list" where
  "admission_writes ownerId i seconds previous minute sum_now requests =
     (let revision = (case previous of None \<Rightarrow> 0 | Some c \<Rightarrow> rs_revision c) in
     [\<lparr>rw_resource = \<lparr>rs_id = ''current'', rs_ownerId = ownerId, rs_collection = ''rate_limits'',
         rs_createdAt = (case previous of None \<Rightarrow> seconds | Some c \<Rightarrow> rs_createdAt c),
         rs_revision = revision + 1, rs_expiresAt = None, rs_value = counter_value minute sum_now\<rparr>,
       rw_expectedRevision = revision\<rparr>,
      \<lparr>rw_resource = \<lparr>rs_id = i, rs_ownerId = ownerId, rs_collection = ''rate_admissions'',
         rs_createdAt = seconds, rs_revision = 1, rs_expiresAt = None, rs_value = number_value requests\<rparr>,
       rw_expectedRevision = 0\<rparr>])"

definition admission_changed :: agents_error where
  "admission_changed = Agents_Api_Error 409 ''Admission changed on retry.''
     (Some ''idempotency_conflict'') None None"

definition limit_exceeded :: "int \<Rightarrow> agents_error" where
  "limit_exceeded seconds = Agents_Api_Error 429
     ''The owner execution rate limit is exhausted. Retry later.''
     (Some ''owner_rate_limit_exceeded'') None (Some seconds)"

definition same_admission :: "int \<Rightarrow> agent_resource \<Rightarrow> ('w, agents_error, unit) io" where
  "same_admission requests receipt =
     (if rs_value receipt \<noteq> number_value requests then throw admission_changed else ret ())"

text \<open>The loop, with the attempts left; the last one throws what it lost to.\<close>

fun admit_attempts ::
  "'w agents_store \<Rightarrow> ('w \<Rightarrow> int) \<Rightarrow> int \<Rightarrow> string \<Rightarrow> string \<Rightarrow> int \<Rightarrow> nat \<Rightarrow> ('w, agents_error, unit) io" where
  "admit_attempts st timer maximum ownerId i requests 0 = ret ()"
| "admit_attempts st timer maximum ownerId i requests (Suc n) =
     bind_io (st_get st ownerId ''rate_admissions'' i) (\<lambda>receipt. case receipt of
       Some admitted \<Rightarrow> same_admission requests admitted
     | None \<Rightarrow> (\<lambda>w. let seconds = timer w in
       bind_io (st_get st ownerId ''rate_limits'' ''current'') (\<lambda>previous.
       let minute = counter_minute seconds previous; sum_now = counter_total minute previous requests in
       if sum_now > maximum then throw (limit_exceeded ((minute + 1) * 60 - seconds))
       else try_io (st_commit st (admission_writes ownerId i seconds previous minute sum_now requests)) ret
         (\<lambda>e. bind_io (st_get st ownerId ''rate_admissions'' i) (\<lambda>committed. case committed of
            Some admitted \<Rightarrow> same_admission requests admitted
          | None \<Rightarrow> if \<not> is_conflict e \<or> n = 0 then throw e
              else admit_attempts st timer maximum ownerId i requests n))) w))"

definition admit ::
  "'w agents_store \<Rightarrow> ('w \<Rightarrow> int) \<Rightarrow> (string \<Rightarrow> js_number) \<Rightarrow> (string \<Rightarrow> string)
     \<Rightarrow> string \<Rightarrow> string \<Rightarrow> js_number \<Rightarrow> ('w, agents_error, unit) io" where
  "admit st timer limit sha ownerId operationId requests =
     (let maximum = limit ownerId in
      if \<not> safe_integer maximum \<or> int_number maximum < 0 \<or> \<not> safe_integer requests \<or> int_number requests < 1
      then throw (Agents_Plain_Error ''Invalid owner rate limit'')
      else admit_attempts st timer (int_number maximum) ownerId (sha operationId) (int_number requests) 20)"

section \<open>The limits of a deployment\<close>

text \<open>\<open>ownerRateLimits\<close> (\<open>src/app/owner-rate-limits.ts\<close>), from the parsed JSON.\<close>

definition rateLimitCount :: "jsval \<Rightarrow> agents_error + js_number" where
  "rateLimitCount v = (case v of
       JNum n \<Rightarrow> if safe_integer n \<and> int_number n \<ge> 0 then Inr n
         else Inl (Agents_Plain_Error ''Owner rate limits must be nonnegative integers'')
     | _ \<Rightarrow> Inl (Agents_Plain_Error ''Owner rate limits must be nonnegative integers''))"

definition or_value :: "jsval \<Rightarrow> jsval \<Rightarrow> jsval" where
  "or_value v d = (if v = JUndef \<or> v = JNull then d else v)"

fun owner_limits :: "fields \<Rightarrow> agents_error + (string \<times> js_number) list" where
  "owner_limits [] = Inr []"
| "owner_limits ((owner, amount) # fs) = bindE (rateLimitCount amount) (\<lambda>n.
     bindE (owner_limits fs) (\<lambda>rest. Inr ((owner, n) # rest)))"

definition limits_invalid :: agents_error where
  "limits_invalid = Agents_Plain_Error ''Invalid OWNER_RATE_LIMITS_JSON''"

definition ownerRateLimits :: "jsval option \<Rightarrow> agents_error + (string \<Rightarrow> js_number)" where
  "ownerRateLimits raw = (case (case raw of None \<Rightarrow> JObj [(''default'', number_value 60)] | Some v \<Rightarrow> v) of
       JObj fs \<Rightarrow> bindE (check (set (map fst fs) \<subseteq> {''default'', ''owners''}) limits_invalid) (\<lambda>_.
         bindE (case get_prop fs ''owners'' of
             JUndef \<Rightarrow> Inr [] | JObj owners \<Rightarrow> Inr owners | _ \<Rightarrow> Inl limits_invalid) (\<lambda>owners.
         bindE (rateLimitCount (or_value (get_prop fs ''default'') (number_value 60))) (\<lambda>defaults.
         bindE (owner_limits owners) (\<lambda>limits.
         Inr (\<lambda>owner. case map_of limits owner of Some n \<Rightarrow> n | None \<Rightarrow> defaults)))))
     | _ \<Rightarrow> Inl limits_invalid)"

section \<open>The books of an owner\<close>

text \<open>
  Every admission so far, oldest first: the minute it was charged to, its receipt and its
  number of requests.
\<close>

type_synonym admissions = "(int \<times> string \<times> int) list"

definition spent :: "admissions \<Rightarrow> int \<Rightarrow> int" where
  "spent h minute = sum_list (map (\<lambda>(m, i, n). n) (filter (\<lambda>(m, i, n). m = minute) h))"

definition receipt_of :: "admissions \<Rightarrow> string \<Rightarrow> int option" where
  "receipt_of h = map_of (map (\<lambda>(m, i, n). (i, n)) h)"

definition latest :: "admissions \<Rightarrow> int" where
  "latest h = (if h = [] then 0 else fst (last h))"

text \<open>The last minute a JavaScript date can be in.\<close>

definition last_minute :: int where
  "last_minute = 144000000000"

text \<open>
  The books agree with the store: no operation is admitted twice, no minute is charged more
  than the maximum, and the counter and the receipts are those of the admissions.
\<close>

definition books ::
  "'k \<Rightarrow> (string \<Rightarrow> 'k) \<Rightarrow> int \<Rightarrow> admissions \<Rightarrow> 'k store_view \<Rightarrow> bool" where
  "books c a maximum h v \<longleftrightarrow>
     distinct (map (\<lambda>(m, i, n). i) h) \<and>
     (\<forall>(m, i, n) \<in> set h. 0 \<le> m \<and> m \<le> latest h \<and> 1 \<le> n) \<and> latest h \<le> last_minute \<and>
     (\<forall>minute. spent h minute \<le> maximum) \<and>
     (\<forall>i. v (a i) = map_option (\<lambda>n. (1, number_value n)) (receipt_of h i)) \<and>
     v c = (if h = [] then None
       else Some (int (length h), counter_value (latest h) (spent h (latest h))))"

definition limiter_values :: "int \<Rightarrow> jsval set" where
  "limiter_values maximum =
     {counter_value m t | m t. 0 \<le> m \<and> m \<le> last_minute \<and> 1 \<le> t \<and> t \<le> maximum} \<union>
     {number_value n | n. 1 \<le> n \<and> n \<le> maximum}"

lemma spent_Nil [simp]: "spent [] minute = 0"
  by (simp add: spent_def)

lemma spent_snoc [simp]: "spent (h @ [(m, i, n)]) minute = spent h minute + (if m = minute then n else 0)"
  by (simp add: spent_def)

lemma latest_snoc [simp]: "latest (h @ [(m, i, n)]) = m"
  by (simp add: latest_def)

lemma receipt_append: "receipt_of h i = Some n \<Longrightarrow> receipt_of (h @ h') i = Some n"
  by (simp add: receipt_of_def map_add_def)

lemma receipt_snoc: "receipt_of (h @ [(m, i, n)]) j = (case receipt_of h j of
    Some n' \<Rightarrow> Some n' | None \<Rightarrow> if i = j then Some n else None)"
  by (simp add: receipt_of_def map_add_def split: option.splits)

lemma receipt_None: "receipt_of h i = None \<longleftrightarrow> i \<notin> set (map (\<lambda>(m, i, n). i) h)"
  by (auto simp: receipt_of_def map_of_eq_None_iff image_image split_def)

lemma number_value_inject [simp]: "number_value a = number_value b \<longleftrightarrow> a = b"
  by (simp add: number_value_def)

lemma counter_fields [simp]:
  "counter_field ''minute'' (counter_value m t) = m" "counter_field ''requests'' (counter_value m t) = t"
  by (simp_all add: counter_field_def counter_value_def number_value_def get_prop_def int_number_def)

lemma spent_later: "(\<forall>(m, i, n) \<in> set h. m \<le> latest h) \<Longrightarrow> latest h < minute \<Longrightarrow> spent h minute = 0"
proof -
  assume "\<forall>(m, i, n) \<in> set h. m \<le> latest h" and "latest h < minute"
  then have "filter (\<lambda>(m, i, n). m = minute) h = []" by (auto simp: filter_empty_conv)
  then show "spent h minute = 0" by (simp add: spent_def)
qed

lemma spent_nonneg: "(\<forall>(m, i, n) \<in> set h. 1 \<le> n) \<Longrightarrow> 0 \<le> spent h minute"
  by (fastforce simp: spent_def intro!: sum_list_nonneg)

text \<open>What the counter that was read says of the books it was read from.\<close>

lemma counter_read:
  assumes "books c a maximum h v" and "v c = shown previous" and "0 \<le> seconds"
  shows "(case previous of None \<Rightarrow> 0 | Some p \<Rightarrow> rs_revision p) = int (length h)"
    and "counter_minute seconds previous = max (seconds div 60) (latest h)"
    and "counter_total (counter_minute seconds previous) previous n =
      spent h (counter_minute seconds previous) + n"
proof -
  have later: "spent h minute = 0" if "latest h < minute" for minute
    using assms(1) that by (intro spent_later) (auto simp: books_def)
  show rev: "(case previous of None \<Rightarrow> 0 | Some p \<Rightarrow> rs_revision p) = int (length h)"
    using assms(1,2) by (cases previous) (auto simp: books_def shown_def split: if_splits)
  show minute: "counter_minute seconds previous = max (seconds div 60) (latest h)"
    using assms(1,2)
    by (cases previous) (auto simp: books_def shown_def counter_minute_def latest_def split: if_splits)
  show "counter_total (counter_minute seconds previous) previous n =
      spent h (counter_minute seconds previous) + n"
  proof (cases previous)
    case None
    with assms(1,2) have "h = []" by (auto simp: books_def shown_def split: if_splits)
    with None show ?thesis by (simp add: counter_total_def)
  next
    case (Some p)
    with assms(1,2) have "rs_value p = counter_value (latest h) (spent h (latest h))"
      by (auto simp: books_def shown_def split: if_splits)
    with Some later [of "counter_minute seconds previous"] minute show ?thesis
      by (auto simp: counter_total_def max_def split: if_splits)
  qed
qed

lemma enter_admission:
  assumes "books c a maximum h v" and "receipt_of h i = None" and "1 \<le> n" and "0 \<le> m"
    and "latest h \<le> m" and "m \<le> last_minute" and "spent h m + n \<le> maximum"
    and "\<And>j. c \<noteq> a j" and "\<And>j j'. a j = a j' \<Longrightarrow> j = j'"
  shows "books c a maximum (h @ [(m, i, n)])
    (v(c := Some (int (length h) + 1, counter_value m (spent h m + n)), a i := Some (1, number_value n)))"
proof -
  have "\<forall>j. a j = a i \<longleftrightarrow> j = i" using assms(9) by blast
  then have receipts: "(v(c := x, a i := Some (1, number_value n))) (a j) =
      map_option (\<lambda>n. (1, number_value n)) (receipt_of (h @ [(m, i, n)]) j)" for j x
    using assms(1,2,8) by (auto simp: books_def receipt_snoc split: option.splits)
  have "\<forall>(m', i', n') \<in> set h. 0 \<le> m' \<and> m' \<le> m \<and> 1 \<le> n'"
    using assms(1,5) by (fastforce simp: books_def)
  moreover have "\<forall>minute. spent (h @ [(m, i, n)]) minute \<le> maximum"
    using assms(1,7) by (simp add: books_def)
  ultimately show ?thesis
    using assms(1-6) assms(8) [of i] receipts by (simp add: books_def receipt_None)
qed

section \<open>Any store that keeps the contract\<close>

text \<open>
  What the limiter needs of the store for one owner: the counter and the receipts are kept at
  addresses of their own, the other clients keep the books, and the clock is in range.
\<close>

locale limited_store = resource_store +
  fixes owner :: string and maximum :: int and timer :: "'a \<Rightarrow> int"
  assumes addresses: "good w \<Longrightarrow> address owner ''rate_limits'' ''current'' \<noteq> address owner ''rate_admissions'' i"
    and receipt_address: "address owner ''rate_admissions'' i = address owner ''rate_admissions'' j \<Longrightarrow> i = j"
    and others_keep: "others v v' \<Longrightarrow>
      books (address owner ''rate_limits'' ''current'') (address owner ''rate_admissions'') maximum h v \<Longrightarrow>
      \<exists>h'. books (address owner ''rate_limits'' ''current'') (address owner ''rate_admissions'') maximum (h @ h') v'"
    and limiter_usable: "limiter_values maximum \<subseteq> usable"
    and timer_range: "good w \<Longrightarrow> 0 \<le> timer w \<and> timer w div 60 \<le> last_minute"
begin

abbreviation kept :: "admissions \<Rightarrow> 'b store_view \<Rightarrow> bool" where
  "kept h v \<equiv> books (address owner ''rate_limits'' ''current'')
     (address owner ''rate_admissions'') maximum h v"

lemma fetch_kept:
  assumes "good w" and "kept h (view w)" and "fetch owner collection i w = (w', r)"
  obtains h1 h2 v where "kept (h @ h1) v" and "kept (h @ h1 @ h2) (view w')" and "good w'"
    and "\<And>x. r = Inr x \<Longrightarrow> v (address owner collection i) = shown x"
proof -
  from fetch_view [OF assms(1,3)] obtain v where v: "others (view w) v" "others v (view w')"
    and x: "\<And>x. r = Inr x \<Longrightarrow> v (address owner collection i) = shown x" by blast
  obtain h1 where h1: "kept (h @ h1) v" using others_keep [OF v(1) assms(2)] by blast
  obtain h2 where "kept ((h @ h1) @ h2) (view w')" using others_keep [OF v(2) h1] by blast
  with that [OF h1 _ fetch_good [OF assms(1,3)] x] show thesis by simp
qed

text \<open>A receipt that was read is in the books.\<close>

lemma receipt_read:
  "kept h v \<Longrightarrow> v (address owner ''rate_admissions'' i) = shown x \<Longrightarrow>
   (case x of None \<Rightarrow> receipt_of h i = None
    | Some p \<Rightarrow> \<exists>n. rs_value p = number_value n \<and> receipt_of h i = Some n)"
  by (auto simp: books_def shown_def split: option.splits)

definition admitted :: "string \<Rightarrow> int \<Rightarrow> admissions \<Rightarrow> 'a \<Rightarrow> agents_error + unit \<Rightarrow> bool" where
  "admitted i requests h w r \<longleftrightarrow> good w \<and> (\<exists>h'. kept (h @ h') (view w) \<and>
     (r = Inr () \<longrightarrow> receipt_of (h @ h') i = Some requests))"

lemma admitted_append: "admitted i requests (h @ h') w r \<Longrightarrow> admitted i requests h w r"
  by (auto simp: admitted_def)

lemma same_admission_admitted:
  assumes "kept h v" and "v (address owner ''rate_admissions'' i) = shown (Some p)"
    and "kept (h @ h2) (view w)" and "good w" and "same_admission requests p w = (w', r)"
  shows "admitted i requests h w' r"
  using assms(3-5) receipt_read [OF assms(1,2)] receipt_append
  by (fastforce simp: admitted_def same_admission_def ret_def throw_def split: if_splits)

lemma admission_commit:
  assumes "good w" and "kept h v" and "v (address owner ''rate_limits'' ''current'') = shown previous"
    and "kept (h @ h2) (view w)" and "0 \<le> seconds" and "seconds div 60 \<le> last_minute" and "1 \<le> requests"
    and m: "m = counter_minute seconds previous" and t: "t = counter_total m previous requests"
    and "t \<le> maximum"
    and commit: "store (admission_writes owner i seconds previous m t requests) w = (w', r)"
  shows "admitted i requests h w' r"
proof -
  let ?ws = "admission_writes owner i seconds previous m t requests"
  let ?c = "address owner ''rate_limits'' ''current''" and ?a = "address owner ''rate_admissions''"
  have "latest h \<le> last_minute" and pos: "\<forall>(m, i, n) \<in> set h. 1 \<le> n"
    using assms(2) by (auto simp: books_def)
  note read = counter_read [OF assms(2), OF assms(3) assms(5)]
  have rev: "(case previous of None \<Rightarrow> 0 | Some p \<Rightarrow> rs_revision p) = int (length h)" by (rule read(1))
  have m': "m = max (seconds div 60) (latest h)" unfolding m by (rule read(2))
  have t': "t = spent h m + requests" unfolding t m by (rule read(3))
  have range: "0 \<le> m" "latest h \<le> m" "m \<le> last_minute"
    using m' \<open>latest h \<le> last_minute\<close> assms(5,6) by simp_all
  have "1 \<le> t" "requests \<le> t" using t' spent_nonneg [OF pos, of m] assms(7) by simp_all
  then have "counter_value m t \<in> usable" "number_value requests \<in> usable"
    using limiter_usable range assms(7,10) unfolding limiter_values_def by force+
  then have usable: "\<forall>u \<in> set ?ws. rs_value (rw_resource u) \<in> usable"
    by (simp add: admission_writes_def Let_def)
  from store_view [OF assms(1) usable commit] obtain u where u: "others (view w) u"
    and cases: "view w' = u \<and> (r = Inr () \<longrightarrow> ?ws = []) \<or> writes_fit address u ?ws \<and>
      view w' = written_view address ?ws u" by blast
  have good: "good w'" by (rule store_good [OF assms(1) usable commit])
  obtain h3 where h3: "kept (h @ h2 @ h3) u" using others_keep [OF u assms(4)] by auto
  from cases show ?thesis
  proof
    assume "view w' = u \<and> (r = Inr () \<longrightarrow> ?ws = [])"
    then have "view w' = u" and "r \<noteq> Inr ()" by (auto simp: admission_writes_def Let_def)
    with good h3 show ?thesis by (auto simp: admitted_def)
  next
    assume fit: "writes_fit address u ?ws \<and> view w' = written_view address ?ws u"
    have "map_option fst (u ?c) = (if h = [] then None else Some (int (length h)))"
      and "u (?a i) = None"
      using fit rev
      by (auto simp: writes_fit_def admission_writes_def Let_def write_address_def split: if_splits)
    with h3 have "int (length h2) + int (length h3) = 0" and none: "receipt_of (h @ h2 @ h3) i = None"
      by (auto simp: books_def split: if_splits)
    then have "h2 @ h3 = []" by (simp add: add_nonneg_eq_0_iff)
    then have u': "kept h u" and none: "receipt_of h i = None" using h3 none by simp_all
    have "view w' = u(?c := Some (int (length h) + 1, counter_value m t),
        ?a i := Some (1, number_value requests))"
      using fit rev by (simp add: written_view_def admission_writes_def Let_def write_address_def)
    with enter_admission [OF u' none assms(7) range(1,2,3)] t' assms(10) addresses [OF assms(1)] receipt_address
    have "kept (h @ [(m, i, requests)]) (view w')" by simp
    with good none show ?thesis
      by (auto simp: admitted_def receipt_snoc intro!: exI [of _ "[(m, i, requests)]"])
  qed
qed

abbreviation ports :: "'a agents_store" where
  "ports \<equiv> \<lparr>st_get = fetch, st_commit = store\<rparr>"

text \<open>Looking for the receipt first: what follows runs only when there was none.\<close>

lemma check_receipt:
  assumes "good w" and "kept h (view w)"
    and run: "bind_io (fetch owner ''rate_admissions'' i) (\<lambda>x. case x of
        Some p \<Rightarrow> same_admission requests p | None \<Rightarrow> k) w = (w', r)"
    and rest: "\<And>h' w1. good w1 \<Longrightarrow> kept (h @ h') (view w1) \<Longrightarrow> k w1 = (w', r) \<Longrightarrow>
      admitted i requests (h @ h') w' r"
  shows "admitted i requests h w' r"
proof -
  obtain w1 r1 where get: "fetch owner ''rate_admissions'' i w = (w1, r1)"
    by (cases "fetch owner ''rate_admissions'' i w")
  from fetch_kept [OF assms(1,2) get] obtain h1 h2 v1 where 1: "kept (h @ h1) v1"
    "kept (h @ h1 @ h2) (view w1)" "good w1"
    "\<And>x. r1 = Inr x \<Longrightarrow> v1 (address owner ''rate_admissions'' i) = shown x" by metis
  consider (failed) e where "r1 = Inl e" | (found) p where "r1 = Inr (Some p)" | (free) "r1 = Inr None"
    by (metis not_None_eq sum.exhaust)
  then show ?thesis
  proof cases
    case failed
    with run get 1(2,3) show ?thesis by (auto simp: bind_io_def admitted_def)
  next
    case found
    with run get have "same_admission requests p w1 = (w', r)" by (simp add: bind_io_def)
    from same_admission_admitted [OF 1(1) 1(4) [OF found], of h2, simplified, OF 1(2,3) this]
    show ?thesis by (rule admitted_append)
  next
    case free
    with run get have "k w1 = (w', r)" by (simp add: bind_io_def)
    from rest [OF 1(3,2) this] show ?thesis by (rule admitted_append)
  qed
qed

text \<open>One attempt: the counter is read and both writes are committed.\<close>

lemma attempt_admission:
  assumes "good w" and "kept h (view w)" and "1 \<le> requests"
    and run: "(let seconds = timer w in
       bind_io (fetch owner ''rate_limits'' ''current'') (\<lambda>previous.
       let minute = counter_minute seconds previous; sum_now = counter_total minute previous requests in
       if sum_now > maximum then throw (limit_exceeded ((minute + 1) * 60 - seconds))
       else try_io (store (admission_writes owner i seconds previous minute sum_now requests)) ret k) w) = (w', r)"
    and rest: "\<And>h' w1 e. good w1 \<Longrightarrow> kept (h @ h') (view w1) \<Longrightarrow> k e w1 = (w', r) \<Longrightarrow>
      admitted i requests (h @ h') w' r"
  shows "admitted i requests h w' r"
proof -
  let ?seconds = "timer w"
  have seconds: "0 \<le> ?seconds" "?seconds div 60 \<le> last_minute" using timer_range [OF assms(1)] by simp_all
  obtain w2 r2 where get: "fetch owner ''rate_limits'' ''current'' w = (w2, r2)"
    by (cases "fetch owner ''rate_limits'' ''current'' w")
  from fetch_kept [OF assms(1,2) get] obtain h1 h2 v where 2: "kept (h @ h1) v"
    "kept (h @ h1 @ h2) (view w2)" "good w2"
    "\<And>x. r2 = Inr x \<Longrightarrow> v (address owner ''rate_limits'' ''current'') = shown x" by metis
  show ?thesis
  proof (cases r2)
    case (Inl e)
    with run get 2(2,3) show ?thesis by (auto simp: bind_io_def Let_def admitted_def)
  next
    case (Inr previous)
    let ?m = "counter_minute ?seconds previous"
    let ?t = "counter_total ?m previous requests"
    let ?ws = "admission_writes owner i ?seconds previous ?m ?t requests"
    obtain w3 r3 where put: "store ?ws w2 = (w3, r3)" by (cases "store ?ws w2")
    show ?thesis
    proof (cases "?t > maximum")
      case True
      with run get Inr 2(2,3) show ?thesis by (auto simp: bind_io_def Let_def throw_def admitted_def)
    next
      case False
      from admission_commit [OF 2(3,1) 2(4) [OF Inr], of h2, simplified, OF 2(2) seconds assms(3) refl refl _ put]
      have 3: "admitted i requests (h @ h1) w3 r3" using False by simp
      then obtain h3 where "good w3" and "kept (h @ h1 @ h3) (view w3)" by (auto simp: admitted_def)
      with rest have "k e w3 = (w', r) \<Longrightarrow> admitted i requests h w' r" for e
        using admitted_append by blast
      with run get Inr False put 3 admitted_append show ?thesis
        by (cases r3) (auto simp: bind_io_def try_io_def ret_def Let_def)
    qed
  qed
qed

lemma admit_attempts_admitted:
  assumes "good w" and "kept h (view w)" and "1 \<le> requests" and "0 < n"
    and "admit_attempts ports timer maximum owner i requests n w = (w', r)"
  shows "admitted i requests h w' r"
  using assms
proof (induction n arbitrary: w h)
  case (Suc n)
  have again: "admitted i requests h2 w' r"
    if "good w2" and "kept h2 (view w2)"
      and "(if \<not> is_conflict e \<or> n = 0 then throw e
        else admit_attempts ports timer maximum owner i requests n) w2 = (w', r)" for e h2 w2
  proof (cases "\<not> is_conflict e \<or> n = 0")
    case True
    with that show ?thesis by (auto simp: throw_def admitted_def intro: exI [of _ "[]"])
  next
    case False
    with that show ?thesis by (intro Suc.IH Suc.prems(3)) simp_all
  qed
  show ?case
    by (rule check_receipt [OF Suc.prems(1,2) Suc.prems(5) [unfolded admit_attempts.simps agents_store.simps]],
        erule attempt_admission [OF _ _ Suc.prems(3)], assumption, assumption,
        erule check_receipt, assumption, assumption, erule again, assumption, assumption)
qed simp

lemma books_limit: "kept h v \<Longrightarrow> spent h minute \<le> maximum"
  by (simp add: books_def)

lemma admit_keeps_limit:
  assumes "good w" and "kept h (view w)" and "maximum = int_number (limit owner)"
    and "admit ports timer limit sha owner operationId requests w = (w', r)"
  shows "\<exists>h'. kept (h @ h') (view w') \<and> (\<forall>minute. spent (h @ h') minute \<le> maximum) \<and>
    (r = Inr () \<longrightarrow> receipt_of (h @ h') (sha operationId) = Some (int_number requests))"
proof (cases "safe_integer (limit owner) \<and> 0 \<le> maximum \<and> safe_integer requests \<and> 1 \<le> int_number requests")
  case True
  then have "admit_attempts ports timer maximum owner (sha operationId) (int_number requests) 20 w = (w', r)"
    using assms(3,4) by (simp add: admit_def Let_def)
  from admit_attempts_admitted [OF assms(1,2) _ _ this] True
  have "admitted (sha operationId) (int_number requests) h w' r" by simp
  then show ?thesis unfolding admitted_def by (blast intro: books_limit)
next
  case False
  with assms(3,4) have "w' = w \<and> r \<noteq> Inr ()" by (auto simp: admit_def Let_def throw_def)
  with assms(2) books_limit [OF assms(2)] show ?thesis by (intro exI [of _ "[]"]) simp
qed

end

end
