(* ===== verification/Agents_Store_Props.thy ===== *)
theory Agents_Store_Props
  imports Rate_Limit
begin

text \<open>
  Both providers of the store keep its contract, and so the rate limit holds on each of them,
  whatever other clients, the network and the services do.
\<close>

text \<open>Every clock that is read is a JavaScript date after 1970.\<close>

definition clock_ok :: "int \<Rightarrow> bool" where
  "clock_ok seconds \<longleftrightarrow> 0 \<le> seconds \<and> seconds div 60 \<le> last_minute"

definition clocks_ok :: "'s agents_world \<Rightarrow> bool" where
  "clocks_ok w \<longleftrightarrow> clock_ok (ag_clock w) \<and> (\<forall>t \<in> set (ag_script w). clock_ok (at_now t))"

section \<open>The SQLite store\<close>

definition sqlite_view :: "sqlite_rows \<Rightarrow> resource_key store_view" where
  "sqlite_view rows k = shown (row_of rows k)"

definition sqlite_address :: "string \<Rightarrow> string \<Rightarrow> string \<Rightarrow> resource_key" where
  "sqlite_address ownerId collection i = (ownerId, collection, i)"

definition rows_ok :: "sqlite_rows \<Rightarrow> bool" where
  "rows_ok rows \<longleftrightarrow> distinct (map row_key rows) \<and> (\<forall>r \<in> set rows. 1 \<le> rs_revision r)"

text \<open>Values that JSON keeps as they are.\<close>

definition plain_json :: "jsval set" where
  "plain_json = {v. json_copy v = v \<and> v \<noteq> JUndef}"

text \<open>
  Other tasks of the process act between the statements: they keep the rows well formed, and
  do to the view what the relation \<open>R\<close> allows.
\<close>

definition sqlite_good ::
  "(resource_key store_view \<Rightarrow> resource_key store_view \<Rightarrow> bool) \<Rightarrow> sqlite_rows agents_world \<Rightarrow> bool" where
  "sqlite_good R w \<longleftrightarrow> clocks_ok w \<and> rows_ok (ag_state w) \<and> (\<forall>t \<in> set (ag_script w). \<forall>rows. rows_ok rows \<longrightarrow>
     rows_ok (at_others t rows) \<and> R\<^sup>*\<^sup>* (sqlite_view rows) (sqlite_view (at_others t rows)))"

lemma sqlite_turn:
  assumes "agents_turn_of w = (fault, w1)" and "sqlite_good R w"
  shows "sqlite_good R w1" and "R\<^sup>*\<^sup>* (sqlite_view (ag_state w)) (sqlite_view (ag_state w1))"
  using assms by (auto simp: agents_turn_of_def sqlite_good_def clocks_ok_def split: list.splits)

lemma row_of_write:
  "row_of (sqlite_write r rows) k =
    (if k = row_key r then Some (r\<lparr>rs_value := json_copy (rs_value r)\<rparr>) else row_of rows k)"
proof -
  have 1: "find P (xs @ ys) = (case find P xs of None \<Rightarrow> find P ys | Some x \<Rightarrow> Some x)" for P and xs ys :: sqlite_rows
    by (induction xs) auto
  have 2: "find (\<lambda>x. row_key x = k) (filter (\<lambda>x. row_key x \<noteq> row_key r) rows) =
      (if k = row_key r then None else row_of rows k)"
    unfolding row_of_def by (induction rows) auto
  show ?thesis
    using 2 by (auto simp: row_of_def sqlite_write_def sqlite_remove_def 1 row_key_def split: option.splits)
qed

lemma rows_ok_write:
  "rows_ok rows \<Longrightarrow> 1 \<le> rs_revision r \<Longrightarrow> rows_ok (sqlite_write r rows)"
  by (auto simp: rows_ok_def sqlite_write_def sqlite_remove_def row_key_def distinct_map_filter)

lemma sqlite_writes_view:
  "\<forall>u \<in> set ws. rs_value (rw_resource u) \<in> plain_json \<Longrightarrow>
   sqlite_view (sqlite_writes ws rows) = written_view sqlite_address ws (sqlite_view rows)"
proof (induction ws arbitrary: rows)
  case (Cons u ws)
  have "sqlite_view (sqlite_write (rw_resource u) rows) = (sqlite_view rows)
      (write_address sqlite_address u := Some (rs_revision (rw_resource u), rs_value (rw_resource u)))"
    using Cons.prems
    by (auto simp: sqlite_view_def fun_eq_iff row_of_write shown_def plain_json_def write_address_def
        sqlite_address_def row_key_def)
  with Cons show ?case by (simp add: sqlite_writes_def written_view_def)
qed (simp add: sqlite_writes_def written_view_def)

lemma sqlite_writes_ok:
  "rows_ok rows \<Longrightarrow> \<forall>u \<in> set ws. 1 \<le> rs_revision (rw_resource u) \<Longrightarrow> rows_ok (sqlite_writes ws rows)"
  by (induction ws arbitrary: rows) (auto simp: sqlite_writes_def rows_ok_write)

lemma sqlite_expect_Inr:
  assumes "sqlite_expect rows k revision = Inr ()" and "rows_ok rows"
  shows "map_option fst (sqlite_view rows k) = (if revision = 0 then None else Some revision)"
    and "0 \<le> revision"
proof -
  have "r \<in> set rows" if "row_of rows k = Some r" for r
    using that by (auto simp: row_of_def find_Some_iff)
  with assms show "map_option fst (sqlite_view rows k) = (if revision = 0 then None else Some revision)"
    and "0 \<le> revision"
    by (fastforce simp: sqlite_expect_def sqlite_view_def shown_def rows_ok_def split: option.splits)+
qed

lemma validateWrites_fit:
  assumes "validateWrites rows identities ws = Inr ()" and "rows_ok rows"
  shows "writes_fit sqlite_address (sqlite_view rows) ws \<and>
    (\<forall>u \<in> set ws. row_key (rw_resource u) \<notin> identities \<and> 1 \<le> rs_revision (rw_resource u))"
  using assms
proof (induction ws arbitrary: identities)
  case (Cons u ws)
  let ?k = "row_key (rw_resource u)"
  have u: "?k \<notin> identities" "rs_revision (rw_resource u) = rw_expectedRevision u + 1"
    "sqlite_expect rows ?k (rw_expectedRevision u) = Inr ()"
    "validateWrites rows (insert ?k identities) ws = Inr ()"
    using Cons.prems(1) by (auto simp: Let_def bindE_Inr split: if_splits)
  from u(1,2) Cons.IH [OF u(4) assms(2)] sqlite_expect_Inr [OF u(3) assms(2)] show ?case
    by (auto simp: writes_fit_def write_address_def sqlite_address_def row_key_def)
qed (simp_all add: writes_fit_def)

lemma sqlite_commit_cases:
  assumes "sqlite_good R w" and "\<forall>u \<in> set ws. rs_value (rw_resource u) \<in> plain_json"
    and "sqlite_commit ws w = (w', q)"
  shows "sqlite_good R w' \<and> (\<exists>v. R\<^sup>*\<^sup>* (sqlite_view (ag_state w)) v \<and>
    (sqlite_view (ag_state w') = v \<and> (q = Inr () \<longrightarrow> ws = []) \<or>
     writes_fit sqlite_address v ws \<and> sqlite_view (ag_state w') = written_view sqlite_address ws v))"
proof -
  obtain fault w1 where turn: "agents_turn_of w = (fault, w1)" by (cases "agents_turn_of w")
  note 1 = sqlite_turn [OF turn assms(1)]
  then have rows: "rows_ok (ag_state w1)" by (simp add: sqlite_good_def)
  show ?thesis
  proof (cases "validateWrites (ag_state w1) {} ws")
    case (Inl e)
    with assms(3) turn have "ag_state w' = ag_state w1 \<and> ag_script w' = ag_script w1 \<and> ag_clock w' = ag_clock w1 \<and>
        q \<noteq> Inr ()"
      by (auto simp: sqlite_commit_def sqlite_transaction_def agents_write_def split: agents_fault.splits)
    with 1 show ?thesis by (auto simp: sqlite_good_def clocks_ok_def)
  next
    case (Inr u)
    then have valid: "validateWrites (ag_state w1) {} ws = Inr ()" by simp
    from assms(3) turn valid
    have "ag_script w' = ag_script w1 \<and> ag_clock w' = ag_clock w1 \<and> (ag_state w' = ag_state w1 \<and> q \<noteq> Inr () \<or>
        ag_state w' = sqlite_writes ws (ag_state w1))"
      by (auto simp: sqlite_commit_def sqlite_transaction_def agents_write_def split: agents_fault.splits)
    with 1 rows validateWrites_fit [OF valid rows] sqlite_writes_ok [OF rows]
      sqlite_writes_view [OF assms(2), of "ag_state w1"]
    show ?thesis by (auto simp: sqlite_good_def clocks_ok_def)
  qed
qed

lemma sqlite_get_cases:
  assumes "sqlite_good R w" and "sqlite_get ownerId collection i w = (w', r)"
  shows "sqlite_good R w'" and "R\<^sup>*\<^sup>* (sqlite_view (ag_state w)) (sqlite_view (ag_state w'))"
    and "r = Inr x \<Longrightarrow> sqlite_view (ag_state w') (ownerId, collection, i) = shown x"
proof -
  obtain fault w1 where turn: "agents_turn_of w = (fault, w1)" by (cases "agents_turn_of w")
  with assms(2) have "w' = w1" and "r = Inr x \<Longrightarrow> row_of (ag_state w1) (ownerId, collection, i) = x"
    by (auto simp: sqlite_get_def agents_read_def split: agents_fault.splits)
  with sqlite_turn [OF turn assms(1)] show "sqlite_good R w'"
    and "R\<^sup>*\<^sup>* (sqlite_view (ag_state w)) (sqlite_view (ag_state w'))"
    and "r = Inr x \<Longrightarrow> sqlite_view (ag_state w') (ownerId, collection, i) = shown x"
    by (auto simp: sqlite_view_def)
qed

lemma sqlite_get_address:
  assumes "sqlite_get ownerId collection i w = (w', Inr (Some p))"
  shows "sqlite_address (rs_ownerId p) (rs_collection p) (rs_id p) = sqlite_address ownerId collection i"
  using assms
  by (auto simp: sqlite_get_def agents_read_def row_of_def find_Some_iff row_key_def sqlite_address_def
      split: agents_fault.splits prod.splits)

interpretation sqlite: resource_store sqlite_get sqlite_commit "\<lambda>w. sqlite_view (ag_state w)"
  sqlite_address plain_json "sqlite_good R" "R\<^sup>*\<^sup>*" for R
proof (unfold_locales, goal_cases)
  case (1 w ownerId collection i w' r)
  then show ?case by (rule sqlite_get_cases(1))
next
  case (2 w ownerId collection i w' r)
  note get = sqlite_get_cases [OF this]
  then show ?case
    by (intro exI [of _ "sqlite_view (ag_state w')"]) (auto simp: sqlite_address_def)
next
  case (3 w ownerId collection i w' p)
  show ?case by (rule sqlite_get_address [OF 3(2)])
next
  case (4 w ws w' q)
  then show ?case by (rule sqlite_commit_cases [THEN conjunct1])
next
  case (5 w ws w' q)
  then show ?case by (rule sqlite_commit_cases [THEN conjunct2])
qed

section \<open>The DynamoDB store\<close>

definition dynamo_view :: "agents_state \<Rightarrow> string store_view" where
  "dynamo_view s scope = (case as_table s (scope, ''root'') of
       None \<Rightarrow> None
     | Some x \<Rightarrow> if ix_deleted x then None
         else map_option (\<lambda>v. (ix_revision x, v)) (as_objects s (object_key (ix_reference x))))"

text \<open>
  What the code relies on: digests are hexadecimal (so they hold neither a slash nor a colon),
  and two different values in use do not have the same digest.
\<close>

definition plain_hash :: "dynamo_platform \<Rightarrow> bool" where
  "plain_hash dy \<longleftrightarrow> (\<forall>s. CHR ''/'' \<notin> set (hash_of dy s) \<and> CHR '':'' \<notin> set (hash_of dy s))"

definition content_hashed :: "dynamo_platform \<Rightarrow> jsval set \<Rightarrow> bool" where
  "content_hashed dy S \<longleftrightarrow> plain_hash dy \<and> S \<subseteq> plain_json \<and> inj_on (value_digest dy) S"

text \<open>
  Every object is stored under the digest of its value, and every item of a resource names an
  object that is stored.
\<close>

definition content_named :: "dynamo_platform \<Rightarrow> string \<Rightarrow> jsval \<Rightarrow> bool" where
  "content_named dy k v \<longleftrightarrow> (\<exists>f. k = content_key f (value_digest dy v))"

definition agents_state_ok :: "dynamo_platform \<Rightarrow> jsval set \<Rightarrow> agents_state \<Rightarrow> bool" where
  "agents_state_ok dy S s \<longleftrightarrow>
     (\<forall>k v. as_objects s k = Some v \<longrightarrow> v \<in> S \<and> content_named dy k v) \<and>
     (\<forall>scope x. as_table s (scope, ''root'') = Some x \<longrightarrow>
       1 \<le> ix_revision x \<and> as_objects s (object_key (ix_reference x)) \<noteq> None \<and>
       root_scope dy (ix_ownerId x) (ix_collection x) (ix_id x) = scope)"

definition dynamo_good ::
  "dynamo_platform \<Rightarrow> jsval set \<Rightarrow> (string store_view \<Rightarrow> string store_view \<Rightarrow> bool)
     \<Rightarrow> agents_state agents_world \<Rightarrow> bool" where
  "dynamo_good dy S R w \<longleftrightarrow> clocks_ok w \<and> content_hashed dy S \<and> agents_state_ok dy S (ag_state w) \<and>
     (\<forall>t \<in> set (ag_script w). \<forall>s. agents_state_ok dy S s \<longrightarrow>
       agents_state_ok dy S (at_others t s) \<and> as_objects s \<subseteq>\<^sub>m as_objects (at_others t s) \<and>
       R\<^sup>*\<^sup>* (dynamo_view s) (dynamo_view (at_others t s)))"

lemma dynamo_turn:
  assumes "agents_turn_of w = (fault, w1)" and "dynamo_good dy S R w"
  shows "dynamo_good dy S R w1" and "R\<^sup>*\<^sup>* (dynamo_view (ag_state w)) (dynamo_view (ag_state w1))"
    and "as_objects (ag_state w) \<subseteq>\<^sub>m as_objects (ag_state w1)"
  using assms by (auto simp: agents_turn_of_def dynamo_good_def clocks_ok_def split: list.splits)

lemma content_key_inject:
  assumes "content_key f d = content_key f' d'" and "CHR ''/'' \<notin> set d" and "CHR ''/'' \<notin> set d'"
  shows "f = f' \<and> d = d'"
proof -
  have "rev d @ CHR ''/'' # rev f = rev d' @ CHR ''/'' # rev f'"
    using arg_cong [OF assms(1), of "drop 5 \<circ> rev"] by (simp add: content_key_def)
  with assms(2,3) show ?thesis by (induction d d' rule: rev_induct2) auto
qed

text \<open>An object is only ever replaced by itself.\<close>

lemma same_object:
  assumes "content_hashed dy S" and "agents_state_ok dy S s" and "v \<in> S"
    and "as_objects s (content_key f (value_digest dy v)) = Some v'"
  shows "v' = v"
proof -
  from assms(2,4) have "v' \<in> S" and "content_named dy (content_key f (value_digest dy v)) v'"
    by (auto simp: agents_state_ok_def)
  then obtain f' where "content_key f (value_digest dy v) = content_key f' (value_digest dy v')"
    by (auto simp: content_named_def)
  then have "value_digest dy v = value_digest dy v'"
    using assms(1) by (auto simp: content_hashed_def plain_hash_def value_digest_def dest: content_key_inject)
  with assms(1,3) \<open>v' \<in> S\<close> show ?thesis by (auto simp: content_hashed_def inj_on_def)
qed

lemma view_more_objects:
  assumes "agents_state_ok dy S s" and "as_objects s \<subseteq>\<^sub>m objs"
  shows "dynamo_view (s\<lparr>as_objects := objs\<rparr>) = dynamo_view s"
proof
  fix scope
  show "dynamo_view (s\<lparr>as_objects := objs\<rparr>) scope = dynamo_view s scope"
  proof (cases "as_table s (scope, ''root'')")
    case (Some x)
    with assms(1) obtain v where "as_objects s (object_key (ix_reference x)) = Some v"
      unfolding agents_state_ok_def by blast
    moreover from this assms(2) have "objs (object_key (ix_reference x)) = Some v"
      by (auto simp: map_le_def dom_def)
    ultimately show ?thesis using Some by (simp add: dynamo_view_def)
  qed (simp add: dynamo_view_def)
qed

lemma put_object_ok:
  assumes "content_hashed dy S" and "agents_state_ok dy S s" and "v \<in> S"
    and objs: "objs = (as_objects s)(content_key f (value_digest dy v) := Some (json_copy v))"
  shows "as_objects s \<subseteq>\<^sub>m objs" and "agents_state_ok dy S (s\<lparr>as_objects := objs\<rparr>)"
proof -
  have copy: "json_copy v = v" using assms(1,3) by (auto simp: content_hashed_def plain_json_def)
  show more: "as_objects s \<subseteq>\<^sub>m objs"
    using same_object [OF assms(1-3)] by (auto simp: objs copy map_le_def)
  have "objs k = Some v' \<longrightarrow> v' \<in> S \<and> content_named dy k v'" for k v'
    using assms(2,3) by (auto simp: objs copy agents_state_ok_def content_named_def)
  moreover have "objs k \<noteq> None" if "as_objects s k \<noteq> None" for k
    using that by (simp add: objs)
  ultimately show "agents_state_ok dy S (s\<lparr>as_objects := objs\<rparr>)"
    using assms(2) by (simp add: agents_state_ok_def)
qed

text \<open>What a step that leaves the table alone guarantees.\<close>

definition dynamo_step ::
  "dynamo_platform \<Rightarrow> jsval set \<Rightarrow> (string store_view \<Rightarrow> string store_view \<Rightarrow> bool)
     \<Rightarrow> agents_state agents_world \<Rightarrow> agents_state agents_world \<Rightarrow> bool" where
  "dynamo_step dy S R w w' \<longleftrightarrow> dynamo_good dy S R w' \<and>
     R\<^sup>*\<^sup>* (dynamo_view (ag_state w)) (dynamo_view (ag_state w')) \<and>
     as_objects (ag_state w) \<subseteq>\<^sub>m as_objects (ag_state w')"

lemma dynamo_step_trans:
  "dynamo_step dy S R w w1 \<Longrightarrow> dynamo_step dy S R w1 w2 \<Longrightarrow> dynamo_step dy S R w w2"
  by (auto simp: dynamo_step_def intro: map_le_trans)

lemma turn_step: "agents_turn_of w = (fault, w1) \<Longrightarrow> dynamo_good dy S R w \<Longrightarrow> dynamo_step dy S R w w1"
  by (simp add: dynamo_step_def dynamo_turn)

lemma put_step:
  assumes "dynamo_good dy S R w" and "v \<in> S"
    and "putJson dy (content_key f (value_digest dy v)) v w = (w', r)"
  shows "dynamo_step dy S R w w'" and "r = Inr ref \<Longrightarrow> object_key ref = content_key f (value_digest dy v) \<and>
    as_objects (ag_state w') (object_key ref) = Some v"
proof -
  let ?k = "content_key f (value_digest dy v)"
  obtain fault w1 where turn: "agents_turn_of w = (fault, w1)" by (cases "agents_turn_of w")
  note 1 = turn_step [OF turn assms(1)]
  then have good1: "dynamo_good dy S R w1" by (simp add: dynamo_step_def)
  then have hashed: "content_hashed dy S" and state1: "agents_state_ok dy S (ag_state w1)"
    by (simp_all add: dynamo_good_def)
  have v: "v \<noteq> JUndef" "json_copy v = v"
    using hashed assms(2) by (auto simp: content_hashed_def plain_json_def)
  define w2 where "w2 = w1\<lparr>ag_state := (ag_state w1)\<lparr>as_objects :=
    (as_objects (ag_state w1))(?k := Some (json_copy v))\<rparr>\<rparr>"
  note put = put_object_ok [OF hashed state1 assms(2) refl]
  have "dynamo_step dy S R w1 w2"
    using good1 put view_more_objects [OF state1 put(1)] by (simp add: w2_def dynamo_step_def dynamo_good_def clocks_ok_def)
  with 1 have 2: "dynamo_step dy S R w w2" by (rule dynamo_step_trans)
  have "w' = w1 \<and> (\<exists>e. r = Inl e) \<or> w' = w2 \<and> (\<forall>ref. r = Inr ref \<longrightarrow> object_key ref = ?k)"
    using assms(3) turn v(1) by (auto simp: putJson_def agents_write_def w2_def split: agents_fault.splits)
  with 1 2 show "dynamo_step dy S R w w'" and "r = Inr ref \<Longrightarrow> object_key ref = ?k \<and>
    as_objects (ag_state w') (object_key ref) = Some v"
    by (auto simp: w2_def v(2))
qed

section \<open>Writing\<close>

text \<open>The items of the writes, each with the object that holds its value.\<close>

definition stored_write :: "dynamo_platform \<Rightarrow> agents_state \<Rightarrow> resource_write \<times> artifact_ref \<Rightarrow> bool" where
  "stored_write dy s = (\<lambda>(u, ref). as_objects s (object_key ref) = Some (rs_value (rw_resource u)) \<and>
     rs_revision (rw_resource u) = rw_expectedRevision u + 1)"

lemma stored_write_more:
  "stored_write dy s x \<Longrightarrow> as_objects s \<subseteq>\<^sub>m as_objects s' \<Longrightarrow> stored_write dy s' x"
  by (auto simp: stored_write_def map_le_def dom_def split: prod.splits)

lemma write_each_step:
  assumes "dynamo_good dy S R w" and "\<forall>u \<in> set ws. rs_value (rw_resource u) \<in> S"
    and "write_each dy ws w = (w', r)"
  shows "dynamo_step dy S R w w' \<and> (\<forall>items. r = Inr items \<longrightarrow> (\<exists>us. map fst us = ws \<and>
    items = concat (map (\<lambda>(u, ref). put_items dy u ref) us) \<and>
    (\<forall>x \<in> set us. stored_write dy (ag_state w') x)))"
  using assms
proof (induction ws arbitrary: w w' r)
  case Nil
  then show ?case by (auto simp: ret_def dynamo_step_def)
next
  case (Cons u ws)
  let ?r = "rw_resource u"
  let ?put = "putJson dy (content_key (value_folder dy ?r) (value_digest dy (rs_value ?r))) (rs_value ?r)"
  show ?case
  proof (cases "rs_revision ?r = rw_expectedRevision u + 1")
    case False
    with Cons.prems show ?thesis by (auto simp: Let_def throw_def dynamo_step_def)
  next
    case True
    obtain w1 r1 where put: "?put w = (w1, r1)" by (cases "?put w")
    have "rs_value ?r \<in> S" using Cons.prems(2) by simp
    note 1 = put_step [OF Cons.prems(1) this put]
    then have good1: "dynamo_good dy S R w1" by (simp add: dynamo_step_def)
    show ?thesis
    proof (cases r1)
      case (Inl e)
      with Cons.prems(3) True put 1(1) show ?thesis by (auto simp: Let_def bind_io_def)
    next
      case (Inr ref)
      obtain w2 r2 where rest: "write_each dy ws w1 = (w2, r2)" by (cases "write_each dy ws w1")
      from Cons.IH [OF good1 _ rest] Cons.prems(2) have 2: "dynamo_step dy S R w1 w2"
        and items: "\<And>items. r2 = Inr items \<Longrightarrow> \<exists>us. map fst us = ws \<and>
          items = concat (map (\<lambda>(u, ref). put_items dy u ref) us) \<and>
          (\<forall>x \<in> set us. stored_write dy (ag_state w2) x)" by auto
      have "stored_write dy (ag_state w1) (u, ref)" using 1(2) [OF Inr, THEN conjunct2] True by (simp add: stored_write_def)
      then have u: "stored_write dy (ag_state w2) (u, ref)"
        using 2 by (auto simp: dynamo_step_def intro: stored_write_more)
      from Cons.prems(3) True put Inr rest have "w' = w2"
        and r: "r = (case r2 of Inl e \<Rightarrow> Inl e | Inr items \<Rightarrow> Inr (put_items dy u ref @ items))"
        by (auto simp: Let_def bind_io_def ret_def split: sum.splits)
      have "\<exists>us. map fst us = u # ws \<and> items' = concat (map (\<lambda>(u, ref). put_items dy u ref) us) \<and>
          (\<forall>x \<in> set us. stored_write dy (ag_state w2) x)" if "r = Inr items'" for items'
      proof -
        from that r obtain items where "r2 = Inr items" and "items' = put_items dy u ref @ items"
          by (auto split: sum.splits)
        with items obtain us where "map fst us = ws" and "items' = put_items dy u ref @
            concat (map (\<lambda>(u, ref). put_items dy u ref) us)"
          and "\<forall>x \<in> set us. stored_write dy (ag_state w2) x" by blast
        with u show ?thesis by (intro exI [of _ "(u, ref) # us"]) simp
      qed
      with dynamo_step_trans [OF 1(1) 2] \<open>w' = w2\<close> show ?thesis by simp
    qed
  qed
qed

abbreviation write_items :: "dynamo_platform \<Rightarrow> (resource_write \<times> artifact_ref) list \<Rightarrow> table_write list" where
  "write_items dy us \<equiv> concat (map (\<lambda>(u, ref). put_items dy u ref) us)"

lemma order_not_root: "orderKey r \<noteq> ''root''"
proof
  assume "orderKey r = ''root''"
  then have "CHR '':'' \<in> set ''root''" by (metis UnI2 list.set_intros(1) orderKey_def set_append append_Cons)
  then show False by simp
qed

text \<open>One write carried out on the table.\<close>

definition write_table :: "dynamo_platform \<Rightarrow> resource_write \<times> artifact_ref \<Rightarrow> agents_state \<Rightarrow> agents_state" where
  "write_table dy x s = s\<lparr>as_table := fold apply_write (put_items dy (fst x) (snd x)) (as_table s)\<rparr>"

lemma write_table_item:
  "as_table (write_table dy (u, ref) s) (scope, ''root'') =
    (if scope = write_address (root_scope dy) u then Some (index_of (rw_resource u) ref)
     else as_table s (scope, ''root''))"
  "as_objects (write_table dy (u, ref) s) = as_objects s"
  using order_not_root [of "rw_resource u"]
  by (auto simp: write_table_def put_items_def Let_def apply_write_def rootKey_def write_address_def)

lemma write_table_view:
  assumes "stored_write dy s (u, ref)"
  shows "dynamo_view (write_table dy (u, ref) s) = (dynamo_view s)
    (write_address (root_scope dy) u := Some (rs_revision (rw_resource u), rs_value (rw_resource u)))"
  using assms
  by (auto simp: fun_eq_iff dynamo_view_def write_table_item stored_write_def index_of_def split: option.splits)

lemma write_table_ok:
  assumes "agents_state_ok dy S s" and "stored_write dy s (u, ref)" and "1 \<le> rs_revision (rw_resource u)"
  shows "agents_state_ok dy S (write_table dy (u, ref) s)"
  using assms by (auto simp: agents_state_ok_def write_table_item stored_write_def write_address_def index_of_def)

lemma write_items_done:
  assumes "agents_state_ok dy S s" and "\<forall>x \<in> set us. stored_write dy s x"
    and "\<forall>x \<in> set us. 1 \<le> rs_revision (rw_resource (fst x))"
  shows "agents_state_ok dy S (s\<lparr>as_table := fold apply_write (write_items dy us) (as_table s)\<rparr>) \<and>
    dynamo_view (s\<lparr>as_table := fold apply_write (write_items dy us) (as_table s)\<rparr>) =
      written_view (root_scope dy) (map fst us) (dynamo_view s)"
  using assms
proof (induction us arbitrary: s)
  case (Cons x us)
  obtain u ref where x: "x = (u, ref)" by (cases x)
  let ?s = "write_table dy (u, ref) s"
  have u: "stored_write dy s (u, ref)" "1 \<le> rs_revision (rw_resource u)" using Cons.prems(2,3) x by auto
  have "\<forall>x \<in> set us. stored_write dy ?s x"
    using Cons.prems(2) by (auto simp: stored_write_def write_table_item)
  from Cons.IH [OF write_table_ok [OF Cons.prems(1) u] this] Cons.prems(3) write_table_view [OF u(1)]
  show ?case by (simp add: x write_table_def written_view_def)
qed (simp add: written_view_def)

lemma write_items_fit:
  assumes "agents_state_ok dy S s" and "\<forall>x \<in> set us. stored_write dy s x"
    and "\<forall>t \<in> set (write_items dy us). tw_condition t (as_table s (tw_key t))"
    and "distinct (map tw_key (write_items dy us))"
  shows "writes_fit (root_scope dy) (dynamo_view s) (map fst us)"
    and "\<forall>x \<in> set us. 1 \<le> rs_revision (rw_resource (fst x))"
proof -
  have root: "(write_address (root_scope dy) (fst x), ''root'') \<in> set (map tw_key (write_items dy us))"
    if "x \<in> set us" for x us
  proof -
    have "(write_address (root_scope dy) (fst x), ''root'') \<in> tw_key ` set (put_items dy (fst x) (snd x))"
      by (simp add: put_items_def Let_def write_address_def rootKey_def)
    with that show ?thesis by (fastforce simp: split_beta)
  qed
  have "distinct (map (write_address (root_scope dy)) (map fst us))"
    using assms(4)
  proof (induction us)
    case (Cons x us)
    have "set (map tw_key (write_items dy [x])) \<inter> set (map tw_key (write_items dy us)) = {}"
      using Cons.prems by (simp add: split_beta)
    then have "write_address (root_scope dy) (fst y) \<noteq> write_address (root_scope dy) (fst x)"
      if "y \<in> set us" for y
      using root [OF that] root [of x "[x]"] by (metis disjoint_iff list.set_intros(1))
    then have "write_address (root_scope dy) (fst x) \<notin> write_address (root_scope dy) ` fst ` set us"
      by (metis imageE)
    with Cons show ?case by (simp add: image_image)
  qed simp
  moreover have each: "rs_revision (rw_resource u) = rw_expectedRevision u + 1 \<and>
      map_option fst (dynamo_view s (write_address (root_scope dy) u)) =
        (if rw_expectedRevision u = 0 then None else Some (rw_expectedRevision u)) \<and>
      1 \<le> rs_revision (rw_resource u)" if "(u, ref) \<in> set us" for u ref
  proof -
    have "revision_expected (rw_expectedRevision u) (as_table s (write_address (root_scope dy) u, ''root''))"
      using assms(3) that
      by (force simp: put_items_def Let_def write_address_def rootKey_def)
    moreover have "rs_revision (rw_resource u) = rw_expectedRevision u + 1"
      using assms(2) that by (auto simp: stored_write_def)
    ultimately show ?thesis
      using assms(1)
      by (fastforce simp: agents_state_ok_def revision_expected_def dynamo_view_def split: option.splits if_splits)
  qed
  ultimately show "writes_fit (root_scope dy) (dynamo_view s) (map fst us)"
    by (fastforce simp: writes_fit_def)
  show "\<forall>x \<in> set us. 1 \<le> rs_revision (rw_resource (fst x))" using each by fastforce
qed

lemma dynamo_commit_cases:
  assumes "dynamo_good dy S R w" and "\<forall>u \<in> set ws. rs_value (rw_resource u) \<in> S"
    and "dynamo_commit dy ws w = (w', q)"
  shows "dynamo_good dy S R w' \<and> (\<exists>v. R\<^sup>*\<^sup>* (dynamo_view (ag_state w)) v \<and>
    (dynamo_view (ag_state w') = v \<and> (q = Inr () \<longrightarrow> ws = []) \<or>
     writes_fit (root_scope dy) v ws \<and> dynamo_view (ag_state w') = written_view (root_scope dy) ws v))"
proof -
  obtain w1 r1 where items: "writeItems dy ws w = (w1, r1)" by (cases "writeItems dy ws w")
  have 1: "dynamo_step dy S R w w1" and us: "\<And>items. r1 = Inr items \<Longrightarrow> \<exists>us. map fst us = ws \<and>
      items = write_items dy us \<and> (\<forall>x \<in> set us. stored_write dy (ag_state w1) x)"
    using items write_each_step [OF assms(1,2)] assms(1)
    by (auto simp: writeItems_def throw_def dynamo_step_def split: if_splits)
  show ?thesis
  proof (cases "ws = [] \<or> (\<exists>e. r1 = Inl e)")
    case True
    then have "w' = w \<and> ws = [] \<or> w' = w1 \<and> (\<exists>e. q = Inl e)"
      using assms(3) items by (cases "ws = []") (auto simp: dynamo_commit_def bind_io_def ret_def)
    with 1 assms(1) show ?thesis by (auto simp: dynamo_step_def)
  next
    case False
    then obtain items where r1: "r1 = Inr items" by (cases r1) auto
    from us [OF this] obtain us where ws: "ws = map fst us" and it: "items = write_items dy us"
      and stored1: "\<forall>x \<in> set us. stored_write dy (ag_state w1) x" by auto
    from 1 have good1: "dynamo_good dy S R w1" by (simp add: dynamo_step_def)
    obtain fault w2 where turn: "agents_turn_of w1 = (fault, w2)" by (cases "agents_turn_of w1")
    note 2 = turn_step [OF turn good1]
    then have stored: "\<forall>x \<in> set us. stored_write dy (ag_state w2) x"
      using stored1 by (auto simp: dynamo_step_def intro: stored_write_more)
    from 2 have good2: "dynamo_good dy S R w2" and state2: "agents_state_ok dy S (ag_state w2)"
      by (simp_all add: dynamo_step_def dynamo_good_def)
    have rely: "R\<^sup>*\<^sup>* (dynamo_view (ag_state w)) (dynamo_view (ag_state w2))"
      using dynamo_step_trans [OF 1 2] by (simp add: dynamo_step_def)
    obtain s3 q3 where run: "transact_items items (ag_state w2) = (s3, q3)"
      by (cases "transact_items items (ag_state w2)")
    have w': "w' = w2 \<and> q \<noteq> Inr () \<or> w' = w2\<lparr>ag_state := s3\<rparr> \<and> (q = Inr () \<longrightarrow> q3 = Inr ())"
      using assms(3) False items r1 turn run
      by (auto simp: dynamo_commit_def bind_io_def dynamo_transact_def try_io_def agents_write_def ret_def
          throw_def split: agents_fault.splits sum.splits)
    show ?thesis
    proof (cases "distinct (map tw_key items) \<and> (\<forall>t \<in> set items. tw_condition t (as_table (ag_state w2) (tw_key t)))")
      case True
      then have s3: "s3 = (ag_state w2)\<lparr>as_table := fold apply_write items (as_table (ag_state w2))\<rparr>"
        using run by (auto simp: transact_items_def)
      note fit = write_items_fit [OF state2 stored, folded it, OF conjunct2 [OF True] conjunct1 [OF True]]
      from write_items_done [OF state2 stored fit(2)] fit(1) w' rely good2
      show ?thesis by (auto simp: ws it s3 dynamo_good_def clocks_ok_def)
    next
      case False
      then have "s3 = ag_state w2 \<and> q3 \<noteq> Inr ()" using run by (auto simp: transact_items_def split: if_splits)
      with w' rely good2 show ?thesis by auto
    qed
  qed
qed

lemma dynamo_get_cases:
  assumes "dynamo_good dy S R w" and "dynamo_get dy ownerId collection i w = (w', r)"
  shows "dynamo_good dy S R w' \<and> (\<exists>v. R\<^sup>*\<^sup>* (dynamo_view (ag_state w)) v \<and>
    R\<^sup>*\<^sup>* v (dynamo_view (ag_state w')) \<and>
    (\<forall>x. r = Inr x \<longrightarrow> v (root_scope dy ownerId collection i) = shown x))"
proof -
  let ?scope = "root_scope dy ownerId collection i"
  obtain fault w1 where turn: "agents_turn_of w = (fault, w1)" by (cases "agents_turn_of w")
  note 1 = turn_step [OF turn assms(1)]
  then have good1: "dynamo_good dy S R w1" by (simp add: dynamo_step_def)
  obtain fault2 w2 where turn2: "agents_turn_of w1 = (fault2, w2)" by (cases "agents_turn_of w1")
  note 2 = turn_step [OF turn2 good1]
  have steps: "dynamo_good dy S R w1" "R\<^sup>*\<^sup>* (dynamo_view (ag_state w)) (dynamo_view (ag_state w1))"
    "dynamo_good dy S R w2" "R\<^sup>*\<^sup>* (dynamo_view (ag_state w1)) (dynamo_view (ag_state w2))"
    using 1 2 by (simp_all add: dynamo_step_def)
  have object: "as_objects (ag_state w2) (object_key (ix_reference x)) =
      as_objects (ag_state w1) (object_key (ix_reference x)) \<and> as_objects (ag_state w1) (object_key (ix_reference x)) \<noteq> None"
    if "as_table (ag_state w1) (?scope, ''root'') = Some x" for x
  proof -
    have "as_objects (ag_state w1) (object_key (ix_reference x)) \<noteq> None"
      using good1 that unfolding dynamo_good_def agents_state_ok_def by blast
    moreover from this 2 have "as_objects (ag_state w1) (object_key (ix_reference x)) =
        as_objects (ag_state w2) (object_key (ix_reference x))"
      by (auto simp: dynamo_step_def map_le_def dom_def)
    ultimately show ?thesis by simp
  qed
  have "(w' = w1 \<or> w' = w2) \<and> (\<forall>x. r = Inr x \<longrightarrow> dynamo_view (ag_state w1) ?scope = shown x)"
    using assms(2) turn turn2 object
    by (auto simp: dynamo_get_def dynamo_index_def hydrate_def getJson_def bind_io_def ret_def agents_read_def
        rootKey_def dynamo_view_def shown_def split: agents_fault.splits option.splits if_splits)
  with steps show ?thesis by blast
qed

lemma dynamo_get_address:
  assumes "dynamo_good dy S R w" and "dynamo_get dy ownerId collection i w = (w', Inr (Some p))"
  shows "root_scope dy (rs_ownerId p) (rs_collection p) (rs_id p) = root_scope dy ownerId collection i"
proof -
  obtain fault w1 where turn: "agents_turn_of w = (fault, w1)" by (cases "agents_turn_of w")
  have "agents_state_ok dy S (ag_state w1)"
    using turn_step [OF turn assms(1)] by (simp add: dynamo_step_def dynamo_good_def)
  then have root: "root_scope dy (ix_ownerId x) (ix_collection x) (ix_id x) = scope"
    if "as_table (ag_state w1) (scope, ''root'') = Some x" for x scope
    using that unfolding agents_state_ok_def by blast
  from assms(2) turn obtain x where "as_table (ag_state w1) (rootKey dy ownerId collection i) = Some x"
    and "rs_ownerId p = ix_ownerId x \<and> rs_collection p = ix_collection x \<and> rs_id p = ix_id x"
    by (auto simp: dynamo_get_def dynamo_index_def hydrate_def bind_io_def ret_def agents_read_def
        split: agents_fault.splits option.splits prod.splits sum.splits if_splits)
  with root show ?thesis by (simp add: rootKey_def)
qed

interpretation dynamo: resource_store "dynamo_get dy" "dynamo_commit dy" "\<lambda>w. dynamo_view (ag_state w)"
  "root_scope dy" S "dynamo_good dy S R" "R\<^sup>*\<^sup>*" for dy S R
proof (unfold_locales, goal_cases)
  case (1 w ownerId collection i w' r)
  then show ?case by (rule dynamo_get_cases [THEN conjunct1])
next
  case (2 w ownerId collection i w' r)
  then show ?case by (rule dynamo_get_cases [THEN conjunct2])
next
  case (3 w ownerId collection i w' p)
  then show ?case by (rule dynamo_get_address)
next
  case (4 w ws w' q)
  then show ?case by (rule dynamo_commit_cases [THEN conjunct1])
next
  case (5 w ws w' q)
  then show ?case by (rule dynamo_commit_cases [THEN conjunct2])
qed

section \<open>Lists\<close>

text \<open>A program that only reads lets the other clients act.\<close>

abbreviation only_others :: "('w \<Rightarrow> bool) \<Rightarrow> ('w \<Rightarrow> 'k store_view) \<Rightarrow>
    ('k store_view \<Rightarrow> 'k store_view \<Rightarrow> bool) \<Rightarrow> ('w, agents_error, 'x) io \<Rightarrow> bool" where
  "only_others good view R m \<equiv> guarantees good (\<lambda>w w'. R\<^sup>*\<^sup>* (view w) (view w')) m"

lemma only_others_refl: "reflp (\<lambda>w w'. R\<^sup>*\<^sup>* (view w) (view w'))"
  by (simp add: reflp_def)

lemma only_others_trans: "transp (\<lambda>w w'. R\<^sup>*\<^sup>* (view w) (view w'))"
  by (auto intro!: transpI)

lemmas only_others_intros = guarantees_ret [OF only_others_refl] guarantees_throw [OF only_others_refl]
  guarantees_bind [OF only_others_refl only_others_trans]

lemma only_others_run:
  "only_others good view R m \<Longrightarrow> good w \<Longrightarrow> m w = (w', r) \<Longrightarrow> good w' \<and> R\<^sup>*\<^sup>* (view w) (view w')"
  using guarantees_inv guarantees_rel by (metis fst_conv)

lemma agents_read_world: "fst (agents_read f w) = snd (agents_turn_of w)"
  by (simp add: agents_read_def Let_def split: prod.split agents_fault.split)

lemma dynamo_read_others: "only_others (dynamo_good dy S R) (\<lambda>w. dynamo_view (ag_state w)) R (agents_read f)"
  unfolding guarantees_def agents_read_world using dynamo_turn prod.collapse by metis

lemma sqlite_read_others: "only_others (sqlite_good R) (\<lambda>w. sqlite_view (ag_state w)) R (agents_read f)"
  unfolding guarantees_def agents_read_world using sqlite_turn prod.collapse by metis

lemma hydrate_all_others:
  "only_others (dynamo_good dy S R) (\<lambda>w. dynamo_view (ag_state w)) R (hydrate_all xs)"
  by (induction xs) (auto simp: hydrate_def getJson_def intro!: only_others_intros dynamo_read_others)

lemma dynamo_pages_others:
  "only_others (dynamo_good dy S R) (\<lambda>w. dynamo_view (ag_state w)) R (dynamo_pages n dy' scope asc maximum key found)"
  by (induction n arbitrary: key found)
    (auto intro!: only_others_intros dynamo_read_others hydrate_all_others)

lemma dynamo_list_others:
  "only_others (dynamo_good dy S R) (\<lambda>w. dynamo_view (ag_state w)) R (dynamo_list dy' ownerId collection q)"
  by (auto simp: dynamo_list_def dynamo_index_def Let_def simp del: dynamo_pages.simps
      intro!: only_others_intros dynamo_read_others dynamo_pages_others)

lemma sqlite_list_others:
  "only_others (sqlite_good R) (\<lambda>w. sqlite_view (ag_state w)) R (sqlite_list ownerId collection q)"
  by (auto simp: sqlite_list_def sqlite_get_def intro!: only_others_intros sqlite_read_others split: option.split)

interpretation sqlite_listing: listing_store sqlite_get sqlite_commit "\<lambda>w. sqlite_view (ag_state w)"
  sqlite_address plain_json "sqlite_good R" "R\<^sup>*\<^sup>*" sqlite_list for R
  by unfold_locales (blast dest: only_others_run [OF sqlite_list_others])+

interpretation dynamo_listing: listing_store "dynamo_get dy" "dynamo_commit dy" "\<lambda>w. dynamo_view (ag_state w)"
  "root_scope dy" S "dynamo_good dy S R" "R\<^sup>*\<^sup>*" "dynamo_list dy" for dy S R
  by unfold_locales (blast dest: only_others_run [OF dynamo_list_others])+

text \<open>A page that names a next key holds an item, so that the requests of a list are enough.\<close>

definition pages_advance :: "dynamo_platform \<Rightarrow> bool" where
  "pages_advance dy \<longleftrightarrow> (\<forall>table scope asc n key. snd (dy_query dy table scope asc n key) \<noteq> None \<longrightarrow>
     fst (dy_query dy table scope asc n key) \<noteq> [])"

lemma hydrate_all_length: "hydrate_all xs w = (w', Inr rs) \<Longrightarrow> length rs = length xs"
  by (induction xs arbitrary: w rs) (auto simp: bind_io_def ret_def split: prod.splits sum.splits)

lemma dynamo_pages_enough:
  assumes "pages_advance dy" "maximum + 2 \<le> n + length found" "maximum + 2 \<le> m + length found" "length found \<le> maximum"
  shows "dynamo_pages n dy scope asc maximum key found w = dynamo_pages m dy scope asc maximum key found w"
  using assms(2-4)
proof (induction n arbitrary: m key found w)
  case 0
  then show ?case by simp
next
  case (Suc n)
  then obtain m' where m: "m = Suc m'" by (cases m) auto
  have step: "dynamo_pages n dy scope asc maximum (Some y) (found @ rs) w' =
      dynamo_pages m' dy scope asc maximum (Some y) (found @ rs) w'"
    if "dy_query dy table scope asc k key = (xs, Some y)" "hydrate_all xs w0 = (w', Inr rs)"
      "length found + length rs \<le> maximum" for xs y rs w' w0 table k
  proof -
    have "xs \<noteq> []" using assms(1) that(1) unfolding pages_advance_def by (metis fst_conv option.discI snd_conv)
    then have "1 \<le> length rs" using hydrate_all_length [OF that(2)] by (cases xs) auto
    with Suc.prems m that(3) show ?thesis by (intro Suc.IH) auto
  qed
  show ?case
    unfolding m dynamo_pages.simps bind_io_def agents_read_def Let_def
    by (auto simp: ret_def split: prod.split sum.split agents_fault.split dest: step)
qed

section \<open>Deleting\<close>

lemma row_of_remove: "row_of (sqlite_remove k rows) k' = (if k' = k then None else row_of rows k')"
  unfolding row_of_def sqlite_remove_def by (induction rows) auto

lemma rows_ok_remove: "rows_ok rows \<Longrightarrow> rows_ok (sqlite_remove k rows)"
  by (auto simp: rows_ok_def sqlite_remove_def distinct_map_filter)

lemma sqlite_remove_view: "sqlite_view (sqlite_remove k rows) = (sqlite_view rows)(k := None)"
  by (auto simp: sqlite_view_def row_of_remove fun_eq_iff shown_def)

lemma sqlite_delete_cases:
  assumes "sqlite_good R w" and "\<forall>u \<in> set ws. rs_value (rw_resource u) \<in> plain_json" and "sqlite_delete p ws w = (w', q)"
  shows "sqlite_good R w' \<and> (\<exists>v. R\<^sup>*\<^sup>* (sqlite_view (ag_state w)) v \<and>
    (sqlite_view (ag_state w') = v \<and> q \<noteq> Inr () \<or>
     writes_fit sqlite_address v ws \<and>
     map_option fst (v (row_key p)) = (if rs_revision p = 0 then None else Some (rs_revision p)) \<and>
     sqlite_view (ag_state w') = (written_view sqlite_address ws v)(row_key p := None)))"
proof -
  obtain fault w1 where turn: "agents_turn_of w = (fault, w1)" by (cases "agents_turn_of w")
  note 1 = sqlite_turn [OF turn assms(1)]
  then have rows: "rows_ok (ag_state w1)" by (simp add: sqlite_good_def)
  show ?thesis
  proof (cases "bindE (sqlite_expect (ag_state w1) (row_key p) (rs_revision p)) (\<lambda>_. validateWrites (ag_state w1) {} ws)")
    case (Inl e)
    with assms(3) turn have "ag_state w' = ag_state w1 \<and> ag_script w' = ag_script w1 \<and> ag_clock w' = ag_clock w1 \<and>
        q \<noteq> Inr ()"
      by (auto simp: sqlite_delete_def sqlite_transaction_def agents_write_def bindE_def split: agents_fault.splits sum.splits)
    with 1 show ?thesis by (auto simp: sqlite_good_def clocks_ok_def)
  next
    case (Inr u)
    then have valid: "sqlite_expect (ag_state w1) (row_key p) (rs_revision p) = Inr ()" "validateWrites (ag_state w1) {} ws = Inr ()"
      by (auto simp: bindE_Inr)
    from assms(3) turn valid
    have "ag_script w' = ag_script w1 \<and> ag_clock w' = ag_clock w1 \<and> (ag_state w' = ag_state w1 \<and> q \<noteq> Inr () \<or>
        ag_state w' = sqlite_remove (row_key p) (sqlite_writes ws (ag_state w1)))"
      by (auto simp: sqlite_delete_def sqlite_transaction_def agents_write_def bindE_def split: agents_fault.splits)
    with 1 rows validateWrites_fit [OF valid(2) rows] rows_ok_remove [OF sqlite_writes_ok [OF rows], of ws "row_key p"]
      sqlite_expect_Inr(1) [OF valid(1) rows] sqlite_writes_view [OF assms(2), of "ag_state w1"]
    show ?thesis by (auto simp: sqlite_good_def clocks_ok_def sqlite_remove_view)
  qed
qed

interpretation sqlite_deleting: deleting_store sqlite_get sqlite_commit "\<lambda>w. sqlite_view (ag_state w)"
  sqlite_address plain_json "sqlite_good R" "R\<^sup>*\<^sup>*" sqlite_list sqlite_delete for R
proof (unfold_locales, goal_cases)
  case (1 w ws p w' q)
  then show ?case by (rule sqlite_delete_cases [THEN conjunct1])
next
  case (2 w ws k p w' q)
  then have "k = row_key p" by (simp add: sqlite_address_def row_key_def)
  with sqlite_delete_cases [OF 2(1,2,5), THEN conjunct2] show ?case by simp
qed

text \<open>The items of a deletion, carried out on the table.\<close>

definition erase_table :: "dynamo_platform \<Rightarrow> agent_resource \<Rightarrow> agents_state \<Rightarrow> agents_state" where
  "erase_table dy p s = s\<lparr>as_table := fold apply_write (delete_items dy p) (as_table s)\<rparr>"

lemma erase_table_item:
  "as_table (erase_table dy p s) (scope, ''root'') =
    (if scope = root_scope dy (rs_ownerId p) (rs_collection p) (rs_id p)
     then tombstone (rs_revision p + 1) (as_table s (scope, ''root'')) else as_table s (scope, ''root''))"
  "as_objects (erase_table dy p s) = as_objects s"
  using order_not_root [of p] by (auto simp: erase_table_def delete_items_def apply_write_def rootKey_def)

lemma erase_table_view:
  "dynamo_view (erase_table dy p s) =
    (dynamo_view s)(root_scope dy (rs_ownerId p) (rs_collection p) (rs_id p) := None)"
  by (auto simp: fun_eq_iff dynamo_view_def erase_table_item tombstone_def split: option.split)

lemma erase_table_ok:
  "agents_state_ok dy S s \<Longrightarrow> 0 \<le> rs_revision p \<Longrightarrow> agents_state_ok dy S (erase_table dy p s)"
  by (auto simp: agents_state_ok_def erase_table_item tombstone_def split: option.splits if_splits)

text \<open>The objects of the writes are stored before the transaction.\<close>

lemma items_stored:
  assumes "dynamo_good dy S R w" and "\<forall>u \<in> set ws. rs_value (rw_resource u) \<in> S" and "writeItems dy ws w = (w1, r1)"
  shows "dynamo_step dy S R w w1 \<and> (\<forall>items. r1 = Inr items \<longrightarrow> (\<exists>us. map fst us = ws \<and> items = write_items dy us \<and>
    (\<forall>x \<in> set us. stored_write dy (ag_state w1) x)))"
  using assms(3) write_each_step [OF assms(1,2)] assms(1)
  by (auto simp: writeItems_def throw_def dynamo_step_def split: if_splits)

lemma dynamo_delete_cases:
  assumes "dynamo_good dy S R w" and "\<forall>u \<in> set ws. rs_value (rw_resource u) \<in> S"
    and k: "k = root_scope dy (rs_ownerId p) (rs_collection p) (rs_id p)" and "dynamo_delete dy p ws w = (w', q)"
  shows "dynamo_good dy S R w' \<and> (\<exists>v. R\<^sup>*\<^sup>* (dynamo_view (ag_state w)) v \<and>
    (dynamo_view (ag_state w') = v \<and> q \<noteq> Inr () \<or>
     writes_fit (root_scope dy) v ws \<and>
     map_option fst (v k) = (if rs_revision p = 0 then None else Some (rs_revision p)) \<and>
     dynamo_view (ag_state w') = (written_view (root_scope dy) ws v)(k := None)))"
proof -
  obtain w1 r1 where run1: "writeItems dy ws w = (w1, r1)" by (cases "writeItems dy ws w")
  note 1 = items_stored [OF assms(1,2) run1]
  show ?thesis
  proof (cases "49 < length ws \<or> (\<exists>e. r1 = Inl e)")
    case True
    then have "w' = w \<and> q \<noteq> Inr () \<or> w' = w1 \<and> q \<noteq> Inr ()"
      using assms(4) run1 by (cases "49 < length ws") (auto simp: dynamo_delete_def bind_io_def throw_def)
    with 1 assms(1) show ?thesis by (auto simp: dynamo_step_def)
  next
    case False
    then obtain items where r1: "r1 = Inr items" by (cases r1) auto
    from 1 [THEN conjunct2, rule_format, OF this] obtain us where ws: "ws = map fst us" and it: "items = write_items dy us"
      and stored1: "\<forall>x \<in> set us. stored_write dy (ag_state w1) x" by auto
    from 1 have good1: "dynamo_good dy S R w1" by (simp add: dynamo_step_def)
    obtain fault w2 where turn: "agents_turn_of w1 = (fault, w2)" by (cases "agents_turn_of w1")
    note 2 = turn_step [OF turn good1]
    then have stored: "\<forall>x \<in> set us. stored_write dy (ag_state w2) x"
      using stored1 by (auto simp: dynamo_step_def intro: stored_write_more)
    from 2 have good2: "dynamo_good dy S R w2" and state2: "agents_state_ok dy S (ag_state w2)"
      by (simp_all add: dynamo_step_def dynamo_good_def)
    have rely: "R\<^sup>*\<^sup>* (dynamo_view (ag_state w)) (dynamo_view (ag_state w2))"
      using dynamo_step_trans [OF 1 [THEN conjunct1] 2] by (simp add: dynamo_step_def)
    let ?all = "items @ delete_items dy p"
    obtain s3 q3 where run: "transact_items ?all (ag_state w2) = (s3, q3)" by (cases "transact_items ?all (ag_state w2)")
    have w': "w' = w2 \<and> q \<noteq> Inr () \<or> w' = w2\<lparr>ag_state := s3\<rparr> \<and> (q = Inr () \<longrightarrow> q3 = Inr ())"
      using assms(4) False run1 r1 turn run
      by (auto simp: dynamo_delete_def bind_io_def dynamo_transact_def try_io_def agents_write_def ret_def
          throw_def split: agents_fault.splits sum.splits)
    show ?thesis
    proof (cases "distinct (map tw_key ?all) \<and> (\<forall>t \<in> set ?all. tw_condition t (as_table (ag_state w2) (tw_key t)))")
      case True
      then have s3: "s3 = erase_table dy p ((ag_state w2)\<lparr>as_table := fold apply_write items (as_table (ag_state w2))\<rparr>)"
        using run by (auto simp: transact_items_def erase_table_def)
      have "\<forall>t \<in> set items. tw_condition t (as_table (ag_state w2) (tw_key t))" "distinct (map tw_key items)"
        using True by auto
      note fit = write_items_fit [OF state2 stored, folded it, OF this]
      note carried = write_items_done [OF state2 stored fit(2), folded it]
      obtain x where x: "as_table (ag_state w2) (k, ''root'') = Some x" "ix_revision x = rs_revision p" "\<not> ix_deleted x"
        using True by (auto simp: delete_items_def rootKey_def k split: option.splits)
      then have revision: "1 \<le> rs_revision p" "map_option fst (dynamo_view (ag_state w2) k) = Some (rs_revision p)"
        using state2 [unfolded agents_state_ok_def, THEN conjunct2, rule_format, OF x(1)] by (auto simp: dynamo_view_def)
      have "agents_state_ok dy S s3"
        unfolding s3 by (rule erase_table_ok) (use carried revision(1) in auto)
      moreover have "dynamo_view s3 = (written_view (root_scope dy) ws (dynamo_view (ag_state w2)))(k := None)"
        unfolding s3 erase_table_view k using carried ws by simp
      ultimately show ?thesis using fit(1) w' rely good2 revision ws by (auto simp: dynamo_good_def clocks_ok_def)
    next
      case False
      then have "s3 = ag_state w2 \<and> q3 \<noteq> Inr ()" using run by (auto simp: transact_items_def split: if_splits)
      with w' rely good2 show ?thesis by auto
    qed
  qed
qed

interpretation dynamo_deleting: deleting_store "dynamo_get dy" "dynamo_commit dy" "\<lambda>w. dynamo_view (ag_state w)"
  "root_scope dy" S "dynamo_good dy S R" "R\<^sup>*\<^sup>*" "dynamo_list dy" "dynamo_delete dy" for dy S R
proof (unfold_locales, goal_cases)
  case (1 w ws p w' q)
  then show ?case by (rule dynamo_delete_cases [OF _ _ refl, THEN conjunct1])
next
  case (2 w ws k p w' q)
  then show ?case by (intro dynamo_delete_cases [THEN conjunct2])
qed

end
