(* ===== verification/Rate_Limit_Props.thy ===== *)
theory Rate_Limit_Props
  imports Agents_Store_Props
begin

text \<open>
  The rate limit of an owner on both providers of the store, whatever other API instances,
  the network and the services do.
\<close>

section \<open>On the SQLite store\<close>

text \<open>Other clients keep the books of the owner.\<close>

definition keeps_books ::
  "(string \<Rightarrow> string \<Rightarrow> string \<Rightarrow> 'k) \<Rightarrow> string \<Rightarrow> int \<Rightarrow> 'k store_view \<Rightarrow> 'k store_view \<Rightarrow> bool" where
  "keeps_books address owner maximum v v' \<longleftrightarrow> (\<forall>h.
     books (address owner ''rate_limits'' ''current'') (address owner ''rate_admissions'') maximum h v \<longrightarrow>
     (\<exists>h'. books (address owner ''rate_limits'' ''current'') (address owner ''rate_admissions'') maximum
       (h @ h') v'))"

lemma keeps_books_steps:
  assumes "(keeps_books address owner maximum)\<^sup>*\<^sup>* v v'"
    and "books (address owner ''rate_limits'' ''current'') (address owner ''rate_admissions'') maximum h v"
  shows "\<exists>h'. books (address owner ''rate_limits'' ''current'') (address owner ''rate_admissions'') maximum
    (h @ h') v'"
  using assms
proof (induction rule: rtranclp_induct)
  case base
  then show ?case by (intro exI [of _ "[]"]) simp
next
  case (step y z)
  then obtain h1 where "books (address owner ''rate_limits'' ''current'')
      (address owner ''rate_admissions'') maximum (h @ h1) y" by blast
  with step(2) obtain h2 where "books (address owner ''rate_limits'' ''current'')
      (address owner ''rate_admissions'') maximum ((h @ h1) @ h2) z" unfolding keeps_books_def by blast
  then show ?case by auto
qed

lemma limiter_values_plain: "limiter_values maximum \<subseteq> plain_json"
  by (auto simp: limiter_values_def plain_json_def counter_value_def number_value_def)

interpretation sqlite: limited_store sqlite_get sqlite_commit "\<lambda>w. sqlite_view (ag_state w)"
  sqlite_address plain_json "sqlite_good (keeps_books sqlite_address owner maximum)"
  "(keeps_books sqlite_address owner maximum)\<^sup>*\<^sup>*" owner maximum ag_clock for owner maximum
proof (unfold_locales, goal_cases)
  case (3 v v' h)
  then show ?case by (rule keeps_books_steps)
next
  case 4
  show ?case by (rule limiter_values_plain)
qed (auto simp: sqlite_address_def sqlite_good_def clocks_ok_def clock_ok_def)

section \<open>On the DynamoDB store\<close>

definition dynamo_limited ::
  "dynamo_platform \<Rightarrow> jsval set \<Rightarrow> string \<Rightarrow> int \<Rightarrow> agents_state agents_world \<Rightarrow> bool" where
  "dynamo_limited dy S owner maximum w \<longleftrightarrow>
     hash_of dy ''rate_limits'' \<noteq> hash_of dy ''rate_admissions'' \<and>
     dynamo_good dy (S \<union> limiter_values maximum) (keeps_books (root_scope dy) owner maximum) w"

lemma prefix_before: "p @ d # s = q @ d # t \<Longrightarrow> d \<notin> set p \<Longrightarrow> d \<notin> set q \<Longrightarrow> p = q \<and> s = t"
proof (induction p arbitrary: q)
  case (Cons c p)
  then show ?case by (cases q) auto
qed (auto simp: Cons_eq_append_conv)

lemma limited_addresses:
  assumes "dynamo_limited dy S owner maximum w"
  shows "root_scope dy owner ''rate_limits'' ''current'' \<noteq> root_scope dy owner ''rate_admissions'' i"
proof
  assume "root_scope dy owner ''rate_limits'' ''current'' = root_scope dy owner ''rate_admissions'' i"
  then have "hash_of dy ''rate_limits'' @ CHR '':'' # ''current'' =
      hash_of dy ''rate_admissions'' @ CHR '':'' # i"
    by (simp add: root_scope_def)
  moreover have "plain_hash dy"
    using assms by (simp add: dynamo_limited_def dynamo_good_def content_hashed_def)
  ultimately have "hash_of dy ''rate_limits'' = hash_of dy ''rate_admissions''"
    by (auto simp: plain_hash_def dest: prefix_before)
  with assms show False by (simp add: dynamo_limited_def)
qed

interpretation dynamo: limited_store "dynamo_get dy" "dynamo_commit dy" "\<lambda>w. dynamo_view (ag_state w)"
  "root_scope dy" "S \<union> limiter_values maximum" "dynamo_limited dy S owner maximum"
  "(keeps_books (root_scope dy) owner maximum)\<^sup>*\<^sup>*" owner maximum ag_clock for dy S owner maximum
proof (unfold_locales, goal_cases)
  case (1 w ownerId collection i w' r)
  then show ?case unfolding dynamo_limited_def by (blast intro: dynamo.fetch_good)
next
  case (2 w ownerId collection i w' r)
  then show ?case unfolding dynamo_limited_def by (blast dest: dynamo.fetch_view)
next
  case (3 w ownerId collection i w' p)
  then show ?case unfolding dynamo_limited_def by (blast dest: dynamo.fetch_address)
next
  case (4 w ws w' q)
  then show ?case unfolding dynamo_limited_def by (blast intro: dynamo.store_good)
next
  case (5 w ws w' q)
  then show ?case unfolding dynamo_limited_def by (blast dest: dynamo.store_view)
next
  case (6 w i)
  then show ?case by (rule limited_addresses)
next
  case (7 i j)
  then show ?case by (simp add: root_scope_def)
next
  case (8 v v' h)
  then show ?case by (rule keeps_books_steps)
next
  case 9
  show ?case by simp
next
  case (10 w)
  then show ?case by (simp add: dynamo_limited_def dynamo_good_def clocks_ok_def clock_ok_def)
qed

section \<open>An example platform\<close>

text \<open>Digests are the text itself without slashes and colons.\<close>

definition stripped :: "string \<Rightarrow> string" where
  "stripped s = filter (\<lambda>c. c \<notin> {CHR ''/'', CHR '':''}) s"

lemma stripped_append [simp]: "stripped (s @ t) = stripped s @ stripped t"
  by (simp add: stripped_def)

lemma stripped_Cons [simp]: "stripped (c # s) = (if c \<in> {CHR ''/'', CHR '':''} then stripped s else c # stripped s)"
  by (simp add: stripped_def)

lemma stripped_Nil [simp]: "stripped [] = []"
  by (simp add: stripped_def)

definition example_dynamo :: dynamo_platform where
  "example_dynamo = \<lparr>dy_platform = example_platform\<lparr>sha256Hex := stripped\<rparr>,
     dy_web = example_web, dy_bucket = ''artifacts'', dy_query = (\<lambda>table scope ascending n key. ([], None))\<rparr>"

definition in_numbers :: "int \<Rightarrow> bool" where
  "in_numbers n \<longleftrightarrow> 0 \<le> n \<and> n < 10 ^ 21"

lemma number_text:
  "in_numbers n \<Longrightarrow> canonicalJson example_web (number_value n) = show_nat (nat n)"
  by (simp add: in_numbers_def number_value_def num_to_string_def is_integer_def show_int_def)

lemma stripped_digits: "stripped (show_nat n) = show_nat n"
  using show_nat_digits by (fastforce simp: stripped_def filter_id_conv is_digit_def code_of_def)

lemma example_digest_number:
  "in_numbers n \<Longrightarrow> value_digest example_dynamo (number_value n) = show_nat (nat n)"
  by (simp add: value_digest_def hash_of_def example_dynamo_def number_text stripped_digits)

lemma counter_text:
  assumes "in_numbers m" and "in_numbers t"
  shows "canonicalJson example_web (counter_value m t) = ''{'' @ json_string ''minute'' @ '':'' @
    show_nat (nat m) @ '','' @ json_string ''requests'' @ '':'' @ show_nat (nat t) @ ''}''"
proof -
  have "''minute'' \<le> ''requests''" by code_simp
  then show ?thesis
    using number_text [OF assms(1)] number_text [OF assms(2)]
    by (simp add: counter_value_def number_value_def commas_def del: canonicalJson.simps(4))
qed

lemma example_digest_counter:
  assumes "in_numbers m" and "in_numbers t"
  shows "value_digest example_dynamo (counter_value m t) = ''{'' @ json_string ''minute'' @
    show_nat (nat m) @ CHR '','' # json_string ''requests'' @ show_nat (nat t) @ ''}''"
proof -
  have "stripped (json_string ''minute'') = json_string ''minute''"
    "stripped (json_string ''requests'') = json_string ''requests''" by code_simp+
  then show ?thesis
    by (simp add: value_digest_def hash_of_def example_dynamo_def counter_text [OF assms] stripped_digits)
qed

lemma not_digits: "CHR '','' \<notin> set (show_nat n)" "CHR ''{'' \<notin> set (show_nat n)"
proof -
  have "\<not> is_digit (CHR '','')" "\<not> is_digit (CHR ''{'')" by code_simp+
  then show "CHR '','' \<notin> set (show_nat n)" "CHR ''{'' \<notin> set (show_nat n)" using show_nat_digits by blast+
qed

lemma in_numbers_below: "0 \<le> n \<Longrightarrow> n \<le> last_minute \<Longrightarrow> in_numbers n"
  by (simp add: in_numbers_def last_minute_def)

lemma limiter_range:
  assumes "v \<in> limiter_values 60"
  shows "(\<exists>m t. v = counter_value m t \<and> in_numbers m \<and> in_numbers t) \<or>
    (\<exists>t. v = number_value t \<and> in_numbers t)"
proof -
  have "in_numbers t" if "1 \<le> t" "t \<le> 60" for t
    using that by (intro in_numbers_below) (simp_all add: last_minute_def)
  with assms in_numbers_below show ?thesis unfolding limiter_values_def by blast
qed

lemma example_digest_inj: "inj_on (value_digest example_dynamo) (limiter_values 60)"
proof (rule inj_onI)
  have counters: "m = m' \<and> t = t'"
    if "value_digest example_dynamo (counter_value m t) = value_digest example_dynamo (counter_value m' t')"
      and "in_numbers m" "in_numbers t" "in_numbers m'" "in_numbers t'" for m t m' t'
  proof -
    have "show_nat (nat m) @ CHR '','' # json_string ''requests'' @ show_nat (nat t) @ ''}'' =
        show_nat (nat m') @ CHR '','' # json_string ''requests'' @ show_nat (nat t') @ ''}''"
      using that by (simp add: example_digest_counter)
    from prefix_before [OF this not_digits(1) not_digits(1)]
    have "nat m = nat m' \<and> nat t = nat t'" by (simp add: show_nat_inject)
    with that(2-) show ?thesis by (auto simp: in_numbers_def eq_nat_nat_iff)
  qed
  have mixed: "value_digest example_dynamo (counter_value m t) \<noteq> value_digest example_dynamo (number_value n)"
    if "in_numbers m" "in_numbers t" "in_numbers n" for m t n
  proof
    assume "value_digest example_dynamo (counter_value m t) = value_digest example_dynamo (number_value n)"
    then have "CHR ''{'' \<in> set (show_nat (nat n))"
      using that by (metis (no_types) append_Cons example_digest_counter example_digest_number list.set_intros(1))
    then show False using not_digits(2) by blast
  qed
  have numbers: "t = t'"
    if "value_digest example_dynamo (number_value t) = value_digest example_dynamo (number_value t')"
      and "in_numbers t" "in_numbers t'" for t t'
    using that by (auto simp: example_digest_number show_nat_inject in_numbers_def eq_nat_nat_iff)
  fix x y
  assume "x \<in> limiter_values 60" and "y \<in> limiter_values 60"
    and eq: "value_digest example_dynamo x = value_digest example_dynamo y"
  then show "x = y"
    using limiter_range [of x] limiter_range [of y] counters mixed numbers by metis
qed

definition empty_store :: "agents_state agents_world" where
  "empty_store = \<lparr>ag_state = \<lparr>as_table = \<lambda>_. None, as_objects = \<lambda>_. None\<rparr>, ag_script = [], ag_clock = 90\<rparr>"

lemma empty_store_limited: "dynamo_limited example_dynamo {} ''owner'' 60 empty_store"
proof -
  have "hash_of example_dynamo ''rate_limits'' \<noteq> hash_of example_dynamo ''rate_admissions''"
    by (simp add: hash_of_def example_dynamo_def)
  moreover have "plain_hash example_dynamo"
    by (simp add: plain_hash_def hash_of_def example_dynamo_def stripped_def)
  moreover have "agents_state_ok example_dynamo (limiter_values 60) (ag_state empty_store)"
    by (simp add: agents_state_ok_def empty_store_def)
  ultimately show ?thesis
    using example_digest_inj limiter_values_plain [of 60]
    by (simp add: dynamo_limited_def dynamo_good_def clocks_ok_def clock_ok_def last_minute_def content_hashed_def
        empty_store_def)
qed

lemma empty_store_books: "books c a 60 [] (dynamo_view (ag_state empty_store))"
  by (simp add: books_def dynamo_view_def empty_store_def receipt_of_def latest_def last_minute_def)

section \<open>Properties\<close>

abbreviation dynamo_ports :: "dynamo_platform \<Rightarrow> agents_state agents_world agents_store" where
  "dynamo_ports dy \<equiv> \<lparr>st_get = dynamo_get dy, st_commit = dynamo_commit dy\<rparr>"

abbreviation sqlite_ports :: "sqlite_rows agents_world agents_store" where
  "sqlite_ports \<equiv> \<lparr>st_get = sqlite_get, st_commit = sqlite_commit\<rparr>"

text \<open>The books of an owner, in a store seen through its view.\<close>

abbreviation owner_books ::
  "(string \<Rightarrow> string \<Rightarrow> string \<Rightarrow> 'k) \<Rightarrow> string \<Rightarrow> int \<Rightarrow> admissions \<Rightarrow> 'k store_view \<Rightarrow> bool" where
  "owner_books address owner maximum \<equiv>
     books (address owner ''rate_limits'' ''current'') (address owner ''rate_admissions'') maximum"

text \<open>C4. On DynamoDB, an admission keeps the owner's books, whatever other API instances, the network
  and the services do between its requests: the operations admitted so far (each charged once,
  to one minute) are still admitted, no minute is charged more than the owner's limit, and an
  admission that succeeds is in the books with the number of requests asked for, so a retry of
  an admitted operation is charged nothing more.\<close>
theorem admission_keeps_limit:
  assumes "dynamo_limited dy S owner (int_number (limit owner)) w"
    and "owner_books (root_scope dy) owner (int_number (limit owner)) h (dynamo_view (ag_state w))"
    and "admit (dynamo_ports dy) ag_clock limit sha owner operationId requests w = (w', r)"
  shows "\<exists>h'. owner_books (root_scope dy) owner (int_number (limit owner)) (h @ h') (dynamo_view (ag_state w')) \<and>
    (\<forall>minute. spent (h @ h') minute \<le> int_number (limit owner)) \<and>
    (r = Inr () \<longrightarrow> receipt_of (h @ h') (sha operationId) = Some (int_number requests))"
  by (rule dynamo.admit_keeps_limit [OF assms(1,2) refl assms(3)])

theorem admission_keeps_limit_witness:
  "\<exists>h. books (root_scope example_dynamo ''owner'' ''rate_limits'' ''current'')
      (root_scope example_dynamo ''owner'' ''rate_admissions'') 60 h (dynamo_view (ag_state (fst
        (admit (dynamo_ports example_dynamo) ag_clock (\<lambda>_. Finite 60) id ''owner'' ''op'' (Finite 7) empty_store)))) \<and>
    (\<forall>minute. spent h minute \<le> 60)"
  using admission_keeps_limit [of example_dynamo "{}" "''owner''" "\<lambda>_. Finite 60" empty_store "[]" id "''op''"
      "Finite 7", OF _ _ prod.collapse [symmetric]] empty_store_limited empty_store_books
  by (auto simp: int_number_def)

end
