(* ===== verification/Session_Journal.thy ===== *)
theory Session_Journal
  imports Agents_Store
begin

text \<open>
  The journal of a Session's execution (\<open>src/core/session-runtime-store.ts\<close>): one resource that
  names the Run which may write and holds the latest snapshot, and the native log of a Pi
  Session (\<open>src/core/session-native-store.ts\<close>): immutable commits, each naming its parent, with
  the head kept in the journal.

  A stored value is the JSON of the record it is read as. The code casts without checking, so
  a missing number reads as \<open>0\<close> and a missing text as the empty one. An absent \<open>closed\<close> reads as
  false. Sums of JavaScript numbers are exact below \<open>2^53\<close>. Heads are compared by value, where
  the code compares their canonical JSON.
\<close>

section \<open>Data\<close>

record native_head =
  nh_seq :: int
  nh_commitId :: string
  nh_digest :: string

record native_commit =
  nc_schema :: int
  nc_commitId :: string
  nc_parent :: "native_head option"
  nc_seq :: int
  nc_idHighWater :: int
  nc_writes :: "jsval list"

record native_reservation =
  nr_first :: int
  nr_last :: int
  nr_count :: int

record native_state =
  ns_schema :: int
  ns_highWater :: int
  ns_head :: "native_head option"

record session_runtime =
  sr_snapshot :: "jsval option"
  sr_epoch :: "int option"
  sr_native :: "native_state option"
  sr_projectionSeq :: "int option"
  sr_attempt :: "jsval option"
  sr_recoveryExhausted :: "bool option"
  sr_runId :: "string option"
  sr_closed :: bool

definition no_runtime :: session_runtime where
  "no_runtime = \<lparr>sr_snapshot = None, sr_epoch = None, sr_native = None, sr_projectionSeq = None,
     sr_attempt = None, sr_recoveryExhausted = None, sr_runId = None, sr_closed = False\<rparr>"

section \<open>Records as JSON\<close>

definition json_field :: "string \<Rightarrow> ('a \<Rightarrow> jsval) \<Rightarrow> 'a option \<Rightarrow> fields" where
  "json_field k enc x = (case x of None \<Rightarrow> [] | Some a \<Rightarrow> [(k, enc a)])"

definition int_of :: "jsval \<Rightarrow> int" where
  "int_of v = (case v of JNum n \<Rightarrow> int_number n | _ \<Rightarrow> 0)"

definition text_of :: "jsval \<Rightarrow> string" where
  "text_of v = (case v of JStr s \<Rightarrow> s | _ \<Rightarrow> [])"

definition value_fields :: "jsval \<Rightarrow> fields" where
  "value_fields v = (case v of JObj fs \<Rightarrow> fs | _ \<Rightarrow> [])"

definition value_list :: "jsval \<Rightarrow> jsval list" where
  "value_list v = (case v of JArr xs \<Rightarrow> xs | _ \<Rightarrow> [])"

definition json_present :: "(jsval \<Rightarrow> 'a) \<Rightarrow> jsval \<Rightarrow> 'a option" where
  "json_present dec v = (if v = JUndef \<or> v = JNull then None else Some (dec v))"

definition head_value :: "native_head \<Rightarrow> jsval" where
  "head_value h = JObj [(''seq'', number_value (nh_seq h)), (''commitId'', JStr (nh_commitId h)),
     (''digest'', JStr (nh_digest h))]"

definition head_of_value :: "jsval \<Rightarrow> native_head" where
  "head_of_value v = (let fs = value_fields v in \<lparr>nh_seq = int_of (get_prop fs ''seq''),
     nh_commitId = text_of (get_prop fs ''commitId''), nh_digest = text_of (get_prop fs ''digest'')\<rparr>)"

definition or_null :: "('a \<Rightarrow> jsval) \<Rightarrow> 'a option \<Rightarrow> jsval" where
  "or_null enc x = (case x of None \<Rightarrow> JNull | Some a \<Rightarrow> enc a)"

definition commit_value :: "native_commit \<Rightarrow> jsval" where
  "commit_value c = JObj [(''schema'', number_value (nc_schema c)), (''commitId'', JStr (nc_commitId c)),
     (''parent'', or_null head_value (nc_parent c)), (''seq'', number_value (nc_seq c)),
     (''idHighWater'', number_value (nc_idHighWater c)), (''writes'', JArr (nc_writes c))]"

definition commit_of_value :: "jsval \<Rightarrow> native_commit" where
  "commit_of_value v = (let fs = value_fields v in \<lparr>nc_schema = int_of (get_prop fs ''schema''),
     nc_commitId = text_of (get_prop fs ''commitId''),
     nc_parent = json_present head_of_value (get_prop fs ''parent''), nc_seq = int_of (get_prop fs ''seq''),
     nc_idHighWater = int_of (get_prop fs ''idHighWater''), nc_writes = value_list (get_prop fs ''writes'')\<rparr>)"

definition reservation_value :: "native_reservation \<Rightarrow> jsval" where
  "reservation_value r = JObj [(''first'', number_value (nr_first r)), (''last'', number_value (nr_last r)),
     (''count'', number_value (nr_count r))]"

definition reservation_of_value :: "jsval \<Rightarrow> native_reservation" where
  "reservation_of_value v = (let fs = value_fields v in \<lparr>nr_first = int_of (get_prop fs ''first''),
     nr_last = int_of (get_prop fs ''last''), nr_count = int_of (get_prop fs ''count'')\<rparr>)"

definition native_value :: "native_state \<Rightarrow> jsval" where
  "native_value n = JObj ([(''schema'', number_value (ns_schema n)), (''highWater'', number_value (ns_highWater n))] @
     json_field ''head'' head_value (ns_head n))"

definition native_of_value :: "jsval \<Rightarrow> native_state" where
  "native_of_value v = (let fs = value_fields v in \<lparr>ns_schema = int_of (get_prop fs ''schema''),
     ns_highWater = int_of (get_prop fs ''highWater''), ns_head = json_present head_of_value (get_prop fs ''head'')\<rparr>)"

definition runtime_value :: "session_runtime \<Rightarrow> jsval" where
  "runtime_value s = JObj (json_field ''snapshot'' id (sr_snapshot s) @ json_field ''epoch'' number_value (sr_epoch s) @
     json_field ''native'' native_value (sr_native s) @ json_field ''projectionSeq'' number_value (sr_projectionSeq s) @
     json_field ''attempt'' id (sr_attempt s) @ json_field ''recoveryExhausted'' JBool (sr_recoveryExhausted s) @
     [(''runId'', or_null JStr (sr_runId s)), (''closed'', JBool (sr_closed s))])"

definition runtime_of :: "jsval \<Rightarrow> session_runtime" where
  "runtime_of v = (let fs = value_fields v in \<lparr>sr_snapshot = json_present id (get_prop fs ''snapshot''),
     sr_epoch = json_present int_of (get_prop fs ''epoch''), sr_native = json_present native_of_value (get_prop fs ''native''),
     sr_projectionSeq = json_present int_of (get_prop fs ''projectionSeq''),
     sr_attempt = json_present id (get_prop fs ''attempt''),
     sr_recoveryExhausted = json_present (\<lambda>b. b = JBool True) (get_prop fs ''recoveryExhausted''),
     sr_runId = json_present text_of (get_prop fs ''runId''), sr_closed = (get_prop fs ''closed'' = JBool True)\<rparr>)"

section \<open>The journal\<close>

definition put_resource :: "'w agents_store \<Rightarrow> agent_resource \<Rightarrow> int \<Rightarrow> ('w, agents_error, unit) io" where
  "put_resource st r expected = st_commit st [\<lparr>rw_resource = r, rw_expectedRevision = expected\<rparr>]"

definition conflict_error :: "string \<Rightarrow> agents_error" where
  "conflict_error message = Agents_Api_Error 409 message (Some ''conflict'') None None"

definition harness_closed :: agents_error where
  "harness_closed = conflict_error ''The session harness has been closed.''"

definition harness_changed :: agents_error where
  "harness_changed = conflict_error ''The session harness changed concurrently.''"

fun has_status :: "int \<Rightarrow> agents_error \<Rightarrow> bool" where
  "has_status n (Agents_Api_Error status m code p r) \<longleftrightarrow> status = n"
| "has_status n _ \<longleftrightarrow> False"

definition journal_revision :: "agent_resource option \<Rightarrow> int" where
  "journal_revision p = (case p of None \<Rightarrow> 0 | Some r \<Rightarrow> rs_revision r)"

definition claimed_runtime ::
  "session_runtime option \<Rightarrow> string \<Rightarrow> jsval option \<Rightarrow> session_runtime" where
  "claimed_runtime p runId attempt = (let s = (case p of None \<Rightarrow> no_runtime | Some s \<Rightarrow> s) in
     s\<lparr>sr_epoch := Some ((case sr_epoch s of None \<Rightarrow> - 1 | Some e \<Rightarrow> e) + 1),
       sr_attempt := (case attempt of None \<Rightarrow> sr_attempt s | Some a \<Rightarrow> Some a),
       sr_recoveryExhausted := (case attempt of None \<Rightarrow> sr_recoveryExhausted s | Some a \<Rightarrow> Some False),
       sr_runId := Some runId, sr_closed := False\<rparr>)"

definition claim_journal ::
  "'w agents_store \<Rightarrow> string \<Rightarrow> string \<Rightarrow> string \<Rightarrow> int \<Rightarrow> agent_resource option \<Rightarrow> jsval option
     \<Rightarrow> ('w, agents_error, unit) io" where
  "claim_journal st ownerId sessionId runId now_s previous attempt =
     (let p = map_option (\<lambda>r. runtime_of (rs_value r)) previous in
      if p \<noteq> None \<and> sr_closed (the p) then throw harness_closed
      else put_resource st \<lparr>rs_id = sessionId, rs_ownerId = ownerId, rs_collection = ''session_runtime'',
          rs_createdAt = (case previous of None \<Rightarrow> now_s | Some r \<Rightarrow> rs_createdAt r),
          rs_revision = journal_revision previous + 1, rs_expiresAt = None,
          rs_value = runtime_value (claimed_runtime p runId attempt)\<rparr> (journal_revision previous))"

definition runtime_get ::
  "'w agents_store \<Rightarrow> string \<Rightarrow> string \<Rightarrow> ('w, agents_error, agent_resource option) io" where
  "runtime_get st ownerId sessionId = st_get st ownerId ''session_runtime'' sessionId"

definition next_runtime :: "agent_resource \<Rightarrow> session_runtime \<Rightarrow> agent_resource" where
  "next_runtime r s = r\<lparr>rs_revision := rs_revision r + 1, rs_value := runtime_value s\<rparr>"

definition publish_snapshot ::
  "'w agents_store \<Rightarrow> string \<Rightarrow> string \<Rightarrow> string \<Rightarrow> jsval \<Rightarrow> ('w, agents_error, bool) io" where
  "publish_snapshot st ownerId sessionId runId snapshot =
     bind_io (runtime_get st ownerId sessionId) (\<lambda>current. case current of
       None \<Rightarrow> ret False
     | Some r \<Rightarrow> (let s = runtime_of (rs_value r) in
         if sr_closed s \<or> sr_runId s \<noteq> Some runId then ret False
         else bind_io (put_resource st (next_runtime r (s\<lparr>sr_snapshot := Some snapshot\<rparr>)) (rs_revision r))
           (\<lambda>_. ret True)))"

definition native_head_of :: "session_runtime \<Rightarrow> native_head option" where
  "native_head_of s = (case sr_native s of None \<Rightarrow> None | Some n \<Rightarrow> ns_head n)"

definition may_publish_native :: "string \<Rightarrow> int \<Rightarrow> session_runtime \<Rightarrow> bool" where
  "may_publish_native runId seq s \<longleftrightarrow> \<not> sr_closed s \<and> sr_runId s = Some runId \<and>
     map_option nh_seq (native_head_of s) = Some seq \<and>
     (case sr_projectionSeq s of None \<Rightarrow> - 1 | Some p \<Rightarrow> p) < seq"

fun publish_native_attempts ::
  "'w agents_store \<Rightarrow> string \<Rightarrow> string \<Rightarrow> string \<Rightarrow> int \<Rightarrow> jsval \<Rightarrow> nat \<Rightarrow> ('w, agents_error, bool) io" where
  "publish_native_attempts st ownerId sessionId runId seq snapshot 0 = ret False"
| "publish_native_attempts st ownerId sessionId runId seq snapshot (Suc n) =
     bind_io (runtime_get st ownerId sessionId) (\<lambda>current. case current of
       None \<Rightarrow> ret False
     | Some r \<Rightarrow> (let s = runtime_of (rs_value r) in
         if \<not> may_publish_native runId seq s then ret False
         else try_io (put_resource st (next_runtime r
               (s\<lparr>sr_snapshot := Some snapshot, sr_projectionSeq := Some seq\<rparr>)) (rs_revision r))
           (\<lambda>_. ret True)
           (\<lambda>e. if e \<noteq> AgentsResourceConflictError \<or> n = 0 then throw e
             else publish_native_attempts st ownerId sessionId runId seq snapshot n)))"

definition MAX_NATIVE_PUBLICATION_ATTEMPTS :: nat where
  "MAX_NATIVE_PUBLICATION_ATTEMPTS = 10"

definition publish_native ::
  "'w agents_store \<Rightarrow> string \<Rightarrow> string \<Rightarrow> string \<Rightarrow> int \<Rightarrow> jsval \<Rightarrow> ('w, agents_error, bool) io" where
  "publish_native st ownerId sessionId runId seq snapshot =
     publish_native_attempts st ownerId sessionId runId seq snapshot MAX_NATIVE_PUBLICATION_ATTEMPTS"

definition closed_runtime :: "session_runtime option \<Rightarrow> session_runtime" where
  "closed_runtime p = (let s = (case p of None \<Rightarrow> no_runtime | Some s \<Rightarrow> s) in
     s\<lparr>sr_epoch := Some ((case sr_epoch s of None \<Rightarrow> 0 | Some e \<Rightarrow> e) + 1), sr_closed := True\<rparr>)"

definition planRuntimeClosure :: "string \<Rightarrow> string \<Rightarrow> int \<Rightarrow> agent_resource option \<Rightarrow> agent_resource" where
  "planRuntimeClosure ownerId sessionId now_s current =
     \<lparr>rs_id = sessionId, rs_ownerId = ownerId, rs_collection = ''session_runtime'',
      rs_createdAt = (case current of None \<Rightarrow> now_s | Some r \<Rightarrow> rs_createdAt r),
      rs_revision = journal_revision current + 1, rs_expiresAt = None,
      rs_value = runtime_value (closed_runtime (map_option (\<lambda>r. runtime_of (rs_value r)) current))\<rparr>"

fun close_attempts ::
  "'w agents_store \<Rightarrow> ('w \<Rightarrow> int) \<Rightarrow> string \<Rightarrow> string \<Rightarrow> nat \<Rightarrow> ('w, agents_error, agent_resource) io" where
  "close_attempts st timer ownerId sessionId 0 = throw harness_changed"
| "close_attempts st timer ownerId sessionId (Suc n) =
     bind_io (runtime_get st ownerId sessionId) (\<lambda>current w.
       if current \<noteq> None \<and> sr_closed (runtime_of (rs_value (the current))) then ret (the current) w
       else let closing = planRuntimeClosure ownerId sessionId (timer w) current in
         try_io (put_resource st closing (journal_revision current)) (\<lambda>_. ret closing)
           (\<lambda>e. if \<not> has_status 409 e \<or> n = 0 then throw e
             else close_attempts st timer ownerId sessionId n) w)"

definition close_journal ::
  "'w agents_store \<Rightarrow> ('w \<Rightarrow> int) \<Rightarrow> string \<Rightarrow> string \<Rightarrow> ('w, agents_error, agent_resource) io" where
  "close_journal st timer ownerId sessionId = close_attempts st timer ownerId sessionId 10"

section \<open>The native log\<close>

text \<open>What \<open>nativeLease\<close> closes over: the right of one Run, in one epoch, to write the log.\<close>

record 'w native_lease =
  nl_store :: "'w agents_store"
  nl_platform :: platform
  nl_web :: web_platform
  nl_ownerId :: string
  nl_sessionId :: string
  nl_runId :: string
  nl_epoch :: int

definition nativeDigest :: "platform \<Rightarrow> web_platform \<Rightarrow> jsval \<Rightarrow> string" where
  "nativeDigest pl web v = sha256Hex pl (canonicalJson web v)"

definition native_conflict :: agents_error where
  "native_conflict = Agents_Api_Error 409 ''Pi native ownership or head changed.''
     (Some ''native_conflict'') None None"

definition immutable_resource :: "string \<Rightarrow> string \<Rightarrow> jsval \<Rightarrow> agent_resource" where
  "immutable_resource ownerId i v = \<lparr>rs_id = i, rs_ownerId = ownerId, rs_collection = ''session_native'',
     rs_createdAt = 0, rs_revision = 1, rs_expiresAt = None, rs_value = v\<rparr>"

definition native_resource_id :: "string \<Rightarrow> string \<Rightarrow> string \<Rightarrow> string" where
  "native_resource_id sessionId kind i = sessionId @ '':'' @ kind @ '':'' @ i"

definition high_water :: "session_runtime \<Rightarrow> int" where
  "high_water s = (case sr_native s of None \<Rightarrow> 1 | Some n \<Rightarrow> ns_highWater n)"

definition safe_int :: "int \<Rightarrow> bool" where
  "safe_int i \<longleftrightarrow> \<bar>i\<bar> \<le> 9007199254740991"

datatype native_reservation_decision =
    Reservation_Return native_reservation
  | Reservation_Write native_reservation "resource_write list"
  | Reservation_Reject agents_error

definition reserved_runtime :: "session_runtime \<Rightarrow> int \<Rightarrow> session_runtime" where
  "reserved_runtime s last_id = s\<lparr>sr_native := Some \<lparr>ns_schema = 1, ns_highWater = last_id, ns_head = native_head_of s\<rparr>\<rparr>"

definition planNativeReservation ::
  "agent_resource \<Rightarrow> string \<Rightarrow> string \<Rightarrow> int \<Rightarrow> native_reservation option \<Rightarrow> native_reservation_decision" where
  "planNativeReservation current ownerId i amount previous = (case previous of
       Some p \<Rightarrow> if nr_count p = amount then Reservation_Return p else Reservation_Reject native_conflict
     | None \<Rightarrow> (let s = runtime_of (rs_value current); first = high_water s + 1; final = first + amount - 1 in
         if \<not> safe_int final then Reservation_Reject (Agents_Plain_Error ''ID space is exhausted'')
         else let v = \<lparr>nr_first = first, nr_last = final, nr_count = amount\<rparr> in
           Reservation_Write v
             [\<lparr>rw_resource = immutable_resource ownerId i (reservation_value v), rw_expectedRevision = 0\<rparr>,
              \<lparr>rw_resource = next_runtime current (reserved_runtime s final),
               rw_expectedRevision = rs_revision current\<rparr>]))"

datatype native_commit_decision =
    Commit_Return native_head
  | Commit_Read_Existing
  | Commit_Write native_head "resource_write list"
  | Commit_Reject agents_error

definition attached_runtime :: "session_runtime \<Rightarrow> native_commit \<Rightarrow> native_head \<Rightarrow> session_runtime" where
  "attached_runtime s change head = s\<lparr>sr_native := Some \<lparr>ns_schema = 1,
     ns_highWater = max (high_water s) (nc_idHighWater change), ns_head = Some head\<rparr>\<rparr>"

text \<open>\<open>existing\<close> is \<open>None\<close> while the commit's resource is unread.\<close>

definition planNativeCommit ::
  "platform \<Rightarrow> web_platform \<Rightarrow> agent_resource \<Rightarrow> string \<Rightarrow> string \<Rightarrow> native_commit \<Rightarrow> native_head
     \<Rightarrow> jsval option option \<Rightarrow> native_commit_decision" where
  "planNativeCommit pl web current ownerId i change head existing =
     (let s = runtime_of (rs_value current); attached = native_head_of s in
      if attached = Some head then Commit_Return head
      else if attached \<noteq> nc_parent change then Commit_Reject native_conflict
      else case existing of
          None \<Rightarrow> Commit_Read_Existing
        | Some found \<Rightarrow>
            if found \<noteq> None \<and> nativeDigest pl web (the found) \<noteq> nh_digest head then Commit_Reject native_conflict
            else Commit_Write head
              ((if found = None then [\<lparr>rw_resource = immutable_resource ownerId i (commit_value change),
                   rw_expectedRevision = 0\<rparr>] else []) @
               [\<lparr>rw_resource = next_runtime current (attached_runtime s change head),
                 rw_expectedRevision = rs_revision current\<rparr>]))"

definition holds_lease :: "string \<Rightarrow> int \<Rightarrow> session_runtime \<Rightarrow> bool" where
  "holds_lease runId epoch s \<longleftrightarrow> \<not> sr_closed s \<and> sr_runId s = Some runId \<and>
     (case sr_epoch s of None \<Rightarrow> 0 | Some e \<Rightarrow> e) = epoch"

definition lease_active :: "'w native_lease \<Rightarrow> ('w, agents_error, agent_resource) io" where
  "lease_active l = bind_io (runtime_get (nl_store l) (nl_ownerId l) (nl_sessionId l)) (\<lambda>current. case current of
       None \<Rightarrow> throw native_conflict
     | Some r \<Rightarrow> if holds_lease (nl_runId l) (nl_epoch l) (runtime_of (rs_value r)) then ret r
         else throw native_conflict)"

definition assert_active :: "'w native_lease \<Rightarrow> ('w, agents_error, unit) io" where
  "assert_active l = bind_io (lease_active l) (\<lambda>_. ret ())"

definition native_get :: "'w native_lease \<Rightarrow> string \<Rightarrow> ('w, agents_error, agent_resource option) io" where
  "native_get l i = st_get (nl_store l) (nl_ownerId l) ''session_native'' i"

definition native_corrupt :: agents_error where
  "native_corrupt = Agents_Plain_Error ''Pi native history is corrupt''"

definition native_unordered :: agents_error where
  "native_unordered = Agents_Plain_Error ''Pi native history is not monotonic''"

text \<open>From a head back to the first commit, newest first; \<open>None\<close> when the fuel runs out.\<close>

fun load_commits ::
  "'w native_lease \<Rightarrow> nat \<Rightarrow> native_head option \<Rightarrow> ('w, agents_error, native_commit list option) io" where
  "load_commits l n None = ret (Some [])"
| "load_commits l 0 (Some cursor) = ret None"
| "load_commits l (Suc n) (Some cursor) =
     bind_io (native_get l (native_resource_id (nl_sessionId l) ''commit'' (nh_commitId cursor))) (\<lambda>found.
       case found of
         None \<Rightarrow> throw native_corrupt
       | Some r \<Rightarrow> (let c = commit_of_value (rs_value r) in
           if nc_seq c \<noteq> nh_seq cursor \<or> nc_schema c \<noteq> 1 \<or>
             nativeDigest (nl_platform l) (nl_web l) (rs_value r) \<noteq> nh_digest cursor
           then throw native_corrupt
           else if nc_parent c \<noteq> None \<and> nh_seq (the (nc_parent c)) \<ge> nh_seq cursor then throw native_unordered
           else bind_io (load_commits l n (nc_parent c)) (\<lambda>rest. ret (map_option (Cons c) rest))))"

record native_image =
  ni_head :: "native_head option"
  ni_highWater :: int
  ni_commits :: "native_commit list"

definition load_fuel :: "native_head option \<Rightarrow> nat" where
  "load_fuel head = (case head of None \<Rightarrow> 0 | Some h \<Rightarrow> nat (nh_seq h))"

definition native_load :: "'w native_lease \<Rightarrow> ('w, agents_error, native_image option) io" where
  "native_load l = bind_io (lease_active l) (\<lambda>current. let s = runtime_of (rs_value current) in
     bind_io (load_commits l (load_fuel (native_head_of s)) (native_head_of s)) (\<lambda>commits. ret (map_option
       (\<lambda>cs. \<lparr>ni_head = native_head_of s, ni_highWater = high_water s, ni_commits = rev cs\<rparr>) commits)))"

definition native_name :: "string \<Rightarrow> bool" where
  "native_name s \<longleftrightarrow> plain_chars ''_-'' s \<and> 1 \<le> length s \<and> length s \<le> 128"

definition reservation_id :: "'w native_lease \<Rightarrow> string \<Rightarrow> string" where
  "reservation_id l requestId = native_resource_id (nl_sessionId l) ''ids''
     (nl_runId l @ '':'' @ show_int (nl_epoch l) @ '':'' @ requestId)"

fun reserve_attempts ::
  "'w native_lease \<Rightarrow> int \<Rightarrow> string \<Rightarrow> nat \<Rightarrow> ('w, agents_error, native_reservation) io" where
  "reserve_attempts l amount i 0 = throw native_conflict"
| "reserve_attempts l amount i (Suc n) =
     bind_io (lease_active l) (\<lambda>current. bind_io (native_get l i) (\<lambda>previous.
       case planNativeReservation current (nl_ownerId l) i amount
           (map_option (\<lambda>r. reservation_of_value (rs_value r)) previous) of
         Reservation_Reject e \<Rightarrow> throw e
       | Reservation_Return v \<Rightarrow> ret v
       | Reservation_Write v ws \<Rightarrow> try_io (st_commit (nl_store l) ws) (\<lambda>_. ret v)
           (\<lambda>e. if n = 0 then throw e else reserve_attempts l amount i n)))"

definition reserve_ids :: "'w native_lease \<Rightarrow> js_number \<Rightarrow> string \<Rightarrow> ('w, agents_error, native_reservation) io" where
  "reserve_ids l amount requestId =
     (if \<not> safe_integer amount \<or> int_number amount < 1 \<or> int_number amount > 65536 \<or> \<not> native_name requestId
      then throw (Agents_Plain_Error ''Invalid native ID reservation'')
      else reserve_attempts l (int_number amount) (reservation_id l requestId) 4)"

definition commit_fits :: "native_commit \<Rightarrow> bool" where
  "commit_fits c \<longleftrightarrow> safe_int (nc_idHighWater c) \<and> 1 \<le> nc_idHighWater c \<and> nc_schema c = 1 \<and> safe_int (nc_seq c) \<and>
     nc_seq c = (case nc_parent c of None \<Rightarrow> 0 | Some h \<Rightarrow> nh_seq h) + 1 \<and> native_name (nc_commitId c)"

definition head_of_commit :: "platform \<Rightarrow> web_platform \<Rightarrow> native_commit \<Rightarrow> native_head" where
  "head_of_commit pl web c = \<lparr>nh_seq = nc_seq c, nh_commitId = nc_commitId c,
     nh_digest = nativeDigest pl web (commit_value c)\<rparr>"

definition commit_id :: "string \<Rightarrow> native_commit \<Rightarrow> string" where
  "commit_id sessionId c = native_resource_id sessionId ''commit'' (nc_commitId c)"

definition carry_out ::
  "'w native_lease \<Rightarrow> native_commit_decision \<Rightarrow> (agents_error \<Rightarrow> ('w, agents_error, native_head) io)
     \<Rightarrow> ('w, agents_error, native_head) io" where
  "carry_out l plan again = (case plan of
       Commit_Reject e \<Rightarrow> throw e
     | Commit_Return h \<Rightarrow> ret h
     | Commit_Read_Existing \<Rightarrow> throw native_conflict
     | Commit_Write h ws \<Rightarrow> try_io (st_commit (nl_store l) ws) (\<lambda>_. ret h) again)"

fun commit_attempts :: "'w native_lease \<Rightarrow> native_commit \<Rightarrow> nat \<Rightarrow> ('w, agents_error, native_head) io" where
  "commit_attempts l change 0 = throw native_conflict"
| "commit_attempts l change (Suc n) =
     bind_io (lease_active l) (\<lambda>current.
       let i = commit_id (nl_sessionId l) change;
           plan = planNativeCommit (nl_platform l) (nl_web l) current (nl_ownerId l) i change
             (head_of_commit (nl_platform l) (nl_web l) change);
           again = (\<lambda>e. if n = 0 then throw e else commit_attempts l change n)
       in if plan None = Commit_Read_Existing
          then bind_io (native_get l i) (\<lambda>existing.
            carry_out l (plan (Some (map_option rs_value existing))) again)
          else carry_out l (plan None) again)"

definition native_commit_change :: "'w native_lease \<Rightarrow> native_commit \<Rightarrow> ('w, agents_error, native_head) io" where
  "native_commit_change l change =
     (if \<not> commit_fits change then throw (Agents_Plain_Error ''Invalid native commit'')
      else if utf8_length (canonicalJson (nl_web l) (commit_value change)) > 4 * 1024 * 1024
      then throw (Agents_Plain_Error ''Native commit exceeds 4 MiB'')
      else commit_attempts l change 4)"

end
