(* ===== verification/Session_Log.thy ===== *)
theory Session_Log
  imports Session_Journal
begin

text \<open>
  The journal of a Session as a log that only grows, and every operation of
  \<open>SessionRuntimeStore\<close> and \<open>nativeLease\<close> on any store that keeps the contract
  \<open>resource_store\<close>: it moves the log forward, whatever other clients do that also keep it.
\<close>

section \<open>Records survive their JSON\<close>

lemma int_of_number [simp]: "int_of (number_value i) = i"
  by (simp add: int_of_def number_value_def int_number_def)

lemma number_value_present [simp]: "number_value i \<noteq> JUndef" "number_value i \<noteq> JNull"
  by (simp_all add: number_value_def)

lemma number_value_eq [simp]: "number_value i = number_value j \<longleftrightarrow> i = j"
  by (simp add: number_value_def)

lemma text_of_JStr [simp]: "text_of (JStr s) = s"
  by (simp add: text_of_def)

lemma present_simps [simp]:
  "json_present dec JUndef = None" "json_present dec JNull = None" "json_present dec (JStr s) = Some (dec (JStr s))"
  "json_present dec (JObj fs) = Some (dec (JObj fs))" "json_present dec (JBool b) = Some (dec (JBool b))"
  "json_present dec (number_value i) = Some (dec (number_value i))"
  by (simp_all add: json_present_def)

lemma head_of_head_value [simp]: "head_of_value (head_value h) = h"
  by (simp add: head_of_value_def head_value_def value_fields_def get_prop_def Let_def)

lemma head_value_present [simp]: "json_present dec (head_value h) = Some (dec (head_value h))"
  by (simp add: head_value_def)

lemma commit_of_commit_value [simp]: "commit_of_value (commit_value c) = c"
  by (cases "nc_parent c")
    (simp_all add: commit_of_value_def commit_value_def value_fields_def get_prop_def Let_def or_null_def
      value_list_def)

lemma commit_value_inject: "commit_value c = commit_value d \<Longrightarrow> c = d"
  by (metis commit_of_commit_value)

lemma reservation_of_reservation_value [simp]: "reservation_of_value (reservation_value r) = r"
  by (simp add: reservation_of_value_def reservation_value_def value_fields_def get_prop_def Let_def)

lemma native_of_native_value [simp]: "native_of_value (native_value n) = n"
  by (cases "ns_head n")
    (simp_all add: native_of_value_def native_value_def value_fields_def get_prop_def Let_def json_field_def)

lemma native_value_present [simp]: "json_present dec (native_value n) = Some (dec (native_value n))"
  by (simp add: native_value_def)

definition runtime_plain :: "session_runtime \<Rightarrow> bool" where
  "runtime_plain s \<longleftrightarrow> sr_snapshot s \<notin> {Some JUndef, Some JNull} \<and> sr_attempt s \<notin> {Some JUndef, Some JNull}"

lemma get_prop_fields:
  "get_prop [] k = JUndef" "get_prop ((k', v) # fs) k = (if k = k' then v else get_prop fs k)"
  by (simp_all add: get_prop_def)

lemma get_prop_append:
  "get_prop (fs @ gs) k = (if k \<in> fst ` set fs then get_prop fs k else get_prop gs k)"
  by (auto simp: get_prop_def map_add_def dom_map_of_conv_image_fst [symmetric] split: option.splits)

lemma json_field_prop [simp]:
  "get_prop (json_field k enc x) k' = (if k = k' then (case x of None \<Rightarrow> JUndef | Some a \<Rightarrow> enc a) else JUndef)"
  by (simp add: json_field_def get_prop_def split: option.splits)

lemma fst_json_field [simp]: "fst ` set (json_field k enc x) = (if x = None then {} else {k})"
  by (cases x) (simp_all add: json_field_def)

lemma runtime_of_runtime_value:
  assumes "runtime_plain s"
  shows "runtime_of (runtime_value s) = s"
proof -
  have option: "json_present id (case x of None \<Rightarrow> JUndef | Some a \<Rightarrow> id a) = x"
    if "x \<notin> {Some JUndef, Some JNull}" for x
    using that by (cases x) (auto simp: json_present_def)
  have other: "json_present dec (case x of None \<Rightarrow> JUndef | Some a \<Rightarrow> enc a) = x"
    if "\<And>a. json_present dec (enc a) = Some a" for x :: "'b option" and dec enc
    using that by (cases x) auto
  have runId: "json_present text_of (or_null JStr x) = x" for x by (cases x) (simp_all add: or_null_def)
  let ?get = "get_prop (value_fields (runtime_value s))"
  note get = runtime_value_def value_fields_def get_prop_append get_prop_fields
  from assms have "json_present id (?get ''snapshot'') = sr_snapshot s"
    by (simp add: get option runtime_plain_def)
  moreover from assms have "json_present id (?get ''attempt'') = sr_attempt s"
    by (simp add: get option runtime_plain_def)
  moreover have "json_present int_of (?get ''epoch'') = sr_epoch s" by (simp add: get other)
  moreover have "json_present native_of_value (?get ''native'') = sr_native s" by (simp add: get other)
  moreover have "json_present int_of (?get ''projectionSeq'') = sr_projectionSeq s" by (simp add: get other)
  moreover have "json_present (\<lambda>b. b = JBool True) (?get ''recoveryExhausted'') = sr_recoveryExhausted s"
    by (simp add: get other)
  moreover have "json_present text_of (?get ''runId'') = sr_runId s" by (simp add: get runId)
  moreover have "(?get ''closed'' = JBool True) = sr_closed s" by (simp add: get)
  ultimately show ?thesis by (simp add: runtime_of_def Let_def)
qed

section \<open>The log\<close>

text \<open>
  The history of a journal: the commits attached so far, the reservations made so far, the
  journal's revision and record, and the immutable resources of the Session.
\<close>

record journal_log =
  jl_commits :: "native_commit list"
  jl_reservations :: "(string \<times> native_reservation) list"
  jl_state :: "(int \<times> session_runtime) option"
  jl_native :: "string \<Rightarrow> jsval option"

definition last_head :: "platform \<Rightarrow> web_platform \<Rightarrow> native_commit list \<Rightarrow> native_head option" where
  "last_head pl web cs = (if cs = [] then None else Some (head_of_commit pl web (last cs)))"

text \<open>Every commit names the one before it.\<close>

definition chained :: "platform \<Rightarrow> web_platform \<Rightarrow> native_commit list \<Rightarrow> bool" where
  "chained pl web cs \<longleftrightarrow> (\<forall>k < length cs. nc_schema (cs ! k) = 1 \<and> nc_seq (cs ! k) = int k + 1 \<and>
     nc_parent (cs ! k) = last_head pl web (take k cs))"

lemma chained_Nil [simp]: "chained pl web []"
  by (simp add: chained_def)

lemma chained_snoc:
  "chained pl web (cs @ [c]) \<longleftrightarrow> chained pl web cs \<and> nc_schema c = 1 \<and>
     nc_seq c = int (length cs) + 1 \<and> nc_parent c = last_head pl web cs"
proof -
  have "take k (cs @ [c]) = take k cs" "(cs @ [c]) ! k = cs ! k" if "k < length cs" for k
    using that by (simp_all add: nth_append)
  then show ?thesis by (auto simp: chained_def less_Suc_eq)
qed

lemma last_head_seq:
  assumes "chained pl web cs" and "last_head pl web cs = Some h"
  shows "nh_seq h = int (length cs)" and "cs \<noteq> []"
proof -
  from assms(2) show "cs \<noteq> []" by (auto simp: last_head_def split: if_splits)
  then have "cs = butlast cs @ [last cs]" by simp
  with assms(1) have "nc_seq (last cs) = int (length (butlast cs)) + 1" by (metis chained_snoc)
  with \<open>cs \<noteq> []\<close> assms(2) show "nh_seq h = int (length cs)"
    by (auto simp: last_head_def head_of_commit_def of_nat_diff Suc_leI)
qed

text \<open>Ranges in the order they were reserved, each above all earlier ones.\<close>

definition ranges_apart :: "(string \<times> native_reservation) list \<Rightarrow> bool" where
  "ranges_apart rs \<longleftrightarrow> sorted_wrt (\<lambda>(i, r) (j, q). nr_last r < nr_first q) rs \<and> distinct (map fst rs) \<and>
     (\<forall>(i, r) \<in> set rs. nr_first r \<le> nr_last r \<and> nr_last r = nr_first r + nr_count r - 1)"

lemma ranges_disjoint:
  assumes "ranges_apart rs" and "(i, v) \<in> set rs" and "(j, q) \<in> set rs"
  shows "if j = i then q = v else {nr_first q..nr_last q} \<inter> {nr_first v..nr_last v} = {}"
proof -
  obtain k l where k: "k < length rs" "rs ! k = (i, v)" and l: "l < length rs" "rs ! l = (j, q)"
    using assms(2,3) by (auto simp: in_set_conv_nth)
  have order: "sorted_wrt (\<lambda>(i, r) (j, q). nr_last r < nr_first q) rs" and names: "distinct (map fst rs)"
    using assms(1) by (simp_all add: ranges_apart_def)
  show ?thesis
  proof (cases "k = l")
    case False
    then have "i \<noteq> j" using names k l by (metis fst_conv length_map nth_eq_iff_index_eq nth_map)
    moreover have "nr_last v < nr_first q \<or> nr_last q < nr_first v"
      using False sorted_wrt_nth_less [OF order, of k l] sorted_wrt_nth_less [OF order, of l k] k l by force
    ultimately show ?thesis by auto
  qed (use k l in auto)
qed

definition epoch_of :: "session_runtime \<Rightarrow> int" where
  "epoch_of s = (case sr_epoch s of None \<Rightarrow> 0 | Some e \<Rightarrow> e)"

definition state_ok ::
  "platform \<Rightarrow> web_platform \<Rightarrow> jsval set \<Rightarrow> native_commit list \<Rightarrow> (string \<times> native_reservation) list
     \<Rightarrow> (int \<times> session_runtime) option \<Rightarrow> bool" where
  "state_ok pl web S cs rs p = (case p of
       None \<Rightarrow> cs = [] \<and> rs = []
     | Some (n, s) \<Rightarrow> 1 \<le> n \<and> runtime_plain s \<and> runtime_value s \<in> S \<and> sr_epoch s \<noteq> None \<and>
         native_head_of s = last_head pl web cs \<and>
         (\<forall>c \<in> set cs. nc_idHighWater c \<le> high_water s) \<and> (\<forall>(i, r) \<in> set rs. nr_last r \<le> high_water s))"

definition reservation_key :: "string \<Rightarrow> string \<Rightarrow> bool" where
  "reservation_key sessionId i \<longleftrightarrow> starts_with i (native_resource_id sessionId ''ids'' [])"

definition log_ok :: "platform \<Rightarrow> web_platform \<Rightarrow> jsval set \<Rightarrow> string \<Rightarrow> journal_log \<Rightarrow> bool" where
  "log_ok pl web S sessionId g \<longleftrightarrow> chained pl web (jl_commits g) \<and> ranges_apart (jl_reservations g) \<and>
     state_ok pl web S (jl_commits g) (jl_reservations g) (jl_state g) \<and>
     (\<forall>c \<in> set (jl_commits g). jl_native g (commit_id sessionId c) = Some (commit_value c)) \<and>
     (\<forall>(i, r) \<in> set (jl_reservations g). jl_native g i = Some (reservation_value r)) \<and>
     (\<forall>i x. jl_native g i = Some x \<longrightarrow> x \<in> S \<and>
       (reservation_key sessionId i \<longrightarrow> (\<exists>r. (i, r) \<in> set (jl_reservations g))))"

text \<open>How the journal's record may change: a Run keeps the journal for one epoch, and a closed
  journal keeps all it holds.\<close>

definition runtime_later :: "session_runtime \<Rightarrow> session_runtime \<Rightarrow> bool" where
  "runtime_later s s' \<longleftrightarrow> epoch_of s \<le> epoch_of s' \<and> high_water s \<le> high_water s' \<and>
     (sr_closed s \<longrightarrow> sr_closed s' \<and> sr_runId s' = sr_runId s \<and> sr_snapshot s' = sr_snapshot s \<and>
       sr_native s' = sr_native s \<and> sr_projectionSeq s' = sr_projectionSeq s) \<and>
     (epoch_of s = epoch_of s' \<longrightarrow> sr_runId s' = sr_runId s \<and> sr_closed s' = sr_closed s)"

lemma runtime_later_refl [simp]: "runtime_later s s"
  by (simp add: runtime_later_def)

lemma runtime_later_trans: "runtime_later s s1 \<Longrightarrow> runtime_later s1 s2 \<Longrightarrow> runtime_later s s2"
  by (auto simp: runtime_later_def)

fun state_later :: "(int \<times> session_runtime) option \<Rightarrow> (int \<times> session_runtime) option \<Rightarrow> bool" where
  "state_later None q \<longleftrightarrow> True"
| "state_later (Some (n, s)) None \<longleftrightarrow> False"
| "state_later (Some (n, s)) (Some (n', s')) \<longleftrightarrow>
     n \<le> n' \<and> (n = n' \<longrightarrow> s' = s) \<and> runtime_later s s'"

lemma state_later_refl [simp]: "state_later p p"
  by (cases "(p, p)" rule: state_later.cases) auto

lemma state_later_trans: "state_later p q \<Longrightarrow> state_later q r \<Longrightarrow> state_later p r"
  by (cases "(p, q)" rule: state_later.cases; cases r) (auto intro: runtime_later_trans)

definition log_later :: "journal_log \<Rightarrow> journal_log \<Rightarrow> bool" where
  "log_later g g' \<longleftrightarrow> (\<exists>cs. jl_commits g' = jl_commits g @ cs) \<and>
     (\<exists>rs. jl_reservations g' = jl_reservations g @ rs) \<and> state_later (jl_state g) (jl_state g') \<and>
     jl_native g \<subseteq>\<^sub>m jl_native g'"

lemma log_later_refl [simp]: "log_later g g"
  by (simp add: log_later_def)

lemma log_later_trans: "log_later g g1 \<Longrightarrow> log_later g1 g2 \<Longrightarrow> log_later g g2"
  unfolding log_later_def by (auto intro: state_later_trans map_le_trans)

text \<open>What a view of the store shows of a log, at the journal's address and at the addresses of
  the immutable resources.\<close>

definition log_kept ::
  "platform \<Rightarrow> web_platform \<Rightarrow> jsval set \<Rightarrow> string \<Rightarrow> 'k \<Rightarrow> (string \<Rightarrow> 'k) \<Rightarrow> journal_log \<Rightarrow> 'k store_view \<Rightarrow> bool" where
  "log_kept pl web S sessionId j a g v \<longleftrightarrow> log_ok pl web S sessionId g \<and>
     v j = map_option (\<lambda>(n, s). (n, runtime_value s)) (jl_state g) \<and>
     (\<forall>i. map_option snd (v (a i)) = jl_native g i)"

text \<open>Other clients keep the log.\<close>

definition keeps_log ::
  "platform \<Rightarrow> web_platform \<Rightarrow> jsval set \<Rightarrow> string \<Rightarrow> 'k \<Rightarrow> (string \<Rightarrow> 'k) \<Rightarrow> 'k store_view \<Rightarrow> 'k store_view \<Rightarrow> bool" where
  "keeps_log pl web S sessionId j a v v' \<longleftrightarrow> (\<forall>g. log_kept pl web S sessionId j a g v \<longrightarrow>
     (\<exists>g'. log_later g g' \<and> log_kept pl web S sessionId j a g' v'))"

lemma keeps_log_steps:
  assumes "(keeps_log pl web S sessionId j a)\<^sup>*\<^sup>* v v'" and "log_kept pl web S sessionId j a g v"
  shows "\<exists>g'. log_later g g' \<and> log_kept pl web S sessionId j a g' v'"
  using assms
proof (induction rule: rtranclp_induct)
  case base
  then show ?case by (blast intro: log_later_refl)
next
  case (step y z)
  then obtain g1 where "log_later g g1" and "log_kept pl web S sessionId j a g1 y" by blast
  with step(2) show ?case unfolding keeps_log_def by (blast intro: log_later_trans)
qed

section \<open>Steps of a log\<close>

definition head_in :: "(int \<times> session_runtime) option \<Rightarrow> native_head option" where
  "head_in p = (case p of None \<Rightarrow> None | Some (n, s) \<Rightarrow> native_head_of s)"

lemma log_update:
  assumes "log_ok pl web S sessionId g" and "state_later (jl_state g) (Some (n, s))" and "1 \<le> n"
    and "runtime_plain s" and "runtime_value s \<in> S" and "sr_epoch s \<noteq> None"
    and "native_head_of s = head_in (jl_state g)"
  shows "log_ok pl web S sessionId (g\<lparr>jl_state := Some (n, s)\<rparr>)" and "log_later g (g\<lparr>jl_state := Some (n, s)\<rparr>)"
proof -
  have "state_ok pl web S (jl_commits g) (jl_reservations g) (Some (n, s))"
  proof (cases "jl_state g")
    case None
    with assms show ?thesis by (auto simp: log_ok_def state_ok_def head_in_def last_head_def)
  next
    case (Some m)
    with assms show ?thesis
      by (cases m) (fastforce simp: log_ok_def state_ok_def head_in_def runtime_later_def)
  qed
  with assms(1) show "log_ok pl web S sessionId (g\<lparr>jl_state := Some (n, s)\<rparr>)" by (simp add: log_ok_def)
  from assms(2) show "log_later g (g\<lparr>jl_state := Some (n, s)\<rparr>)" by (simp add: log_later_def)
qed

lemma starts_with_append [simp]: "starts_with (p @ s) p"
  by (simp add: starts_with_def)

lemma commit_id_no_reservation: "\<not> reservation_key sessionId (commit_id sessionId c)"
  by (simp add: reservation_key_def commit_id_def native_resource_id_def starts_with_def)

lemma reservation_id_key: "reservation_key (nl_sessionId l) (reservation_id l requestId)"
  by (simp add: reservation_key_def reservation_id_def native_resource_id_def starts_with_def)

lemma attached_simps [simp]:
  "native_head_of (attached_runtime s c h) = Some h"
  "high_water (attached_runtime s c h) = max (high_water s) (nc_idHighWater c)"
  "epoch_of (attached_runtime s c h) = epoch_of s" "sr_epoch (attached_runtime s c h) = sr_epoch s"
  "sr_closed (attached_runtime s c h) = sr_closed s" "sr_runId (attached_runtime s c h) = sr_runId s"
  "runtime_plain (attached_runtime s c h) = runtime_plain s"
  by (simp_all add: attached_runtime_def native_head_of_def high_water_def epoch_of_def runtime_plain_def)

lemma reserved_simps [simp]:
  "native_head_of (reserved_runtime s m) = native_head_of s" "high_water (reserved_runtime s m) = m"
  "epoch_of (reserved_runtime s m) = epoch_of s" "sr_epoch (reserved_runtime s m) = sr_epoch s"
  "sr_closed (reserved_runtime s m) = sr_closed s" "sr_runId (reserved_runtime s m) = sr_runId s"
  "runtime_plain (reserved_runtime s m) = runtime_plain s"
  by (simp_all add: reserved_runtime_def native_head_of_def high_water_def epoch_of_def runtime_plain_def)

definition log_attach :: "string \<Rightarrow> native_commit \<Rightarrow> int \<times> session_runtime \<Rightarrow> journal_log \<Rightarrow> journal_log" where
  "log_attach sessionId c p g = g\<lparr>jl_commits := jl_commits g @ [c], jl_state := Some p,
     jl_native := (jl_native g)(commit_id sessionId c \<mapsto> commit_value c)\<rparr>"

lemma log_attach_ok:
  assumes ok: "log_ok pl web S sessionId g" and state: "jl_state g = Some (n, s)" and "\<not> sr_closed s"
    and c: "commit_fits c" "nc_parent c = native_head_of s" "commit_value c \<in> S"
    and s': "s' = attached_runtime s c (head_of_commit pl web c)" "runtime_value s' \<in> S"
    and native: "jl_native g (commit_id sessionId c) \<in> {None, Some (commit_value c)}"
  shows "log_ok pl web S sessionId (log_attach sessionId c (n + 1, s') g)"
    and "log_later g (log_attach sessionId c (n + 1, s') g)"
proof -
  let ?cs = "jl_commits g" and ?rs = "jl_reservations g" and ?N = "jl_native g"
  have st: "state_ok pl web S ?cs ?rs (Some (n, s))" and chain: "chained pl web ?cs"
    using ok state by (simp_all add: log_ok_def)
  then have parent: "nc_parent c = last_head pl web ?cs" using c(2) by (simp add: state_ok_def)
  have "(case nc_parent c of None \<Rightarrow> 0 | Some h \<Rightarrow> nh_seq h) = int (length ?cs)"
  proof (cases "last_head pl web ?cs")
    case None
    then show ?thesis using parent by (simp add: last_head_def split: if_splits)
  next
    case (Some h)
    then show ?thesis using parent last_head_seq(1) [OF chain Some] by simp
  qed
  then have "chained pl web (?cs @ [c])"
    using chain parent c(1) by (simp add: chained_snoc commit_fits_def)
  moreover have "state_ok pl web S (?cs @ [c]) ?rs (Some (n + 1, s'))"
    using st s' by (fastforce simp: state_ok_def last_head_def)
  moreover have "\<forall>d \<in> set (?cs @ [c]). (?N(commit_id sessionId c \<mapsto> commit_value c)) (commit_id sessionId d) = Some (commit_value d)"
    using ok native by (auto simp: log_ok_def)
  moreover have "i \<noteq> commit_id sessionId c \<or> reservation_value r = commit_value c" if "(i, r) \<in> set ?rs" for i r
    using ok native that by (fastforce simp: log_ok_def)
  ultimately show "log_ok pl web S sessionId (log_attach sessionId c (n + 1, s') g)"
    using ok c(3) commit_id_no_reservation by (fastforce simp: log_ok_def log_attach_def)
  have "?N \<subseteq>\<^sub>m ?N(commit_id sessionId c \<mapsto> commit_value c)"
    using native by (auto simp: map_le_def)
  moreover have "runtime_later s s'"
    using s' \<open>\<not> sr_closed s\<close> by (auto simp: runtime_later_def)
  ultimately show "log_later g (log_attach sessionId c (n + 1, s') g)"
    using state by (simp add: log_later_def log_attach_def)
qed

definition log_reserve :: "string \<Rightarrow> native_reservation \<Rightarrow> int \<times> session_runtime \<Rightarrow> journal_log \<Rightarrow> journal_log" where
  "log_reserve i r p g = g\<lparr>jl_reservations := jl_reservations g @ [(i, r)], jl_state := Some p,
     jl_native := (jl_native g)(i \<mapsto> reservation_value r)\<rparr>"

lemma log_reserve_ok:
  assumes ok: "log_ok pl web S sessionId g" and state: "jl_state g = Some (n, s)" and "\<not> sr_closed s"
    and r: "r = \<lparr>nr_first = high_water s + 1, nr_last = high_water s + amount, nr_count = amount\<rparr>" "1 \<le> amount"
      "reservation_value r \<in> S"
    and s': "s' = reserved_runtime s (nr_last r)" "runtime_value s' \<in> S"
    and native: "jl_native g i = None"
  shows "log_ok pl web S sessionId (log_reserve i r (n + 1, s') g)"
    and "log_later g (log_reserve i r (n + 1, s') g)"
proof -
  let ?cs = "jl_commits g" and ?rs = "jl_reservations g" and ?N = "jl_native g"
  have st: "state_ok pl web S ?cs ?rs (Some (n, s))" and apart: "ranges_apart ?rs"
    using ok state by (simp_all add: log_ok_def)
  have fresh: "i \<notin> fst ` set ?rs" using ok native by (fastforce simp: log_ok_def)
  have "\<forall>(k, q) \<in> set ?rs. nr_last q < nr_first r" using st r by (fastforce simp: state_ok_def)
  then have "ranges_apart (?rs @ [(i, r)])"
    using apart fresh r by (auto simp: ranges_apart_def sorted_wrt_append)
  moreover have "state_ok pl web S ?cs (?rs @ [(i, r)]) (Some (n + 1, s'))"
    using st s' r by (fastforce simp: state_ok_def)
  moreover have "\<forall>c \<in> set ?cs. (?N(i \<mapsto> reservation_value r)) (commit_id sessionId c) = Some (commit_value c)"
    using ok native by (auto simp: log_ok_def)
  moreover have "(?N(i \<mapsto> reservation_value r)) k = Some (reservation_value q)" if "(k, q) \<in> set (?rs @ [(i, r)])" for k q
  proof (cases "(k, q) \<in> set ?rs")
    case True
    then have "k \<noteq> i" and "?N k = Some (reservation_value q)" using fresh ok by (force simp: log_ok_def)+
    then show ?thesis by simp
  qed (use that in simp)
  moreover have "x \<in> S \<and> (reservation_key sessionId k \<longrightarrow> (\<exists>q. (k, q) \<in> set (?rs @ [(i, r)])))"
    if "(?N(i \<mapsto> reservation_value r)) k = Some x" for k x
  proof (cases "k = i")
    case True
    with that r(3) show ?thesis by auto
  next
    case False
    with that have "?N k = Some x" by simp
    with ok have "x \<in> S \<and> (reservation_key sessionId k \<longrightarrow> (\<exists>q. (k, q) \<in> set ?rs))" unfolding log_ok_def by blast
    then show ?thesis by auto
  qed
  ultimately show "log_ok pl web S sessionId (log_reserve i r (n + 1, s') g)"
    using ok by (auto simp: log_ok_def log_reserve_def)
  have "?N \<subseteq>\<^sub>m ?N(i \<mapsto> reservation_value r)"
    using native by (auto simp: map_le_def)
  moreover have "runtime_later s s'"
    using s' r \<open>\<not> sr_closed s\<close> by (auto simp: runtime_later_def)
  ultimately show "log_later g (log_reserve i r (n + 1, s') g)"
    using state by (simp add: log_later_def log_reserve_def)
qed

section \<open>Values in use and results\<close>

text \<open>The values an operation may store are in use, and what its result says of the log.\<close>

definition snapshot_usable :: "jsval set \<Rightarrow> jsval \<Rightarrow> bool" where
  "snapshot_usable S x \<longleftrightarrow> x \<noteq> JUndef \<and> x \<noteq> JNull \<and> (\<forall>s. runtime_plain s \<longrightarrow> runtime_value s \<in> S \<longrightarrow>
     runtime_value (s\<lparr>sr_snapshot := Some x\<rparr>) \<in> S)"

definition projection_usable :: "jsval set \<Rightarrow> int \<Rightarrow> jsval \<Rightarrow> bool" where
  "projection_usable S seq x \<longleftrightarrow> x \<noteq> JUndef \<and> x \<noteq> JNull \<and> (\<forall>s. runtime_plain s \<longrightarrow> runtime_value s \<in> S \<longrightarrow>
     runtime_value (s\<lparr>sr_snapshot := Some x, sr_projectionSeq := Some seq\<rparr>) \<in> S)"

definition claim_usable :: "jsval set \<Rightarrow> agent_resource option \<Rightarrow> string \<Rightarrow> jsval option \<Rightarrow> bool" where
  "claim_usable S previous runId attempt \<longleftrightarrow> attempt \<notin> {Some JUndef, Some JNull} \<and>
     runtime_value (claimed_runtime (map_option (\<lambda>p. runtime_of (rs_value p)) previous) runId attempt) \<in> S"

definition close_usable :: "jsval set \<Rightarrow> bool" where
  "close_usable S \<longleftrightarrow> (\<forall>p. (\<forall>s. p = Some s \<longrightarrow> runtime_plain s \<and> runtime_value s \<in> S \<and> \<not> sr_closed s) \<longrightarrow>
     runtime_value (closed_runtime p) \<in> S)"

definition reservation_usable :: "jsval set \<Rightarrow> int \<Rightarrow> bool" where
  "reservation_usable S amount \<longleftrightarrow> (\<forall>s. runtime_plain s \<longrightarrow> runtime_value s \<in> S \<longrightarrow>
     runtime_value (reserved_runtime s (high_water s + amount)) \<in> S \<and>
     reservation_value \<lparr>nr_first = high_water s + 1, nr_last = high_water s + amount, nr_count = amount\<rparr> \<in> S)"

definition commit_usable :: "platform \<Rightarrow> web_platform \<Rightarrow> jsval set \<Rightarrow> native_commit \<Rightarrow> bool" where
  "commit_usable pl web S c \<longleftrightarrow> commit_value c \<in> S \<and>
     (\<forall>x \<in> S. nativeDigest pl web x = nativeDigest pl web (commit_value c) \<longrightarrow> x = commit_value c) \<and> (\<forall>s. runtime_plain s \<longrightarrow> runtime_value s \<in> S \<longrightarrow>
     runtime_value (attached_runtime s c (head_of_commit pl web c)) \<in> S)"

definition published_by :: "string \<Rightarrow> jsval \<Rightarrow> agents_error + bool \<Rightarrow> journal_log \<Rightarrow> bool" where
  "published_by runId x r g \<longleftrightarrow> (r = Inr True \<longrightarrow> (\<exists>n s. jl_state g = Some (n, s) \<and>
     \<not> sr_closed s \<and> sr_runId s = Some runId \<and> sr_snapshot s = Some x))"

definition journal_closed :: "agents_error + agent_resource \<Rightarrow> journal_log \<Rightarrow> bool" where
  "journal_closed r g \<longleftrightarrow> (\<forall>c. r = Inr c \<longrightarrow> (\<exists>n s. jl_state g = Some (n, s) \<and> sr_closed s))"

definition committed :: "platform \<Rightarrow> web_platform \<Rightarrow> native_commit \<Rightarrow> agents_error + native_head \<Rightarrow> journal_log \<Rightarrow> bool" where
  "committed pl web c r g \<longleftrightarrow> (\<forall>h. r = Inr h \<longrightarrow> h = head_of_commit pl web c \<and> c \<in> set (jl_commits g))"

definition reserved :: "string \<Rightarrow> int \<Rightarrow> agents_error + native_reservation \<Rightarrow> journal_log \<Rightarrow> bool" where
  "reserved i amount r g \<longleftrightarrow> (\<forall>v. r = Inr v \<longrightarrow> (i, v) \<in> set (jl_reservations g) \<and> nr_count v = amount)"

definition superseded :: "string \<Rightarrow> int \<Rightarrow> journal_log \<Rightarrow> bool" where
  "superseded run epoch g \<longleftrightarrow> (\<exists>n s. jl_state g = Some (n, s) \<and>
     (epoch < epoch_of s \<or> sr_closed s \<or> epoch = epoch_of s \<and> sr_runId s \<noteq> Some run))"

definition loaded :: "platform \<Rightarrow> web_platform \<Rightarrow> journal_log \<Rightarrow> agents_error + native_image option \<Rightarrow> journal_log \<Rightarrow> bool" where
  "loaded pl web g r g' \<longleftrightarrow> (\<forall>x. r = Inr x \<longrightarrow> (\<exists>cs h. (\<exists>a. cs = jl_commits g @ a) \<and> (\<exists>b. jl_commits g' = cs @ b) \<and>
     x = Some \<lparr>ni_head = last_head pl web cs, ni_highWater = h, ni_commits = cs\<rparr> \<and>
     (\<forall>c \<in> set cs. nc_idHighWater c \<le> h)))"

section \<open>On any store that keeps the contract\<close>

text \<open>
  The journal and the immutable resources have addresses of their own, and the other clients
  keep the log.
\<close>

locale journal_store = resource_store +
  fixes owner session :: string and pl :: platform and web :: web_platform
  assumes journal_address: "good w \<Longrightarrow> address owner ''session_runtime'' session \<noteq> address owner ''session_native'' i"
    and native_address: "address owner ''session_native'' i = address owner ''session_native'' k \<Longrightarrow> i = k"
    and others_log: "others v v' \<Longrightarrow> log_kept pl web usable session (address owner ''session_runtime'' session)
        (address owner ''session_native'') g v \<Longrightarrow>
      \<exists>g'. log_later g g' \<and> log_kept pl web usable session (address owner ''session_runtime'' session)
        (address owner ''session_native'') g' v'"
begin

abbreviation journal_at :: 'b where
  "journal_at \<equiv> address owner ''session_runtime'' session"

abbreviation native_at :: "string \<Rightarrow> 'b" where
  "native_at \<equiv> address owner ''session_native''"

abbreviation log_shown :: "journal_log \<Rightarrow> 'b store_view \<Rightarrow> bool" where
  "log_shown \<equiv> log_kept pl web usable session journal_at native_at"

abbreviation log_ports :: "'a agents_store" where
  "log_ports \<equiv> \<lparr>st_get = fetch, st_commit = store\<rparr>"

definition read_state :: "agent_resource option \<Rightarrow> (int \<times> session_runtime) option" where
  "read_state x = map_option (\<lambda>r. (rs_revision r, runtime_of (rs_value r))) x"

text \<open>What a program reaches: a later log, with what its result says of it.\<close>

definition log_outcome :: "journal_log \<Rightarrow> ('c \<Rightarrow> journal_log \<Rightarrow> bool) \<Rightarrow> 'a \<Rightarrow> 'c \<Rightarrow> bool" where
  "log_outcome g Q w r \<longleftrightarrow> good w \<and> (\<exists>g'. log_later g g' \<and> log_shown g' (view w) \<and> Q r g')"

lemma outcome_self: "good w \<Longrightarrow> log_shown g (view w) \<Longrightarrow> Q r g \<Longrightarrow> log_outcome g Q w r"
  by (auto simp: log_outcome_def intro: log_later_refl)

lemma outcome_later: "log_later g g' \<Longrightarrow> log_outcome g' Q w r \<Longrightarrow> log_outcome g Q w r"
  by (auto simp: log_outcome_def intro: log_later_trans)

lemma outcome_mono: "log_outcome g Q w r \<Longrightarrow> (\<And>g'. log_later g g' \<Longrightarrow> Q r g' \<Longrightarrow> P q g') \<Longrightarrow> log_outcome g P w q"
  by (auto simp: log_outcome_def)

lemma fetch_log:
  assumes "good w" and "log_shown g (view w)" and "fetch owner collection i w = (w', r)"
  obtains g1 g2 v where "log_later g g1" and "log_shown g1 v" and "log_later g1 g2" and "log_shown g2 (view w')"
    and "good w'" and "\<And>x. r = Inr x \<Longrightarrow> v (address owner collection i) = shown x"
proof -
  from fetch_view [OF assms(1,3)] obtain v where v: "others (view w) v" "others v (view w')"
    and x: "\<And>x. r = Inr x \<Longrightarrow> v (address owner collection i) = shown x" by blast
  obtain g1 where g1: "log_later g g1" "log_shown g1 v" using others_log [OF v(1) assms(2)] by blast
  obtain g2 where g2: "log_later g1 g2" "log_shown g2 (view w')" using others_log [OF v(2) g1(2)] by blast
  with that g1 fetch_good [OF assms(1,3)] x show thesis by blast
qed

lemma journal_read: "log_shown g v \<Longrightarrow> v journal_at = shown x \<Longrightarrow> jl_state g = read_state x"
  by (cases x; cases "jl_state g")
    (auto simp: log_kept_def log_ok_def state_ok_def shown_def read_state_def runtime_of_runtime_value)

lemma native_read: "log_shown g v \<Longrightarrow> v (native_at i) = shown x \<Longrightarrow> jl_native g i = map_option rs_value x"
  by (cases x) (auto simp: log_kept_def shown_def dest!: spec [of _ i])

lemma kept_log: "log_shown g v \<Longrightarrow> log_ok pl web usable session g"
  by (simp add: log_kept_def)

text \<open>One compare and swap of the journal, with at most one new immutable resource.\<close>

definition native_writes :: "(string \<times> jsval) option \<Rightarrow> resource_write list" where
  "native_writes new = (case new of None \<Rightarrow> []
     | Some (i, x) \<Rightarrow> [\<lparr>rw_resource = immutable_resource owner i x, rw_expectedRevision = 0\<rparr>])"

definition native_after :: "(string \<times> jsval) option \<Rightarrow> (string \<Rightarrow> jsval option) \<Rightarrow> string \<Rightarrow> jsval option" where
  "native_after new m = (case new of None \<Rightarrow> m | Some (i, x) \<Rightarrow> m(i \<mapsto> x))"

definition journal_write :: "int \<Rightarrow> session_runtime \<Rightarrow> resource_write \<Rightarrow> bool" where
  "journal_write n s u \<longleftrightarrow> write_address address u = journal_at \<and> rw_expectedRevision u = n \<and>
     rs_revision (rw_resource u) = n + 1 \<and> rs_value (rw_resource u) = runtime_value s"

definition state_revision :: "(int \<times> session_runtime) option \<Rightarrow> int" where
  "state_revision p = (case p of None \<Rightarrow> 0 | Some (n, s) \<Rightarrow> n)"

lemma journal_commit:
  assumes good: "good w" and known: "log_shown g (view w)" and seen: "state_later p (jl_state g)"
    and positive: "p \<noteq> None \<Longrightarrow> 1 \<le> state_revision p"
    and u: "journal_write (state_revision p) s u" and usable: "runtime_value s \<in> usable"
      "\<And>i x. new = Some (i, x) \<Longrightarrow> x \<in> usable"
    and called: "store (native_writes new @ [u]) w = (w', q)"
    and step: "\<And>g1. log_later g g1 \<Longrightarrow> log_ok pl web usable session g1 \<Longrightarrow> jl_state g1 = p \<Longrightarrow>
      (\<And>i x. new = Some (i, x) \<Longrightarrow> jl_native g1 i = None) \<Longrightarrow>
      log_ok pl web usable session (f g1) \<and> log_later g1 (f g1) \<and>
      jl_state (f g1) = Some (state_revision p + 1, s) \<and> jl_native (f g1) = native_after new (jl_native g1)"
  shows "log_outcome g (\<lambda>q g2. q = Inr () \<longrightarrow> (\<exists>g1. log_later g g1 \<and> jl_state g1 = p \<and> g2 = f g1)) w' q"
proof -
  let ?ws = "native_writes new @ [u]"
  have plain: "\<forall>z \<in> set ?ws. rs_value (rw_resource z) \<in> usable"
    using u usable by (auto simp: native_writes_def journal_write_def immutable_resource_def split: option.splits)
  have good': "good w'" by (rule store_good [OF good plain called])
  from store_view [OF good plain called] obtain v where v: "others (view w) v"
    and cases: "view w' = v \<and> (q = Inr () \<longrightarrow> ?ws = []) \<or> writes_fit address v ?ws \<and>
      view w' = written_view address ?ws v" by blast
  obtain g1 where g1: "log_later g g1" "log_shown g1 v" using others_log [OF v known] by blast
  show ?thesis
    using cases
  proof
    assume "view w' = v \<and> (q = Inr () \<longrightarrow> ?ws = [])"
    with g1 good' show ?thesis by (auto simp: log_outcome_def)
  next
    assume fit: "writes_fit address v ?ws \<and> view w' = written_view address ?ws v"
    then have here: "map_option fst (v journal_at) = (if state_revision p = 0 then None else Some (state_revision p))"
      using u by (auto simp: writes_fit_def journal_write_def)
    have later: "state_later p (jl_state g1)"
      using seen g1(1) by (auto simp: log_later_def intro: state_later_trans)
    have state: "jl_state g1 = p"
      using here later g1(2) positive
      by (cases "(p, jl_state g1)" rule: state_later.cases)
        (auto simp: log_kept_def state_revision_def)
    have fresh: "jl_native g1 i = None" if "new = Some (i, x)" for i x
    proof -
      have "map_option fst (v (native_at i)) = None"
        using fit that by (auto simp: writes_fit_def native_writes_def write_address_def immutable_resource_def)
      moreover have "jl_native g1 i = map_option snd (v (native_at i))" using g1(2) by (simp add: log_kept_def)
      ultimately show ?thesis by simp
    qed
    have f: "log_ok pl web usable session (f g1) \<and> log_later g1 (f g1) \<and>
        jl_state (f g1) = Some (state_revision p + 1, s) \<and> jl_native (f g1) = native_after new (jl_native g1)"
      using step [OF g1(1) kept_log [OF g1(2)] state] fresh by blast
    have apart: "native_at i \<noteq> journal_at" for i using journal_address [OF good, of i] by simp
    have same: "native_at i = native_at k \<longleftrightarrow> i = k" for i k using native_address by blast
    have "view w' = (case new of None \<Rightarrow> v | Some (i, x) \<Rightarrow> v(native_at i := Some (1, x)))
        (journal_at := Some (state_revision p + 1, runtime_value s))"
      using fit u by (auto simp: written_view_def native_writes_def write_address_def immutable_resource_def
          journal_write_def split: option.splits)
    then have "log_shown (f g1) (view w')"
      using f g1(2) apart same
      by (auto simp: log_kept_def native_after_def split: option.splits)
    moreover have "log_later g (f g1)" using g1(1) f by (blast intro: log_later_trans)
    ultimately show ?thesis using g1(1) state good' unfolding log_outcome_def by blast
  qed
qed

section \<open>The journal's operations\<close>

text \<open>What was read of the journal at one moment, and the log since.\<close>

definition journal_seen :: "agent_resource option \<Rightarrow> journal_log \<Rightarrow> bool" where
  "journal_seen x g \<longleftrightarrow> state_later (read_state x) (jl_state g) \<and>
     (case x of None \<Rightarrow> True | Some r \<Rightarrow> (let s = runtime_of (rs_value r) in
       1 \<le> rs_revision r \<and> runtime_plain s \<and> runtime_value s \<in> usable \<and> sr_epoch s \<noteq> None \<and>
       address (rs_ownerId r) (rs_collection r) (rs_id r) = journal_at))"

lemma journal_seen_later: "journal_seen x g \<Longrightarrow> log_later g g' \<Longrightarrow> journal_seen x g'"
  by (auto simp: journal_seen_def log_later_def intro: state_later_trans)

lemma runtime_fetch:
  assumes "good w" and "log_shown g (view w)" and "runtime_get log_ports owner session w = (w', r)"
  obtains g1 g2 where "log_later g g1" and "log_ok pl web usable session g1" and "log_later g1 g2"
    and "log_shown g2 (view w')" and "good w'" and "\<And>x. r = Inr x \<Longrightarrow> jl_state g1 = read_state x \<and> journal_seen x g2"
proof -
  from assms(3) have get: "fetch owner ''session_runtime'' session w = (w', r)" by (simp add: runtime_get_def)
  from fetch_log [OF assms(1,2) get] obtain g1 g2 v where 1: "log_later g g1" "log_shown g1 v" "log_later g1 g2"
    "log_shown g2 (view w')" "good w'" and x: "\<And>x. r = Inr x \<Longrightarrow> v journal_at = shown x"
    by metis
  have addr: "address (rs_ownerId p) (rs_collection p) (rs_id p) = journal_at" if "r = Inr (Some p)" for p
    using fetch_address [OF assms(1)] get that by simp
  have "jl_state g1 = read_state x \<and> journal_seen x g2" if "r = Inr x" for x
  proof -
    have state: "jl_state g1 = read_state x" by (rule journal_read [OF 1(2) x [OF that]])
    with 1(3) have "state_later (read_state x) (jl_state g2)" by (simp add: log_later_def)
    moreover have "case x of None \<Rightarrow> True | Some p \<Rightarrow> (let s = runtime_of (rs_value p) in
        1 \<le> rs_revision p \<and> runtime_plain s \<and> runtime_value s \<in> usable \<and> sr_epoch s \<noteq> None \<and>
        address (rs_ownerId p) (rs_collection p) (rs_id p) = journal_at)"
      using kept_log [OF 1(2)] state addr that
      by (cases x) (auto simp: log_ok_def state_ok_def read_state_def Let_def)
    ultimately show ?thesis using state by (simp add: journal_seen_def)
  qed
  with that [OF 1(1) kept_log [OF 1(2)] 1(3-5)] show thesis by blast
qed

lemma journal_revision_state: "journal_revision x = state_revision (read_state x)"
  by (cases x) (simp_all add: journal_revision_def state_revision_def read_state_def)

lemma put_journal:
  assumes "good w" and "log_shown g (view w)" and "journal_seen x g"
    and "address (rs_ownerId r) (rs_collection r) (rs_id r) = journal_at"
    and "rs_revision r = journal_revision x + 1" and "rs_value r = runtime_value s"
    and "runtime_value s \<in> usable" and "runtime_plain s" and "sr_epoch s \<noteq> None"
    and "native_head_of s = head_in (read_state x)"
    and "state_later (read_state x) (Some (journal_revision x + 1, s))"
    and called: "put_resource log_ports r (journal_revision x) w = (w', q)"
  shows "log_outcome g (\<lambda>q g1. q = Inr () \<longrightarrow> jl_state g1 = Some (journal_revision x + 1, s)) w' q"
proof -
  let ?u = "\<lparr>rw_resource = r, rw_expectedRevision = journal_revision x\<rparr>"
  let ?f = "\<lambda>g1. g1\<lparr>jl_state := Some (journal_revision x + 1, s)\<rparr>"
  have positive: "1 \<le> state_revision (read_state x)" if "read_state x \<noteq> None"
    using assms(3) that by (cases x) (auto simp: journal_seen_def read_state_def state_revision_def Let_def)
  have u: "journal_write (state_revision (read_state x)) s ?u"
    using assms(4-6) by (simp add: journal_write_def write_address_def journal_revision_state)
  from called have run: "store (native_writes None @ [?u]) w = (w', q)"
    by (simp add: put_resource_def native_writes_def)
  have step: "log_ok pl web usable session (?f g1) \<and> log_later g1 (?f g1) \<and>
      jl_state (?f g1) = Some (state_revision (read_state x) + 1, s) \<and> jl_native (?f g1) = native_after None (jl_native g1)"
    if "log_ok pl web usable session g1" and "jl_state g1 = read_state x" for g1
  proof -
    have "1 \<le> journal_revision x + 1" using positive by (cases x) (auto simp: journal_revision_state read_state_def state_revision_def)
    with log_update [OF that(1), of "journal_revision x + 1" s] that(2) assms(7-11) show ?thesis
      by (simp add: native_after_def journal_revision_state)
  qed
  have seen: "state_later (read_state x) (jl_state g)" using assms(3) by (simp add: journal_seen_def)
  have "log_outcome g (\<lambda>q g2. q = Inr () \<longrightarrow> (\<exists>g1. log_later g g1 \<and> jl_state g1 = read_state x \<and> g2 = ?f g1)) w' q"
    by (rule journal_commit [where new = None, OF assms(1,2) seen positive u assms(7) _ run step]) simp_all
  then show ?thesis by (rule outcome_mono) auto
qed

text \<open>A change of the record that keeps the log and belongs to the Run in charge.\<close>

lemma put_next:
  assumes "good w" and "log_shown g (view w)" and "journal_seen (Some r) g" and "s = runtime_of (rs_value r)"
    and "runtime_value s' \<in> usable" and "runtime_plain s'" and "sr_native s' = sr_native s"
    and "sr_epoch s' = sr_epoch s" and "sr_runId s' = sr_runId s" and "\<not> sr_closed s" and "\<not> sr_closed s'"
    and "put_resource log_ports (next_runtime r s') (rs_revision r) w = (w', q)"
  shows "log_outcome g (\<lambda>q g1. q = Inr () \<longrightarrow> jl_state g1 = Some (rs_revision r + 1, s')) w' q"
proof -
  have state: "read_state (Some r) = Some (rs_revision r, s)" "journal_revision (Some r) = rs_revision r"
    using assms(4) by (simp_all add: read_state_def journal_revision_def)
  have 1: "address (rs_ownerId (next_runtime r s')) (rs_collection (next_runtime r s')) (rs_id (next_runtime r s')) = journal_at"
    "sr_epoch s' \<noteq> None"
    using assms(3,4,8) by (auto simp: journal_seen_def next_runtime_def Let_def)
  have 2: "native_head_of s' = head_in (read_state (Some r))"
    using assms(7) state by (simp add: head_in_def native_head_of_def)
  have 3: "state_later (read_state (Some r)) (Some (journal_revision (Some r) + 1, s'))"
    using assms(7-11) state by (simp add: runtime_later_def epoch_of_def high_water_def)
  have 4: "rs_revision (next_runtime r s') = journal_revision (Some r) + 1" "rs_value (next_runtime r s') = runtime_value s'"
    using state by (simp_all add: next_runtime_def)
  from put_journal [OF assms(1-3) 1(1) 4 assms(5,6) 1(2) 2 3 assms(12) [folded state(2)]] show ?thesis
    by (simp add: state(2))
qed

lemma runtime_bind:
  assumes "good w" and "log_shown g (view w)" and run: "bind_io (runtime_get log_ports owner session) k w = (w', r)"
    and failed: "\<And>e g2. log_later g g2 \<Longrightarrow> r = Inl e \<Longrightarrow> Q r g2"
    and rest: "\<And>x g1 g2 w1. log_later g g1 \<Longrightarrow> log_ok pl web usable session g1 \<Longrightarrow> jl_state g1 = read_state x \<Longrightarrow>
      log_later g1 g2 \<Longrightarrow> log_shown g2 (view w1) \<Longrightarrow> good w1 \<Longrightarrow> journal_seen x g2 \<Longrightarrow> k x w1 = (w', r) \<Longrightarrow>
      log_outcome g2 Q w' r"
  shows "log_outcome g Q w' r"
proof -
  obtain w1 r1 where get: "runtime_get log_ports owner session w = (w1, r1)" by (cases "runtime_get log_ports owner session w")
  from runtime_fetch [OF assms(1,2) get] obtain g1 g2 where 1: "log_later g g1" "log_ok pl web usable session g1"
    "log_later g1 g2" "log_shown g2 (view w1)" "good w1"
    and x: "\<And>x. r1 = Inr x \<Longrightarrow> jl_state g1 = read_state x \<and> journal_seen x g2" by metis
  have later: "log_later g g2" by (rule log_later_trans [OF 1(1,3)])
  show ?thesis
  proof (cases r1)
    case (Inl e)
    with run get have "w' = w1" "r = Inl e" by (simp_all add: bind_io_def)
    with 1 failed [OF later] show ?thesis by (blast intro: outcome_later [OF later] outcome_self)
  next
    case (Inr y)
    with run get have "k y w1 = (w', r)" by (simp add: bind_io_def)
    with rest [OF 1(1,2) _ 1(3-5)] x [OF Inr] show ?thesis by (blast intro: outcome_later [OF later])
  qed
qed

lemma publish_log:
  assumes "good w" and "log_shown g (view w)" and "snapshot_usable usable x"
    and run: "publish_snapshot log_ports owner session runId x w = (w', r)"
  shows "log_outcome g (published_by runId x) w' r"
proof (rule runtime_bind [OF assms(1,2) run [unfolded publish_snapshot_def]], goal_cases)
  case (1 e g2)
  then show ?case by (simp add: published_by_def)
next
  case (2 y g1 g2 w1)
  show ?case
  proof (cases "\<exists>p. y = Some p \<and> \<not> sr_closed (runtime_of (rs_value p)) \<and> sr_runId (runtime_of (rs_value p)) = Some runId")
    case False
    then have "w' = w1 \<and> r = Inr False"
      using 2(8) by (auto simp: ret_def Let_def split: option.splits if_splits)
    with 2 show ?thesis by (auto simp: published_by_def intro: outcome_self)
  next
    case True
    then obtain p where y: "y = Some p" and s: "\<not> sr_closed (runtime_of (rs_value p))"
      "sr_runId (runtime_of (rs_value p)) = Some runId" by blast
    let ?s = "(runtime_of (rs_value p))\<lparr>sr_snapshot := Some x\<rparr>"
    obtain w2 q where put: "put_resource log_ports (next_runtime p ?s) (rs_revision p) w1 = (w2, q)"
      by (cases "put_resource log_ports (next_runtime p ?s) (rs_revision p) w1")
    have w': "w' = w2" "r = Inr True \<Longrightarrow> q = Inr ()"
      using 2(8) y s put by (auto simp: bind_io_def ret_def Let_def split: sum.splits)
    have "runtime_value ?s \<in> usable" "runtime_plain ?s"
      using 2(7) y assms(3) by (auto simp: journal_seen_def snapshot_usable_def runtime_plain_def Let_def)
    from put_next [OF 2(6,5) _ refl this _ _ _ _ _ put] 2(7) y s
    have "log_outcome g2 (\<lambda>q g1. q = Inr () \<longrightarrow> jl_state g1 = Some (rs_revision p + 1, ?s)) w2 q" by simp
    then show ?thesis using w' s unfolding w'(1) by (elim outcome_mono) (simp add: published_by_def)
  qed
qed

lemma publish_native_log:
  assumes "good w" and "log_shown g (view w)" and "projection_usable usable seq x"
    and "publish_native_attempts log_ports owner session runId seq x n w = (w', r)"
  shows "log_outcome g (published_by runId x) w' r"
  using assms(1,2,4)
proof (induction n arbitrary: g w)
  case 0
  then show ?case by (auto simp: ret_def published_by_def intro: outcome_self)
next
  case (Suc n)
  show ?case
  proof (rule runtime_bind [OF Suc.prems(1,2) Suc.prems(3) [unfolded publish_native_attempts.simps]], goal_cases)
    case (1 e g2)
    then show ?case by (simp add: published_by_def)
  next
    case (2 y g1 g2 w1)
    show ?case
    proof (cases "\<exists>p. y = Some p \<and> may_publish_native runId seq (runtime_of (rs_value p))")
      case False
      then have "w' = w1 \<and> r = Inr False"
        using 2(8) by (auto simp: ret_def Let_def split: option.splits if_splits)
      with 2 show ?thesis by (auto simp: published_by_def intro: outcome_self)
    next
      case True
      then obtain p where y: "y = Some p" and may: "may_publish_native runId seq (runtime_of (rs_value p))" by blast
      then have s: "\<not> sr_closed (runtime_of (rs_value p))" "sr_runId (runtime_of (rs_value p)) = Some runId"
        by (simp_all add: may_publish_native_def)
      let ?s = "(runtime_of (rs_value p))\<lparr>sr_snapshot := Some x, sr_projectionSeq := Some seq\<rparr>"
      obtain w2 q where put: "put_resource log_ports (next_runtime p ?s) (rs_revision p) w1 = (w2, q)"
        by (cases "put_resource log_ports (next_runtime p ?s) (rs_revision p) w1")
      have "runtime_value ?s \<in> usable" "runtime_plain ?s"
        using 2(7) y assms(3) by (auto simp: journal_seen_def projection_usable_def runtime_plain_def Let_def)
      from put_next [OF 2(6,5) _ refl this _ _ _ _ _ put] 2(7) y s
      have done_q: "log_outcome g2 (\<lambda>q g1. q = Inr () \<longrightarrow> jl_state g1 = Some (rs_revision p + 1, ?s)) w2 q" by simp
      show ?thesis
      proof (cases q)
        case (Inl e)
        from done_q obtain g3 where g3: "good w2" "log_later g2 g3" "log_shown g3 (view w2)" by (auto simp: log_outcome_def)
        have "(if e \<noteq> AgentsResourceConflictError \<or> n = 0 then throw e
            else publish_native_attempts log_ports owner session runId seq x n) w2 = (w', r)"
          using 2(8) y may put Inl by (simp add: try_io_def Let_def)
        with Suc.IH [OF g3(1,3)] g3 show ?thesis
          by (auto simp: throw_def published_by_def split: if_splits intro: outcome_later outcome_self)
      next
        case (Inr u)
        with 2(8) y may put have "w' = w2" and "r = Inr True" by (simp_all add: try_io_def ret_def Let_def)
        with done_q Inr s show ?thesis unfolding \<open>w' = w2\<close> by (elim outcome_mono) (simp add: published_by_def)
      qed
    qed
  qed
qed

lemma claim_simps [simp]:
  "sr_snapshot (claimed_runtime p runId attempt) = (case p of None \<Rightarrow> None | Some s \<Rightarrow> sr_snapshot s)"
  "sr_native (claimed_runtime p runId attempt) = (case p of None \<Rightarrow> None | Some s \<Rightarrow> sr_native s)"
  "sr_epoch (claimed_runtime p runId attempt) = Some ((case p of None \<Rightarrow> - 1
     | Some s \<Rightarrow> (case sr_epoch s of None \<Rightarrow> - 1 | Some e \<Rightarrow> e)) + 1)"
  "sr_runId (claimed_runtime p runId attempt) = Some runId" "sr_closed (claimed_runtime p runId attempt) = False"
  "sr_attempt (claimed_runtime p runId attempt) = (case attempt of None \<Rightarrow> (case p of None \<Rightarrow> None | Some s \<Rightarrow> sr_attempt s)
     | Some a \<Rightarrow> Some a)"
  by (auto simp: claimed_runtime_def no_runtime_def Let_def split: option.splits)

lemma claim_log:
  assumes "good w" and "log_shown g (view w)" and "journal_seen previous g" and "claim_usable usable previous runId attempt"
    and run: "claim_journal log_ports owner session runId now_s previous attempt w = (w', r)"
  shows "log_outcome g (\<lambda>r g1. r = Inr () \<longrightarrow> (\<forall>p. previous = Some p \<longrightarrow> \<not> sr_closed (runtime_of (rs_value p))) \<and>
    jl_state g1 = Some (journal_revision previous + 1,
      claimed_runtime (map_option (\<lambda>p. runtime_of (rs_value p)) previous) runId attempt)) w' r"
proof (cases "\<exists>p. previous = Some p \<and> sr_closed (runtime_of (rs_value p))")
  case True
  with run have "w' = w \<and> r = Inl harness_closed" by (auto simp: claim_journal_def throw_def Let_def)
  with assms(1,2) show ?thesis by (auto intro: outcome_self)
next
  case False
  let ?p = "map_option (\<lambda>p. runtime_of (rs_value p)) previous"
  let ?s = "claimed_runtime ?p runId attempt"
  let ?r = "\<lparr>rs_id = session, rs_ownerId = owner, rs_collection = ''session_runtime'',
    rs_createdAt = (case previous of None \<Rightarrow> now_s | Some r \<Rightarrow> rs_createdAt r),
    rs_revision = journal_revision previous + 1, rs_expiresAt = None, rs_value = runtime_value ?s\<rparr>"
  from False run have put: "put_resource log_ports ?r (journal_revision previous) w = (w', r)"
    by (cases previous) (auto simp: claim_journal_def Let_def)
  have usable: "runtime_value ?s \<in> usable" and plain: "runtime_plain ?s"
    using assms(3,4) by (cases attempt; auto simp: claim_usable_def journal_seen_def Let_def runtime_plain_def split: option.splits)+
  have head: "native_head_of ?s = head_in (read_state previous)"
    by (cases previous) (simp_all add: native_head_of_def head_in_def read_state_def)
  have later: "state_later (read_state previous) (Some (journal_revision previous + 1, ?s))"
    using False assms(3)
    by (cases previous) (auto simp: read_state_def journal_revision_def runtime_later_def journal_seen_def Let_def
        epoch_of_def high_water_def)
  have "log_outcome g (\<lambda>q g1. q = Inr () \<longrightarrow> jl_state g1 = Some (journal_revision previous + 1, ?s)) w' r"
    by (rule put_journal [OF assms(1-3) _ _ _ usable plain _ head later put]) simp_all
  then show ?thesis using False by (elim outcome_mono) auto
qed

lemma closure_simps [simp]:
  "sr_snapshot (closed_runtime p) = (case p of None \<Rightarrow> None | Some s \<Rightarrow> sr_snapshot s)"
  "sr_native (closed_runtime p) = (case p of None \<Rightarrow> None | Some s \<Rightarrow> sr_native s)"
  "sr_epoch (closed_runtime p) = Some ((case p of None \<Rightarrow> 0 | Some s \<Rightarrow> epoch_of s) + 1)"
  "sr_runId (closed_runtime p) = (case p of None \<Rightarrow> None | Some s \<Rightarrow> sr_runId s)" "sr_closed (closed_runtime p)"
  "sr_attempt (closed_runtime p) = (case p of None \<Rightarrow> None | Some s \<Rightarrow> sr_attempt s)"
  "sr_projectionSeq (closed_runtime p) = (case p of None \<Rightarrow> None | Some s \<Rightarrow> sr_projectionSeq s)"
  by (auto simp: closed_runtime_def no_runtime_def Let_def epoch_of_def split: option.splits)

lemma closed_later: "state_later (Some (n, s)) p \<Longrightarrow> sr_closed s \<Longrightarrow> \<exists>m t. p = Some (m, t) \<and> sr_closed t"
  by (cases p) (auto simp: runtime_later_def)

lemma close_log:
  assumes "good w" and "log_shown g (view w)" and "close_usable usable"
    and "close_attempts log_ports timer owner session n w = (w', r)"
  shows "log_outcome g journal_closed w' r"
  using assms(1,2,4)
proof (induction n arbitrary: g w)
  case 0
  then show ?case by (auto simp: throw_def journal_closed_def intro: outcome_self)
next
  case (Suc n)
  show ?case
  proof (rule runtime_bind [OF Suc.prems(1,2) Suc.prems(3) [unfolded close_attempts.simps]], goal_cases)
    case (1 e g2)
    then show ?case by (simp add: journal_closed_def)
  next
    case (2 y g1 g2 w1)
    show ?case
    proof (cases "\<exists>p. y = Some p \<and> sr_closed (runtime_of (rs_value p))")
      case True
      then obtain p where y: "y = Some p" "sr_closed (runtime_of (rs_value p))" by blast
      with 2(8) have "w' = w1 \<and> r = Inr p" by (simp add: ret_def)
      moreover have "\<exists>n s. jl_state g2 = Some (n, s) \<and> sr_closed s"
        using 2(7) y closed_later by (auto simp: journal_seen_def read_state_def)
      ultimately show ?thesis using 2 by (auto simp: journal_closed_def intro: outcome_self)
    next
      case False
      let ?p = "map_option (\<lambda>p. runtime_of (rs_value p)) y"
      let ?r = "planRuntimeClosure owner session (timer w1) y"
      obtain w2 q where put: "put_resource log_ports ?r (journal_revision y) w1 = (w2, q)"
        by (cases "put_resource log_ports ?r (journal_revision y) w1")
      have usable: "runtime_value (closed_runtime ?p) \<in> usable" and plain: "runtime_plain (closed_runtime ?p)"
        using assms(3) 2(7) False by (auto simp: close_usable_def journal_seen_def Let_def runtime_plain_def split: option.splits)
      have head: "native_head_of (closed_runtime ?p) = head_in (read_state y)"
        by (cases y) (simp_all add: native_head_of_def head_in_def read_state_def)
      have later: "state_later (read_state y) (Some (journal_revision y + 1, closed_runtime ?p))"
        using False
        by (cases y) (auto simp: read_state_def journal_revision_def runtime_later_def high_water_def epoch_of_def)
      have closing: "log_outcome g2 (\<lambda>q g1. q = Inr () \<longrightarrow> jl_state g1 = Some (journal_revision y + 1, closed_runtime ?p)) w2 q"
        by (rule put_journal [OF 2(6,5,7) _ _ _ usable plain _ head later put]) (simp_all add: planRuntimeClosure_def)
      have run: "try_io (put_resource log_ports ?r (journal_revision y)) (\<lambda>_. ret ?r)
          (\<lambda>e. if \<not> has_status 409 e \<or> n = 0 then throw e else close_attempts log_ports timer owner session n) w1 = (w', r)"
        using 2(8) False by (auto simp: Let_def split: if_splits)
      show ?thesis
      proof (cases q)
        case (Inl e)
        from closing obtain g3 where g3: "good w2" "log_later g2 g3" "log_shown g3 (view w2)" by (auto simp: log_outcome_def)
        have "(if \<not> has_status 409 e \<or> n = 0 then throw e else close_attempts log_ports timer owner session n) w2 = (w', r)"
          using run put Inl by (simp add: try_io_def)
        with Suc.IH [OF g3(1,3)] g3 show ?thesis
          by (auto simp: throw_def journal_closed_def split: if_splits intro: outcome_later outcome_self)
      next
        case (Inr u)
        with run put have "w' = w2" and "r = Inr ?r" by (simp_all add: try_io_def ret_def)
        with closing Inr show ?thesis unfolding \<open>w' = w2\<close> by (elim outcome_mono) (simp add: journal_closed_def)
      qed
    qed
  qed
qed

section \<open>The lease's operations\<close>

abbreviation lease :: "string \<Rightarrow> int \<Rightarrow> 'a native_lease" where
  "lease run epoch \<equiv> \<lparr>nl_store = log_ports, nl_platform = pl, nl_web = web, nl_ownerId = owner, nl_sessionId = session,
     nl_runId = run, nl_epoch = epoch\<rparr>"

text \<open>A Run that has lost the journal for good.\<close>

lemma superseded_later: "superseded run epoch g \<Longrightarrow> log_later g g' \<Longrightarrow> superseded run epoch g'"
  by (cases "jl_state g'") (auto simp: superseded_def log_later_def runtime_later_def)

lemma superseded_no_lease: "superseded run epoch g \<Longrightarrow> jl_state g = Some (n, s) \<Longrightarrow> \<not> holds_lease run epoch s"
  by (auto simp: superseded_def holds_lease_def epoch_of_def)

lemma bind_io_assoc: "bind_io (bind_io m f) k = bind_io m (\<lambda>x. bind_io (f x) k)"
  by (rule ext) (simp add: bind_io_def split: prod.splits sum.splits)

lemma active_bind:
  assumes "good w" and "log_shown g (view w)" and run: "bind_io (lease_active (lease run epoch)) k w = (w', r)"
    and failed: "\<And>e g2. log_later g g2 \<Longrightarrow> r = Inl e \<Longrightarrow> Q r g2"
    and rest: "\<And>p g1 g2 w1. log_later g g1 \<Longrightarrow> log_ok pl web usable session g1 \<Longrightarrow>
      jl_state g1 = Some (rs_revision p, runtime_of (rs_value p)) \<Longrightarrow> log_later g1 g2 \<Longrightarrow> log_shown g2 (view w1) \<Longrightarrow>
      good w1 \<Longrightarrow> journal_seen (Some p) g2 \<Longrightarrow> holds_lease run epoch (runtime_of (rs_value p)) \<Longrightarrow>
      \<not> superseded run epoch g \<Longrightarrow> k p w1 = (w', r) \<Longrightarrow> log_outcome g2 Q w' r"
  shows "log_outcome g Q w' r"
proof (rule runtime_bind [OF assms(1,2)])
  show "bind_io (runtime_get log_ports owner session) (\<lambda>x. bind_io (case x of None \<Rightarrow> throw native_conflict
     | Some p \<Rightarrow> if holds_lease run epoch (runtime_of (rs_value p)) then ret p else throw native_conflict) k) w = (w', r)"
    using run by (simp add: lease_active_def bind_io_assoc cong: option.case_cong)
next
  fix e g2
  assume "log_later g g2" and "r = Inl e"
  then show "Q r g2" by (rule failed)
next
  fix x g1 g2 w1
  assume 1: "log_later g g1" "log_ok pl web usable session g1" "jl_state g1 = read_state x" "log_later g1 g2"
    "log_shown g2 (view w1)" "good w1" "journal_seen x g2"
    and k: "bind_io (case x of None \<Rightarrow> throw native_conflict
     | Some p \<Rightarrow> if holds_lease run epoch (runtime_of (rs_value p)) then ret p else throw native_conflict) k w1 = (w', r)"
  show "log_outcome g2 Q w' r"
  proof (cases "\<exists>p. x = Some p \<and> holds_lease run epoch (runtime_of (rs_value p))")
    case False
    with k have "w' = w1 \<and> r = Inl native_conflict" by (auto simp: bind_io_def throw_def split: option.splits)
    with 1 failed [OF log_later_trans [OF 1(1,4)]] show ?thesis by (blast intro: outcome_self)
  next
    case True
    then obtain p where p: "x = Some p" "holds_lease run epoch (runtime_of (rs_value p))" by blast
    then have state: "jl_state g1 = Some (rs_revision p, runtime_of (rs_value p))" using 1(3) by (simp add: read_state_def)
    have "\<not> superseded run epoch g"
      using superseded_later [OF _ 1(1)] superseded_no_lease [OF _ state] p(2) by blast
    moreover have "k p w1 = (w', r)" using k p by (simp add: bind_io_def ret_def)
    ultimately show ?thesis using rest [OF 1(1,2) state 1(4-6)] 1(7) p by blast
  qed
qed

lemma native_bind:
  assumes "good w" and "log_shown g (view w)" and run: "bind_io (native_get (lease run epoch) i) k w = (w', r)"
    and failed: "\<And>e g2. log_later g g2 \<Longrightarrow> r = Inl e \<Longrightarrow> Q r g2"
    and rest: "\<And>x g1 g2 w1. log_later g g1 \<Longrightarrow> log_ok pl web usable session g1 \<Longrightarrow>
      jl_native g1 i = map_option rs_value x \<Longrightarrow> log_later g1 g2 \<Longrightarrow> log_shown g2 (view w1) \<Longrightarrow> good w1 \<Longrightarrow>
      k x w1 = (w', r) \<Longrightarrow> log_outcome g2 Q w' r"
  shows "log_outcome g Q w' r"
proof -
  obtain w1 r1 where get: "fetch owner ''session_native'' i w = (w1, r1)" by (cases "fetch owner ''session_native'' i w")
  from fetch_log [OF assms(1,2) get] obtain g1 g2 v where 1: "log_later g g1" "log_shown g1 v" "log_later g1 g2"
    "log_shown g2 (view w1)" "good w1" and x: "\<And>x. r1 = Inr x \<Longrightarrow> v (native_at i) = shown x" by metis
  have later: "log_later g g2" by (rule log_later_trans [OF 1(1,3)])
  show ?thesis
  proof (cases r1)
    case (Inl e)
    with run get have "w' = w1" "r = Inl e" by (simp_all add: bind_io_def native_get_def)
    with 1 failed [OF later] show ?thesis by (blast intro: outcome_later [OF later] outcome_self)
  next
    case (Inr y)
    with run get have "k y w1 = (w', r)" by (simp add: bind_io_def native_get_def)
    with rest [OF 1(1) kept_log [OF 1(2)] native_read [OF 1(2) x [OF Inr]] 1(3-5)] show ?thesis
      by (blast intro: outcome_later [OF later])
  qed
qed

lemma stored_later: "log_later g g' \<Longrightarrow> jl_native g i = Some x \<Longrightarrow> jl_native g' i = Some x"
  by (auto simp: log_later_def map_le_def dom_def)

lemma load_commits_log:
  assumes "good w" and "log_shown g (view w)" and "chained pl web cs" and "length cs \<le> n"
    and "\<forall>c \<in> set cs. jl_native g (commit_id session c) = Some (commit_value c)"
    and "load_commits (lease run epoch) n (last_head pl web cs) w = (w', r)"
  shows "log_outcome g (\<lambda>r g'. \<forall>x. r = Inr x \<longrightarrow> x = Some (rev cs)) w' r"
  using assms
proof (induction cs arbitrary: w g n w' r rule: rev_induct)
  case Nil
  then show ?case by (auto simp: last_head_def ret_def intro: outcome_self)
next
  case (snoc c cs)
  then obtain m where n: "n = Suc m" by (cases n) auto
  have chain: "chained pl web cs" and c: "nc_schema c = 1" "nc_seq c = int (length cs) + 1"
    "nc_parent c = last_head pl web cs"
    using snoc.prems(3) by (simp_all add: chained_snoc)
  have parent: "nh_seq h < nc_seq c" if "nc_parent c = Some h" for h
    using that c last_head_seq(1) [OF chain] by simp
  let ?h = "head_of_commit pl web c"
  have head: "last_head pl web (cs @ [c]) = Some ?h" "nh_commitId ?h = nc_commitId c" "nh_seq ?h = nc_seq c"
    "nh_digest ?h = nativeDigest pl web (commit_value c)"
    by (simp_all add: last_head_def head_of_commit_def)
  show ?case
  proof (rule native_bind [OF snoc.prems(1,2) snoc.prems(6) [unfolded n head(1) load_commits.simps]], goal_cases)
    case (1 e g2)
    then show ?case by simp
  next
    case (2 x g1 g2 w1)
    have "jl_native g1 (commit_id session c) = Some (commit_value c)"
      using snoc.prems(5) stored_later [OF 2(1)] by simp
    with 2(3) obtain p where x: "x = Some p" "rs_value p = commit_value c"
      by (auto simp: commit_id_def head(2))
    obtain w2 r2 where rest: "load_commits (lease run epoch) m (nc_parent c) w1 = (w2, r2)"
      by (cases "load_commits (lease run epoch) m (nc_parent c) w1")
    have "bind_io (load_commits (lease run epoch) m (nc_parent c)) (\<lambda>rest. ret (map_option (Cons c) rest)) w1 = (w', r)"
      using 2(7) x c(1) head parent by (cases "nc_parent c") (auto simp: Let_def not_le)
    with rest have r: "w' = w2" "\<And>y. r = Inr y \<Longrightarrow> \<exists>y2. r2 = Inr y2 \<and> y = map_option (Cons c) y2"
      by (auto simp: bind_io_def ret_def split: sum.splits)
    have "\<forall>c \<in> set cs. jl_native g2 (commit_id session c) = Some (commit_value c)"
      using snoc.prems(5) stored_later [OF log_later_trans [OF 2(1,4)]] by simp
    from snoc.IH [OF 2(6,5) chain _ this rest [unfolded c(3)]] snoc.prems(4) n
    have "log_outcome g2 (\<lambda>r g'. \<forall>x. r = Inr x \<longrightarrow> x = Some (rev cs)) w2 r2" by simp
    then show ?case unfolding r(1) by (rule outcome_mono) (use r(2) in force)
  qed
qed

lemma load_log:
  assumes "good w" and "log_shown g (view w)" and run: "native_load (lease run epoch) w = (w', r)"
  shows "log_outcome g (loaded pl web g) w' r"
proof (rule active_bind [OF assms(1,2) run [unfolded native_load_def]], goal_cases)
  case (1 e g2)
  then show ?case by (simp add: loaded_def)
next
  case (2 p g1 g2 w1)
  let ?s = "runtime_of (rs_value p)" and ?cs = "jl_commits g1"
  have ok: "native_head_of ?s = last_head pl web ?cs" "\<forall>c \<in> set ?cs. nc_idHighWater c \<le> high_water ?s"
    "chained pl web ?cs" "\<forall>c \<in> set ?cs. jl_native g1 (commit_id session c) = Some (commit_value c)"
    using 2(2,3) by (simp_all add: log_ok_def state_ok_def)
  have fuel: "length ?cs \<le> load_fuel (last_head pl web ?cs)"
    using last_head_seq(1) [OF ok(3)]
    by (cases "last_head pl web ?cs") (auto simp: load_fuel_def last_head_def split: if_splits)
  obtain w2 r2 where rest: "load_commits (lease run epoch) (load_fuel (last_head pl web ?cs)) (last_head pl web ?cs) w1 = (w2, r2)"
    by (cases "load_commits (lease run epoch) (load_fuel (last_head pl web ?cs)) (last_head pl web ?cs) w1")
  with 2(10) ok(1) have r: "w' = w2" "\<And>x. r = Inr x \<Longrightarrow> \<exists>y. r2 = Inr y \<and> x = map_option
      (\<lambda>cs. \<lparr>ni_head = last_head pl web ?cs, ni_highWater = high_water ?s, ni_commits = rev cs\<rparr>) y"
    by (auto simp: bind_io_def ret_def Let_def split: sum.splits)
  have "\<forall>c \<in> set ?cs. jl_native g2 (commit_id session c) = Some (commit_value c)"
    using ok(4) stored_later [OF 2(4)] by simp
  from load_commits_log [OF 2(6,5) ok(3) fuel this rest]
  have "log_outcome g2 (\<lambda>r g'. \<forall>x. r = Inr x \<longrightarrow> x = Some (rev ?cs)) w2 r2" .
  then obtain g3 where g3: "good w2" "log_later g2 g3" "log_shown g3 (view w2)" "\<And>x. r2 = Inr x \<Longrightarrow> x = Some (rev ?cs)"
    by (auto simp: log_outcome_def)
  obtain a where a: "?cs = jl_commits g @ a" using 2(1) by (auto simp: log_later_def)
  obtain b where b: "jl_commits g3 = ?cs @ b" using log_later_trans [OF 2(4) g3(2)] by (auto simp: log_later_def)
  have "loaded pl web g r g3"
    unfolding loaded_def
  proof (intro allI impI)
    fix x
    assume "r = Inr x"
    with r(2) g3(4) have "x = Some \<lparr>ni_head = last_head pl web ?cs, ni_highWater = high_water ?s, ni_commits = ?cs\<rparr>"
      by fastforce
    with a b ok(2) show "\<exists>cs h. (\<exists>a. cs = jl_commits g @ a) \<and> (\<exists>b. jl_commits g3 = cs @ b) \<and>
        x = Some \<lparr>ni_head = last_head pl web cs, ni_highWater = h, ni_commits = cs\<rparr> \<and>
        (\<forall>c \<in> set cs. nc_idHighWater c \<le> h)" by blast
  qed
  with g3 r(1) show ?case by (auto simp: log_outcome_def)
qed

text \<open>Trying again after an error, with the attempts left.\<close>

lemma write_or_again:
  assumes written: "log_outcome g P w1 q" and run: "(case q of Inl e \<Rightarrow> again e w1 | Inr u \<Rightarrow> ret v w1) = (w', r)"
    and retry: "\<And>e g1. log_later g g1 \<Longrightarrow> log_shown g1 (view w1) \<Longrightarrow> good w1 \<Longrightarrow> again e w1 = (w', r) \<Longrightarrow> log_outcome g1 Q w' r"
    and result: "\<And>g1. log_later g g1 \<Longrightarrow> P (Inr ()) g1 \<Longrightarrow> Q (Inr v) g1"
  shows "log_outcome g Q w' r"
proof (cases q)
  case (Inl e)
  from written obtain g1 where "good w1" "log_later g g1" "log_shown g1 (view w1)" by (auto simp: log_outcome_def)
  with Inl run retry show ?thesis by (auto intro: outcome_later)
next
  case (Inr u)
  with run have "w' = w1" "r = Inr v" by (simp_all add: ret_def)
  with written Inr result show ?thesis by (auto elim!: outcome_mono)
qed

lemma immutable_simps [simp]:
  "native_writes None = []"
  "native_writes (Some (i, x)) = [\<lparr>rw_resource = immutable_resource owner i x, rw_expectedRevision = 0\<rparr>]"
  by (simp_all add: native_writes_def)

text \<open>Both writes of the lease: the journal moves from the state that was read, and the Run holds it.\<close>

lemma lease_commit:
  assumes "good w" and "log_shown g (view w)" and "journal_seen (Some p) g" and "s = runtime_of (rs_value p)"
    and "runtime_value s' \<in> usable" and "\<And>i x. new = Some (i, x) \<Longrightarrow> x \<in> usable"
    and "store (native_writes new @ [\<lparr>rw_resource = next_runtime p s', rw_expectedRevision = rs_revision p\<rparr>]) w = (w', q)"
    and step: "\<And>g1. log_later g g1 \<Longrightarrow> log_ok pl web usable session g1 \<Longrightarrow> jl_state g1 = Some (rs_revision p, s) \<Longrightarrow>
      (\<And>i x. new = Some (i, x) \<Longrightarrow> jl_native g1 i = None) \<Longrightarrow>
      log_ok pl web usable session (f g1) \<and> log_later g1 (f g1) \<and>
      jl_state (f g1) = Some (rs_revision p + 1, s') \<and> jl_native (f g1) = native_after new (jl_native g1)"
  shows "log_outcome g (\<lambda>q g2. q = Inr () \<longrightarrow> (\<exists>g1. log_later g g1 \<and> g2 = f g1)) w' q"
proof -
  have state: "read_state (Some p) = Some (rs_revision p, s)" "state_revision (read_state (Some p)) = rs_revision p"
    using assms(4) by (simp_all add: read_state_def state_revision_def)
  have u: "journal_write (state_revision (read_state (Some p))) s'
      \<lparr>rw_resource = next_runtime p s', rw_expectedRevision = rs_revision p\<rparr>"
    using assms(3) state by (simp add: journal_write_def write_address_def next_runtime_def journal_seen_def Let_def)
  have seen: "state_later (read_state (Some p)) (jl_state g)" and positive: "1 \<le> state_revision (read_state (Some p))"
    using assms(3) state by (simp_all add: journal_seen_def Let_def)
  have "log_outcome g (\<lambda>q g2. q = Inr () \<longrightarrow> (\<exists>g1. log_later g g1 \<and> jl_state g1 = read_state (Some p) \<and> g2 = f g1)) w' q"
    by (rule journal_commit [OF assms(1,2) seen positive u assms(5,6,7)]) (use step state in simp_all)
  then show ?thesis by (rule outcome_mono) blast
qed

lemma reserve_log:
  assumes "good w" and "log_shown g (view w)" and "reservation_usable usable amount" and "1 \<le> amount"
    and i: "reservation_key session i"
    and "reserve_attempts (lease run epoch) amount i n w = (w', r)"
  shows "log_outcome g (reserved i amount) w' r"
  using assms(1,2,6)
proof (induction n arbitrary: g w)
  case 0
  then show ?case by (auto simp: throw_def reserved_def intro: outcome_self)
next
  case (Suc n)
  show ?case
  proof (rule active_bind [OF Suc.prems(1,2) Suc.prems(3) [unfolded reserve_attempts.simps]], goal_cases)
    case (1 e g2)
    then show ?case by (simp add: reserved_def)
  next
    case (2 p g1 g2 w1)
    note active = 2
    let ?s = "runtime_of (rs_value p)"
    show ?case
    proof (rule native_bind [OF active(6,5,10)], goal_cases)
      case (1 e g3)
      then show ?case by (simp add: reserved_def)
    next
      case (2 x g3 g4 w2)
      have seen: "journal_seen (Some p) g4" by (rule journal_seen_later [OF active(7) log_later_trans [OF 2(1,4)]])
      show ?case
      proof (cases x)
        case (Some q)
        then obtain v where v: "(i, v) \<in> set (jl_reservations g3)" "rs_value q = reservation_value v"
          using 2(2,3) i by (fastforce simp: log_ok_def)
        then have "(i, v) \<in> set (jl_reservations g4)" using 2(4) by (auto simp: log_later_def)
        with 2(5-7) Some v show ?thesis
          by (auto simp: planNativeReservation_def ret_def throw_def reserved_def split: if_splits intro!: outcome_self)
      next
        case None
        let ?v = "\<lparr>nr_first = high_water ?s + 1, nr_last = high_water ?s + amount, nr_count = amount\<rparr>"
        let ?s' = "reserved_runtime ?s (high_water ?s + amount)"
        let ?new = "Some (i, reservation_value ?v)"
        let ?ws = "native_writes ?new @ [\<lparr>rw_resource = next_runtime p ?s', rw_expectedRevision = rs_revision p\<rparr>]"
        show ?thesis
        proof (cases "safe_int (high_water ?s + amount)")
          case False
          with 2(5-7) None show ?thesis
            by (auto simp: planNativeReservation_def throw_def reserved_def Let_def intro!: outcome_self)
        next
          case True
          obtain w3 q where put: "store ?ws w2 = (w3, q)" by (cases "store ?ws w2")
          have open_s: "\<not> sr_closed ?s" using active(8) by (simp add: holds_lease_def)
          have usable: "runtime_value ?s' \<in> usable" "reservation_value ?v \<in> usable"
            using active(7) assms(3) by (simp_all add: journal_seen_def reservation_usable_def Let_def)
          have written: "log_outcome g4 (\<lambda>q g2. q = Inr () \<longrightarrow> (\<exists>g1. log_later g4 g1 \<and>
              g2 = log_reserve i ?v (rs_revision p + 1, ?s') g1)) w3 q"
          proof (rule lease_commit [OF 2(6,5) seen refl usable(1) _ put], goal_cases)
            case (1 j y)
            then show ?case using usable(2) by simp
          next
            case (2 g1)
            from log_reserve_ok [OF 2(2,3) open_s refl assms(4) usable(2), of ?s' i] usable(1) 2(4)
            show ?case by (simp add: log_reserve_def native_after_def)
          qed
          have "(case q of Inl e \<Rightarrow> (if n = 0 then throw e else reserve_attempts (lease run epoch) amount i n) w3
              | Inr u \<Rightarrow> ret ?v w3) = (w', r)"
            using 2(7) None True put by (simp add: planNativeReservation_def Let_def try_io_def split: sum.splits)
          from written this show ?thesis
          proof (rule write_or_again, goal_cases)
            case (1 e g1)
            then show ?case
              using Suc.IH [OF 1(3,2)] by (cases "n = 0") (auto simp: throw_def reserved_def intro: outcome_self)
          next
            case (2 g1)
            then show ?case by (auto simp: reserved_def log_reserve_def)
          qed
        qed
      qed
    qed
  qed
qed

lemma same_commit:
  assumes "commit_usable pl web usable c" and "x \<in> usable"
    and "nativeDigest pl web x = nh_digest (head_of_commit pl web c)"
  shows "x = commit_value c"
  using assms by (simp add: commit_usable_def head_of_commit_def)

text \<open>The head is already attached: the commit is the last one of the log.\<close>

lemma attached_is_last:
  assumes ok: "log_ok pl web usable session g" and state: "jl_state g = Some (n, s)"
    and "native_head_of s = Some (head_of_commit pl web c)" and "commit_usable pl web usable c"
  shows "c \<in> set (jl_commits g)"
proof -
  let ?cs = "jl_commits g"
  have head: "last_head pl web ?cs = Some (head_of_commit pl web c)"
    using ok state assms(3) by (simp add: log_ok_def state_ok_def)
  then have "?cs \<noteq> []" and same: "head_of_commit pl web (last ?cs) = head_of_commit pl web c"
    by (auto simp: last_head_def split: if_splits)
  then have d: "last ?cs \<in> set ?cs" by simp
  then have "jl_native g (commit_id session (last ?cs)) = Some (commit_value (last ?cs))"
    using ok unfolding log_ok_def by blast
  then have "commit_value (last ?cs) \<in> usable" using ok unfolding log_ok_def by blast
  from same_commit [OF assms(4) this] same have "commit_value (last ?cs) = commit_value c"
    by (simp add: head_of_commit_def)
  with d show ?thesis by (metis commit_value_inject)
qed

lemma attach_write:
  assumes "good w" and "log_shown g (view w)" and seen: "journal_seen (Some p) g" and open_s: "\<not> sr_closed (runtime_of (rs_value p))"
    and c: "commit_usable pl web usable c" "commit_fits c" "nc_parent c = native_head_of (runtime_of (rs_value p))"
    and found: "found \<in> {None, Some (commit_value c)}" "\<And>x. found = Some x \<Longrightarrow> jl_native g (commit_id session c) = Some x"
    and s': "s' = attached_runtime (runtime_of (rs_value p)) c (head_of_commit pl web c)"
    and put: "store ((if found = None then [\<lparr>rw_resource = immutable_resource owner (commit_id session c) (commit_value c),
        rw_expectedRevision = 0\<rparr>] else []) @
      [\<lparr>rw_resource = next_runtime p s', rw_expectedRevision = rs_revision p\<rparr>]) w = (w', q)"
  shows "log_outcome g (\<lambda>q g2. q = Inr () \<longrightarrow> c \<in> set (jl_commits g2)) w' q"
proof -
  let ?new = "if found = None then Some (commit_id session c, commit_value c) else None"
  let ?f = "log_attach session c (rs_revision p + 1, s')"
  have usable: "runtime_value s' \<in> usable" "commit_value c \<in> usable"
    using seen c(1) s' by (simp_all add: journal_seen_def commit_usable_def Let_def)
  have put': "store (native_writes ?new @ [\<lparr>rw_resource = next_runtime p s', rw_expectedRevision = rs_revision p\<rparr>]) w = (w', q)"
    using put by (cases found) simp_all
  have "log_outcome g (\<lambda>q g2. q = Inr () \<longrightarrow> (\<exists>g1. log_later g g1 \<and> g2 = ?f g1)) w' q"
  proof (rule lease_commit [OF assms(1-3) refl usable(1) _ put'], goal_cases)
    case (1 i x)
    then show ?case using usable(2) by (auto split: if_splits)
  next
    case (2 g1)
    have "jl_native g1 (commit_id session c) \<in> {None, Some (commit_value c)}"
      using 2(4) found stored_later [OF 2(1)] by (cases found) auto
    note attach = log_attach_ok [OF 2(2,3) open_s c(2,3) usable(2) s' usable(1) this]
    have "(jl_native g1)(commit_id session c \<mapsto> commit_value c) = native_after ?new (jl_native g1)"
      using found stored_later [OF 2(1)] by (cases found) (auto simp: native_after_def fun_upd_idem_iff)
    with attach show ?case by (simp add: log_attach_def)
  qed
  then show ?thesis by (rule outcome_mono) (auto simp: log_attach_def)
qed

lemma commit_log:
  assumes "good w" and "log_shown g (view w)" and "commit_usable pl web usable c" and "commit_fits c"
    and "commit_attempts (lease run epoch) c n w = (w', r)"
  shows "log_outcome g (committed pl web c) w' r"
  using assms(1,2,5)
proof (induction n arbitrary: g w)
  case 0
  then show ?case by (auto simp: throw_def committed_def intro: outcome_self)
next
  case (Suc n)
  let ?h = "head_of_commit pl web c" and ?i = "commit_id session c"
  let ?again = "\<lambda>e. if n = 0 then throw e else commit_attempts (lease run epoch) c n"
  show ?case
  proof (rule active_bind [OF Suc.prems(1,2) Suc.prems(3) [unfolded commit_attempts.simps]], goal_cases)
    case (1 e g2)
    then show ?case by (simp add: committed_def)
  next
    case (2 p g1 g2 w1)
    note active = 2
    let ?s = "runtime_of (rs_value p)" and ?plan = "planNativeCommit pl web p owner ?i c ?h"
    have open_s: "\<not> sr_closed ?s" using active(8) by (simp add: holds_lease_def)
    consider (attached) "native_head_of ?s = Some ?h"
      | (moved) "native_head_of ?s \<noteq> Some ?h" "native_head_of ?s \<noteq> nc_parent c"
      | (parent) "native_head_of ?s \<noteq> Some ?h" "native_head_of ?s = nc_parent c" by blast
    then show ?case
    proof cases
      case attached
      then have "w' = w1 \<and> r = Inr ?h" using active(10) by (simp add: planNativeCommit_def carry_out_def ret_def Let_def)
      moreover have "c \<in> set (jl_commits g2)"
        using attached_is_last [OF active(2,3) attached assms(3)] active(4) by (auto simp: log_later_def)
      ultimately show ?thesis using active(5,6) by (auto simp: committed_def intro: outcome_self)
    next
      case moved
      then have "w' = w1 \<and> r = Inl native_conflict" using active(10) by (simp add: planNativeCommit_def carry_out_def throw_def Let_def)
      then show ?thesis using active(5,6) by (auto simp: committed_def intro: outcome_self)
    next
      case parent
      then have "bind_io (native_get (lease run epoch) ?i) (\<lambda>existing.
          carry_out (lease run epoch) (?plan (Some (map_option rs_value existing))) ?again) w1 = (w', r)"
        using active(10) by (simp add: planNativeCommit_def Let_def)
      then show ?thesis
      proof (rule native_bind [OF active(6,5)], goal_cases)
        case (1 e g3)
        then show ?case by (simp add: committed_def)
      next
        case (2 x g3 g4 w2)
        let ?found = "map_option rs_value x"
        have seen: "journal_seen (Some p) g4" by (rule journal_seen_later [OF active(7) log_later_trans [OF 2(1,4)]])
        show ?case
        proof (cases "?found \<noteq> None \<and> nativeDigest pl web (the ?found) \<noteq> nh_digest ?h")
          case True
          then have "w' = w2 \<and> r = Inl native_conflict"
            using 2(7) parent by (auto simp: planNativeCommit_def carry_out_def throw_def Let_def)
          then show ?thesis using 2(5,6) by (auto simp: committed_def intro: outcome_self)
        next
          case False
          have found: "?found \<in> {None, Some (commit_value c)}"
          proof (cases ?found)
            case (Some y)
            then have "jl_native g3 ?i = Some y" using 2(3) by simp
            then have "y \<in> usable" using 2(2) unfolding log_ok_def by blast
            with same_commit [OF assms(3) this] False Some show ?thesis by auto
          qed simp
          have stored: "jl_native g4 ?i = Some y" if "?found = Some y" for y
            using that 2(3) stored_later [OF 2(4)] by simp
          let ?s' = "attached_runtime ?s c ?h"
          let ?ws = "(if ?found = None then [\<lparr>rw_resource = immutable_resource owner ?i (commit_value c),
              rw_expectedRevision = 0\<rparr>] else []) @
            [\<lparr>rw_resource = next_runtime p ?s', rw_expectedRevision = rs_revision p\<rparr>]"
          obtain w3 q where put: "store ?ws w2 = (w3, q)" by (cases "store ?ws w2")
          have written: "log_outcome g4 (\<lambda>q g2. q = Inr () \<longrightarrow> c \<in> set (jl_commits g2)) w3 q"
            by (rule attach_write [OF 2(6,5) seen open_s assms(3,4) parent(2) [symmetric] found stored refl put])
          have "?plan (Some ?found) = Commit_Write ?h ?ws" using parent False by (simp add: planNativeCommit_def Let_def)
          with 2(7) put have "(case q of Inl e \<Rightarrow> ?again e w3 | Inr u \<Rightarrow> ret ?h w3) = (w', r)"
            by (simp add: carry_out_def try_io_def split: sum.splits)
          from written this show ?thesis
          proof (rule write_or_again, goal_cases)
            case (1 e g5)
            then show ?case
              using Suc.IH [OF 1(3,2)] by (cases "n = 0") (auto simp: throw_def committed_def intro: outcome_self)
          next
            case (2 g5)
            then show ?case by (auto simp: committed_def)
          qed
        qed
      qed
    qed
  qed
qed

text \<open>A Run that has lost the journal changes nothing.\<close>

lemma lease_refused:
  assumes "good w" and "log_shown g (view w)" and "superseded run epoch g"
    and "bind_io (lease_active (lease run epoch)) k w = (w', r)"
  shows "\<exists>e. r = Inl e"
proof -
  have "log_outcome g (\<lambda>r g'. \<exists>e. r = Inl e) w' r"
    by (rule active_bind [OF assms(1,2,4)]) (use assms(3) in blast)+
  then show ?thesis by (auto simp: log_outcome_def)
qed

end

end
