(* ===== verification/Session_Journal_Props.thy ===== *)
theory Session_Journal_Props
  imports Session_Log Rate_Limit_Props
begin

text \<open>
  What the journal of a Session guarantees on both providers of the store: its native log only
  grows, reserved identities are never handed out twice, a closed journal stays as it was, and a
  Run that lost the journal writes nothing.
\<close>

section \<open>On DynamoDB and on SQLite\<close>

definition dynamo_journal ::
  "dynamo_platform \<Rightarrow> jsval set \<Rightarrow> string \<Rightarrow> string \<Rightarrow> agents_state agents_world \<Rightarrow> bool" where
  "dynamo_journal dy S owner session w \<longleftrightarrow>
     hash_of dy ''session_runtime'' \<noteq> hash_of dy ''session_native'' \<and>
     dynamo_good dy S (keeps_log (dy_platform dy) (dy_web dy) S session (root_scope dy owner ''session_runtime'' session)
       (root_scope dy owner ''session_native'')) w"

lemma native_digest_value: "nativeDigest (dy_platform dy) (dy_web dy) v = value_digest dy v"
  by (simp add: nativeDigest_def value_digest_def hash_of_def)

lemma collections_apart:
  assumes "plain_hash dy" and "hash_of dy c \<noteq> hash_of dy d"
  shows "root_scope dy owner c i \<noteq> root_scope dy owner d k"
proof
  assume "root_scope dy owner c i = root_scope dy owner d k"
  then have "hash_of dy c @ CHR '':'' # i = hash_of dy d @ CHR '':'' # k" by (simp add: root_scope_def)
  with assms show False by (auto simp: plain_hash_def dest: prefix_before)
qed

interpretation dynamo_log: journal_store "dynamo_get dy" "dynamo_commit dy" "\<lambda>w. dynamo_view (ag_state w)"
  "root_scope dy" S "dynamo_journal dy S owner session"
  "(keeps_log (dy_platform dy) (dy_web dy) S session (root_scope dy owner ''session_runtime'' session)
    (root_scope dy owner ''session_native''))\<^sup>*\<^sup>*"
  owner session "dy_platform dy" "dy_web dy" for dy S owner session
proof (unfold_locales, goal_cases)
  case (1 w ownerId collection i w' r)
  then show ?case unfolding dynamo_journal_def by (blast dest: dynamo_get_cases [THEN conjunct1])
next
  case (2 w ownerId collection i w' r)
  then show ?case unfolding dynamo_journal_def by (blast dest: dynamo_get_cases [THEN conjunct2])
next
  case (3 w ownerId collection i w' p)
  then show ?case unfolding dynamo_journal_def by (blast dest: dynamo_get_address)
next
  case (4 w ws w' q)
  then show ?case unfolding dynamo_journal_def by (blast dest: dynamo_commit_cases [THEN conjunct1])
next
  case (5 w ws w' q)
  then show ?case unfolding dynamo_journal_def by (blast dest: dynamo_commit_cases [THEN conjunct2])
next
  case (6 w i)
  then have "plain_hash dy" by (simp add: dynamo_journal_def dynamo_good_def content_hashed_def)
  with 6 show ?case by (intro collections_apart) (simp_all add: dynamo_journal_def)
next
  case (7 i k)
  then show ?case by (simp add: root_scope_def)
next
  case (8 v v' g)
  then show ?case by (rule keeps_log_steps)
qed

definition sqlite_journal ::
  "platform \<Rightarrow> web_platform \<Rightarrow> string \<Rightarrow> string \<Rightarrow> sqlite_rows agents_world \<Rightarrow> bool" where
  "sqlite_journal pl web owner session w \<longleftrightarrow>
     sqlite_good (keeps_log pl web plain_json session (sqlite_address owner ''session_runtime'' session)
       (sqlite_address owner ''session_native'')) w"

interpretation sqlite_log: journal_store sqlite_get sqlite_commit "\<lambda>w. sqlite_view (ag_state w)"
  sqlite_address plain_json "sqlite_journal pl web owner session"
  "(keeps_log pl web plain_json session (sqlite_address owner ''session_runtime'' session)
    (sqlite_address owner ''session_native''))\<^sup>*\<^sup>*"
  owner session pl web for pl web owner session
proof (unfold_locales, goal_cases)
  case (1 w ownerId collection i w' r)
  then show ?case unfolding sqlite_journal_def by (blast dest: sqlite_get_cases(1))
next
  case (2 w ownerId collection i w' r)
  then have "sqlite_good (keeps_log pl web plain_json session (sqlite_address owner ''session_runtime'' session)
      (sqlite_address owner ''session_native'')) w" by (simp add: sqlite_journal_def)
  note get = sqlite_get_cases [OF this 2(2)]
  then show ?case by (intro exI [of _ "sqlite_view (ag_state w')"]) (auto simp: sqlite_address_def)
next
  case (3 w ownerId collection i w' p)
  then show ?case by (blast dest: sqlite_get_address)
next
  case (4 w ws w' q)
  then show ?case unfolding sqlite_journal_def by (blast dest: sqlite_commit_cases [THEN conjunct1])
next
  case (5 w ws w' q)
  then show ?case unfolding sqlite_journal_def by (blast dest: sqlite_commit_cases [THEN conjunct2])
next
  case (6 w i)
  then show ?case by (simp add: sqlite_address_def)
next
  case (7 i k)
  then show ?case by (simp add: sqlite_address_def)
next
  case (8 v v' g)
  then show ?case by (rule keeps_log_steps)
qed

lemma JObj_plain: "JObj fs \<in> plain_json \<longleftrightarrow> snd ` set fs \<subseteq> plain_json"
proof
  assume "JObj fs \<in> plain_json"
  then have copy: "map (\<lambda>(k, v). (k, json_copy v)) (filter (\<lambda>(k, v). v \<noteq> JUndef) fs) = fs"
    by (simp add: plain_json_def)
  then have "length (filter (\<lambda>(k, v). v \<noteq> JUndef) fs) = length fs" by (metis length_map)
  then have all: "\<forall>x \<in> set fs. snd x \<noteq> JUndef" by (metis (mono_tags, lifting) case_prod_beta filter_id_conv length_filter_less less_irrefl)
  then have "filter (\<lambda>(k, v). v \<noteq> JUndef) fs = fs" by (auto simp: filter_id_conv)
  with copy have "map (\<lambda>(k, v). (k, json_copy v)) fs = map id fs" by simp
  then have "\<forall>x \<in> set fs. (case x of (k, v) \<Rightarrow> (k, json_copy v)) = id x" by (simp only: map_eq_conv)
  then have "\<forall>x \<in> set fs. json_copy (snd x) = snd x" by fastforce
  with all show "snd ` set fs \<subseteq> plain_json" by (auto simp: plain_json_def)
next
  assume fs: "snd ` set fs \<subseteq> plain_json"
  then have "filter (\<lambda>(k, v). v \<noteq> JUndef) fs = fs" by (auto simp: filter_id_conv plain_json_def)
  moreover have "map (\<lambda>(k, v). (k, json_copy v)) fs = fs" using fs by (intro map_idI) (auto simp: plain_json_def)
  ultimately show "JObj fs \<in> plain_json" by (simp add: plain_json_def)
qed

lemma number_plain [simp]: "number_value n \<in> plain_json"
  by (simp add: number_value_def plain_json_def)

lemma atom_plain [simp]: "JStr t \<in> plain_json" "JBool b \<in> plain_json" "JNull \<in> plain_json"
  by (simp_all add: plain_json_def)

lemma json_field_values: "snd ` set (json_field k enc x) = enc ` set_option x"
  by (cases x) (simp_all add: json_field_def)

lemma head_plain [simp]: "head_value h \<in> plain_json"
  by (simp add: head_value_def JObj_plain)

lemma native_plain [simp]: "native_value n \<in> plain_json"
  by (auto simp: native_value_def JObj_plain json_field_values image_Un)

text \<open>A journal record is plain JSON when its snapshot and its attempt are.\<close>

lemma runtime_value_plain:
  "runtime_value s \<in> plain_json \<longleftrightarrow> set_option (sr_snapshot s) \<subseteq> plain_json \<and> set_option (sr_attempt s) \<subseteq> plain_json"
proof -
  have "or_null JStr (sr_runId s) \<in> plain_json" by (cases "sr_runId s") (simp_all add: or_null_def)
  then show ?thesis by (auto simp: runtime_value_def JObj_plain json_field_values image_Un)
qed

abbreviation dynamo_native_log ::
  "dynamo_platform \<Rightarrow> jsval set \<Rightarrow> string \<Rightarrow> string \<Rightarrow> journal_log \<Rightarrow> agents_state agents_world \<Rightarrow> bool" where
  "dynamo_native_log dy S owner session g w \<equiv> log_kept (dy_platform dy) (dy_web dy) S session
     (root_scope dy owner ''session_runtime'' session) (root_scope dy owner ''session_native'') g
     (dynamo_view (ag_state w))"

abbreviation dynamo_lease ::
  "dynamo_platform \<Rightarrow> string \<Rightarrow> string \<Rightarrow> string \<Rightarrow> int \<Rightarrow> agents_state agents_world native_lease" where
  "dynamo_lease dy owner session run epoch \<equiv> \<lparr>nl_store = dynamo_ports dy, nl_platform = dy_platform dy,
     nl_web = dy_web dy, nl_ownerId = owner, nl_sessionId = session, nl_runId = run, nl_epoch = epoch\<rparr>"

abbreviation sqlite_native_log ::
  "platform \<Rightarrow> web_platform \<Rightarrow> string \<Rightarrow> string \<Rightarrow> journal_log \<Rightarrow> sqlite_rows agents_world \<Rightarrow> bool" where
  "sqlite_native_log pl web owner session g w \<equiv> log_kept pl web plain_json session
     (sqlite_address owner ''session_runtime'' session) (sqlite_address owner ''session_native'') g
     (sqlite_view (ag_state w))"

abbreviation sqlite_lease ::
  "platform \<Rightarrow> web_platform \<Rightarrow> string \<Rightarrow> string \<Rightarrow> string \<Rightarrow> int \<Rightarrow> sqlite_rows agents_world native_lease" where
  "sqlite_lease pl web owner session run epoch \<equiv> \<lparr>nl_store = sqlite_ports, nl_platform = pl, nl_web = web,
     nl_ownerId = owner, nl_sessionId = session, nl_runId = run, nl_epoch = epoch\<rparr>"

section \<open>An example Session\<close>

definition example_state :: session_runtime where
  "example_state = claimed_runtime None ''run-1'' None"

definition example_commit :: native_commit where
  "example_commit = \<lparr>nc_schema = 1, nc_commitId = ''c1'', nc_parent = None, nc_seq = 1, nc_idHighWater = 5,
     nc_writes = []\<rparr>"

definition example_head :: native_head where
  "example_head = head_of_commit (dy_platform example_dynamo) (dy_web example_dynamo) example_commit"

definition example_attached :: session_runtime where
  "example_attached = attached_runtime example_state example_commit example_head"

definition example_resource :: agent_resource where
  "example_resource = \<lparr>rs_id = ''s'', rs_ownerId = ''o'', rs_collection = ''session_runtime'', rs_createdAt = 1,
     rs_revision = 1, rs_expiresAt = None, rs_value = runtime_value example_state\<rparr>"

definition example_object :: string where
  "example_object = content_key (value_folder example_dynamo example_resource)
     (value_digest example_dynamo (rs_value example_resource))"

definition example_world :: "agents_state agents_world" where
  "example_world = \<lparr>ag_state = \<lparr>as_table = [rootKey example_dynamo ''o'' ''session_runtime'' ''s'' \<mapsto>
       index_of example_resource \<lparr>bucket = ''artifacts'', object_key = example_object, sha256 = []\<rparr>],
     as_objects = [example_object \<mapsto> rs_value example_resource]\<rparr>, ag_script = [], ag_clock = 90\<rparr>"

definition example_values :: "jsval set" where
  "example_values = {runtime_value example_state, runtime_value example_attached, commit_value example_commit}"

definition example_log :: journal_log where
  "example_log = \<lparr>jl_commits = [], jl_reservations = [], jl_state = Some (1, example_state),
     jl_native = (\<lambda>_. None)\<rparr>"

lemma example_values_plain: "example_values \<subseteq> plain_json"
proof -
  have "json_copy (runtime_value example_state) = runtime_value example_state"
    "json_copy (runtime_value example_attached) = runtime_value example_attached"
    "json_copy (commit_value example_commit) = commit_value example_commit" by code_simp+
  then show ?thesis by (auto simp: example_values_def plain_json_def runtime_value_def commit_value_def)
qed

lemma example_values_digests: "inj_on (value_digest example_dynamo) example_values"
proof -
  have "value_digest example_dynamo (runtime_value example_state) \<noteq> value_digest example_dynamo (runtime_value example_attached)"
    "value_digest example_dynamo (runtime_value example_state) \<noteq> value_digest example_dynamo (commit_value example_commit)"
    "value_digest example_dynamo (runtime_value example_attached) \<noteq> value_digest example_dynamo (commit_value example_commit)"
    by code_simp+
  then show ?thesis by (auto simp: example_values_def inj_on_def)
qed

lemma example_values_cases:
  assumes "runtime_plain s" and "runtime_value s \<in> example_values"
  shows "s = example_state \<or> s = example_attached"
proof -
  have plain: "runtime_plain example_state" "runtime_plain example_attached" by code_simp+
  have "runtime_value (runtime_of (commit_value example_commit)) \<noteq> commit_value example_commit" by code_simp
  with assms plain show ?thesis
    by (metis (no_types, lifting) example_values_def insertE runtime_of_runtime_value singletonD)
qed

lemma example_commit_usable:
  "commit_usable (dy_platform example_dynamo) (dy_web example_dynamo) example_values example_commit"
proof -
  have "attached_runtime example_attached example_commit example_head = example_attached" by code_simp
  then have "runtime_value (attached_runtime s example_commit example_head) \<in> example_values"
    if "runtime_plain s" "runtime_value s \<in> example_values" for s
    using example_values_cases [OF that] by (auto simp: example_values_def example_attached_def)
  moreover have "commit_value example_commit \<in> example_values" by (simp add: example_values_def)
  moreover have "x = commit_value example_commit"
    if "x \<in> example_values" "nativeDigest (dy_platform example_dynamo) (dy_web example_dynamo) x =
      nativeDigest (dy_platform example_dynamo) (dy_web example_dynamo) (commit_value example_commit)" for x
    using that example_values_digests calculation(2) by (simp add: native_digest_value inj_on_def)
  ultimately show ?thesis by (simp add: commit_usable_def example_head_def)
qed

lemma example_world_journal: "dynamo_journal example_dynamo example_values ''o'' ''s'' example_world"
proof -
  have "hash_of example_dynamo ''session_runtime'' \<noteq> hash_of example_dynamo ''session_native''" by code_simp
  moreover have "plain_hash example_dynamo"
    by (simp add: plain_hash_def hash_of_def example_dynamo_def stripped_def)
  moreover have "agents_state_ok example_dynamo example_values (ag_state example_world)"
    by (auto simp: agents_state_ok_def example_world_def example_values_def example_resource_def content_named_def
        example_object_def index_of_def rootKey_def split: if_splits)
  ultimately show ?thesis
    using example_values_plain example_values_digests
    by (simp add: dynamo_journal_def dynamo_good_def clocks_ok_def clock_ok_def last_minute_def content_hashed_def
        example_world_def)
qed

lemma example_world_log: "dynamo_native_log example_dynamo example_values ''o'' ''s'' example_log example_world"
proof -
  have "root_scope example_dynamo ''o'' ''session_runtime'' ''s'' \<noteq> root_scope example_dynamo ''o'' ''session_native'' i" for i
    by (rule collections_apart) (use example_world_journal in
      \<open>simp_all add: dynamo_journal_def dynamo_good_def content_hashed_def\<close>)
  then have "root_scope example_dynamo ''o'' ''session_native'' i \<noteq> root_scope example_dynamo ''o'' ''session_runtime'' ''s''" for i
    by (rule not_sym)
  moreover have "runtime_plain example_state" "sr_epoch example_state \<noteq> None" "native_head_of example_state = None"
    by code_simp+
  ultimately show ?thesis
    by (auto simp: log_kept_def log_ok_def example_log_def state_ok_def ranges_apart_def last_head_def example_values_def
        dynamo_view_def example_world_def rootKey_def index_of_def example_resource_def)
qed

text \<open>The example commit is carried out.\<close>

lemma dynamo_get_quiet: "ag_script w = [] \<Longrightarrow> fst (dynamo_get dy ownerId collection i w) = w"
  by (simp add: dynamo_get_def dynamo_index_def hydrate_def getJson_def agents_read_def agents_turn_of_def bind_io_def
      ret_def split: option.splits)

lemma example_commit_returns:
  "snd (native_commit_change (dynamo_lease example_dynamo ''o'' ''s'' ''run-1'' 0) example_commit example_world) = Inr example_head"
proof -
  let ?l = "dynamo_lease example_dynamo ''o'' ''s'' ''run-1'' 0" and ?i = "commit_id ''s'' example_commit"
  let ?ws = "[\<lparr>rw_resource = immutable_resource ''o'' ?i (commit_value example_commit), rw_expectedRevision = 0\<rparr>,
    \<lparr>rw_resource = next_runtime example_resource example_attached, rw_expectedRevision = 1\<rparr>]"
  let ?plan = "planNativeCommit (dy_platform example_dynamo) (dy_web example_dynamo) example_resource ''o'' ?i example_commit
    example_head"
  have quiet: "ag_script example_world = []" by (simp add: example_world_def)
  have state: "runtime_of (rs_value example_resource) = example_state"
    "holds_lease ''run-1'' 0 (runtime_of (rs_value example_resource))" by code_simp+
  have "snd (dynamo_get example_dynamo ''o'' ''session_runtime'' ''s'' example_world) = Inr (Some example_resource)"
    by code_simp
  then have journal: "dynamo_get example_dynamo ''o'' ''session_runtime'' ''s'' example_world =
      (example_world, Inr (Some example_resource))"
    using dynamo_get_quiet [OF quiet] by (metis prod.collapse)
  have "snd (dynamo_get example_dynamo ''o'' ''session_native'' ?i example_world) = Inr None" by code_simp
  then have found: "dynamo_get example_dynamo ''o'' ''session_native'' ?i example_world = (example_world, Inr None)"
    using dynamo_get_quiet [OF quiet] by (metis prod.collapse)
  have put: "snd (dynamo_commit example_dynamo ?ws example_world) = Inr ()" by code_simp
  then obtain w1 where stored: "dynamo_commit example_dynamo ?ws example_world = (w1, Inr ())" by (metis prod.collapse)
  have plan: "?plan None = Commit_Read_Existing" "?plan (Some None) = Commit_Write example_head ?ws"
    using state(1) by (simp_all add: planNativeCommit_def Let_def example_attached_def example_resource_def
        example_state_def example_commit_def claimed_runtime_def no_runtime_def native_head_of_def)
  have fits: "commit_fits example_commit" by code_simp
  have "utf8_length (canonicalJson (dy_web example_dynamo) (commit_value example_commit)) \<le> 200" by code_simp
  then have "utf8_length (canonicalJson (dy_web example_dynamo) (commit_value example_commit)) \<le> 4 * 1024 * 1024" by simp
  moreover have "snd (commit_attempts ?l example_commit (Suc 3) example_world) = Inr example_head"
    unfolding commit_attempts.simps using state(2) journal found stored plan
    by (simp add: lease_active_def runtime_get_def native_get_def bind_io_def ret_def carry_out_def try_io_def
        example_head_def Let_def)
  ultimately show ?thesis using fits by (simp add: native_commit_change_def)
qed

section \<open>Properties\<close>

text \<open>C8. On DynamoDB, a commit of the native log appends: whatever other clients, the network and
  the services do, everything attached before is still attached, in the same order and unchanged,
  each commit names the one before it, and a commit that returns is in the log under the head that
  is returned. A commit whose acknowledgement was lost can be repeated.\<close>
theorem native_commit_logged:
  assumes "dynamo_journal dy S owner session w" and "dynamo_native_log dy S owner session g w"
    and "commit_usable (dy_platform dy) (dy_web dy) S c"
    and "native_commit_change (dynamo_lease dy owner session run epoch) c w = (w', r)"
  shows "\<exists>g'. log_later g g' \<and> dynamo_native_log dy S owner session g' w' \<and>
    chained (dy_platform dy) (dy_web dy) (jl_commits g') \<and>
    (\<forall>h. r = Inr h \<longrightarrow> h = head_of_commit (dy_platform dy) (dy_web dy) c \<and> c \<in> set (jl_commits g'))"
proof -
  consider "w' = w" "\<exists>e. r = Inl e"
    | "commit_fits c" "commit_attempts (dynamo_lease dy owner session run epoch) c 4 w = (w', r)"
    using assms(4) by (auto simp: native_commit_change_def throw_def split: if_splits)
  then have "\<exists>g'. log_later g g' \<and> dynamo_native_log dy S owner session g' w' \<and>
      committed (dy_platform dy) (dy_web dy) c r g'"
  proof cases
    case 1
    with assms(2) show ?thesis by (auto simp: committed_def intro: log_later_refl)
  next
    case 2
    from dynamo_log.commit_log [OF assms(1-3) 2] show ?thesis by (auto simp: dynamo_log.log_outcome_def)
  qed
  then show ?thesis by (auto simp: committed_def log_kept_def log_ok_def)
qed

theorem native_commit_logged_witness:
  "\<exists>g'. log_later example_log g' \<and>
    dynamo_native_log example_dynamo example_values ''o'' ''s'' g' (fst (native_commit_change
      (dynamo_lease example_dynamo ''o'' ''s'' ''run-1'' 0) example_commit example_world)) \<and>
    example_commit \<in> set (jl_commits g')"
proof -
  let ?run = "native_commit_change (dynamo_lease example_dynamo ''o'' ''s'' ''run-1'' 0) example_commit example_world"
  have "?run = (fst ?run, Inr example_head)" using example_commit_returns by (metis prod.collapse)
  from native_commit_logged [OF example_world_journal example_world_log example_commit_usable this]
  show ?thesis by blast
qed

text \<open>C9. On DynamoDB, loading the native log returns exactly the commits attached when the journal
  was read, oldest first, with their head and an identity bound above all they use: what was
  attached before is all there, other Runs may append meanwhile, and the walk from the head back
  always ends.\<close>
theorem native_load_returns_log:
  assumes "dynamo_journal dy S owner session w" and "dynamo_native_log dy S owner session g w"
    and "native_load (dynamo_lease dy owner session run epoch) w = (w', Inr x)"
  shows "\<exists>g' cs later h. log_later g g' \<and> dynamo_native_log dy S owner session g' w' \<and>
    (\<exists>more. cs = jl_commits g @ more) \<and> jl_commits g' = cs @ later \<and>
    x = Some \<lparr>ni_head = last_head (dy_platform dy) (dy_web dy) cs, ni_highWater = h, ni_commits = cs\<rparr> \<and>
    (\<forall>c \<in> set cs. nc_idHighWater c \<le> h)"
  using dynamo_log.load_log [OF assms] unfolding dynamo_log.log_outcome_def loaded_def by blast

theorem native_load_returns_log_witness:
  "\<exists>cs h. snd (native_load (dynamo_lease example_dynamo ''o'' ''s'' ''run-1'' 0) example_world) = Inr (Some
    \<lparr>ni_head = last_head (dy_platform example_dynamo) (dy_web example_dynamo) cs, ni_highWater = h, ni_commits = cs\<rparr>)"
proof -
  let ?run = "native_load (dynamo_lease example_dynamo ''o'' ''s'' ''run-1'' 0) example_world"
  let ?x = "Some \<lparr>ni_head = None, ni_highWater = 1, ni_commits = []\<rparr>"
  have "snd ?run = Inr ?x" by code_simp
  then have "?run = (fst ?run, Inr ?x)" by (metis prod.collapse)
  from native_load_returns_log [OF example_world_journal example_world_log this] \<open>snd ?run = Inr ?x\<close>
  show ?thesis by auto
qed

text \<open>C19. On DynamoDB, a Run that has lost the journal of its Session, because a later epoch or another
  Run holds it or because it was closed, can neither commit to the native log, nor reserve
  identities, nor load it, whatever happens between the requests.\<close>
theorem superseded_run_refused:
  assumes "dynamo_journal dy S owner session w" and "dynamo_native_log dy S owner session g w"
    and "superseded run epoch g"
  shows "(\<exists>e. snd (native_commit_change (dynamo_lease dy owner session run epoch) c w) = Inl e) \<and>
    (\<exists>e. snd (reserve_ids (dynamo_lease dy owner session run epoch) amount requestId w) = Inl e) \<and>
    (\<exists>e. snd (native_load (dynamo_lease dy owner session run epoch) w) = Inl e)"
proof -
  let ?l = "dynamo_lease dy owner session run epoch"
  have refused: "\<exists>e. snd (bind_io (lease_active ?l) k w) = Inl e" for k :: "agent_resource \<Rightarrow> (agents_state agents_world, agents_error, 'x) io"
    using dynamo_log.lease_refused [OF assms prod.collapse [symmetric]] by blast
  have "\<exists>e. snd (commit_attempts ?l c 4 w) = Inl e" "\<exists>e. snd (reserve_attempts ?l n i 4 w) = Inl e" for n i
    using refused by (simp_all add: numeral_eq_Suc)
  then have "\<exists>e. snd (native_commit_change ?l c w) = Inl e" "\<exists>e. snd (reserve_ids ?l amount requestId w) = Inl e"
    by (simp_all add: native_commit_change_def reserve_ids_def throw_def)
  moreover have "\<exists>e. snd (native_load ?l w) = Inl e" unfolding native_load_def by (rule refused)
  ultimately show ?thesis by blast
qed

theorem superseded_run_refused_witness:
  "\<exists>e. snd (native_commit_change (dynamo_lease example_dynamo ''o'' ''s'' ''run-0'' 0) example_commit example_world) = Inl e"
proof -
  have "superseded ''run-0'' 0 example_log" by (simp add: superseded_def example_log_def) code_simp
  from superseded_run_refused [OF example_world_journal example_world_log this] show ?thesis by blast
qed

text \<open>C10. On SQLite, identities are never handed out twice: a reservation that returns is recorded,
  covers as many identities as were asked for, and shares none with any other reservation the
  Session ever made, whichever Run made it. The same request gets the same range again.\<close>
theorem reserved_ids_apart:
  assumes "sqlite_journal pl web owner session w" and "sqlite_native_log pl web owner session g w"
    and "reserve_ids (sqlite_lease pl web owner session run epoch) amount requestId w = (w', Inr v)"
    and i: "i = reservation_id (sqlite_lease pl web owner session run epoch) requestId"
  shows "\<exists>g'. log_later g g' \<and> sqlite_native_log pl web owner session g' w' \<and>
    (i, v) \<in> set (jl_reservations g') \<and> nr_last v - nr_first v + 1 = int_number amount \<and>
    (\<forall>(j, q) \<in> set (jl_reservations g'). if j = i then q = v else {nr_first q..nr_last q} \<inter> {nr_first v..nr_last v} = {})"
proof -
  let ?l = "sqlite_lease pl web owner session run epoch"
  have amount: "1 \<le> int_number amount"
    and run: "reserve_attempts ?l (int_number amount) i 4 w = (w', Inr v)"
    using assms(3) i by (auto simp: reserve_ids_def throw_def split: if_splits)
  have "reservation_usable plain_json (int_number amount)"
    by (simp add: reservation_usable_def runtime_value_plain reserved_runtime_def reservation_value_def JObj_plain)
  from sqlite_log.reserve_log [OF assms(1,2) this amount _ run] reservation_id_key [of ?l] i
  obtain g' where g': "log_later g g'" "sqlite_native_log pl web owner session g' w'"
    "(i, v) \<in> set (jl_reservations g')" "nr_count v = int_number amount"
    by (auto simp: sqlite_log.log_outcome_def reserved_def)
  then have apart: "ranges_apart (jl_reservations g')" by (simp add: log_kept_def log_ok_def)
  then have "nr_last v = nr_first v + nr_count v - 1" using g'(3) unfolding ranges_apart_def by blast
  then have "nr_last v - nr_first v + 1 = int_number amount" using g'(4) by simp
  moreover have "\<forall>(j, q) \<in> set (jl_reservations g'). if j = i then q = v
      else {nr_first q..nr_last q} \<inter> {nr_first v..nr_last v} = {}"
    using ranges_disjoint [OF apart g'(3)] by blast
  ultimately show ?thesis using g'(1-3) by blast
qed

definition sqlite_example :: "sqlite_rows agents_world" where
  "sqlite_example = \<lparr>ag_state = [example_resource], ag_script = [], ag_clock = 90\<rparr>"

lemma sqlite_example_journal: "sqlite_journal pl web ''o'' ''s'' sqlite_example"
  by (simp add: sqlite_journal_def sqlite_good_def clocks_ok_def clock_ok_def last_minute_def rows_ok_def sqlite_example_def
      example_resource_def)

lemma sqlite_example_log: "sqlite_native_log pl web ''o'' ''s'' example_log sqlite_example"
proof -
  have "runtime_plain example_state" "sr_epoch example_state \<noteq> None" "native_head_of example_state = None"
    "sr_snapshot example_state = None" "sr_attempt example_state = None" by code_simp+
  then show ?thesis
    by (auto simp: log_kept_def log_ok_def example_log_def state_ok_def ranges_apart_def last_head_def sqlite_view_def
        sqlite_example_def row_of_def row_key_def example_resource_def sqlite_address_def shown_def runtime_value_plain)
qed

theorem reserved_ids_apart_witness:
  "\<exists>v. snd (reserve_ids (sqlite_lease example_platform example_web ''o'' ''s'' ''run-1'' 0) (Finite 3) ''q'' sqlite_example) = Inr v \<and>
    nr_last v - nr_first v + 1 = 3"
proof -
  let ?run = "reserve_ids (sqlite_lease example_platform example_web ''o'' ''s'' ''run-1'' 0) (Finite 3) ''q'' sqlite_example"
  let ?v = "\<lparr>nr_first = 2, nr_last = 4, nr_count = 3\<rparr>"
  have "snd ?run = Inr ?v" by code_simp
  then have "?run = (fst ?run, Inr ?v)" by (metis prod.collapse)
  from reserved_ids_apart [OF sqlite_example_journal sqlite_example_log this refl] \<open>snd ?run = Inr ?v\<close>
  show ?thesis by (auto simp: int_number_def)
qed



end
