(* ===== verification/Session_Items.thy ===== *)
theory Session_Items
  imports Agents_Store
begin

text \<open>
  The data of a Session: Turns, items, subagents, messages and the state the service saves
  (\<open>src/core/session-ports.ts\<close>), with the projection of native protocol events to public
  items and Turn errors (\<open>src/core/session-run-projection.ts\<close>, \<open>src/domain/session-errors.ts\<close>).

  The public types come from the OpenAI package; a record here has the fields this code reads or
  writes, and one field of type \<open>jsval\<close> for the ones it only copies along. Times and token counts
  are numbers the harness may send, so they are rational; their sums are exact. Receipts are kept in
  the order of their keys' insertion, which is how \<open>Object.entries\<close> lists keys that are no array
  indices.
\<close>

section \<open>Turns\<close>

record token_usage =
  tu_input :: rat
  tu_cached :: rat
  tu_output :: rat
  tu_reasoning :: rat
  tu_total :: rat

datatype turn_status =
  Turn_Queued | Turn_In_Progress | Turn_Waiting | Turn_Completed | Turn_Failed | Turn_Cancelled

text \<open>An error is its code and its message.\<close>

type_synonym turn_error = "string \<times> string"

record turn =
  tr_id :: string
  tr_session_id :: string
  tr_agent_id :: string
  tr_subagent_id :: "string option"
  tr_status :: turn_status
  tr_created_at :: rat
  tr_started_at :: "rat option"
  tr_completed_at :: "rat option"
  tr_error :: "turn_error option"
  tr_usage :: "token_usage option"

definition terminalTurn :: "turn \<Rightarrow> bool" where
  "terminalTurn t \<longleftrightarrow> tr_status t \<in> {Turn_Completed, Turn_Failed, Turn_Cancelled}"

definition no_usage :: token_usage where
  "no_usage = \<lparr>tu_input = 0, tu_cached = 0, tu_output = 0, tu_reasoning = 0, tu_total = 0\<rparr>"

definition add_usage :: "token_usage \<Rightarrow> token_usage \<Rightarrow> token_usage" where
  "add_usage a b = \<lparr>tu_input = tu_input a + tu_input b, tu_cached = tu_cached a + tu_cached b,
     tu_output = tu_output a + tu_output b, tu_reasoning = tu_reasoning a + tu_reasoning b,
     tu_total = tu_total a + tu_total b\<rparr>"

definition totalUsage :: "token_usage option list \<Rightarrow> token_usage option" where
  "totalUsage usages = (let available = concat (map (\<lambda>u. case u of None \<Rightarrow> [] | Some x \<Rightarrow> [x]) usages) in
     if available = [] then None else Some (foldl add_usage no_usage available))"

section \<open>Items\<close>

datatype content_part =
    Input_Text string
  | Input_Image string
  | Output_Text string
  | Encrypted_Content string

text \<open>An action of a web search, and the content a function may return.\<close>

datatype search_action =
    Search_Query "string option" "string list option"
  | Open_Page "string option"
  | Find_In_Page "string option" "string option"
  | Other_Search

datatype item_body =
    Message_Body string "content_part list" "string option"
  | Reasoning_Body "string list"
  | Command_Body string "string option" "rat option" "rat option" "string option"
  | Function_Call_Body string string jsval
  | Function_Output_Body string jsval "string option"
  | Agent_Message_Body string string "content_part list"
  | Create_Subagent_Body string "content_part list" "string option" "string option"
  | Wait_Body string "string list"
  | Send_Input_Body string string "content_part list"
  | Interrupt_Body string string
  | Resume_Body string string
  | Close_Body string string
  | Web_Search_Body "search_action option"
  | Mcp_Body string string jsval jsval jsval
  | Other_Body string jsval

text \<open>\<open>si_status\<close> is \<open>None\<close> when the item has no status, \<open>Some None\<close> when it is null.\<close>

record session_item =
  si_id :: "string option"
  si_turn_id :: string
  si_status :: "string option option"
  si_body :: item_body

definition item_in_progress :: "session_item \<Rightarrow> bool" where
  "item_in_progress i \<longleftrightarrow> si_status i = Some (Some ''in_progress'')"

text \<open>\<open>finalItem\<close> in the projection, \<open>itemFinished\<close> in the stream.\<close>

definition finalItem :: "session_item option \<Rightarrow> bool" where
  "finalItem i = (case i of None \<Rightarrow> False
     | Some x \<Rightarrow> (case si_status x of Some (Some s) \<Rightarrow> s \<noteq> ''in_progress'' | _ \<Rightarrow> False))"

section \<open>Sessions\<close>

datatype required_action =
    Function_Action string string string jsval
  | Environment_Action string

datatype session_status = Session_Idle | Session_In_Progress | Session_Requires_Action | Session_Failed

record session_agent =
  sa_id :: string
  sa_model :: string
  sa_effort :: "string option"
  sa_service_tier :: string
  sa_rest :: jsval

record model_settings =
  ms_model :: string
  ms_effort :: "string option"
  ms_service_tier :: string

record agent_session =
  se_id :: string
  se_agent :: session_agent
  se_status :: session_status
  se_required_actions :: "required_action list"
  se_last_active_at :: rat
  se_usage :: "token_usage option"
  se_error :: "string option"
  se_metadata :: "(string \<times> string) list"
  se_rest :: jsval

record subagent =
  sg_id :: string
  sg_session_id :: string
  sg_parent_agent_id :: string
  sg_name :: "string option"
  sg_instructions :: "content_part list option"
  sg_opened_at :: rat
  sg_closed_at :: "rat option"
  sg_active :: bool

record input_message =
  im_content :: "content_part list"

record session_message = input_message +
  sm_id :: string
  sm_afterItemId :: "string option"
  sm_acceptedOrdinal :: "int option"

record tool_result =
  te_turn_id :: string
  te_call_id :: string
  te_success :: bool
  te_output :: jsval
  te_error :: "string option"

datatype input_event =
    Message_Event "input_message list"
  | Cancel_Event
  | Tool_Result_Event tool_result

datatype session_command =
    Start_Command string "session_message list"
  | Steer_Command string "input_message list" string
  | Cancel_Command string
  | Tool_Result_Command string "string option" "int option" tool_result

record turn_binding =
  tb_turn :: turn
  tb_input :: "session_message list"
  tb_modelSettings :: "model_settings option"
  tb_cancelRequested :: bool
  tb_savedItems :: "session_item list option"

record receipt =
  rc_digest :: string
  rc_commands :: "session_command list"
  rc_dispatched :: bool
  rc_failure :: "(string \<times> string) option"

record session_state =
  ss_session :: agent_session
  ss_turns :: "turn_binding list"
  ss_receipts :: "(string \<times> receipt) list"
  ss_importedHistory :: "session_item list"
  ss_forkLock :: "(string \<times> int) option"
  ss_closing :: bool
  ss_deletedArtifacts :: "string list"

record turn_observation =
  to_turn :: turn
  to_requiredActions :: "required_action list"

record session_observation =
  so_session :: agent_session
  so_turns :: "turn_observation list"

section \<open>Reading what the harness sends\<close>

definition object_fields :: "jsval \<Rightarrow> fields option" where
  "object_fields v = (case v of JObj fs \<Rightarrow> Some fs | _ \<Rightarrow> None)"

definition field_at :: "jsval \<Rightarrow> string \<Rightarrow> jsval" where
  "field_at v k = (case v of JObj fs \<Rightarrow> get_prop fs k | _ \<Rightarrow> JUndef)"

definition stringOrNull :: "jsval \<Rightarrow> string option" where
  "stringOrNull v = (case v of JStr s \<Rightarrow> Some s | _ \<Rightarrow> None)"

definition numberOrNull :: "jsval \<Rightarrow> rat option" where
  "numberOrNull v = (case v of JNum (Finite r) \<Rightarrow> Some r | _ \<Rightarrow> None)"

definition list_values :: "jsval \<Rightarrow> jsval list" where
  "list_values v = (case v of JArr vs \<Rightarrow> vs | _ \<Rightarrow> [])"

definition js_strings :: "jsval \<Rightarrow> string list" where
  "js_strings v = concat (map (\<lambda>x. case x of JStr s \<Rightarrow> [s] | _ \<Rightarrow> []) (list_values v))"

definition or_nullish :: "jsval \<Rightarrow> jsval" where
  "or_nullish v = (if v = JUndef then JNull else v)"

definition or_else :: "'a option \<Rightarrow> 'a option \<Rightarrow> 'a option" where
  "or_else a b = (case a of None \<Rightarrow> b | Some x \<Rightarrow> Some x)"

end
