(* ===== verification/Session_Projection.thy ===== *)
theory Session_Projection
  imports Session_Items "HOL-Library.AList"
begin

text \<open>
  Public items from the events of the native protocol (\<open>src/core/session-run-projection.ts\<close>) and
  the errors of Turns (\<open>src/domain/session-errors.ts\<close>).

  A JavaScript \<open>Map\<close> is an association list in insertion order, where \<open>AList.update\<close> is \<open>set\<close>: it
  replaces in place or appends. Keys that name a property of \<open>Object.prototype\<close> are left out.
\<close>

section \<open>Values of the protocol\<close>

text \<open>\<open>String(v)\<close>, where only the names the code compares with matter.\<close>

fun name_text :: "jsval \<Rightarrow> string" where
  "name_text (JStr s) = s"
| "name_text (JArr [v]) = name_text v"
| "name_text _ = []"

definition publicAgentId :: "string \<Rightarrow> (string \<times> string) list \<Rightarrow> string" where
  "publicAgentId v ids = (case map_of ids v of Some a \<Rightarrow> a | None \<Rightarrow> v)"

fun function_parts :: "jsval list \<Rightarrow> content_part list option" where
  "function_parts [] = Some []"
| "function_parts (p # ps) = (case (field_at p ''type'', field_at p ''text'', field_at p ''imageUrl'') of
       (JStr t, x, u) \<Rightarrow>
         (if t = ''inputText'' then (case (x, function_parts ps) of (JStr s, Some r) \<Rightarrow> Some (Input_Text s # r) | _ \<Rightarrow> None)
          else if t = ''inputImage'' then (case (u, function_parts ps) of (JStr s, Some r) \<Rightarrow> Some (Input_Image s # r) | _ \<Rightarrow> None)
          else None)
     | _ \<Rightarrow> None)"

definition nativeFunctionOutput :: "jsval \<Rightarrow> content_part list option" where
  "nativeFunctionOutput v = (case v of JArr ps \<Rightarrow> function_parts ps | _ \<Rightarrow> None)"

text \<open>The public form of an output, as the API stores it.\<close>

definition part_value :: "content_part \<Rightarrow> jsval" where
  "part_value p = (case p of
       Input_Text s \<Rightarrow> JObj [(''type'', JStr ''input_text''), (''text'', JStr s)]
     | Input_Image s \<Rightarrow> JObj [(''type'', JStr ''input_image''), (''image_url'', JStr s)]
     | Output_Text s \<Rightarrow> JObj [(''type'', JStr ''output_text''), (''text'', JStr s)]
     | Encrypted_Content s \<Rightarrow> JObj [(''type'', JStr ''encrypted_content''), (''encrypted_content'', JStr s)])"

definition join_with :: "string \<Rightarrow> string list \<Rightarrow> string" where
  "join_with sep xs = (case xs of [] \<Rightarrow> [] | y # ys \<Rightarrow> y @ concat (map (\<lambda>x. sep @ x) ys))"

definition output_error :: "content_part list \<Rightarrow> string option" where
  "output_error ps = (let m = join_with [CHR 0x0A]
       (concat (map (\<lambda>p. case p of Input_Text s \<Rightarrow> [s] | _ \<Rightarrow> []) ps)) in
     if m = [] then None else Some m)"

definition callStatus :: "jsval \<Rightarrow> bool \<Rightarrow> string" where
  "callStatus status is_done = (if \<not> is_done then ''in_progress''
     else if status = JStr ''failed'' then ''failed''
     else if status = JStr ''declined'' \<or> status = JStr ''interrupted'' then ''incomplete''
     else ''completed'')"

definition done_status :: "bool \<Rightarrow> string" where
  "done_status is_done = (if is_done then ''completed'' else ''in_progress'')"

definition searchAction :: "jsval \<Rightarrow> search_action option" where
  "searchAction action = (case object_fields action of
       None \<Rightarrow> None
     | Some fs \<Rightarrow> Some (
         if get_prop fs ''type'' = JStr ''search'' then Search_Query (stringOrNull (get_prop fs ''query''))
           (case get_prop fs ''queries'' of JArr qs \<Rightarrow> Some (js_strings (JArr qs)) | _ \<Rightarrow> None)
         else if get_prop fs ''type'' = JStr ''openPage'' then Open_Page (stringOrNull (get_prop fs ''url''))
         else if get_prop fs ''type'' = JStr ''findInPage''
         then Find_In_Page (stringOrNull (get_prop fs ''url'')) (stringOrNull (get_prop fs ''pattern''))
         else Other_Search))"

section \<open>Items\<close>

type_synonym item_map = "(string \<times> session_item) list"

definition initial_items :: "session_item list \<Rightarrow> item_map" where
  "initial_items initial = fold (\<lambda>i m. case si_id i of None \<Rightarrow> m | Some k \<Rightarrow> AList.update k i m) initial []"

definition make_item :: "string \<Rightarrow> string \<Rightarrow> string \<Rightarrow> item_body \<Rightarrow> session_item" where
  "make_item id0 turnId status body =
     \<lparr>si_id = Some id0, si_turn_id = turnId, si_status = Some (Some status), si_body = body\<rparr>"

definition set_item :: "session_item \<Rightarrow> item_map \<Rightarrow> item_map" where
  "set_item i m = (case si_id i of None \<Rightarrow> m | Some k \<Rightarrow> AList.update k i m)"

text \<open>The three kinds of delta. Each leaves an item that is final as it is.\<close>

definition summary_of :: "session_item option \<Rightarrow> string list" where
  "summary_of i = (case i of Some x \<Rightarrow> (case si_body x of Reasoning_Body s \<Rightarrow> s | _ \<Rightarrow> []) | None \<Rightarrow> [])"

definition summary_index :: "jsval \<Rightarrow> nat option" where
  "summary_index v = (case v of
       JNum n \<Rightarrow> if safe_integer n \<and> int_number n \<ge> 0 then Some (nat (int_number n)) else None
     | _ \<Rightarrow> Some 0)"

definition padded_summary :: "string list \<Rightarrow> nat \<Rightarrow> string list" where
  "padded_summary s n = s @ replicate (Suc n - length s) []"

definition reasoning_delta :: "string \<Rightarrow> string \<Rightarrow> jsval \<Rightarrow> string option \<Rightarrow> item_map \<Rightarrow> item_map" where
  "reasoning_delta turnId itemId index delta m =
     (if finalItem (map_of m itemId) then m
      else case summary_index index of
          None \<Rightarrow> m
        | Some n \<Rightarrow> let s = padded_summary (summary_of (map_of m itemId)) n;
              s1 = (case delta of None \<Rightarrow> s | Some d \<Rightarrow> s[n := s ! n @ d])
            in set_item (make_item itemId turnId ''in_progress'' (Reasoning_Body s1)) m)"

definition command_delta :: "string \<Rightarrow> string \<Rightarrow> item_map \<Rightarrow> item_map" where
  "command_delta itemId delta m =
     (if finalItem (map_of m itemId) then m
      else case map_of m itemId of
          Some x \<Rightarrow> (case si_body x of
              Command_Body cmd cwd dur code out \<Rightarrow>
                AList.update itemId (x\<lparr>si_body := Command_Body cmd cwd dur code
                  (Some ((case out of None \<Rightarrow> [] | Some t \<Rightarrow> t) @ delta))\<rparr>) m
            | _ \<Rightarrow> m)
        | None \<Rightarrow> m)"

definition output_text :: "content_part list \<Rightarrow> string" where
  "output_text ps = concat (map (\<lambda>p. case p of Output_Text s \<Rightarrow> s | _ \<Rightarrow> []) ps)"

definition message_text :: "session_item option \<Rightarrow> string" where
  "message_text i = (case i of Some x \<Rightarrow> (case si_body x of Message_Body role content phase \<Rightarrow> output_text content | _ \<Rightarrow> [])
     | None \<Rightarrow> [])"

definition message_phase :: "session_item option \<Rightarrow> string option" where
  "message_phase i = (case i of Some x \<Rightarrow> (case si_body x of Message_Body role content phase \<Rightarrow> phase | _ \<Rightarrow> None)
     | None \<Rightarrow> None)"

definition message_delta :: "string \<Rightarrow> string \<Rightarrow> string \<Rightarrow> item_map \<Rightarrow> item_map" where
  "message_delta turnId itemId delta m =
     (let previous = map_of m itemId in
      if finalItem previous then m
      else set_item (make_item itemId turnId ''in_progress'' (Message_Body ''assistant''
          [Output_Text (message_text previous @ delta)] (message_phase previous))) m)"

section \<open>Whole items\<close>

definition agent_message_parts :: "jsval list \<Rightarrow> content_part list" where
  "agent_message_parts ps = concat (map (\<lambda>p. case (field_at p ''type'', field_at p ''text'', field_at p ''encrypted_content'') of
       (JStr t, x, e) \<Rightarrow>
         if t = ''input_text'' then (case x of JStr s \<Rightarrow> [Output_Text s] | _ \<Rightarrow> [])
         else if t = ''encrypted_content'' then (case e of JStr s \<Rightarrow> [Encrypted_Content s] | _ \<Rightarrow> [])
         else []
     | _ \<Rightarrow> []) ps)"

definition agent_message_item :: "string \<Rightarrow> (string \<times> string) list \<Rightarrow> fields \<Rightarrow> item_map \<Rightarrow> item_map" where
  "agent_message_item turnId agentIds item m =
     (case (get_prop item ''id'', get_prop item ''author'', get_prop item ''recipient'', get_prop item ''content'') of
       (JStr id0, JStr author, JStr recipient, JArr content) \<Rightarrow>
         set_item \<lparr>si_id = Some id0, si_turn_id = turnId, si_status = None,
           si_body = Agent_Message_Body (publicAgentId author agentIds) (publicAgentId recipient agentIds)
             (agent_message_parts content)\<rparr> m
     | _ \<Rightarrow> m)"

definition user_parts :: "jsval list \<Rightarrow> content_part list" where
  "user_parts ps = concat (map (\<lambda>p. case (field_at p ''type'', field_at p ''text'', field_at p ''url'') of
       (JStr t, x, u) \<Rightarrow>
         if t = ''text'' then (case x of JStr s \<Rightarrow> [Input_Text s] | _ \<Rightarrow> [])
         else if t = ''image'' then (case u of JStr s \<Rightarrow> [Input_Image s] | _ \<Rightarrow> [])
         else []
     | _ \<Rightarrow> []) ps)"

definition coordination_item ::
  "string \<Rightarrow> string \<Rightarrow> bool \<Rightarrow> (string \<times> string) list \<Rightarrow> fields \<Rightarrow> item_map \<Rightarrow> item_map" where
  "coordination_item turnId id0 is_done agentIds item m =
     (let sender = (case get_prop item ''senderThreadId'' of JStr s \<Rightarrow> publicAgentId s agentIds | _ \<Rightarrow> []);
          receivers = map (\<lambda>r. publicAgentId r agentIds) (js_strings (get_prop item ''receiverThreadIds''));
          status = callStatus (get_prop item ''status'') is_done;
          content = (case get_prop item ''prompt'' of
              JStr p \<Rightarrow> if get_prop item ''promptEncrypted'' = JBool True then [Encrypted_Content p] else [Output_Text p]
            | _ \<Rightarrow> []);
          tool = get_prop item ''tool'';
          put_body = (\<lambda>b. set_item (make_item id0 turnId status b) m);
          to_first = (\<lambda>f. case receivers of r # rs \<Rightarrow> if r = [] then m else put_body (f r) | [] \<Rightarrow> m)
      in if tool = JStr ''spawnAgent'' then put_body (Create_Subagent_Body sender content
           (stringOrNull (get_prop item ''model'')) (stringOrNull (get_prop item ''reasoningEffort'')))
         else if tool = JStr ''wait'' then put_body (Wait_Body sender receivers)
         else if name_text tool \<in> {''sendInput'', ''sendMessage'', ''followupTask''}
         then to_first (\<lambda>r. Send_Input_Body sender r content)
         else if tool = JStr ''interruptAgent'' then to_first (Interrupt_Body sender)
         else if tool = JStr ''resumeAgent'' then to_first (Resume_Body sender)
         else if tool = JStr ''closeAgent'' then to_first (Close_Body sender)
         else m)"

definition dynamic_tool_item :: "string \<Rightarrow> string \<Rightarrow> bool \<Rightarrow> string \<Rightarrow> fields \<Rightarrow> item_map \<Rightarrow> item_map" where
  "dynamic_tool_item turnId id0 is_done tool item m =
     (let callId = (case get_prop item ''callId'' of JStr c \<Rightarrow> c | _ \<Rightarrow> id0);
          m1 = set_item (make_item id0 turnId (callStatus (get_prop item ''status'') is_done)
            (Function_Call_Body callId tool (get_prop item ''arguments''))) m
      in case (get_prop item ''success'', nativeFunctionOutput (get_prop item ''contentItems'')) of
          (JBool success, Some out) \<Rightarrow>
            if is_done
            then set_item (make_item (''fresult_native_'' @ id0) turnId (if success then ''completed'' else ''failed'')
              (Function_Output_Body callId (JArr (map part_value out)) (if success then None else output_error out))) m1
            else m1
        | _ \<Rightarrow> m1)"

definition command_item :: "string \<Rightarrow> string \<Rightarrow> bool \<Rightarrow> string \<Rightarrow> fields \<Rightarrow> item_map \<Rightarrow> item_map" where
  "command_item turnId id0 is_done cmd item m =
     (let before = (case map_of m id0 of
              Some x \<Rightarrow> (case si_body x of Command_Body c w d e out \<Rightarrow> out | _ \<Rightarrow> None)
            | None \<Rightarrow> None)
      in set_item (make_item id0 turnId (callStatus (get_prop item ''status'') is_done)
        (Command_Body cmd (stringOrNull (get_prop item ''cwd'')) (numberOrNull (get_prop item ''durationMs''))
          (numberOrNull (get_prop item ''exitCode''))
          (or_else (stringOrNull (get_prop item ''aggregatedOutput'')) before))) m)"

definition message_item :: "string \<Rightarrow> string \<Rightarrow> bool \<Rightarrow> string \<Rightarrow> fields \<Rightarrow> item_map \<Rightarrow> item_map" where
  "message_item turnId id0 is_done body item m =
     set_item (make_item id0 turnId (done_status is_done) (Message_Body ''assistant'' [Output_Text body]
       (case get_prop item ''phase'' of JStr p \<Rightarrow> if p = ''commentary'' \<or> p = ''final_answer'' then Some p else None
         | _ \<Rightarrow> None))) m"

definition native_item ::
  "string \<Rightarrow> bool \<Rightarrow> (string \<times> string) list \<Rightarrow> bool \<Rightarrow> fields \<Rightarrow> item_map \<Rightarrow> item_map" where
  "native_item turnId includeUser agentIds is_done item m =
     (let id0 = (case get_prop item ''id'' of JStr s \<Rightarrow> s | _ \<Rightarrow> turnId @ ''_output'');
          kind = get_prop item ''type'';
          is_text = (stringOrNull (get_prop item ''text'') \<noteq> None)
      in if name_text kind \<in> {''agentMessage'', ''agent_message''} \<and> is_text
         then message_item turnId id0 is_done (case get_prop item ''text'' of JStr s \<Rightarrow> s | _ \<Rightarrow> []) item m
         else case kind of
           JStr k \<Rightarrow>
             if k = ''userMessage'' \<and> includeUser \<and> (case get_prop item ''content'' of JArr _ \<Rightarrow> True | _ \<Rightarrow> False)
             then set_item (make_item id0 turnId ''completed'' (Message_Body ''user''
               (user_parts (list_values (get_prop item ''content''))) None)) m
             else if k = ''collabAgentToolCall'' then coordination_item turnId id0 is_done agentIds item m
             else if k = ''dynamicToolCall'' then
               (case get_prop item ''tool'' of JStr t \<Rightarrow> dynamic_tool_item turnId id0 is_done t item m | _ \<Rightarrow> m)
             else if k = ''reasoning'' then set_item (make_item id0 turnId (done_status is_done)
               (Reasoning_Body (js_strings (get_prop item ''summary'')))) m
             else if k = ''webSearch'' then set_item (make_item id0 turnId (done_status is_done)
               (Web_Search_Body (searchAction (get_prop item ''action'')))) m
             else if k = ''commandExecution'' then
               (case get_prop item ''command'' of JStr c \<Rightarrow> command_item turnId id0 is_done c item m | _ \<Rightarrow> m)
             else if k = ''mcpToolCall'' then
               (case (get_prop item ''tool'', get_prop item ''server'') of
                 (JStr t, JStr s) \<Rightarrow> set_item (make_item id0 turnId (callStatus (get_prop item ''status'') is_done)
                   (Mcp_Body t s (or_nullish (get_prop item ''arguments'')) (or_nullish (get_prop item ''result''))
                     (or_nullish (get_prop item ''error'')))) m
               | _ \<Rightarrow> m)
             else m
         | _ \<Rightarrow> m)"

definition event_item :: "fields \<Rightarrow> fields option" where
  "event_item event = or_else (object_fields (field_at (get_prop event ''params'') ''item''))
     (object_fields (get_prop event ''item''))"

definition project_item ::
  "string \<Rightarrow> bool \<Rightarrow> (string \<times> string) list \<Rightarrow> fields \<Rightarrow> item_map \<Rightarrow> item_map" where
  "project_item turnId includeUser agentIds event m =
     (let meth = get_prop event ''method'';
          name = name_text (if or_nullish meth = JNull then get_prop event ''type'' else meth);
          is_done = (meth = JStr ''item/completed'' \<or> get_prop event ''type'' = JStr ''item.completed'')
      in case event_item event of
          None \<Rightarrow> m
        | Some item \<Rightarrow>
            if meth = JStr ''rawResponseItem/completed'' \<and> get_prop item ''type'' = JStr ''agent_message''
            then agent_message_item turnId agentIds item m
            else if name \<in> {''item/started'', ''item/completed'', ''item.completed''}
            then native_item turnId includeUser agentIds is_done item m
            else m)"

definition project_event ::
  "string \<Rightarrow> bool \<Rightarrow> (string \<times> string) list \<Rightarrow> jsval \<Rightarrow> item_map \<Rightarrow> item_map" where
  "project_event turnId includeUser agentIds v m = (case object_fields v of
       None \<Rightarrow> m
     | Some event \<Rightarrow>
         (let meth = get_prop event ''method'';
              params = get_prop event ''params'';
              index = field_at params ''summaryIndex'';
              delta = stringOrNull (field_at params ''delta'')
          in case stringOrNull (field_at params ''itemId'') of
              None \<Rightarrow> project_item turnId includeUser agentIds event m
            | Some i \<Rightarrow>
                if meth = JStr ''item/reasoning/summaryPartAdded'' then reasoning_delta turnId i index None m
                else (case delta of
                    None \<Rightarrow> project_item turnId includeUser agentIds event m
                  | Some d \<Rightarrow>
                      if meth = JStr ''item/reasoning/summaryTextDelta'' then reasoning_delta turnId i index (Some d) m
                      else if meth = JStr ''item/commandExecution/outputDelta'' then command_delta i d m
                      else if meth = JStr ''item/agentMessage/delta'' then message_delta turnId i d m
                      else project_item turnId includeUser agentIds event m)))"

definition projectSessionItems ::
  "string \<Rightarrow> jsval list \<Rightarrow> string option \<Rightarrow> session_item list \<Rightarrow> bool \<Rightarrow> (string \<times> string) list \<Rightarrow> session_item list" where
  "projectSessionItems turnId events fallbackText initial includeUser agentIds =
     (let m = fold (project_event turnId includeUser agentIds) events (initial_items initial) in
      if m = [] then (case fallbackText of
          Some t \<Rightarrow> if t = [] then [] else [make_item (turnId @ ''_output'') turnId ''completed''
            (Message_Body ''assistant'' [Output_Text t] (Some ''final_answer''))]
        | None \<Rightarrow> [])
      else map snd m)"

section \<open>Errors of Turns\<close>

definition error_messages :: "(string \<times> string) list" where
  "error_messages = [
    (''context_length_exceeded'', ''The request exceeds the model context window.''),
    (''session_budget_exceeded'', ''The Session has reached its usage budget.''),
    (''usage_limit_exceeded'', ''The model provider usage limit has been reached.''),
    (''credit_balance_exhausted'', ''The model provider has no API credits remaining.''),
    (''rate_limit_exceeded'', ''The request exceeds the available model rate limit.''),
    (''server_overloaded'', ''The model service is temporarily overloaded.''),
    (''cyber_policy'', ''The request was rejected by a safety policy.''),
    (''connection_failed'', ''The request could not connect to the model service.''),
    (''server_error'', ''The model service encountered an unexpected error.''),
    (''authentication_error'', ''The model credentials are invalid or lack access.''),
    (''invalid_request'', ''The request contains invalid input or configuration.''),
    (''resource_not_found'', ''The requested model or resource is unavailable.''),
    (''sandbox_error'', ''The request could not complete in its execution environment.''),
    (''executor_version_incompatible'', ''The executor must be upgraded before it can run this Turn.''),
    (''active_turn_not_steerable'', ''The active Turn cannot accept additional input.''),
    (''request_timeout'', ''The request timed out before the model service responded.''),
    (''internal_error'', ''The agent could not complete this turn.'')]"

definition nativeCodes :: "(string \<times> string) list" where
  "nativeCodes = [
    (''contextWindowExceeded'', ''context_length_exceeded''),
    (''sessionBudgetExceeded'', ''session_budget_exceeded''),
    (''usageLimitExceeded'', ''usage_limit_exceeded''),
    (''rateLimitExceeded'', ''rate_limit_exceeded''),
    (''serverOverloaded'', ''server_overloaded''),
    (''flexUnavailable'', ''server_overloaded''),
    (''cyberPolicy'', ''cyber_policy''),
    (''misalignmentPolicyViolation'', ''cyber_policy''),
    (''internalServerError'', ''server_error''),
    (''unauthorized'', ''authentication_error''),
    (''badRequest'', ''invalid_request''),
    (''sandboxError'', ''sandbox_error''),
    (''activeTurnNotSteerable'', ''active_turn_not_steerable'')]"

definition nativeHttpError :: "jsval \<Rightarrow> string" where
  "nativeHttpError status = (case status of
       JNum (Finite r) \<Rightarrow>
         if \<not> is_integer (Finite r) \<or> r < 400 \<or> r > 599 then ''connection_failed''
         else if r = 401 \<or> r = 403 then ''authentication_error''
         else if r = 402 then ''internal_error''
         else if r = 404 then ''resource_not_found''
         else if r = 408 \<or> r = 504 then ''request_timeout''
         else if r = 429 then ''rate_limit_exceeded''
         else if r = 503 then ''server_overloaded''
         else if r \<ge> 500 then ''server_error'' else ''invalid_request''
     | _ \<Rightarrow> ''connection_failed'')"

text \<open>The variant of a native error, with its details.\<close>

definition error_variant :: "jsval \<Rightarrow> (string \<times> jsval) option" where
  "error_variant info = (case info of
       JStr v \<Rightarrow> Some (v, JUndef)
     | JObj [(v, details)] \<Rightarrow> Some (v, details)
     | _ \<Rightarrow> None)"

definition transport_variants :: "string list" where
  "transport_variants = [''httpConnectionFailed'', ''responseStreamConnectionFailed'',
     ''responseStreamDisconnected'', ''responseTooManyFailedAttempts'']"

definition error_code :: "jsval \<Rightarrow> turn_error option \<Rightarrow> string" where
  "error_code v previous =
     (let variant = error_variant (field_at v ''codexErrorInfo'');
          publicCode = (case field_at v ''code'' of
              JStr c \<Rightarrow> if map_of error_messages c = None then None else Some c
            | _ \<Rightarrow> None);
          nativeCode = (case variant of None \<Rightarrow> None | Some (name, d) \<Rightarrow> map_of nativeCodes name);
          transportCode = (case variant of
              None \<Rightarrow> None
            | Some (name, d) \<Rightarrow> if name \<in> set transport_variants
                then Some (nativeHttpError (field_at d ''httpStatusCode'')) else None)
      in case or_else publicCode (or_else nativeCode (or_else transportCode (map_option fst previous))) of
          Some c \<Rightarrow> c
        | None \<Rightarrow> ''internal_error'')"

definition sessionTurnError :: "jsval \<Rightarrow> turn_error option \<Rightarrow> turn_error" where
  "sessionTurnError v previous = (let c = error_code v previous in
     (c, case map_of error_messages c of Some m \<Rightarrow> m | None \<Rightarrow> []))"

section \<open>The Turn of a Run\<close>

record agent_request =
  aq_requestId :: string
  aq_method :: string
  aq_params :: jsval

definition run_action :: "string \<Rightarrow> agent_request \<Rightarrow> required_action list" where
  "run_action turnId q = (case (aq_method q = ''item/tool/call'', field_at (aq_params q) ''tool'') of
       (True, JStr t) \<Rightarrow> [Function_Action turnId
         (case field_at (aq_params q) ''callId'' of JStr c \<Rightarrow> c | _ \<Rightarrow> aq_requestId q) t (field_at (aq_params q) ''arguments'')]
     | _ \<Rightarrow> [])"

definition run_turn_status :: "run_status \<Rightarrow> required_action list \<Rightarrow> turn_status" where
  "run_turn_status s actions = (case s of
       Succeeded \<Rightarrow> Turn_Completed
     | Failed \<Rightarrow> Turn_Failed
     | Cancelled \<Rightarrow> Turn_Cancelled
     | Running \<Rightarrow> if actions \<noteq> [] then Turn_Waiting else Turn_In_Progress
     | Cancelling \<Rightarrow> if actions \<noteq> [] then Turn_Waiting else Turn_In_Progress
     | _ \<Rightarrow> Turn_Queued)"

definition counted :: "nat option \<Rightarrow> rat" where
  "counted n = (case n of None \<Rightarrow> 0 | Some k \<Rightarrow> of_nat k)"

definition run_usage :: "token_counts \<Rightarrow> token_usage" where
  "run_usage u = \<lparr>tu_input = counted (inputTokens u), tu_cached = counted (cachedInputTokens u),
     tu_output = counted (outputTokens u), tu_reasoning = counted (reasoningOutputTokens u),
     tu_total = counted (inputTokens u) + counted (outputTokens u)\<rparr>"

text \<open>The text of an instant the service wrote, in seconds. A text that is no instant reads as null.\<close>

definition run_seconds :: "platform \<Rightarrow> string \<Rightarrow> rat option" where
  "run_seconds pf s = (case date_parse pf s of None \<Rightarrow> None | Some ms \<Rightarrow> Some (of_int (ms div 1000)))"

definition run_error_value :: "run_error \<Rightarrow> jsval" where
  "run_error_value e = JObj [(''code'', JStr (err_code e)), (''message'', JStr (err_message e)),
     (''retryable'', JBool (err_retryable e))]"

definition projectSessionTurn ::
  "platform \<Rightarrow> turn \<Rightarrow> run_record \<Rightarrow> agent_request list \<Rightarrow> turn_observation" where
  "projectSessionTurn pf t r pending =
     (let requiredActions = concat (map (run_action (tr_id t)) pending);
          t1 = t\<lparr>tr_status := run_turn_status (rr_status r) requiredActions,
            tr_started_at := (case rr_execution r of
                Some e \<Rightarrow> if truthy (ex_startedAt e) then run_seconds pf (the (ex_startedAt e)) else tr_started_at t
              | None \<Rightarrow> tr_started_at t),
            tr_error := map_option (\<lambda>e. sessionTurnError (run_error_value e) None) (rr_error r),
            tr_usage := (case rr_result r of Some s \<Rightarrow> map_option run_usage (res_usage s) | None \<Rightarrow> None)\<rparr>
      in \<lparr>to_turn = t1\<lparr>tr_completed_at := (if terminalTurn t1 then run_seconds pf (rr_updatedAt r) else None)\<rparr>,
          to_requiredActions = requiredActions\<rparr>)"

end
