(* ===== verification/Session_Runtime.thy ===== *)
theory Session_Runtime
  imports Session_Projection
begin

text \<open>
  What the harness of a Session reports, folded into the Session's execution state:
  \<open>src/core/session-runtime-planning.ts\<close> with the coordination of subagents
  (\<open>src/core/session-coordination-planning.ts\<close>) and the trace journal
  (\<open>src/core/session-trace-planning.ts\<close>).

  A TypeScript \<open>Record\<close> is an association list; \<open>{ ...r, [k]: v }\<close> is \<open>AList.update\<close>. \<open>JSON.parse\<close>
  is the argument \<open>parse\<close>, with \<open>None\<close> for a text it rejects. Two bindings are the same object
  when they have the same index.
\<close>

section \<open>Lists\<close>

definition first_index :: "('a \<Rightarrow> bool) \<Rightarrow> 'a list \<Rightarrow> nat option" where
  "first_index P xs = (let n = length (takeWhile (\<lambda>x. \<not> P x) xs) in if n < length xs then Some n else None)"

definition last_index :: "('a \<Rightarrow> bool) \<Rightarrow> 'a list \<Rightarrow> nat option" where
  "last_index P xs = map_option (\<lambda>n. length xs - Suc n) (first_index P (rev xs))"

section \<open>The trace journal\<close>

record trace_step =
  tp_id :: string
  tp_generation :: bool
  tp_name :: string
  tp_toolName :: "string option"
  tp_serverLabel :: "string option"
  tp_startedAt :: "rat option"
  tp_completedAt :: "rat option"
  tp_failed :: "bool option"
  tp_inputTokens :: "rat option"
  tp_outputTokens :: "rat option"

record native_event =
  ev_method :: string
  ev_params :: fields
  ev_observedAt :: rat

definition trace_tools :: "string list" where
  "trace_tools = [''commandExecution'', ''fileChange'', ''mcpToolCall'', ''dynamicToolCall'', ''webSearch'',
     ''collabAgentToolCall'', ''imageView'', ''imageGeneration'', ''sleep'']"

definition trace_count :: "jsval \<Rightarrow> rat option" where
  "trace_count v = (case v of
       JNum (Finite r) \<Rightarrow> if safe_integer (Finite r) \<and> r \<ge> 0 then Some r else None
     | _ \<Rightarrow> None)"

definition label_char :: "char \<Rightarrow> bool" where
  "label_char c \<longleftrightarrow> is_alnum c \<or> c \<in> set ''_.:/-''"

definition trace_label :: "jsval \<Rightarrow> string option" where
  "trace_label v = (case v of
       JStr s \<Rightarrow> if s \<noteq> [] \<and> length s \<le> 128 \<and> list_all label_char s then Some s else None
     | _ \<Rightarrow> None)"

definition step_failed :: "jsval \<Rightarrow> bool" where
  "step_failed item \<longleftrightarrow> field_at item ''status'' = JStr ''failed'' \<or>
     field_at item ''error'' \<notin> {JUndef, JNull} \<or> field_at item ''success'' = JBool False \<or>
     (case field_at item ''exitCode'' of JNum n \<Rightarrow> n \<noteq> Finite 0 | _ \<Rightarrow> False)"

definition past :: "'a option \<Rightarrow> ('a \<Rightarrow> 'b option) \<Rightarrow> 'b option" where
  "past previous f = (case previous of None \<Rightarrow> None | Some p \<Rightarrow> f p)"

definition trace_step_of ::
  "bool \<Rightarrow> bool \<Rightarrow> string \<Rightarrow> jsval \<Rightarrow> native_event \<Rightarrow> trace_step option \<Rightarrow> trace_step" where
  "trace_step_of generation functionCall id0 item e previous =
     (let completed = (generation \<or> ev_method e = ''item/completed'');
          usage = get_prop (ev_params e) ''usage'';
          toolName = trace_label (if functionCall then get_prop (ev_params e) ''tool'' else field_at item ''tool'');
          serverLabel = trace_label (field_at item ''server'')
      in \<lparr>tp_id = id0, tp_generation = generation,
          tp_name = (if generation then ''generation'' else case toolName of Some n \<Rightarrow> n
            | None \<Rightarrow> if functionCall then ''function'' else name_text (field_at item ''type'')),
          tp_toolName = or_else toolName (past previous tp_toolName),
          tp_serverLabel = or_else serverLabel (past previous tp_serverLabel),
          tp_startedAt = (if \<not> completed \<and> past previous tp_startedAt = None \<and> past previous tp_completedAt = None
            then Some (ev_observedAt e) else past previous tp_startedAt),
          tp_completedAt = (if completed then or_else (past previous tp_completedAt) (Some (ev_observedAt e)) else past previous tp_completedAt),
          tp_failed = (if completed then Some (step_failed item) else past previous tp_failed),
          tp_inputTokens = (if generation then trace_count (field_at usage ''inputTokens'') else past previous tp_inputTokens),
          tp_outputTokens = (if generation then trace_count (field_at usage ''outputTokens'') else past previous tp_outputTokens)\<rparr>)"

definition put_step :: "trace_step \<Rightarrow> trace_step list \<Rightarrow> trace_step list" where
  "put_step step steps = (if find (\<lambda>s. tp_id s = tp_id step) steps = None then steps @ [step]
     else map (\<lambda>s. if tp_id s = tp_id step then step else s) steps)"

definition recordTraceStep :: "trace_step list \<Rightarrow> native_event \<Rightarrow> trace_step list" where
  "recordTraceStep steps e =
     (let item = get_prop (ev_params e) ''item'';
          generation = (ev_method e = ''rawResponse/completed'');
          functionCall = (ev_method e = ''item/tool/call'');
          tool = (name_text (field_at item ''type'') \<in> set trace_tools);
          rawId = (if generation then get_prop (ev_params e) ''responseId''
            else if functionCall then get_prop (ev_params e) ''callId'' else field_at item ''id'')
      in if \<not> generation \<and> \<not> functionCall \<and> \<not> (tool \<and> ev_method e \<in> {''item/started'', ''item/completed''})
         then steps
         else case rawId of
             JStr r \<Rightarrow> (let id0 = (if generation then ''generation:'' else ''tool:'') @ r in
                put_step (trace_step_of generation functionCall id0 item e (find (\<lambda>s. tp_id s = id0) steps)) steps)
           | _ \<Rightarrow> steps)"

section \<open>The execution state\<close>

record native_binding =
  nb_threadId :: string
  nb_nativeTurnId :: string
  nb_turn :: turn
  nb_items :: "session_item list"
  nb_artifacts :: "jsval list"
  nb_usageResponseIds :: "string list option"
  nb_traceParentTurnId :: "string option"
  nb_traceSteps :: "trace_step list"

record native_call =
  cc_threadId :: string
  cc_turnId :: string
  cc_name :: string
  cc_arguments :: fields
  cc_recipients :: "string list"
  cc_plaintextMessage :: bool

record runtime_state =
  ru_sessionId :: string
  ru_agentId :: string
  ru_rootThreadId :: string
  ru_subagents :: "subagent list"
  ru_turns :: "native_binding list"
  ru_requiredActions :: "required_action list"
  ru_coordinationCalls :: "(string \<times> native_call) list"
  ru_agentPaths :: "(string \<times> string) list"
  ru_threadUsage :: "(string \<times> token_usage) list"
  ru_inheritedNativeTurnIds :: "string list"

definition initialSessionRuntime :: "string \<Rightarrow> string \<Rightarrow> string \<Rightarrow> runtime_state" where
  "initialSessionRuntime sessionId agentId rootThreadId = \<lparr>ru_sessionId = sessionId, ru_agentId = agentId,
     ru_rootThreadId = rootThreadId, ru_subagents = [], ru_turns = [], ru_requiredActions = [],
     ru_coordinationCalls = [], ru_agentPaths = [], ru_threadUsage = [], ru_inheritedNativeTurnIds = []\<rparr>"

definition rootTurnBusy :: "runtime_state \<Rightarrow> bool \<Rightarrow> bool" where
  "rootTurnBusy s starting \<longleftrightarrow> starting \<or>
     (\<exists>b \<in> set (ru_turns s). nb_threadId b = ru_rootThreadId s \<and> \<not> terminalTurn (nb_turn b))"

definition incompleteItems :: "session_item list \<Rightarrow> session_item list" where
  "incompleteItems items = map (\<lambda>i. if item_in_progress i then i\<lparr>si_status := Some (Some ''incomplete'')\<rparr> else i) items"

definition stop_message :: string where
  "stop_message = ''The session harness stopped before this turn completed.''"

definition stopped_binding :: "rat \<Rightarrow> native_binding \<Rightarrow> native_binding" where
  "stopped_binding now_s b = (if terminalTurn (nb_turn b) then b
     else b\<lparr>nb_items := incompleteItems (nb_items b), nb_turn := (nb_turn b)\<lparr>tr_status := Turn_Failed,
       tr_completed_at := Some now_s, tr_error := Some (''connection_failed'', stop_message)\<rparr>\<rparr>)"

definition close_subagent :: "rat \<Rightarrow> subagent \<Rightarrow> subagent" where
  "close_subagent now_s a = (if sg_active a then a\<lparr>sg_active := False, sg_closed_at := Some now_s\<rparr> else a)"

definition stoppedSessionRuntime :: "runtime_state \<Rightarrow> rat \<Rightarrow> runtime_state" where
  "stoppedSessionRuntime s now_s = s\<lparr>ru_requiredActions := [],
     ru_subagents := map (close_subagent now_s) (ru_subagents s),
     ru_turns := map (stopped_binding now_s) (ru_turns s)\<rparr>"

fun action_of_turn :: "string \<Rightarrow> required_action \<Rightarrow> bool" where
  "action_of_turn turnId (Function_Action t c n a) \<longleftrightarrow> t = turnId"
| "action_of_turn turnId (Environment_Action e) \<longleftrightarrow> False"

fun rename_action :: "string \<Rightarrow> string \<Rightarrow> required_action \<Rightarrow> required_action" where
  "rename_action old new (Function_Action t c n a) = Function_Action (if t = old then new else t) c n a"
| "rename_action old new (Environment_Action e) = Environment_Action e"

text \<open>A native Turn whose notifications came first keeps what they reported, under the API's ID.\<close>

definition bound_binding :: "native_binding \<Rightarrow> turn \<Rightarrow> native_binding" where
  "bound_binding p t = p\<lparr>nb_turn := (nb_turn p)\<lparr>tr_id := tr_id t, tr_created_at := tr_created_at t\<rparr>,
     nb_items := map (\<lambda>i. i\<lparr>si_turn_id := tr_id t\<rparr>) (nb_items p)\<rparr>"

definition fresh_binding :: "runtime_state \<Rightarrow> string \<Rightarrow> turn \<Rightarrow> native_binding" where
  "fresh_binding s nativeTurnId t = \<lparr>nb_threadId = ru_rootThreadId s, nb_nativeTurnId = nativeTurnId, nb_turn = t,
     nb_items = [], nb_artifacts = [], nb_usageResponseIds = None, nb_traceParentTurnId = None, nb_traceSteps = []\<rparr>"

definition native_identity_error :: agents_error where
  "native_identity_error = Agents_Plain_Error ''A session turn cannot change its native execution identity''"

definition bindSessionTurn :: "runtime_state \<Rightarrow> string \<Rightarrow> turn \<Rightarrow> agents_error + runtime_state" where
  "bindSessionTurn s nativeTurnId t =
     (case find (\<lambda>b. tr_id (nb_turn b) = tr_id t) (ru_turns s) of
       Some b \<Rightarrow> if nb_nativeTurnId b \<noteq> nativeTurnId then Inl native_identity_error else Inr s
     | None \<Rightarrow>
         (case first_index (\<lambda>b. nb_threadId b = ru_rootThreadId s \<and> nb_nativeTurnId b = nativeTurnId) (ru_turns s) of
           None \<Rightarrow> Inr (s\<lparr>ru_turns := ru_turns s @ [fresh_binding s nativeTurnId t]\<rparr>)
         | Some n \<Rightarrow> (let p = ru_turns s ! n; old = tr_id (nb_turn p) in
             Inr (s\<lparr>ru_turns := (map (\<lambda>b. if nb_traceParentTurnId b = Some old
                   then b\<lparr>nb_traceParentTurnId := Some (tr_id t)\<rparr> else b) (ru_turns s))[n := bound_binding p t],
               ru_requiredActions := map (rename_action old (tr_id t)) (ru_requiredActions s)\<rparr>))))"

fun action_is :: "string \<Rightarrow> string \<Rightarrow> required_action \<Rightarrow> bool" where
  "action_is turnId callId (Function_Action t c n a) \<longleftrightarrow> t = turnId \<and> c = callId"
| "action_is turnId callId (Environment_Action e) \<longleftrightarrow> False"

definition resolve_trace :: "string \<Rightarrow> (rat \<times> bool) option \<Rightarrow> native_binding \<Rightarrow> native_binding" where
  "resolve_trace callId result b = (case result of
       None \<Rightarrow> b
     | Some (completedAt, success) \<Rightarrow> b\<lparr>nb_traceSteps := map (\<lambda>st. if tp_id st = ''tool:'' @ callId
         then st\<lparr>tp_completedAt := Some completedAt, tp_failed := Some (\<not> success)\<rparr> else st) (nb_traceSteps b)\<rparr>)"

definition resolved_binding :: "string \<Rightarrow> required_action list \<Rightarrow> native_binding \<Rightarrow> native_binding" where
  "resolved_binding turnId actions b =
     (if tr_id (nb_turn b) = turnId \<and> tr_status (nb_turn b) = Turn_Waiting \<and> \<not> list_ex (action_of_turn turnId) actions
      then b\<lparr>nb_turn := (nb_turn b)\<lparr>tr_status := Turn_In_Progress\<rparr>\<rparr> else b)"

definition resolveSessionFunction ::
  "runtime_state \<Rightarrow> string \<Rightarrow> string \<Rightarrow> (rat \<times> bool) option \<Rightarrow> runtime_state" where
  "resolveSessionFunction s turnId callId result =
     (let actions = filter (\<lambda>a. \<not> action_is turnId callId a) (ru_requiredActions s) in
      s\<lparr>ru_requiredActions := actions,
        ru_turns := map (\<lambda>b. resolved_binding turnId actions
          (if tr_id (nb_turn b) = turnId then resolve_trace callId result b else b)) (ru_turns s)\<rparr>)"

text \<open>What the service shows of a subagent.\<close>

record trace_turn =
  tt_turn :: turn
  tt_steps :: "trace_step list"
  tt_parentAgentId :: "string option"
  tt_parentTurnId :: "string option"
  tt_model :: "string option"

record subagent_snapshot =
  sp_subagent :: subagent
  sp_traceTurns :: "trace_turn list"
  sp_turns :: "turn list"
  sp_items :: "session_item list"
  sp_artifacts :: "jsval list"
  sp_requiredActions :: "required_action list"

definition runtimeSubagents :: "runtime_state \<Rightarrow> subagent_snapshot list" where
  "runtimeSubagents s = map (\<lambda>a. let bindings = filter (\<lambda>b. nb_threadId b = sg_id a) (ru_turns s) in
     \<lparr>sp_subagent = a, sp_traceTurns = map (\<lambda>b. \<lparr>tt_turn = nb_turn b, tt_steps = nb_traceSteps b,
        tt_parentAgentId = Some (sg_parent_agent_id a), tt_parentTurnId = nb_traceParentTurnId b, tt_model = None\<rparr>) bindings,
      sp_turns = map nb_turn bindings, sp_items = concat (map nb_items bindings),
      sp_artifacts = concat (map nb_artifacts bindings),
      sp_requiredActions = filter (\<lambda>q. \<exists>b \<in> set bindings. action_of_turn (tr_id (nb_turn b)) q) (ru_requiredActions s)\<rparr>)
     (ru_subagents s)"

section \<open>Coordination of subagents\<close>

definition coordination_tools :: "(string \<times> string) list" where
  "coordination_tools = [(''spawn_agent'', ''spawnAgent''), (''send_message'', ''sendMessage''),
     (''followup_task'', ''followupTask''), (''interrupt_agent'', ''interruptAgent''), (''wait_agent'', ''wait'')]"

definition parsedObject :: "(string \<Rightarrow> jsval option) \<Rightarrow> jsval \<Rightarrow> fields option" where
  "parsedObject parse v = (case v of
       JObj fs \<Rightarrow> Some fs
     | JStr t \<Rightarrow> (case parse t of Some (JObj fs) \<Rightarrow> Some fs | _ \<Rightarrow> None)
     | _ \<Rightarrow> None)"

definition known_thread :: "runtime_state \<Rightarrow> string \<Rightarrow> bool" where
  "known_thread s threadId \<longleftrightarrow> threadId = ru_rootThreadId s \<or> (\<exists>a \<in> set (ru_subagents s). sg_id a = threadId)"

definition optional_text :: "string option \<Rightarrow> jsval" where
  "optional_text s = (case s of None \<Rightarrow> JNull | Some t \<Rightarrow> JStr t)"

definition coordinationEvent :: "native_event \<Rightarrow> string \<Rightarrow> native_call \<Rightarrow> string \<Rightarrow> native_event" where
  "coordinationEvent e id0 call status =
     e\<lparr>ev_method := (if status = ''inProgress'' then ''item/started'' else ''item/completed''),
       ev_params := [(''threadId'', JStr (cc_threadId call)), (''turnId'', JStr (cc_turnId call)), (''item'', JObj [
         (''id'', JStr id0), (''type'', JStr ''collabAgentToolCall''),
         (''tool'', case map_of coordination_tools (cc_name call) of Some t \<Rightarrow> JStr t | None \<Rightarrow> JUndef),
         (''status'', JStr status), (''senderThreadId'', JStr (cc_threadId call)),
         (''receiverThreadIds'', JArr (map JStr (cc_recipients call))),
         (''prompt'', optional_text (stringOrNull (get_prop (cc_arguments call) ''message''))),
         (''promptEncrypted'', JBool (\<not> cc_plaintextMessage call)),
         (''model'', optional_text (stringOrNull (get_prop (cc_arguments call) ''model''))),
         (''reasoningEffort'', optional_text (stringOrNull (get_prop (cc_arguments call) ''reasoning_effort'')))])]\<rparr>"

definition target_path :: "runtime_state \<Rightarrow> string \<Rightarrow> string option \<Rightarrow> string" where
  "target_path s threadId target =
     (let parent = (case map_of (ru_agentPaths s) threadId of Some p \<Rightarrow> p | None \<Rightarrow> ''/root'') in
      case target of
        None \<Rightarrow> parent @ ''/undefined''
      | Some t \<Rightarrow> if starts_with t ''/'' then t else parent @ ''/'' @ t)"

definition call_recipients :: "runtime_state \<Rightarrow> string \<Rightarrow> string \<Rightarrow> string option \<Rightarrow> string list" where
  "call_recipients s threadId name target =
     (case find (\<lambda>a. target = Some (sg_id a) \<or>
           map_of (ru_agentPaths s) (sg_id a) = Some (target_path s threadId target)) (ru_subagents s) of
       Some a \<Rightarrow> [sg_id a]
     | None \<Rightarrow> if name = ''wait_agent'' then map sg_id (filter sg_active (ru_subagents s)) else [])"

definition started_call ::
  "(string \<Rightarrow> jsval option) \<Rightarrow> runtime_state \<Rightarrow> string \<Rightarrow> string \<Rightarrow> string \<Rightarrow> fields \<Rightarrow> native_call" where
  "started_call parse s threadId turnId name item =
     (let args = (case parsedObject parse (get_prop item ''arguments'') of Some fs \<Rightarrow> fs | None \<Rightarrow> []) in
      \<lparr>cc_threadId = threadId, cc_turnId = turnId, cc_name = name, cc_arguments = args,
       cc_recipients = call_recipients s threadId name (stringOrNull (get_prop args ''target'')),
       cc_plaintextMessage = (get_prop item ''encrypted_function_args'' = JArr [])\<rparr>)"

definition activity_call :: "runtime_state \<Rightarrow> string \<Rightarrow> string \<Rightarrow> jsval \<Rightarrow> string \<Rightarrow> native_call option \<Rightarrow> native_call" where
  "activity_call s threadId turnId kind agentThread saved =
     \<lparr>cc_threadId = threadId, cc_turnId = turnId,
      cc_name = (case saved of Some c \<Rightarrow> cc_name c | None \<Rightarrow> if kind = JStr ''started'' then ''spawn_agent''
        else if kind = JStr ''interrupted'' then ''interrupt_agent'' else ''send_message''),
      cc_arguments = (case saved of Some c \<Rightarrow> cc_arguments c | None \<Rightarrow> []),
      cc_recipients = [agentThread],
      cc_plaintextMessage = (case saved of Some c \<Rightarrow> cc_plaintextMessage c | None \<Rightarrow> False)\<rparr>"

definition output_status :: "(string \<Rightarrow> jsval option) \<Rightarrow> native_call \<Rightarrow> jsval \<Rightarrow> string" where
  "output_status parse call out =
     (let delivered = (out = JStr [] \<and> cc_name call \<in> {''send_message'', ''followup_task''} \<and> cc_recipients call \<noteq> []) in
      if delivered \<or> (case parsedObject parse out of Some fs \<Rightarrow> map_of fs ''error'' = None | None \<Rightarrow> False)
      then ''completed'' else ''failed'')"

definition coordinate_item ::
  "(string \<Rightarrow> jsval option) \<Rightarrow> runtime_state \<Rightarrow> native_event \<Rightarrow> fields \<Rightarrow> string \<Rightarrow> string \<Rightarrow> runtime_state \<times> native_event" where
  "coordinate_item parse s e item threadId turnId =
     (let raw = (ev_method e = ''rawResponseItem/completed'');
          kind = get_prop item ''type'';
          callId = stringOrNull (get_prop item ''call_id'');
          name = stringOrNull (get_prop item ''name'')
      in if raw \<and> kind = JStr ''function_call'' \<and> get_prop item ''namespace'' = JStr ''collaboration'' \<and>
           name \<noteq> None \<and> map_of coordination_tools (the name) \<noteq> None \<and> callId \<noteq> None
         then (let call = started_call parse s threadId turnId (the name) item in
           (s\<lparr>ru_coordinationCalls := AList.update (the callId) call (ru_coordinationCalls s)\<rparr>,
            coordinationEvent e (the callId) call ''inProgress''))
         else case (kind = JStr ''subAgentActivity'' \<and> name_text (get_prop item ''kind'') \<in> {''started'', ''interacted'', ''interrupted''},
             stringOrNull (get_prop item ''id''), stringOrNull (get_prop item ''agentThreadId'')) of
             (True, Some id0, Some agentThread) \<Rightarrow>
               (let call = activity_call s threadId turnId (get_prop item ''kind'') agentThread
                   (map_of (ru_coordinationCalls s) id0) in
                (s\<lparr>ru_coordinationCalls := AList.update id0 call (ru_coordinationCalls s),
                  ru_agentPaths := (case get_prop item ''agentPath'' of
                    JStr p \<Rightarrow> AList.update agentThread p (ru_agentPaths s) | _ \<Rightarrow> ru_agentPaths s)\<rparr>,
                 coordinationEvent e id0 call ''completed''))
           | _ \<Rightarrow>
               if raw \<and> kind = JStr ''function_call_output'' \<and> callId \<noteq> None
               then (case map_of (ru_coordinationCalls s) (the callId) of
                   Some call \<Rightarrow> if cc_threadId call = threadId \<and> cc_turnId call = turnId
                     then (s, coordinationEvent e (the callId) call (output_status parse call (get_prop item ''output'')))
                     else (s, e)
                 | None \<Rightarrow> (s, e))
               else (s, e))"

definition planNativeCoordination ::
  "(string \<Rightarrow> jsval option) \<Rightarrow> runtime_state \<Rightarrow> native_event \<Rightarrow> runtime_state \<times> native_event" where
  "planNativeCoordination parse s e =
     (case (get_prop (ev_params e) ''item'', get_prop (ev_params e) ''threadId'', get_prop (ev_params e) ''turnId'') of
       (JObj item, JStr threadId, JStr turnId) \<Rightarrow>
         if threadId = [] \<or> turnId = [] \<or> \<not> known_thread s threadId then (s, e)
         else coordinate_item parse s e item threadId turnId
     | _ \<Rightarrow> (s, e))"

end
