(* ===== verification/Session_Reducer.thy ===== *)
theory Session_Reducer
  imports Session_Runtime
begin

text \<open>
  \<open>reduceSessionRuntime\<close> of \<open>src/core/session-runtime-planning.ts\<close>: one event of the harness, folded
  into the execution state. The code calls itself for the subagents a completed coordination item
  names; those calls carry no item, so they end in the part modelled as \<open>reduce_thread\<close>.
\<close>

section \<open>Threads\<close>

definition spawn_source :: "fields \<Rightarrow> fields" where
  "spawn_source thread = (case field_at (field_at (get_prop thread ''source'') ''subAgent'') ''thread_spawn'' of
       JObj fs \<Rightarrow> fs | _ \<Rightarrow> [])"

definition thread_parent :: "fields \<Rightarrow> string option" where
  "thread_parent thread = or_else (stringOrNull (get_prop thread ''parentThreadId''))
     (stringOrNull (get_prop (spawn_source thread) ''parent_thread_id''))"

definition thread_instructions :: "fields \<Rightarrow> content_part list option" where
  "thread_instructions thread = (case get_prop thread ''preview'' of
       JStr p \<Rightarrow> if p = [] then None
         else if get_prop thread ''previewEncrypted'' = JBool True then Some [Encrypted_Content p]
         else Some [Output_Text p]
     | _ \<Rightarrow> None)"

definition started_subagent ::
  "runtime_state \<Rightarrow> fields \<Rightarrow> string \<Rightarrow> string \<Rightarrow> rat \<Rightarrow> subagent option \<Rightarrow> subagent" where
  "started_subagent s thread id0 parentId at_s previous =
     \<lparr>sg_id = id0, sg_session_id = ru_sessionId s,
      sg_parent_agent_id = (case previous of Some p \<Rightarrow> sg_parent_agent_id p
        | None \<Rightarrow> if parentId = ru_rootThreadId s then ru_agentId s else parentId),
      sg_name = or_else (stringOrNull (get_prop thread ''agentNickname''))
        (or_else (stringOrNull (get_prop (spawn_source thread) ''agent_nickname'')) (past previous sg_name)),
      sg_instructions = or_else (past previous sg_instructions) (thread_instructions thread),
      sg_opened_at = (case previous of Some p \<Rightarrow> sg_opened_at p
        | None \<Rightarrow> (case numberOrNull (get_prop thread ''createdAt'') of Some r \<Rightarrow> r | None \<Rightarrow> at_s)),
      sg_closed_at = None, sg_active = True\<rparr>"

definition thread_started :: "runtime_state \<Rightarrow> fields \<Rightarrow> string \<Rightarrow> rat \<Rightarrow> runtime_state" where
  "thread_started s thread id0 at_s = (case thread_parent thread of
       None \<Rightarrow> s
     | Some parentId \<Rightarrow>
         if id0 = ru_rootThreadId s \<or> parentId = [] \<or> \<not> known_thread s parentId then s
         else (let previous = find (\<lambda>a. sg_id a = id0) (ru_subagents s);
                   a = started_subagent s thread id0 parentId at_s previous
               in s\<lparr>ru_subagents := (if previous = None then ru_subagents s @ [a]
                    else map (\<lambda>b. if sg_id b = id0 then a else b) (ru_subagents s))\<rparr>))"

definition cancelled_binding :: "rat \<Rightarrow> native_binding \<Rightarrow> native_binding" where
  "cancelled_binding at_s b = b\<lparr>nb_items := incompleteItems (nb_items b),
     nb_turn := (nb_turn b)\<lparr>tr_status := Turn_Cancelled, tr_completed_at := Some at_s\<rparr>\<rparr>"

definition thread_closed :: "runtime_state \<Rightarrow> string \<Rightarrow> rat \<Rightarrow> runtime_state" where
  "thread_closed s threadId at_s = s\<lparr>
     ru_subagents := map (\<lambda>a. if sg_id a = threadId then close_subagent at_s a else a) (ru_subagents s),
     ru_turns := map (\<lambda>b. if nb_threadId b = threadId \<and> \<not> terminalTurn (nb_turn b) then cancelled_binding at_s b else b)
       (ru_turns s),
     ru_requiredActions := filter (\<lambda>q. \<not> (\<exists>b \<in> set (ru_turns s).
       nb_threadId b = threadId \<and> action_of_turn (tr_id (nb_turn b)) q)) (ru_requiredActions s)\<rparr>"

text \<open>The thread of a \<open>thread/started\<close> event: an object with an ID.\<close>

definition event_thread :: "native_event \<Rightarrow> (fields \<times> string) option" where
  "event_thread e = (if ev_method e \<noteq> ''thread/started'' then None
     else case get_prop (ev_params e) ''thread'' of
       JObj thread \<Rightarrow> (case get_prop thread ''id'' of JStr id0 \<Rightarrow> Some (thread, id0) | _ \<Rightarrow> None)
     | _ \<Rightarrow> None)"

definition event_thread_id :: "runtime_state \<Rightarrow> native_event \<Rightarrow> string option" where
  "event_thread_id s e = (case stringOrNull (get_prop (ev_params e) ''threadId'') of
       None \<Rightarrow> None
     | Some t \<Rightarrow> if t = [] \<or> \<not> known_thread s t then None else Some t)"

section \<open>Turns\<close>

definition public_number :: "fields \<Rightarrow> string \<Rightarrow> rat" where
  "public_number fs k = (case numberOrNull (get_prop fs k) of Some r \<Rightarrow> r | None \<Rightarrow> 0)"

definition publicUsage :: "fields \<Rightarrow> token_usage" where
  "publicUsage fs = \<lparr>tu_input = public_number fs ''inputTokens'', tu_cached = public_number fs ''cachedInputTokens'',
     tu_output = public_number fs ''outputTokens'', tu_reasoning = public_number fs ''reasoningOutputTokens'',
     tu_total = public_number fs ''inputTokens'' + public_number fs ''outputTokens''\<rparr>"

definition usage_delta :: "rat \<Rightarrow> rat \<Rightarrow> rat" where
  "usage_delta v previous = (if v \<ge> previous then v - previous else v)"

definition usageDifference :: "token_usage \<Rightarrow> token_usage option \<Rightarrow> token_usage" where
  "usageDifference after before = (let b = (case before of Some u \<Rightarrow> u | None \<Rightarrow> no_usage);
       i = usage_delta (tu_input after) (tu_input b); out = usage_delta (tu_output after) (tu_output b)
     in \<lparr>tu_input = i, tu_cached = usage_delta (tu_cached after) (tu_cached b), tu_output = out,
         tu_reasoning = usage_delta (tu_reasoning after) (tu_reasoning b), tu_total = i + out\<rparr>)"

definition parent_turn_id :: "runtime_state \<Rightarrow> string \<Rightarrow> string option" where
  "parent_turn_id s threadId = (case find (\<lambda>a. sg_id a = threadId) (ru_subagents s) of
       None \<Rightarrow> None
     | Some a \<Rightarrow> map_option (\<lambda>b. tr_id (nb_turn b))
         (find (\<lambda>b. tr_agent_id (nb_turn b) = sg_parent_agent_id a) (rev (ru_turns s))))"

definition newTurn :: "runtime_state \<Rightarrow> string \<Rightarrow> string \<Rightarrow> rat \<Rightarrow> native_binding" where
  "newTurn s threadId nativeTurnId at_s = (let child = (threadId \<noteq> ru_rootThreadId s) in
     \<lparr>nb_threadId = threadId, nb_nativeTurnId = nativeTurnId,
      nb_turn = \<lparr>tr_id = (if child then ''turn_'' @ threadId @ ''_'' @ nativeTurnId else nativeTurnId),
        tr_session_id = ru_sessionId s, tr_agent_id = (if child then threadId else ru_agentId s),
        tr_subagent_id = (if child then Some threadId else None), tr_status = Turn_In_Progress,
        tr_created_at = at_s, tr_started_at = Some at_s, tr_completed_at = None, tr_error = None, tr_usage = None\<rparr>,
      nb_items = [], nb_artifacts = [], nb_usageResponseIds = None,
      nb_traceParentTurnId = (if child then parent_turn_id s threadId else None), nb_traceSteps = []\<rparr>)"

definition event_turn_id :: "runtime_state \<Rightarrow> native_event \<Rightarrow> string \<Rightarrow> string option" where
  "event_turn_id s e threadId =
     (case or_else (stringOrNull (field_at (get_prop (ev_params e) ''turn'') ''id''))
         (or_else (stringOrNull (get_prop (ev_params e) ''turnId''))
           (if ev_method e = ''thread/tokenUsage/updated''
            then map_option nb_nativeTurnId (find (\<lambda>b. nb_threadId b = threadId) (rev (ru_turns s))) else None)) of
       Some t \<Rightarrow> if t = [] then None else Some t
     | None \<Rightarrow> None)"

definition turn_methods :: "string list" where
  "turn_methods = [''turn/started'', ''turn/completed'', ''thread/tokenUsage/updated'', ''rawResponse/completed'',
     ''item/tool/call'', ''error'']"

definition event_applies :: "native_event \<Rightarrow> bool" where
  "event_applies e \<longleftrightarrow>
     (ev_method e = ''rawResponseItem/completed'' \<and> field_at (get_prop (ev_params e) ''item'') ''type'' = JStr ''agent_message''
      \<or> ev_method e \<in> set turn_methods \<or> starts_with (ev_method e) ''item/'') \<and>
     \<not> (ev_method e = ''rawResponse/completed'' \<and> stringOrNull (get_prop (ev_params e) ''responseId'') = None)"

section \<open>One event on its Turn\<close>

text \<open>The binding and the required actions after the event's part, or \<open>None\<close> where the code returns.\<close>

type_synonym binding_step = "(native_binding \<times> required_action list) option"

definition drop_actions :: "string \<Rightarrow> required_action list \<Rightarrow> required_action list" where
  "drop_actions turnId actions = filter (\<lambda>q. \<not> action_of_turn turnId q) actions"

definition error_step :: "native_event \<Rightarrow> native_binding \<Rightarrow> required_action list \<Rightarrow> binding_step" where
  "error_step e b actions = (if ev_method e \<noteq> ''error'' then Some (b, actions)
     else if get_prop (ev_params e) ''willRetry'' = JBool True then None
     else Some (b\<lparr>nb_turn := (nb_turn b)\<lparr>tr_status := Turn_Failed, tr_completed_at := Some (ev_observedAt e),
         tr_error := Some (sessionTurnError (get_prop (ev_params e) ''error'') (tr_error (nb_turn b)))\<rparr>\<rparr>,
       drop_actions (tr_id (nb_turn b)) actions))"

definition reported_status :: "native_event \<Rightarrow> jsval \<Rightarrow> turn_status" where
  "reported_status e status = (if ev_method e = ''turn/started'' then Turn_In_Progress
     else if status = JStr ''completed'' then Turn_Completed
     else if status = JStr ''interrupted'' then Turn_Cancelled else Turn_Failed)"

definition turn_step :: "native_event \<Rightarrow> native_binding \<Rightarrow> required_action list \<Rightarrow> native_binding \<times> required_action list" where
  "turn_step e b actions = (if ev_method e \<notin> {''turn/started'', ''turn/completed''} then (b, actions)
     else (let native = get_prop (ev_params e) ''turn'';
               status = reported_status e (field_at native ''status'');
               ended = (ev_method e = ''turn/completed'');
               t = nb_turn b
           in (b\<lparr>nb_turn := t\<lparr>tr_status := status,
                  tr_started_at := or_else (numberOrNull (field_at native ''startedAt''))
                    (or_else (tr_started_at t) (Some (ev_observedAt e))),
                  tr_completed_at := (if ended then or_else (numberOrNull (field_at native ''completedAt''))
                    (Some (ev_observedAt e)) else None),
                  tr_error := (if status = Turn_Failed then Some (sessionTurnError (field_at native ''error'') (tr_error t))
                    else None)\<rparr>\<rparr>,
               if ended then drop_actions (tr_id t) actions else actions)))"

definition response_step :: "native_event \<Rightarrow> native_binding \<Rightarrow> native_binding option" where
  "response_step e b = (case (get_prop (ev_params e) ''responseId'', get_prop (ev_params e) ''usage'') of
       (JStr r, JObj usage) \<Rightarrow>
         if ev_method e \<noteq> ''rawResponse/completed'' then Some b
         else (case nb_usageResponseIds b of
             Some ids \<Rightarrow> if r \<in> set ids then None
               else Some (b\<lparr>nb_usageResponseIds := Some (ids @ [r]),
                 nb_turn := (nb_turn b)\<lparr>tr_usage := totalUsage [tr_usage (nb_turn b), Some (publicUsage usage)]\<rparr>\<rparr>)
           | None \<Rightarrow> Some (b\<lparr>nb_usageResponseIds := Some [r],
               nb_turn := (nb_turn b)\<lparr>tr_usage := totalUsage [None, Some (publicUsage usage)]\<rparr>\<rparr>))
     | _ \<Rightarrow> Some b)"

definition usage_step ::
  "native_event \<Rightarrow> string \<Rightarrow> native_binding \<Rightarrow> (string \<times> token_usage) list \<Rightarrow> native_binding \<times> (string \<times> token_usage) list" where
  "usage_step e threadId b usages = (if ev_method e \<noteq> ''thread/tokenUsage/updated'' then (b, usages)
     else case (object_fields (field_at (get_prop (ev_params e) ''tokenUsage'') ''total''),
         object_fields (field_at (get_prop (ev_params e) ''tokenUsage'') ''last'')) of
       (Some whole, _) \<Rightarrow> (let totals = publicUsage whole;
            delta = usageDifference totals (map_of usages threadId)
          in (if nb_usageResponseIds b = None
              then b\<lparr>nb_turn := (nb_turn b)\<lparr>tr_usage := totalUsage [tr_usage (nb_turn b), Some delta]\<rparr>\<rparr> else b,
              AList.update threadId totals usages))
     | (None, Some lastUsage) \<Rightarrow>
         (if nb_usageResponseIds b = None then b\<lparr>nb_turn := (nb_turn b)\<lparr>tr_usage := Some (publicUsage lastUsage)\<rparr>\<rparr>
          else b, usages)
     | (None, None) \<Rightarrow> (b, usages))"

text \<open>The names of the agents; a later entry wins.\<close>

definition agent_names :: "runtime_state \<Rightarrow> (string \<times> string) list" where
  "agent_names s = rev ([(ru_rootThreadId s, ru_agentId s), (''/root'', ru_agentId s)] @
     concat (map (\<lambda>a. (sg_id a, sg_id a) # (case map_of (ru_agentPaths s) (sg_id a) of
       Some p \<Rightarrow> if p = [] then [] else [(p, sg_id a)] | None \<Rightarrow> [])) (ru_subagents s)))"

definition completed_item_events :: "native_event \<Rightarrow> string \<Rightarrow> string \<Rightarrow> jsval list" where
  "completed_item_events e threadId nativeTurnId = (if ev_method e \<noteq> ''turn/completed'' then []
     else map (\<lambda>i. JObj [(''method'', JStr ''item/completed''), (''params'', JObj [(''threadId'', JStr threadId),
         (''turnId'', JStr nativeTurnId), (''item'', i)])])
       (list_values (field_at (get_prop (ev_params e) ''turn'') ''items'')))"

definition event_value :: "native_event \<Rightarrow> jsval" where
  "event_value e = JObj [(''method'', JStr (ev_method e)), (''params'', JObj (ev_params e)),
     (''observedAt'', JNum (Finite (ev_observedAt e)))]"

definition items_step ::
  "native_event \<Rightarrow> string \<Rightarrow> string \<Rightarrow> bool \<Rightarrow> (string \<times> string) list \<Rightarrow> native_binding \<Rightarrow> native_binding" where
  "items_step e threadId nativeTurnId includeUser names b =
     (let items = projectSessionItems (tr_id (nb_turn b)) (event_value e # completed_item_events e threadId nativeTurnId)
          None (nb_items b) includeUser names
      in b\<lparr>nb_items := (if tr_status (nb_turn b) \<in> {Turn_Failed, Turn_Cancelled} then incompleteItems items else items)\<rparr>)"

definition tool_call_step :: "native_event \<Rightarrow> native_binding \<Rightarrow> required_action list \<Rightarrow> native_binding \<times> required_action list" where
  "tool_call_step e b actions = (case (get_prop (ev_params e) ''tool'', get_prop (ev_params e) ''callId'') of
       (JStr tool, JStr callId) \<Rightarrow>
         if ev_method e \<noteq> ''item/tool/call'' then (b, actions)
         else (b\<lparr>nb_turn := (nb_turn b)\<lparr>tr_status := Turn_Waiting\<rparr>\<rparr>,
           if list_ex (action_is (tr_id (nb_turn b)) callId) actions then actions
           else actions @ [Function_Action (tr_id (nb_turn b)) callId tool (get_prop (ev_params e) ''arguments'')])
     | _ \<Rightarrow> (b, actions))"

definition reduce_binding ::
  "runtime_state \<Rightarrow> native_event \<Rightarrow> string \<Rightarrow> string \<Rightarrow> native_binding
     \<Rightarrow> (native_binding \<times> required_action list \<times> (string \<times> token_usage) list) option" where
  "reduce_binding s e threadId nativeTurnId b0 =
     (let b1 = b0\<lparr>nb_traceSteps := recordTraceStep (nb_traceSteps b0) e\<rparr> in
      case error_step e b1 (ru_requiredActions s) of
        None \<Rightarrow> None
      | Some (b2, actions2) \<Rightarrow>
          (let (b3, actions3) = turn_step e b2 actions2 in
           case response_step e b3 of
             None \<Rightarrow> None
           | Some b4 \<Rightarrow>
               (let (b5, usages) = usage_step e threadId b4 (ru_threadUsage s);
                    b6 = items_step e threadId nativeTurnId (threadId \<noteq> ru_rootThreadId s) (agent_names s) b5;
                    (b7, actions7) = tool_call_step e b6 actions3
                in Some (b7, actions7, usages))))"

definition binding_is :: "string \<Rightarrow> string \<Rightarrow> native_binding \<Rightarrow> bool" where
  "binding_is threadId nativeTurnId b \<longleftrightarrow> nb_nativeTurnId b = nativeTurnId \<and> nb_threadId b = threadId"

definition reduce_turn :: "runtime_state \<Rightarrow> native_event \<Rightarrow> string \<Rightarrow> string \<Rightarrow> runtime_state" where
  "reduce_turn s e threadId nativeTurnId =
     (let previous = first_index (binding_is threadId nativeTurnId) (ru_turns s) in
      if ev_method e = ''thread/tokenUsage/updated'' \<and> previous \<noteq> None \<and>
        last_index (\<lambda>b. nb_threadId b = threadId) (ru_turns s) \<noteq> previous
      then s
      else case reduce_binding s e threadId nativeTurnId
          (case previous of Some n \<Rightarrow> ru_turns s ! n | None \<Rightarrow> newTurn s threadId nativeTurnId (ev_observedAt e)) of
        None \<Rightarrow> s
      | Some (b, actions, usages) \<Rightarrow> s\<lparr>ru_threadUsage := usages, ru_requiredActions := actions,
          ru_turns := (case previous of Some n \<Rightarrow> (ru_turns s)[n := b] | None \<Rightarrow> ru_turns s @ [b])\<rparr>)"

definition reduce_thread :: "runtime_state \<Rightarrow> native_event \<Rightarrow> runtime_state" where
  "reduce_thread s e = (case event_thread e of
       Some (thread, id0) \<Rightarrow> thread_started s thread id0 (ev_observedAt e)
     | None \<Rightarrow> (case event_thread_id s e of
         None \<Rightarrow> s
       | Some threadId \<Rightarrow>
           if ev_method e \<in> {''thread/closed'', ''thread/archived''} then thread_closed s threadId (ev_observedAt e)
           else (case event_turn_id s e threadId of
             None \<Rightarrow> s
           | Some nativeTurnId \<Rightarrow> if event_applies e then reduce_turn s e threadId nativeTurnId else s)))"

section \<open>Subagents a coordination item names\<close>

definition announced_event :: "runtime_state \<Rightarrow> fields \<Rightarrow> string \<Rightarrow> rat \<Rightarrow> string \<Rightarrow> native_event option" where
  "announced_event s item parentId at_s id0 =
     (if get_prop item ''tool'' \<in> {JStr ''spawnAgent'', JStr ''resumeAgent''}
      then Some \<lparr>ev_method = ''thread/started'', ev_params = [(''thread'', JObj [(''id'', JStr id0),
        (''parentThreadId'', JStr parentId), (''preview'', get_prop item ''prompt''),
        (''previewEncrypted'', get_prop item ''promptEncrypted''),
        (''agentNickname'', case map_of (ru_agentPaths s) id0 of
          Some p \<Rightarrow> JStr (last (split_on (CHR ''/'') p)) | None \<Rightarrow> JUndef)])], ev_observedAt = at_s\<rparr>
      else if get_prop item ''tool'' = JStr ''closeAgent''
      then Some \<lparr>ev_method = ''thread/closed'', ev_params = [(''threadId'', JStr id0)], ev_observedAt = at_s\<rparr>
      else None)"

definition announce :: "fields \<Rightarrow> string \<Rightarrow> rat \<Rightarrow> string \<Rightarrow> runtime_state \<Rightarrow> runtime_state" where
  "announce item parentId at_s id0 s = (case announced_event s item parentId at_s id0 of
       None \<Rightarrow> s | Some e \<Rightarrow> reduce_thread s e)"

definition announce_item :: "fields \<Rightarrow> rat \<Rightarrow> runtime_state \<Rightarrow> runtime_state" where
  "announce_item item at_s s =
     (if get_prop item ''type'' = JStr ''collabAgentToolCall'' \<and> get_prop item ''status'' = JStr ''completed''
      then (case (get_prop item ''receiverThreadIds'', get_prop item ''senderThreadId'') of
          (JArr receivers, JStr parentId) \<Rightarrow>
            if parentId \<noteq> [] \<and> known_thread s parentId
            then fold (announce item parentId at_s) (js_strings (JArr receivers)) s else s
        | _ \<Rightarrow> s)
      else s)"

definition announce_agents :: "runtime_state \<Rightarrow> native_event \<Rightarrow> runtime_state" where
  "announce_agents s e = (if ev_method e \<noteq> ''item/completed'' then s
     else case get_prop (ev_params e) ''item'' of JObj item \<Rightarrow> announce_item item (ev_observedAt e) s | _ \<Rightarrow> s)"

definition reduceSessionRuntime ::
  "(string \<Rightarrow> jsval option) \<Rightarrow> runtime_state \<Rightarrow> native_event \<Rightarrow> runtime_state" where
  "reduceSessionRuntime parse s e = (let (s1, e1) = planNativeCoordination parse s e in
     reduce_thread (announce_agents s1 e1) e1)"

end
