(* ===== verification/Session_Typing.thy ===== *)
theory Session_Typing
  imports Session_Reducer
begin

text \<open>
  The execution state of a Session keeps to the public types: \<open>item_typed\<close> is the shape the API
  declares for an item of a Turn, \<open>runtime_ok\<close> the invariant of \<open>SessionRuntimeState\<close>, and every
  operation of \<open>src/core/session-runtime-planning.ts\<close> preserves it.
\<close>

named_theorems typing_intros

section \<open>Public items\<close>

definition output_states :: "string set" where
  "output_states = {''in_progress'', ''completed'', ''incomplete''}"

definition call_states :: "string set" where
  "call_states = {''in_progress'', ''completed'', ''failed'', ''incomplete''}"

fun input_part :: "content_part \<Rightarrow> bool" where
  "input_part (Input_Text s) \<longleftrightarrow> True"
| "input_part (Input_Image s) \<longleftrightarrow> True"
| "input_part _ \<longleftrightarrow> False"

definition has_status :: "string set \<Rightarrow> session_item \<Rightarrow> bool" where
  "has_status S i \<longleftrightarrow> (\<exists>s \<in> S. si_status i = Some (Some s))"

fun body_typed :: "session_item \<Rightarrow> item_body \<Rightarrow> bool" where
  "body_typed i (Message_Body role content phase) \<longleftrightarrow> has_status output_states i \<and>
     (role = ''user'' \<and> list_all input_part content \<and> phase = None \<or>
      role = ''assistant'' \<and> (\<exists>t. content = [Output_Text t]) \<and> phase \<in> {None, Some ''commentary'', Some ''final_answer''})"
| "body_typed i (Reasoning_Body s) \<longleftrightarrow> has_status output_states i"
| "body_typed i (Web_Search_Body a) \<longleftrightarrow> has_status output_states i"
| "body_typed i (Command_Body c w d e out) \<longleftrightarrow> has_status call_states i"
| "body_typed i (Function_Call_Body c n a) \<longleftrightarrow> has_status call_states i"
| "body_typed i (Mcp_Body n s a out e) \<longleftrightarrow> has_status call_states i"
| "body_typed i (Create_Subagent_Body a c m e) \<longleftrightarrow> has_status call_states i"
| "body_typed i (Wait_Body a r) \<longleftrightarrow> has_status call_states i"
| "body_typed i (Send_Input_Body a r c) \<longleftrightarrow> has_status call_states i \<and> r \<noteq> []"
| "body_typed i (Interrupt_Body a r) \<longleftrightarrow> has_status call_states i \<and> r \<noteq> []"
| "body_typed i (Resume_Body a r) \<longleftrightarrow> has_status call_states i \<and> r \<noteq> []"
| "body_typed i (Close_Body a r) \<longleftrightarrow> has_status call_states i \<and> r \<noteq> []"
| "body_typed i (Function_Output_Body c out e) \<longleftrightarrow>
     si_status i = Some (Some ''completed'') \<and> e = None \<or> si_status i = Some (Some ''failed'')"
| "body_typed i (Agent_Message_Body a r content) \<longleftrightarrow> si_status i = None \<and> list_all (\<lambda>p. \<not> input_part p) content"
| "body_typed i (Other_Body k v) \<longleftrightarrow> False"

definition item_typed :: "string \<Rightarrow> session_item \<Rightarrow> bool" where
  "item_typed turnId i \<longleftrightarrow> si_id i \<noteq> None \<and> si_turn_id i = turnId \<and> body_typed i (si_body i)"

definition items_typed :: "string \<Rightarrow> session_item list \<Rightarrow> bool" where
  "items_typed turnId items \<longleftrightarrow> (\<forall>i \<in> set items. item_typed turnId i) \<and> distinct (map si_id items)"

section \<open>The map of items\<close>

definition map_typed :: "string \<Rightarrow> item_map \<Rightarrow> bool" where
  "map_typed turnId m \<longleftrightarrow> (\<forall>(k, i) \<in> set m. si_id i = Some k \<and> item_typed turnId i) \<and> distinct (map fst m)"

lemma in_update: "(k', v') \<in> set (AList.update k v m) \<Longrightarrow> (k', v') = (k, v) \<or> (k', v') \<in> set m"
  by (induction m) (auto split: if_splits)

lemma map_typed_Nil [typing_intros]: "map_typed turnId []"
  by (simp add: map_typed_def)

lemma map_typed_update [typing_intros]:
  "map_typed turnId m \<Longrightarrow> si_id i = Some k \<Longrightarrow> item_typed turnId i \<Longrightarrow> map_typed turnId (AList.update k i m)"
  by (auto simp: map_typed_def distinct_update dest!: in_update)

lemma map_typed_set_item [typing_intros]:
  "map_typed turnId m \<Longrightarrow> item_typed turnId i \<Longrightarrow> map_typed turnId (set_item i m)"
  by (auto simp: set_item_def item_typed_def intro: map_typed_update split: option.splits)

lemma map_typed_lookup: "map_typed turnId m \<Longrightarrow> map_of m k = Some i \<Longrightarrow> si_id i = Some k \<and> item_typed turnId i"
  by (auto simp: map_typed_def dest: map_of_SomeD)

lemma map_typed_items: "map_typed turnId m \<Longrightarrow> items_typed turnId (map snd m)"
proof -
  assume m: "map_typed turnId m"
  then have "map si_id (map snd m) = map Some (map fst m)" by (auto simp: map_typed_def)
  moreover have "distinct (map Some (map fst m))"
    unfolding distinct_map [of Some] using m by (simp add: map_typed_def inj_on_def)
  ultimately have "distinct (map si_id (map snd m))" by (simp only:)
  then show ?thesis using m by (auto simp: items_typed_def map_typed_def)
qed

lemma item_typed_make: "item_typed turnId (make_item k turnId status body) \<longleftrightarrow>
    body_typed (make_item k turnId status body) body"
  by (simp add: item_typed_def make_item_def)

lemma make_status: "has_status S (make_item k turnId status body) \<longleftrightarrow> status \<in> S"
  by (auto simp: has_status_def make_item_def)

lemma si_status_make: "si_status (make_item k turnId status body) = Some (Some status)"
  by (simp add: make_item_def)

lemma callStatus_state: "callStatus status is_done \<in> call_states"
  by (simp add: callStatus_def call_states_def)

lemma done_status_state: "done_status is_done \<in> output_states"
  by (simp add: done_status_def output_states_def)

lemma output_states_simps: "''in_progress'' \<in> output_states" "''completed'' \<in> output_states"
  by (simp_all add: output_states_def)

lemmas typed_item_simps = item_typed_make make_status si_status_make callStatus_state done_status_state
  output_states_simps

lemma initial_items_typed [typing_intros]:
  assumes "items_typed turnId initial"
  shows "map_typed turnId (initial_items initial)"
proof -
  have "map_typed turnId (fold (\<lambda>i m. case si_id i of None \<Rightarrow> m | Some k \<Rightarrow> AList.update k i m) is m)"
    if "\<forall>i \<in> set is. item_typed turnId i" "map_typed turnId m" for "is" m
    using that by (induction "is" arbitrary: m) (auto intro: map_typed_update split: option.splits)
  then show ?thesis using assms by (simp add: initial_items_def items_typed_def map_typed_Nil)
qed

lemma map_typed_if [typing_intros]:
  "(b \<Longrightarrow> map_typed t x) \<Longrightarrow> (\<not> b \<Longrightarrow> map_typed t y) \<Longrightarrow> map_typed t (if b then x else y)"
  by simp

lemma map_typed_string [typing_intros]:
  "(\<And>s. v = JStr s \<Longrightarrow> map_typed t (f s)) \<Longrightarrow> map_typed t m \<Longrightarrow>
    map_typed t (case v of JStr s \<Rightarrow> f s | _ \<Rightarrow> m)"
  by (cases v) simp_all

section \<open>One event\<close>

lemma reasoning_delta_typed [typing_intros]:
  "map_typed turnId m \<Longrightarrow> map_typed turnId (reasoning_delta turnId itemId index delta m)"
  by (auto simp: reasoning_delta_def typed_item_simps Let_def intro!: map_typed_set_item split: option.splits)

lemma command_delta_typed [typing_intros]:
  "map_typed turnId m \<Longrightarrow> map_typed turnId (command_delta itemId delta m)"
  using map_typed_lookup [of turnId m itemId]
  by (auto simp: command_delta_def item_typed_def has_status_def intro!: map_typed_update
      split: option.splits item_body.splits)

lemma message_phase_typed:
  "map_typed turnId m \<Longrightarrow> message_phase (map_of m k) \<in> {None, Some ''commentary'', Some ''final_answer''}"
  by (auto simp: message_phase_def item_typed_def dest!: map_typed_lookup split: option.splits item_body.splits)

lemma message_delta_typed [typing_intros]:
  "map_typed turnId m \<Longrightarrow> map_typed turnId (message_delta turnId itemId delta m)"
  using message_phase_typed [of turnId m itemId]
  by (auto simp: message_delta_def typed_item_simps Let_def intro!: map_typed_set_item)

lemma agent_message_parts_typed: "list_all (\<lambda>p. \<not> input_part p) (agent_message_parts ps)"
  by (induction ps) (auto simp: agent_message_parts_def split: jsval.splits)

lemma user_parts_typed: "list_all input_part (user_parts ps)"
  by (induction ps) (auto simp: user_parts_def split: jsval.splits)

lemma agent_message_item_typed [typing_intros]:
  "map_typed turnId m \<Longrightarrow> map_typed turnId (agent_message_item turnId agentIds item m)"
  by (auto simp: agent_message_item_def item_typed_def agent_message_parts_typed
      intro!: map_typed_set_item split: jsval.splits)

lemma coordination_item_typed [typing_intros]:
  "map_typed turnId m \<Longrightarrow> map_typed turnId (coordination_item turnId id0 is_done agentIds item m)"
  unfolding coordination_item_def Let_def
  by (auto simp: typed_item_simps intro!: map_typed_set_item split: list.splits)

lemma dynamic_tool_item_typed [typing_intros]:
  "map_typed turnId m \<Longrightarrow> map_typed turnId (dynamic_tool_item turnId id0 is_done tool item m)"
  by (auto simp: dynamic_tool_item_def typed_item_simps Let_def intro!: map_typed_set_item
      split: jsval.splits option.splits)

lemma command_item_typed [typing_intros]:
  "map_typed turnId m \<Longrightarrow> map_typed turnId (command_item turnId id0 is_done cmd item m)"
  by (auto simp: command_item_def typed_item_simps Let_def intro!: map_typed_set_item)

lemma message_item_typed [typing_intros]:
  "map_typed turnId m \<Longrightarrow> map_typed turnId (message_item turnId id0 is_done body item m)"
  by (auto simp: message_item_def typed_item_simps Let_def intro!: map_typed_set_item split: jsval.splits)

lemma native_item_typed [typing_intros]:
  "map_typed turnId m \<Longrightarrow> map_typed turnId (native_item turnId includeUser agentIds is_done item m)"
  unfolding native_item_def Let_def prod.case
  by (intro typing_intros; assumption?) (simp_all add: typed_item_simps user_parts_typed)

lemma project_item_typed [typing_intros]:
  "map_typed turnId m \<Longrightarrow> map_typed turnId (project_item turnId includeUser agentIds event m)"
  by (auto simp: project_item_def Let_def intro: typing_intros split: option.splits)

lemma project_event_typed [typing_intros]:
  "map_typed turnId m \<Longrightarrow> map_typed turnId (project_event turnId includeUser agentIds v m)"
  by (auto simp: project_event_def Let_def intro: typing_intros split: option.splits)

lemma projectSessionItems_typed:
  assumes "items_typed turnId initial"
  shows "items_typed turnId (projectSessionItems turnId events fallback initial includeUser agentIds)"
proof -
  have "map_typed turnId (fold (project_event turnId includeUser agentIds) events (initial_items initial))"
    (is "map_typed turnId ?m")
    using initial_items_typed [OF assms]
    by (induction events arbitrary: initial rule: rev_induct) (auto intro: project_event_typed)
  then have "items_typed turnId (map snd ?m)" by (rule map_typed_items)
  moreover have "items_typed turnId [make_item (turnId @ ''_output'') turnId ''completed''
      (Message_Body ''assistant'' [Output_Text t] (Some ''final_answer''))]" for t
    by (simp add: items_typed_def typed_item_simps)
  ultimately show ?thesis
    by (auto simp: projectSessionItems_def Let_def items_typed_def split: option.splits)
qed

lemma incompleteItems_typed [typing_intros]:
  assumes "items_typed turnId items"
  shows "items_typed turnId (incompleteItems items)"
proof -
  have "map si_id (incompleteItems items) = map si_id items" by (simp add: incompleteItems_def)
  moreover have "item_typed turnId (i\<lparr>si_status := Some (Some ''incomplete'')\<rparr>)"
    if "item_typed turnId i" "item_in_progress i" for i
    using that by (cases "si_body i")
      (auto simp: item_typed_def has_status_def item_in_progress_def output_states_def call_states_def)
  then have "\<forall>i \<in> set (incompleteItems items). item_typed turnId i"
    using assms by (auto simp: items_typed_def incompleteItems_def)
  ultimately show ?thesis using assms by (simp add: items_typed_def)
qed

lemma rename_items_typed:
  assumes "items_typed turnId items"
  shows "items_typed new (map (\<lambda>i. i\<lparr>si_turn_id := new\<rparr>) items)"
proof -
  have "item_typed new (i\<lparr>si_turn_id := new\<rparr>)" if "item_typed turnId i" for i
    using that by (cases "si_body i") (auto simp: item_typed_def has_status_def)
  then show ?thesis using assms by (auto simp: items_typed_def comp_def)
qed

section \<open>The execution state\<close>

definition binding_key :: "native_binding \<Rightarrow> string \<times> string" where
  "binding_key b = (nb_threadId b, nb_nativeTurnId b)"

definition native_turn_id :: "native_binding \<Rightarrow> string" where
  "native_turn_id b = tr_id (nb_turn b)"

definition binding_ok :: "native_binding \<Rightarrow> bool" where
  "binding_ok b \<longleftrightarrow> items_typed (native_turn_id b) (nb_items b) \<and>
     (terminalTurn (nb_turn b) \<longrightarrow> tr_completed_at (nb_turn b) \<noteq> None) \<and>
     distinct (map tp_id (nb_traceSteps b)) \<and>
     (case nb_usageResponseIds b of None \<Rightarrow> True | Some ids \<Rightarrow> distinct ids)"

fun action_key :: "required_action \<Rightarrow> (string \<times> string) option" where
  "action_key (Function_Action t c n a) = Some (t, c)"
| "action_key (Environment_Action e) = None"

definition actions_ok :: "string set \<Rightarrow> required_action list \<Rightarrow> bool" where
  "actions_ok turnIds actions \<longleftrightarrow> (\<forall>a \<in> set actions. \<exists>t c. action_key a = Some (t, c) \<and> t \<in> turnIds) \<and>
     distinct (map action_key actions)"

text \<open>
  Bindings and subagents have different identities, every binding is of a thread of the Session, its
  items have the public types, an ended Turn says when, a trace step and a counted response occur
  once, and an action that is required belongs to a Turn and to one call of it.
\<close>

definition runtime_ok :: "runtime_state \<Rightarrow> bool" where
  "runtime_ok s \<longleftrightarrow> distinct (map binding_key (ru_turns s)) \<and> distinct (map sg_id (ru_subagents s)) \<and>
     ru_rootThreadId s \<notin> sg_id ` set (ru_subagents s) \<and>
     (\<forall>b \<in> set (ru_turns s). known_thread s (nb_threadId b) \<and> binding_ok b) \<and>
     actions_ok (native_turn_id ` set (ru_turns s)) (ru_requiredActions s)"

lemma runtime_okD:
  assumes "runtime_ok s"
  shows "distinct (map binding_key (ru_turns s))" "distinct (map sg_id (ru_subagents s))"
    "ru_rootThreadId s \<notin> sg_id ` set (ru_subagents s)"
    "b \<in> set (ru_turns s) \<Longrightarrow> known_thread s (nb_threadId b)" "b \<in> set (ru_turns s) \<Longrightarrow> binding_ok b"
    "actions_ok (native_turn_id ` set (ru_turns s)) (ru_requiredActions s)"
  using assms by (auto simp: runtime_ok_def)

lemma actions_ok_filter: "actions_ok T actions \<Longrightarrow> actions_ok T (filter P actions)"
  by (auto simp: actions_ok_def distinct_map_filter)

lemma actions_ok_mono: "actions_ok T actions \<Longrightarrow> T \<subseteq> T' \<Longrightarrow> actions_ok T' actions"
  by (fastforce simp: actions_ok_def)

lemma action_is_key: "action_is t c a \<longleftrightarrow> action_key a = Some (t, c)"
  by (cases a) auto

lemma known_thread_eq: "known_thread s t \<longleftrightarrow> t = ru_rootThreadId s \<or> t \<in> sg_id ` set (ru_subagents s)"
  by (auto simp: known_thread_def)

text \<open>A step on one binding keeps what identifies it.\<close>

definition same_binding :: "native_binding \<Rightarrow> native_binding \<Rightarrow> bool" where
  "same_binding b b' \<longleftrightarrow> nb_threadId b' = nb_threadId b \<and> nb_nativeTurnId b' = nb_nativeTurnId b \<and>
     tr_id (nb_turn b') = tr_id (nb_turn b)"

lemma same_bindingD: "same_binding b b' \<Longrightarrow> binding_key b' = binding_key b"
  "same_binding b b' \<Longrightarrow> native_turn_id b' = native_turn_id b" "same_binding b b' \<Longrightarrow> nb_threadId b' = nb_threadId b"
  by (simp_all add: same_binding_def binding_key_def native_turn_id_def)

lemma map_runtime_ok:
  assumes "runtime_ok s" "\<And>b. b \<in> set (ru_turns s) \<Longrightarrow> same_binding b (f b) \<and> binding_ok (f b)"
    "ru_turns s' = map f (ru_turns s)" "map sg_id (ru_subagents s') = map sg_id (ru_subagents s)"
    "ru_rootThreadId s' = ru_rootThreadId s"
    "actions_ok (native_turn_id ` set (ru_turns s)) (ru_requiredActions s')"
  shows "runtime_ok s'"
proof -
  note ok = runtime_okD [OF assms(1)]
  have keys: "map (binding_key \<circ> f) (ru_turns s) = map binding_key (ru_turns s)"
    using assms(2) by (auto dest: same_bindingD)
  have ids: "native_turn_id ` f ` set (ru_turns s) = native_turn_id ` set (ru_turns s)"
    using assms(2) by (force simp: image_image dest: same_bindingD)
  have names: "sg_id ` set (ru_subagents s') = sg_id ` set (ru_subagents s)" using assms(4) by (metis set_map)
  have "known_thread s (nb_threadId (f b)) \<and> binding_ok (f b)" if "b \<in> set (ru_turns s)" for b
    using assms(2) [OF that] ok(4) [OF that] by (auto dest: same_bindingD)
  moreover have "distinct (map binding_key (ru_turns s'))" using ok(1) keys assms(3) by (metis map_map)
  moreover have "distinct (map sg_id (ru_subagents s'))" using ok(2) assms(4) by simp
  ultimately show ?thesis
    using ok(3) assms(3,5,6) ids names by (simp add: runtime_ok_def known_thread_eq)
qed

section \<open>Operations on the whole state\<close>

lemma initial_runtime_ok: "runtime_ok (initialSessionRuntime sessionId agentId rootThreadId)"
  by (simp add: initialSessionRuntime_def runtime_ok_def actions_ok_def)

lemma close_subagent_id [simp]: "sg_id (close_subagent t a) = sg_id a"
  by (simp add: close_subagent_def)

lemma stopped_runtime_ok: "runtime_ok s \<Longrightarrow> runtime_ok (stoppedSessionRuntime s now_s)"
proof -
  assume ok: "runtime_ok s"
  have step: "same_binding b (stopped_binding now_s b) \<and> binding_ok (stopped_binding now_s b)"
    if "b \<in> set (ru_turns s)" for b
    using runtime_okD(5) [OF ok that]
    by (auto simp: stopped_binding_def same_binding_def binding_ok_def native_turn_id_def
        intro: incompleteItems_typed)
  show ?thesis
    by (rule map_runtime_ok [OF ok step]) (simp_all add: stoppedSessionRuntime_def actions_ok_def comp_def)
qed

lemma resolved_runtime_ok: "runtime_ok s \<Longrightarrow> runtime_ok (resolveSessionFunction s turnId callId result)"
proof -
  assume ok: "runtime_ok s"
  let ?actions = "filter (\<lambda>a. \<not> action_is turnId callId a) (ru_requiredActions s)"
  let ?f = "\<lambda>b. resolved_binding turnId ?actions (if tr_id (nb_turn b) = turnId then resolve_trace callId result b else b)"
  have step: "same_binding b (?f b) \<and> binding_ok (?f b)" if "b \<in> set (ru_turns s)" for b
  proof -
    have ids: "tp_id (if c then st\<lparr>tp_completedAt := x, tp_failed := y\<rparr> else st) = tp_id st" for c st x y
      by simp
    then have trace: "binding_ok (resolve_trace callId result b)"
      using runtime_okD(5) [OF ok that]
      by (auto simp: resolve_trace_def binding_ok_def native_turn_id_def comp_def ids simp del: if_split split: option.splits prod.splits)
    have "binding_ok (resolved_binding turnId ?actions c)" if "binding_ok c" for c
      using that by (auto simp: resolved_binding_def binding_ok_def native_turn_id_def terminalTurn_def)
    with trace runtime_okD(5) [OF ok that] have "binding_ok (?f b)" by simp
    moreover have "same_binding b (?f b)"
      by (auto simp: same_binding_def resolved_binding_def resolve_trace_def split: option.splits)
    ultimately show ?thesis by simp
  qed
  show ?thesis
    by (rule map_runtime_ok [OF ok step])
      (simp_all add: resolveSessionFunction_def Let_def actions_ok_filter [OF runtime_okD(6) [OF ok]])
qed

lemma closed_runtime_ok: "runtime_ok s \<Longrightarrow> runtime_ok (thread_closed s threadId at_s)"
proof -
  assume ok: "runtime_ok s"
  let ?f = "\<lambda>b. if nb_threadId b = threadId \<and> \<not> terminalTurn (nb_turn b) then cancelled_binding at_s b else b"
  have step: "same_binding b (?f b) \<and> binding_ok (?f b)" if "b \<in> set (ru_turns s)" for b
    using runtime_okD(5) [OF ok that]
    by (auto simp: cancelled_binding_def same_binding_def binding_ok_def native_turn_id_def intro: incompleteItems_typed)
  have id_if: "sg_id (if c then close_subagent at_s a else a) = sg_id a" for c a by simp
  show ?thesis
    by (rule map_runtime_ok [OF ok step])
      (simp_all add: thread_closed_def comp_def id_if actions_ok_filter [OF runtime_okD(6) [OF ok]] del: if_split)
qed

lemma started_runtime_ok: "runtime_ok s \<Longrightarrow> runtime_ok (thread_started s thread id0 at_s)"
proof -
  assume ok: "runtime_ok s"
  note ok = runtime_okD [OF ok]
  have upd: "runtime_ok (s\<lparr>ru_subagents := as\<rparr>)"
    if "distinct (map sg_id as)" "ru_rootThreadId s \<notin> sg_id ` set as" "sg_id ` set (ru_subagents s) \<subseteq> sg_id ` set as" for as
    using that ok(1,4,5,6) by (simp add: runtime_ok_def known_thread_eq) blast
  show ?thesis
  proof (cases "thread_parent thread")
    case (Some parentId)
    let ?previous = "find (\<lambda>a. sg_id a = id0) (ru_subagents s)"
    let ?a = "started_subagent s thread id0 parentId at_s ?previous"
    have id_a: "sg_id ?a = id0" by (simp add: started_subagent_def)
    show ?thesis
    proof (cases "id0 = ru_rootThreadId s \<or> parentId = [] \<or> \<not> known_thread s parentId")
      case True
      then show ?thesis using Some \<open>runtime_ok s\<close> by (simp add: thread_started_def)
    next
      case False
      have ids: "map (sg_id \<circ> (\<lambda>b. if sg_id b = id0 then ?a else b)) (ru_subagents s) = map sg_id (ru_subagents s)"
        using id_a by simp
      show ?thesis
      proof (cases "?previous = None")
        case True
        then have "id0 \<notin> sg_id ` set (ru_subagents s)" by (auto simp: find_None_iff)
        then have "runtime_ok (s\<lparr>ru_subagents := ru_subagents s @ [?a]\<rparr>)"
          using ok(2,3) False id_a by (intro upd) auto
        then show ?thesis using Some False True by (simp add: thread_started_def Let_def)
      next
        case prev: False
        have set_ids: "sg_id ` set (map (\<lambda>b. if sg_id b = id0 then ?a else b) (ru_subagents s)) = sg_id ` set (ru_subagents s)"
          using ids by (metis map_map set_map)
        have "runtime_ok (s\<lparr>ru_subagents := map (\<lambda>b. if sg_id b = id0 then ?a else b) (ru_subagents s)\<rparr>)"
          by (rule upd) (use ok(2,3) ids in \<open>simp_all only: map_map set_ids order_refl not_False_eq_True\<close>)
        then show ?thesis using Some False prev by (auto simp: thread_started_def Let_def)
      qed
    qed
  qed (use \<open>runtime_ok s\<close> in \<open>simp add: thread_started_def\<close>)
qed

section \<open>Binding a Turn\<close>

lemma first_index_Some: "first_index P xs = Some n \<Longrightarrow> n < length xs \<and> P (xs ! n)"
  by (auto simp: first_index_def Let_def dest: nth_length_takeWhile split: if_splits)

lemma first_index_None: "first_index P xs = None \<Longrightarrow> x \<in> set xs \<Longrightarrow> \<not> P x"
proof -
  assume "first_index P xs = None" "x \<in> set xs"
  then have "length (takeWhile (\<lambda>x. \<not> P x) xs) = length xs"
    using length_takeWhile_le [of "\<lambda>x. \<not> P x" xs] by (auto simp: first_index_def Let_def split: if_splits)
  then have "takeWhile (\<lambda>x. \<not> P x) xs = xs" by (metis append_eq_conv_conj takeWhile_eq_take take_all order_refl)
  with \<open>x \<in> set xs\<close> show "\<not> P x" by (metis set_takeWhileD)
qed

definition renamed_key :: "string \<Rightarrow> string \<Rightarrow> (string \<times> string) option \<Rightarrow> (string \<times> string) option" where
  "renamed_key old new k = map_option (\<lambda>(t, c). (if t = old then new else t, c)) k"

lemma action_key_rename: "action_key (rename_action old new a) = renamed_key old new (action_key a)"
  by (cases a) (auto simp: renamed_key_def)

lemma actions_ok_key:
  assumes "actions_ok T actions" "k \<in> set (map action_key actions)"
  obtains u c where "k = Some (u, c)" "u \<in> T"
  using assms by (auto simp: actions_ok_def)

lemma actions_ok_rename:
  assumes "actions_ok T actions" "new \<notin> T" "\<And>t. t \<in> T \<Longrightarrow> t \<noteq> old \<Longrightarrow> t \<in> T'" "new \<in> T'"
  shows "actions_ok T' (map (rename_action old new) actions)"
proof -
  have keys: "map action_key (map (rename_action old new) actions) = map (renamed_key old new) (map action_key actions)"
    by (simp add: action_key_rename)
  have "inj_on (renamed_key old new) (set (map action_key actions))"
  proof (rule inj_onI)
    fix j k assume "j \<in> set (map action_key actions)" "k \<in> set (map action_key actions)"
    then obtain u c v d where jk: "j = Some (u, c)" "u \<in> T" "k = Some (v, d)" "v \<in> T"
      by (metis actions_ok_key [OF assms(1)])
    moreover assume "renamed_key old new j = renamed_key old new k"
    ultimately show "j = k" using assms(2) by (auto simp: renamed_key_def split: if_splits)
  qed
  moreover have "distinct (map action_key actions)" using assms(1) by (simp add: actions_ok_def)
  ultimately have "distinct (map action_key (map (rename_action old new) actions))"
    unfolding keys distinct_map [of "renamed_key old new"] by blast
  moreover have "\<forall>a \<in> set (map (rename_action old new) actions). \<exists>t c. action_key a = Some (t, c) \<and> t \<in> T'"
    using assms by (fastforce simp: actions_ok_def action_key_rename renamed_key_def)
  ultimately show ?thesis by (simp add: actions_ok_def)
qed

lemma bound_binding_ok: "binding_ok p \<Longrightarrow> binding_ok (bound_binding p t)"
  by (auto simp: binding_ok_def bound_binding_def native_turn_id_def terminalTurn_def intro: rename_items_typed)

lemma bind_runtime_ok:
  assumes "runtime_ok s" "bindSessionTurn s nativeTurnId t = Inr s'"
    "terminalTurn t \<longrightarrow> tr_completed_at t \<noteq> None"
  shows "runtime_ok s'"
proof (cases "find (\<lambda>b. tr_id (nb_turn b) = tr_id t) (ru_turns s)")
  case (Some b)
  then show ?thesis using assms(1,2) by (auto simp: bindSessionTurn_def split: if_splits)
next
  case none: None
  note ok = runtime_okD [OF assms(1)]
  let ?P = "\<lambda>b. nb_threadId b = ru_rootThreadId s \<and> nb_nativeTurnId b = nativeTurnId"
  have new: "tr_id t \<notin> native_turn_id ` set (ru_turns s)" using none by (auto simp: find_None_iff native_turn_id_def)
  show ?thesis
  proof (cases "first_index ?P (ru_turns s)")
    case None
    then have s': "s' = s\<lparr>ru_turns := ru_turns s @ [fresh_binding s nativeTurnId t]\<rparr>"
      using assms(2) none by (simp add: bindSessionTurn_def)
    have "binding_key (fresh_binding s nativeTurnId t) \<notin> binding_key ` set (ru_turns s)"
      using first_index_None [OF None] by (fastforce simp: binding_key_def fresh_binding_def)
    moreover have "binding_ok (fresh_binding s nativeTurnId t)"
      using assms(3) by (simp add: binding_ok_def fresh_binding_def items_typed_def)
    moreover have "known_thread s (nb_threadId (fresh_binding s nativeTurnId t))"
      by (simp add: known_thread_def fresh_binding_def)
    ultimately show ?thesis
      using ok unfolding s' by (auto simp: runtime_ok_def known_thread_def intro: actions_ok_mono)
  next
    case (Some n)
    let ?p = "ru_turns s ! n" and ?old = "tr_id (nb_turn (ru_turns s ! n))"
    let ?g = "\<lambda>b. if nb_traceParentTurnId b = Some ?old then b\<lparr>nb_traceParentTurnId := Some (tr_id t)\<rparr> else b"
    let ?turns = "(map ?g (ru_turns s))[n := bound_binding ?p t]"
    have s': "s' = s\<lparr>ru_turns := ?turns, ru_requiredActions := map (rename_action ?old (tr_id t)) (ru_requiredActions s)\<rparr>"
      using assms(2) none Some by (simp add: bindSessionTurn_def Let_def)
    from first_index_Some [OF Some] have n: "n < length (ru_turns s)" by simp
    have g: "same_binding b (?g b)" "binding_ok b \<Longrightarrow> binding_ok (?g b)" for b
      by (auto simp: same_binding_def binding_ok_def native_turn_id_def)
    have key_p: "binding_key (bound_binding ?p t) = binding_key ?p" by (simp add: binding_key_def bound_binding_def)
    have keys_g: "map binding_key (map ?g (ru_turns s)) = map binding_key (ru_turns s)"
      by (simp add: same_bindingD(1) [OF g(1)])
    have "map binding_key ?turns = (map binding_key (map ?g (ru_turns s)))[n := binding_key (bound_binding ?p t)]"
      by (rule map_update)
    also have "\<dots> = (map binding_key (ru_turns s))[n := map binding_key (ru_turns s) ! n]"
      using n by (simp only: keys_g key_p nth_map)
    finally have keys: "map binding_key ?turns = map binding_key (ru_turns s)" by (simp only: list_update_id)
    have elem: "b = bound_binding ?p t \<or> (\<exists>c \<in> set (ru_turns s). b = ?g c)" if "b \<in> set ?turns" for b
      using that set_update_subset_insert [of "map ?g (ru_turns s)" n "bound_binding ?p t"] by auto
    have "known_thread s (nb_threadId b) \<and> binding_ok b" if "b \<in> set ?turns" for b
      using elem [OF that]
    proof
      assume "b = bound_binding ?p t"
      then show ?thesis
        using ok(4,5) [OF nth_mem [OF n]] bound_binding_ok by (simp add: bound_binding_def)
    next
      assume "\<exists>c \<in> set (ru_turns s). b = ?g c"
      then obtain c where c: "c \<in> set (ru_turns s)" "b = ?g c" by blast
      then show ?thesis using ok(4,5) [OF c(1)] g(2) [of c] same_bindingD(3) [OF g(1), of c] by simp
    qed
    moreover have "actions_ok (native_turn_id ` set ?turns) (map (rename_action ?old (tr_id t)) (ru_requiredActions s))"
    proof (rule actions_ok_rename [OF ok(6) new])
      show "tr_id t \<in> native_turn_id ` set ?turns"
        using n by (intro image_eqI [of _ _ "bound_binding ?p t"] set_update_memI)
          (simp_all add: native_turn_id_def bound_binding_def)
      fix u assume "u \<in> native_turn_id ` set (ru_turns s)" "u \<noteq> ?old"
      then obtain m where m: "m < length (ru_turns s)" "u = native_turn_id (ru_turns s ! m)"
        by (metis imageE in_set_conv_nth)
      with \<open>u \<noteq> ?old\<close> have "m \<noteq> n" by (auto simp: native_turn_id_def)
      with m(1) have "?turns ! m = ?g (ru_turns s ! m)" by simp
      then have "u = native_turn_id (?turns ! m)" using m(2) same_bindingD(2) [OF g(1), of "ru_turns s ! m"] by simp
      moreover have "?turns ! m \<in> set ?turns" using m(1) by (intro nth_mem) simp
      ultimately show "u \<in> native_turn_id ` set ?turns" by (rule image_eqI)
    qed
    ultimately show ?thesis
      using ok(1-3) unfolding s' runtime_ok_def by (simp add: keys known_thread_def)
  qed
qed

section \<open>One event\<close>

text \<open>The part of an invariant a step on one binding keeps.\<close>

definition keeps_binding :: "native_binding \<Rightarrow> native_binding \<Rightarrow> bool" where
  "keeps_binding b b' \<longleftrightarrow> same_binding b b' \<and> (binding_ok b \<longrightarrow> binding_ok b')"

lemma keeps_refl [simp]: "keeps_binding b b"
  by (simp add: keeps_binding_def same_binding_def)

lemma keeps_trans: "keeps_binding a b \<Longrightarrow> keeps_binding b c \<Longrightarrow> keeps_binding a c"
  by (auto simp: keeps_binding_def same_binding_def)

lemma put_step_distinct: "distinct (map tp_id steps) \<Longrightarrow> distinct (map tp_id (put_step step steps))"
proof -
  assume steps: "distinct (map tp_id steps)"
  have "(\<lambda>s. tp_id (if tp_id s = tp_id step then step else s)) = tp_id" by auto
  then have "map tp_id (map (\<lambda>s. if tp_id s = tp_id step then step else s) steps) = map tp_id steps"
    by (simp add: comp_def)
  moreover have "tp_id step \<notin> tp_id ` set steps" if "find (\<lambda>s. tp_id s = tp_id step) steps = None"
    using that by (auto simp: find_None_iff)
  ultimately show ?thesis using steps by (simp add: put_step_def del: map_map)
qed

lemma recordTraceStep_distinct: "distinct (map tp_id steps) \<Longrightarrow> distinct (map tp_id (recordTraceStep steps e))"
  unfolding recordTraceStep_def Let_def by (auto intro: put_step_distinct split: jsval.split)

lemma record_step_keeps: "keeps_binding b (b\<lparr>nb_traceSteps := recordTraceStep (nb_traceSteps b) e\<rparr>)"
  by (auto simp: keeps_binding_def same_binding_def binding_ok_def native_turn_id_def recordTraceStep_distinct)

lemma error_step_keeps:
  "error_step e b actions = Some (b', actions') \<Longrightarrow> keeps_binding b b' \<and> (\<exists>P. actions' = filter P actions)"
  by (auto simp: error_step_def keeps_binding_def same_binding_def binding_ok_def native_turn_id_def drop_actions_def
      split: if_splits intro: exI [of _ "\<lambda>a. True"])

lemma keeps_turn:
  "tr_id t = tr_id (nb_turn b) \<Longrightarrow> (terminalTurn t \<Longrightarrow> tr_completed_at t \<noteq> None) \<Longrightarrow>
    keeps_binding b (b\<lparr>nb_turn := t\<rparr>)"
  by (auto simp: keeps_binding_def same_binding_def binding_ok_def native_turn_id_def)

lemma turn_step_keeps:
  assumes "turn_step e b actions = (b', actions')"
  shows "keeps_binding b b' \<and> (\<exists>P. actions' = filter P actions)"
proof (cases "ev_method e \<in> {''turn/started'', ''turn/completed''}")
  case False
  then show ?thesis using assms by (auto simp: turn_step_def intro: exI [of _ "\<lambda>a. True"])
next
  case True
  have end_of: "or_else x (Some y) \<noteq> None" for x and y :: rat by (simp add: or_else_def split: option.split)
  have "\<exists>P. actions' = filter P actions"
    using assms True by (auto simp: turn_step_def Let_def drop_actions_def intro: exI [of _ "\<lambda>a. True"])
  moreover from assms True obtain t where b': "b' = b\<lparr>nb_turn := t\<rparr>" and t: "tr_id t = tr_id (nb_turn b)"
    "tr_status t = reported_status e (field_at (get_prop (ev_params e) ''turn'') ''status'')"
    "ev_method e = ''turn/completed'' \<Longrightarrow> tr_completed_at t \<noteq> None"
    unfolding turn_step_def Let_def by (fastforce simp: end_of)
  have "keeps_binding b b'"
    unfolding b' by (rule keeps_turn [OF t(1)]) (use t(2,3) True in \<open>auto simp: terminalTurn_def reported_status_def\<close>)
  ultimately show ?thesis by blast
qed

lemma response_step_keeps: "response_step e b = Some b' \<Longrightarrow> keeps_binding b b'"
  by (auto simp: response_step_def keeps_binding_def same_binding_def binding_ok_def native_turn_id_def
      terminalTurn_def split: jsval.splits if_splits option.splits)

lemma usage_step_keeps: "usage_step e threadId b usages = (b', usages') \<Longrightarrow> keeps_binding b b'"
  by (auto simp: usage_step_def keeps_binding_def same_binding_def binding_ok_def native_turn_id_def
      terminalTurn_def Let_def split: if_splits option.splits)

lemma items_step_keeps: "keeps_binding b (items_step e threadId nativeTurnId includeUser names b)"
  by (auto simp: items_step_def keeps_binding_def same_binding_def binding_ok_def native_turn_id_def Let_def
      intro!: incompleteItems_typed projectSessionItems_typed)

lemma tool_call_step_keeps:
  assumes "tool_call_step e b actions = (b', actions')"
  shows "keeps_binding b b'" "actions_ok T actions \<Longrightarrow> native_turn_id b \<in> T \<Longrightarrow> actions_ok T actions'"
proof -
  show "keeps_binding b b'"
    using assms by (auto simp: tool_call_step_def keeps_binding_def same_binding_def binding_ok_def native_turn_id_def
        terminalTurn_def split: jsval.splits if_splits)
  show "actions_ok T actions \<Longrightarrow> native_turn_id b \<in> T \<Longrightarrow> actions_ok T actions'"
    using assms by (auto simp: tool_call_step_def actions_ok_def native_turn_id_def list_ex_iff action_is_key
        split: jsval.splits if_splits) blast
qed

lemma reduce_binding_keeps:
  assumes "reduce_binding s e threadId nativeTurnId b = Some (b', actions', usages)"
  shows "keeps_binding b b'"
    "actions_ok T (ru_requiredActions s) \<Longrightarrow> native_turn_id b \<in> T \<Longrightarrow> actions_ok T actions'"
proof -
  let ?b1 = "b\<lparr>nb_traceSteps := recordTraceStep (nb_traceSteps b) e\<rparr>"
  from assms obtain b2 a2 b3 a3 b4 b5 where steps:
    "error_step e ?b1 (ru_requiredActions s) = Some (b2, a2)" "turn_step e b2 a2 = (b3, a3)"
    "response_step e b3 = Some b4" "usage_step e threadId b4 (ru_threadUsage s) = (b5, usages)"
    "tool_call_step e (items_step e threadId nativeTurnId (threadId \<noteq> ru_rootThreadId s) (agent_names s) b5) a3 = (b', actions')"
    by (auto simp: reduce_binding_def Let_def split: option.splits prod.splits)
  note k = record_step_keeps [of b e] error_step_keeps [OF steps(1)] turn_step_keeps [OF steps(2)]
    response_step_keeps [OF steps(3)] usage_step_keeps [OF steps(4)]
    items_step_keeps [of b5 e threadId nativeTurnId "threadId \<noteq> ru_rootThreadId s" "agent_names s"]
    tool_call_step_keeps [OF steps(5)]
  show "keeps_binding b b'" using k by (meson keeps_trans)
  assume T: "actions_ok T (ru_requiredActions s)" "native_turn_id b \<in> T"
  have "actions_ok T a3" using k(2,3) actions_ok_filter T(1) by metis
  moreover have "keeps_binding b (items_step e threadId nativeTurnId (threadId \<noteq> ru_rootThreadId s) (agent_names s) b5)"
    using k by (meson keeps_trans)
  then have "native_turn_id (items_step e threadId nativeTurnId (threadId \<noteq> ru_rootThreadId s) (agent_names s) b5) \<in> T"
    using T(2) same_bindingD(2) by (metis keeps_binding_def)
  ultimately show "actions_ok T actions'" by (rule k(8))
qed

lemma newTurn_ok: "binding_ok (newTurn s threadId nativeTurnId at_s)"
  by (simp add: newTurn_def Let_def binding_ok_def items_typed_def terminalTurn_def)

lemma newTurn_key: "binding_key (newTurn s threadId nativeTurnId at_s) = (threadId, nativeTurnId)"
  by (simp add: newTurn_def Let_def binding_key_def)

lemma reduce_turn_ok:
  assumes "runtime_ok s" "known_thread s threadId"
  shows "runtime_ok (reduce_turn s e threadId nativeTurnId)"
proof -
  note ok = runtime_okD [OF assms(1)]
  let ?previous = "first_index (binding_is threadId nativeTurnId) (ru_turns s)"
  let ?b0 = "case ?previous of Some n \<Rightarrow> ru_turns s ! n | None \<Rightarrow> newTurn s threadId nativeTurnId (ev_observedAt e)"
  show ?thesis
  proof (cases "reduce_turn s e threadId nativeTurnId = s")
    case False
    then obtain b actions usages where run: "reduce_binding s e threadId nativeTurnId ?b0 = Some (b, actions, usages)"
      and s': "reduce_turn s e threadId nativeTurnId = s\<lparr>ru_threadUsage := usages, ru_requiredActions := actions,
        ru_turns := (case ?previous of Some n \<Rightarrow> (ru_turns s)[n := b] | None \<Rightarrow> ru_turns s @ [b])\<rparr>"
      by (auto simp: reduce_turn_def Let_def split: if_splits option.splits prod.splits)
    note keeps = reduce_binding_keeps [OF run]
    have same: "same_binding ?b0 b" using keeps(1) by (simp add: keeps_binding_def)
    show ?thesis
    proof (cases ?previous)
      case None
      have "(threadId, nativeTurnId) \<notin> binding_key ` set (ru_turns s)"
        using first_index_None [OF None] by (fastforce simp: binding_is_def binding_key_def)
      moreover have "binding_key b = (threadId, nativeTurnId)" "nb_threadId b = threadId"
        using same None newTurn_key by (auto dest: same_bindingD simp: newTurn_def Let_def)
      moreover have "binding_ok b" using keeps(1) None newTurn_ok by (simp add: keeps_binding_def)
      moreover have "native_turn_id ?b0 \<in> insert (native_turn_id b) (native_turn_id ` set (ru_turns s))"
        using same by (auto dest: same_bindingD)
      then have "actions_ok (insert (native_turn_id b) (native_turn_id ` set (ru_turns s))) actions"
        by (rule keeps(2) [OF actions_ok_mono [OF ok(6)], rotated]) blast
      ultimately show ?thesis
        using ok(1-5) assms(2) None unfolding s' by (auto simp: runtime_ok_def known_thread_def)
    next
      case (Some n)
      from first_index_Some [OF Some] have n: "n < length (ru_turns s)" by simp
      have "map binding_key ((ru_turns s)[n := b]) = (map binding_key (ru_turns s))[n := map binding_key (ru_turns s) ! n]"
        using n same Some by (simp add: map_update same_bindingD(1))
      then have keys: "map binding_key ((ru_turns s)[n := b]) = map binding_key (ru_turns s)" by simp
      have "map native_turn_id ((ru_turns s)[n := b]) = (map native_turn_id (ru_turns s))[n := map native_turn_id (ru_turns s) ! n]"
        using n same Some by (simp add: map_update same_bindingD(2))
      then have ids: "native_turn_id ` set ((ru_turns s)[n := b]) = native_turn_id ` set (ru_turns s)"
        by (metis list_update_id set_map)
      have "binding_ok b" "known_thread s (nb_threadId b)"
        using keeps(1) Some ok(4,5) [OF nth_mem [OF n]] same by (auto simp: keeps_binding_def dest: same_bindingD)
      then have "\<forall>c \<in> set ((ru_turns s)[n := b]). known_thread s (nb_threadId c) \<and> binding_ok c"
        using ok(4,5) set_update_subset_insert [of "ru_turns s" n b] by blast
      moreover have "actions_ok (native_turn_id ` set (ru_turns s)) actions"
        by (rule keeps(2) [OF ok(6)]) (use Some n in simp)
      ultimately show ?thesis
        using ok(1-3) Some unfolding s' by (simp add: runtime_ok_def keys ids known_thread_def)
    qed
  qed (use assms(1) in simp)
qed

lemma reduce_thread_ok: "runtime_ok s \<Longrightarrow> runtime_ok (reduce_thread s e)"
  by (auto simp: reduce_thread_def event_thread_id_def intro: started_runtime_ok closed_runtime_ok reduce_turn_ok
      split: option.splits if_splits)

lemma announce_agents_ok: "runtime_ok s \<Longrightarrow> runtime_ok (announce_agents s e)"
proof -
  have fold: "runtime_ok (fold (announce item parentId at_s) ids s)" if "runtime_ok s" for item parentId at_s ids s
    using that by (induction ids arbitrary: s) (auto simp: announce_def intro: reduce_thread_ok split: option.splits)
  then show "runtime_ok s \<Longrightarrow> runtime_ok (announce_agents s e)"
    by (auto simp: announce_agents_def announce_item_def split: jsval.splits)
qed

definition coordinated :: "runtime_state \<Rightarrow> runtime_state \<Rightarrow> bool" where
  "coordinated s s' \<longleftrightarrow> (\<exists>cs ps. s' = s\<lparr>ru_coordinationCalls := cs, ru_agentPaths := ps\<rparr>)"

lemma coordinated_simps: "coordinated s s" "coordinated s (s\<lparr>ru_coordinationCalls := cs\<rparr>)"
  "coordinated s (s\<lparr>ru_coordinationCalls := cs, ru_agentPaths := ps\<rparr>)"
  unfolding coordinated_def
  by (rule exI [of _ "ru_coordinationCalls s"], rule exI [of _ "ru_agentPaths s"], simp)
    (rule exI [of _ cs], rule exI [of _ "ru_agentPaths s"], simp, blast)

lemma coordinate_item_state: "coordinated s (fst (coordinate_item parse s e item threadId turnId))"
  unfolding coordinate_item_def Let_def
  by (simp add: coordinated_simps split: option.split bool.split)

lemma planNativeCoordination_cases:
  "planNativeCoordination parse s e = (s, e) \<or>
   (\<exists>item threadId turnId. planNativeCoordination parse s e = coordinate_item parse s e item threadId turnId)"
  by (auto simp: planNativeCoordination_def split: jsval.split)

lemma coordination_state: "coordinated s (fst (planNativeCoordination parse s e))"
  using planNativeCoordination_cases [of parse s e] coordinated_simps(1) coordinate_item_state by (metis fst_conv)

lemma coordination_ok:
  assumes "runtime_ok s"
  shows "runtime_ok (fst (planNativeCoordination parse s e))"
proof -
  have "runtime_ok (s\<lparr>ru_coordinationCalls := cs, ru_agentPaths := ps\<rparr>)" for cs ps
    using assms by (simp add: runtime_ok_def known_thread_def)
  then show ?thesis using coordination_state [of s parse e] by (auto simp: coordinated_def)
qed

lemma reduce_runtime_ok: "runtime_ok s \<Longrightarrow> runtime_ok (reduceSessionRuntime parse s e)"
  by (simp add: reduceSessionRuntime_def case_prod_beta Let_def reduce_thread_ok announce_agents_ok coordination_ok)

section \<open>What a Session can reach\<close>

text \<open>The states an attached harness and the API lead to.\<close>

inductive runtime_reachable ::
  "(string \<Rightarrow> jsval option) \<Rightarrow> string \<Rightarrow> string \<Rightarrow> string \<Rightarrow> runtime_state \<Rightarrow> bool"
  for parse sessionId agentId rootThreadId where
  Reach_Initial: "runtime_reachable parse sessionId agentId rootThreadId
    (initialSessionRuntime sessionId agentId rootThreadId)"
| Reach_Event: "runtime_reachable parse sessionId agentId rootThreadId s \<Longrightarrow>
    runtime_reachable parse sessionId agentId rootThreadId (reduceSessionRuntime parse s e)"
| Reach_Bind: "runtime_reachable parse sessionId agentId rootThreadId s \<Longrightarrow>
    bindSessionTurn s nativeTurnId t = Inr s' \<Longrightarrow> (terminalTurn t \<longrightarrow> tr_completed_at t \<noteq> None) \<Longrightarrow>
    runtime_reachable parse sessionId agentId rootThreadId s'"
| Reach_Resolve: "runtime_reachable parse sessionId agentId rootThreadId s \<Longrightarrow>
    runtime_reachable parse sessionId agentId rootThreadId (resolveSessionFunction s turnId callId result)"
| Reach_Stop: "runtime_reachable parse sessionId agentId rootThreadId s \<Longrightarrow>
    runtime_reachable parse sessionId agentId rootThreadId (stoppedSessionRuntime s now_s)"

text \<open>
  C5. The execution state of a Session always has its type: whatever the harness sends and in
  whatever order Turns are bound, calls resolved and the harness stopped, bindings and subagents have
  different identities, every item has the shape the public API declares for its kind, an ended Turn
  has its end, no response is counted twice, and an action that is required is one call of a Turn that
  exists.
\<close>
theorem runtime_state_typed:
  assumes "runtime_reachable parse sessionId agentId rootThreadId s"
  shows "runtime_ok s"
  using assms
  by induction (auto intro: initial_runtime_ok reduce_runtime_ok bind_runtime_ok resolved_runtime_ok stopped_runtime_ok)

definition example_native_event :: native_event where
  "example_native_event = \<lparr>ev_method = ''item/completed'', ev_params = [(''threadId'', JStr ''root''), (''turnId'', JStr ''n1''),
     (''item'', JObj [(''id'', JStr ''i1''), (''type'', JStr ''agentMessage''), (''text'', JStr ''done'')])], ev_observedAt = 2\<rparr>"

definition example_runtime :: runtime_state where
  "example_runtime = reduceSessionRuntime (\<lambda>t. None) (initialSessionRuntime ''s'' ''agent'' ''root'') example_native_event"

theorem runtime_state_typed_witness:
  "runtime_ok (stoppedSessionRuntime example_runtime 5) \<and> map (map si_id \<circ> nb_items) (ru_turns example_runtime) = [[Some ''i1'']]"
proof
  have "runtime_reachable (\<lambda>t. None) ''s'' ''agent'' ''root'' (stoppedSessionRuntime example_runtime 5)"
    unfolding example_runtime_def by (rule Reach_Stop [OF Reach_Event [OF Reach_Initial]])
  then show "runtime_ok (stoppedSessionRuntime example_runtime 5)" by (rule runtime_state_typed)
  show "map (map si_id \<circ> nb_items) (ru_turns example_runtime) = [[Some ''i1'']]" by code_simp
qed

end
