(* ===== verification/Session_Planning.thy ===== *)
theory Session_Planning
  imports Session_Items "HOL-Library.AList" "HOL-Library.Sublist"
begin

text \<open>
  A Session's Turns, inputs and items as the service plans them (\<open>src/core/session-planning.ts\<close>).
  The service draws one Turn ID and one operation ID per event and one message ID per message before
  it plans.
\<close>

section \<open>Turns\<close>

definition cancelledStartTurn :: "turn \<Rightarrow> rat \<Rightarrow> turn" where
  "cancelledStartTurn t now_s = (if tr_status t = Turn_Queued
     then t\<lparr>tr_status := Turn_Cancelled, tr_completed_at := Some now_s\<rparr> else t)"

definition initialMessages :: "(string + input_message list) option \<Rightarrow> input_message list" where
  "initialMessages input = (case input of
       None \<Rightarrow> []
     | Some (Inl s) \<Rightarrow> [\<lparr>im_content = [Input_Text s]\<rparr>]
     | Some (Inr messages) \<Rightarrow> messages)"

definition sessionModelSettings :: "session_agent \<Rightarrow> model_settings" where
  "sessionModelSettings a = \<lparr>ms_model = sa_model a, ms_effort = sa_effort a, ms_service_tier = sa_service_tier a\<rparr>"

section \<open>Items\<close>

definition userItems :: "turn_binding \<Rightarrow> session_item list" where
  "userItems b = map (\<lambda>m. \<lparr>si_id = Some (sm_id m), si_turn_id = tr_id (tb_turn b),
     si_status = Some (Some ''completed''), si_body = Message_Body ''user'' (im_content m) None\<rparr>) (tb_input b)"

definition result_item_id :: "string \<Rightarrow> nat \<Rightarrow> string" where
  "result_item_id key n = ''fresult_'' @ key @ ''_'' @ show_nat n"

definition result_item :: "string \<Rightarrow> nat \<Rightarrow> string \<Rightarrow> tool_result \<Rightarrow> session_item" where
  "result_item key n turnId e = \<lparr>si_id = Some (result_item_id key n), si_turn_id = turnId,
     si_status = Some (Some (if te_success e then ''completed'' else ''failed'')),
     si_body = Function_Output_Body (te_call_id e) (or_nullish (te_output e)) (te_error e)\<rparr>"

definition receipt_results :: "string \<Rightarrow> receipt \<Rightarrow> session_item list" where
  "receipt_results key r = concat (map (\<lambda>(n, c). case c of
       Tool_Result_Command turnId a ord e \<Rightarrow> [result_item key n turnId e]
     | _ \<Rightarrow> []) (enumerate 0 (rc_commands r)))"

definition functionResultItems :: "session_state \<Rightarrow> session_item list" where
  "functionResultItems s = concat (map (\<lambda>(key, r). receipt_results key r) (ss_receipts s))"

definition call_key :: "string \<Rightarrow> string \<Rightarrow> string" where
  "call_key turnId callId = turnId @ '':'' @ callId"

definition item_call_key :: "session_item \<Rightarrow> string" where
  "item_call_key i = (case si_body i of
       Function_Output_Body callId output e \<Rightarrow> call_key (si_turn_id i) callId
     | _ \<Rightarrow> [])"

section \<open>Observation\<close>

definition open_action :: "string list \<Rightarrow> required_action \<Rightarrow> bool" where
  "open_action completedCalls a = (case a of
       Function_Action turnId callId name args \<Rightarrow> call_key turnId callId \<notin> set completedCalls
     | Environment_Action e \<Rightarrow> True)"

definition activity_at :: "turn \<Rightarrow> rat" where
  "activity_at t = (case tr_completed_at t of Some c \<Rightarrow> c | None \<Rightarrow>
     (case tr_started_at t of Some c \<Rightarrow> c | None \<Rightarrow> tr_created_at t))"

definition observeSession :: "session_state \<Rightarrow> turn_observation list \<Rightarrow> session_observation" where
  "observeSession s observations =
     (let completedCalls = map item_call_key (functionResultItems s);
          visible = map (\<lambda>o1. o1\<lparr>to_requiredActions := filter (open_action completedCalls) (to_requiredActions o1)\<rparr>)
            observations;
          active = find (\<lambda>o1. \<not> terminalTurn (to_turn o1)) (rev visible);
          requiredActions = concat (map to_requiredActions (filter (\<lambda>o1. \<not> terminalTurn (to_turn o1)) visible))
      in \<lparr>so_session = (ss_session s)\<lparr>
            se_status := (if se_status (ss_session s) = Session_Failed then Session_Failed
              else if active \<noteq> None then (if requiredActions \<noteq> [] then Session_Requires_Action else Session_In_Progress)
              else Session_Idle),
            se_required_actions := requiredActions,
            se_last_active_at := fold max (map (\<lambda>o1. activity_at (to_turn o1)) observations)
              (se_last_active_at (ss_session s)),
            se_usage := totalUsage (map (\<lambda>o1. tr_usage (to_turn o1)) observations)\<rparr>,
          so_turns = visible\<rparr>)"

section \<open>Planning of input\<close>

record plan_ids =
  pi_turnIds :: "string list"
  pi_messageIds :: "string list"
  pi_operationIds :: "string list"
  pi_itemAnchors :: "(string \<times> string option) list"

text \<open>The local variables of the loop over the events.\<close>

record plan_state =
  ps_turns :: "turn_binding list"
  ps_commands :: "session_command list"
  ps_completedCalls :: "string list"
  ps_messageOffset :: nat
  ps_acceptedOrdinal :: int

definition active_binding :: "turn_binding list \<Rightarrow> turn_binding option" where
  "active_binding turns = find (\<lambda>b. \<not> tb_cancelRequested b \<and> \<not> terminalTurn (tb_turn b)) (rev turns)"

definition anchor_of :: "plan_ids \<Rightarrow> string \<Rightarrow> string option" where
  "anchor_of ids turnId = (case map_of (pi_itemAnchors ids) turnId of None \<Rightarrow> None | Some a \<Rightarrow> a)"

fun plan_messages ::
  "input_message list \<Rightarrow> string option \<Rightarrow> string list \<Rightarrow> int \<Rightarrow> session_message list" where
  "plan_messages [] after ids ordinal = []"
| "plan_messages (m # ms) after ids ordinal =
     \<lparr>im_content = im_content m, sm_id = hd ids, sm_afterItemId = after, sm_acceptedOrdinal = Some ordinal\<rparr>
     # plan_messages ms (Some (hd ids)) (tl ids) (ordinal + 1)"

definition message_anchor :: "plan_ids \<Rightarrow> turn_binding option \<Rightarrow> string option" where
  "message_anchor ids active = (case active of
       None \<Rightarrow> None
     | Some b \<Rightarrow> (case anchor_of ids (tr_id (tb_turn b)) of
           Some a \<Rightarrow> Some a
         | None \<Rightarrow> if tb_input b = [] then None else Some (sm_id (last (tb_input b)))))"

definition change_binding :: "string \<Rightarrow> (turn_binding \<Rightarrow> turn_binding) \<Rightarrow> turn_binding list \<Rightarrow> turn_binding list" where
  "change_binding turnId f turns = map (\<lambda>b. if tr_id (tb_turn b) = turnId then f b else b) turns"

definition new_turn :: "agent_session \<Rightarrow> string \<Rightarrow> rat \<Rightarrow> turn" where
  "new_turn session turnId now_s = \<lparr>tr_id = turnId, tr_session_id = se_id session, tr_agent_id = sa_id (se_agent session),
     tr_subagent_id = None, tr_status = Turn_Queued, tr_created_at = now_s, tr_started_at = None,
     tr_completed_at = None, tr_error = None, tr_usage = None\<rparr>"

definition invalid_input :: "string \<Rightarrow> string \<Rightarrow> agents_error" where
  "invalid_input message param = invalid_request message (Some param)"

definition plan_message_event ::
  "session_state \<Rightarrow> session_observation \<Rightarrow> plan_ids \<Rightarrow> rat \<Rightarrow> nat \<Rightarrow> input_message list \<Rightarrow> plan_state
     \<Rightarrow> agents_error + plan_state" where
  "plan_message_event s observation ids now_s n input p =
     (if input = [] \<or> (\<exists>m \<in> set input. im_content m = [])
      then Inl (invalid_input ''input must contain at least one content part'' ''events.input'')
      else let active = active_binding (ps_turns p);
             messages = plan_messages input (message_anchor ids active) (drop (ps_messageOffset p) (pi_messageIds ids))
               (ps_acceptedOrdinal p);
             p1 = p\<lparr>ps_messageOffset := ps_messageOffset p + length input,
               ps_acceptedOrdinal := ps_acceptedOrdinal p + int (length input)\<rparr>
        in case active of
          Some b \<Rightarrow> Inr (p1\<lparr>ps_turns := change_binding (tr_id (tb_turn b)) (\<lambda>b. b\<lparr>tb_input := tb_input b @ messages\<rparr>) (ps_turns p),
            ps_commands := ps_commands p @ [Steer_Command (tr_id (tb_turn b)) input (pi_operationIds ids ! n)]\<rparr>)
        | None \<Rightarrow> let t = new_turn (ss_session s) (pi_turnIds ids ! n) now_s in
            Inr (p1\<lparr>ps_turns := ps_turns p @ [\<lparr>tb_turn = t, tb_input = messages,
                tb_modelSettings = Some (sessionModelSettings (se_agent (so_session observation))),
                tb_cancelRequested = False, tb_savedItems = None\<rparr>],
              ps_commands := ps_commands p @ [Start_Command (tr_id t) messages]\<rparr>))"

definition plan_cancel_event :: "plan_state \<Rightarrow> plan_state" where
  "plan_cancel_event p = (case active_binding (ps_turns p) of
       None \<Rightarrow> p
     | Some b \<Rightarrow> p\<lparr>ps_turns := change_binding (tr_id (tb_turn b)) (\<lambda>b. b\<lparr>tb_cancelRequested := True\<rparr>) (ps_turns p),
         ps_commands := ps_commands p @ [Cancel_Command (tr_id (tb_turn b))]\<rparr>)"

definition requires_call :: "session_observation \<Rightarrow> string \<Rightarrow> string \<Rightarrow> bool" where
  "requires_call observation turnId callId \<longleftrightarrow> (\<exists>a \<in> set (se_required_actions (so_session observation)).
     case a of Function_Action t c name args \<Rightarrow> t = turnId \<and> c = callId | Environment_Action e \<Rightarrow> False)"

definition plan_result_event ::
  "session_observation \<Rightarrow> plan_ids \<Rightarrow> tool_result \<Rightarrow> plan_state \<Rightarrow> agents_error + plan_state" where
  "plan_result_event observation ids e p =
     (let k = call_key (te_turn_id e) (te_call_id e) in
      if k \<in> set (ps_completedCalls p) \<or> \<not> requires_call observation (te_turn_id e) (te_call_id e) \<or>
        \<not> (\<exists>o1 \<in> set (so_turns observation). tr_id (to_turn o1) = te_turn_id e \<and> \<not> terminalTurn (to_turn o1))
      then Inl (invalid_input ''The tool call is not pending on the active turn'' ''events.call_id'')
      else if te_success e \<and> te_output e \<in> {JUndef, JNull}
      then Inl (invalid_input ''Successful tool results require output'' ''events.output'')
      else if \<not> te_success e \<and> \<not> truthy (te_error e)
      then Inl (invalid_input ''Failed tool results require error'' ''events.error'')
      else Inr (p\<lparr>ps_completedCalls := ps_completedCalls p @ [k],
        ps_commands := ps_commands p @ [Tool_Result_Command (te_turn_id e) (anchor_of ids (te_turn_id e))
          (Some (ps_acceptedOrdinal p)) e],
        ps_acceptedOrdinal := ps_acceptedOrdinal p + 1\<rparr>))"

fun plan_events ::
  "session_state \<Rightarrow> session_observation \<Rightarrow> plan_ids \<Rightarrow> rat \<Rightarrow> nat \<Rightarrow> input_event list \<Rightarrow> plan_state
     \<Rightarrow> agents_error + plan_state" where
  "plan_events s observation ids now_s n [] p = Inr p"
| "plan_events s observation ids now_s n (e # es) p = bindE (case e of
       Message_Event input \<Rightarrow> plan_message_event s observation ids now_s n input p
     | Cancel_Event \<Rightarrow> Inr (plan_cancel_event p)
     | Tool_Result_Event r \<Rightarrow> plan_result_event observation ids r p)
     (plan_events s observation ids now_s (Suc n) es)"

definition observed_turns :: "session_state \<Rightarrow> session_observation \<Rightarrow> turn_binding list" where
  "observed_turns s observation = map (\<lambda>b. b\<lparr>tb_turn := (case find (\<lambda>o1. tr_id (to_turn o1) = tr_id (tb_turn b))
       (so_turns observation) of Some o1 \<Rightarrow> to_turn o1 | None \<Rightarrow> tb_turn b)\<rparr>) (ss_turns s)"

definition completed_calls :: "session_state \<Rightarrow> string list" where
  "completed_calls s = concat (map (\<lambda>(key, r). concat (map (\<lambda>c. case c of
       Tool_Result_Command turnId a ord e \<Rightarrow> [call_key turnId (te_call_id e)]
     | _ \<Rightarrow> []) (rc_commands r))) (ss_receipts s))"

definition initial_plan :: "session_state \<Rightarrow> session_observation \<Rightarrow> plan_state" where
  "initial_plan s observation = \<lparr>ps_turns = observed_turns s observation, ps_commands = [],
     ps_completedCalls = completed_calls s, ps_messageOffset = 0,
     ps_acceptedOrdinal = int (sum_list (map (\<lambda>b. length (tb_input b)) (ss_turns s)) + length (functionResultItems s))\<rparr>"

definition planSessionInput ::
  "session_state \<Rightarrow> session_observation \<Rightarrow> input_event list \<Rightarrow> plan_ids \<Rightarrow> rat
     \<Rightarrow> agents_error + session_state \<times> session_command list" where
  "planSessionInput s observation events ids now_s =
     (if events = [] then Inl (invalid_input ''events must not be empty'' ''events'')
      else if se_status (so_session observation) = Session_Failed
      then Inl (Agents_Api_Error 409 ''The session has failed.'' (Some ''conflict'') None None)
      else bindE (plan_events s observation ids now_s 0 events (initial_plan s observation)) (\<lambda>p.
        Inr (s\<lparr>ss_session := (so_session observation)\<lparr>se_last_active_at := now_s,
            se_status := (if \<exists>b \<in> set (ps_turns p). \<not> terminalTurn (tb_turn b) then Session_In_Progress else Session_Idle)\<rparr>,
          ss_turns := ps_turns p\<rparr>, ps_commands p)))"

text \<open>The state the service saves: the plan, and the receipt of its key with the digest of the events.\<close>

definition save_receipt :: "string \<Rightarrow> string \<Rightarrow> session_command list \<Rightarrow> session_state \<Rightarrow> session_state" where
  "save_receipt key digest commands s = s\<lparr>ss_receipts := AList.update key
     \<lparr>rc_digest = digest, rc_commands = commands, rc_dispatched = False, rc_failure = None\<rparr> (ss_receipts s)\<rparr>"

section \<open>The order of a Turn's items\<close>

record insertion =
  in_item :: session_item
  in_after :: "string option"
  in_ordinal :: int

definition input_insertions :: "turn_binding \<Rightarrow> insertion list" where
  "input_insertions b = map (\<lambda>(n, m, i). \<lparr>in_item = i, in_after = sm_afterItemId m,
     in_ordinal = (case sm_acceptedOrdinal m of Some a \<Rightarrow> a | None \<Rightarrow> int n)\<rparr>)
     (enumerate 0 (zip (tb_input b) (userItems b)))"

definition call_item_id :: "string \<Rightarrow> session_item list \<Rightarrow> string option" where
  "call_item_id callId outputs = (case find (\<lambda>i. case si_body i of
         Function_Call_Body c name args \<Rightarrow> c = callId | _ \<Rightarrow> False) outputs of
       Some i \<Rightarrow> si_id i
     | None \<Rightarrow> None)"

text \<open>\<open>results.get(id)!\<close> on \<open>new Map(results.map(item => [item.id, item]))\<close>: the last item of an ID wins.\<close>

definition result_of_id :: "session_state \<Rightarrow> string \<Rightarrow> session_item" where
  "result_of_id s id0 = the (find (\<lambda>i. si_id i = Some id0) (rev (functionResultItems s)))"

definition add_result ::
  "session_state \<Rightarrow> turn_binding \<Rightarrow> session_item list \<Rightarrow> string \<Rightarrow> nat \<times> session_command \<Rightarrow> insertion list \<Rightarrow> insertion list" where
  "add_result s b outputs key c insertions = (case c of
       (n, Tool_Result_Command turnId after ordinal e) \<Rightarrow>
         if turnId \<noteq> tr_id (tb_turn b) then insertions
         else insertions @ [\<lparr>in_item = result_of_id s (result_item_id key n),
           in_after = or_else after (call_item_id (te_call_id e) outputs),
           in_ordinal = (case ordinal of Some a \<Rightarrow> a | None \<Rightarrow> int (length insertions))\<rparr>]
     | _ \<Rightarrow> insertions)"

definition item_insertions :: "session_state \<Rightarrow> turn_binding \<Rightarrow> session_item list \<Rightarrow> insertion list" where
  "item_insertions s b outputs = sort_key in_ordinal
     (fold (\<lambda>(key, r). fold (add_result s b outputs key) (enumerate 0 (rc_commands r))) (ss_receipts s)
       (input_insertions b))"

definition accepted_calls :: "session_state \<Rightarrow> string \<Rightarrow> string list" where
  "accepted_calls s turnId = concat (map (\<lambda>i. case si_body i of
       Function_Output_Body callId out e \<Rightarrow> if si_turn_id i = turnId then [callId] else []
     | _ \<Rightarrow> []) (functionResultItems s))"

text \<open>The outputs that are shown: an accepted result replaces the harness's echo of it.\<close>

definition kept_outputs :: "session_state \<Rightarrow> string \<Rightarrow> session_item list \<Rightarrow> session_item list" where
  "kept_outputs s turnId outputs = filter (\<lambda>i. case si_body i of
       Function_Output_Body callId out e \<Rightarrow> callId \<notin> set (accepted_calls s turnId)
     | _ \<Rightarrow> True) outputs"

definition has_id :: "string option \<Rightarrow> session_item \<Rightarrow> bool" where
  "has_id id0 i \<longleftrightarrow> si_id i = id0"

definition index_of_id :: "string option \<Rightarrow> session_item list \<Rightarrow> nat option" where
  "index_of_id id0 items = (let n = length (takeWhile (\<lambda>i. \<not> has_id id0 i) items) in
     if n < length items then Some n else None)"

text \<open>\<open>items.splice(index + 1, 0, item)\<close>, where the index of a missing item is -1.\<close>

definition splice_after :: "nat option \<Rightarrow> session_item \<Rightarrow> session_item list \<Rightarrow> session_item list" where
  "splice_after index i items = (let n = (case index of None \<Rightarrow> 0 | Some k \<Rightarrow> Suc k) in
     take n items @ [i] @ drop n items)"

definition place_first :: "insertion list \<Rightarrow> insertion \<Rightarrow> session_item list \<Rightarrow> session_item list" where
  "place_first insertions x items =
     (let index = (if in_after x = None then None else index_of_id (in_after x) items) in
      if list_ex (has_id (si_id (in_item x))) items then items
      else if in_after x \<noteq> None \<and> index = None \<and> list_ex (\<lambda>y. si_id (in_item y) = in_after x) insertions then items
      else splice_after index (in_item x) items)"

definition place_rest :: "insertion \<Rightarrow> session_item list \<Rightarrow> session_item list" where
  "place_rest x items = (if list_ex (has_id (si_id (in_item x))) items then items
     else splice_after (index_of_id (in_after x) items) (in_item x) items)"

definition orderedTurnItems :: "session_state \<Rightarrow> turn_binding \<Rightarrow> session_item list \<Rightarrow> session_item list" where
  "orderedTurnItems s b outputs =
     (let insertions = item_insertions s b outputs;
          items = fold (place_first insertions) (rev insertions) (kept_outputs s (tr_id (tb_turn b)) outputs)
      in fold place_rest insertions items)"

section \<open>Pages\<close>

record page_query =
  pq_after :: "string option"
  pq_limit :: "js_number option"
  pq_asc :: bool

record 'a cursor_page =
  cp_data :: "'a list"
  cp_has_more :: bool

definition page_limit :: "js_number option \<Rightarrow> nat" where
  "page_limit l = (case l of Some (Finite r) \<Rightarrow> min (nat (floor r)) 100 | _ \<Rightarrow> 20)"

definition bad_limit :: "js_number option \<Rightarrow> bool" where
  "bad_limit l \<longleftrightarrow> (case l of None \<Rightarrow> False | Some (Finite r) \<Rightarrow> \<not> is_integer (Finite r) \<or> r < 1 | Some _ \<Rightarrow> True)"

definition cursorPage ::
  "('a \<Rightarrow> string option) \<Rightarrow> 'a list \<Rightarrow> page_query \<Rightarrow> agents_error + 'a cursor_page" where
  "cursorPage id_of resources q =
     (if bad_limit (pq_limit q) then Inl (invalid_input ''limit must be a positive integer'' ''limit'')
      else let sorted_list = (if pq_asc q then resources else rev resources);
               index = length (takeWhile (\<lambda>r. id_of r \<noteq> pq_after q) sorted_list);
               start = (if truthy (pq_after q) then Suc index else 0);
               page_data = take (page_limit (pq_limit q)) (drop start sorted_list)
        in if truthy (pq_after q) \<and> index \<ge> length sorted_list
           then Inl (invalid_input ''Invalid pagination cursor'' ''after'')
           else Inr \<lparr>cp_data = page_data, cp_has_more = (start + length page_data < length sorted_list)\<rparr>)"

end
