(* ===== verification/Session_Planning_Props.thy ===== *)
theory Session_Planning_Props
  imports Session_Planning
begin

text \<open>
  What planning keeps: every accepted input has a place of its own in its Turn's items, a Session
  has at most one open Turn, and pages cut a list without loss.
\<close>

section \<open>The identity of a function result\<close>

lemma split_at_first:
  "c \<notin> set a \<Longrightarrow> c \<notin> set a' \<Longrightarrow> a @ c # b = a' @ c # b' \<longleftrightarrow> a = a' \<and> b = b'"
proof (induction a arbitrary: a')
  case Nil
  then show ?case by (cases a') auto
next
  case (Cons x a)
  then show ?case by (cases a') auto
qed

lemma result_item_id_inject: "result_item_id k m = result_item_id l n \<longleftrightarrow> k = l \<and> m = n"
proof -
  let ?u = "CHR ''_''"
  have no: "?u \<notin> set (rev (show_nat x))" for x
    using show_nat_digits by (fastforce simp: is_digit_def code_of_def)
  have "result_item_id k m = result_item_id l n \<longleftrightarrow> rev (k @ ?u # show_nat m) = rev (l @ ?u # show_nat n)"
    by (simp only: rev_is_rev_conv) (simp add: result_item_id_def)
  also have "\<dots> \<longleftrightarrow> rev (show_nat m) @ ?u # rev k = rev (show_nat n) @ ?u # rev l"
    by simp
  also have "\<dots> \<longleftrightarrow> rev (show_nat m) = rev (show_nat n) \<and> rev k = rev l"
    by (rule split_at_first [OF no no])
  finally show ?thesis by (auto simp: show_nat_inject)
qed

lemma in_receipt_results: "i \<in> set (receipt_results key r) \<longleftrightarrow>
  (\<exists>n turnId a c e. n < length (rc_commands r) \<and> rc_commands r ! n = Tool_Result_Command turnId a c e \<and>
    i = result_item key n turnId e)"
  by (force simp: receipt_results_def in_set_enumerate_eq split: session_command.splits)

lemma in_functionResultItems: "i \<in> set (functionResultItems s) \<longleftrightarrow>
  (\<exists>key r. (key, r) \<in> set (ss_receipts s) \<and> i \<in> set (receipt_results key r))"
  by (auto simp: functionResultItems_def)

lemma si_id_result_item [simp]: "si_id (result_item key n turnId e) = Some (result_item_id key n)"
  by (simp add: result_item_def)

lemma si_turn_id_result_item [simp]: "si_turn_id (result_item key n turnId e) = turnId"
  by (simp add: result_item_def)

lemma result_of_id:
  assumes "distinct (map fst (ss_receipts s))" "(key, r) \<in> set (ss_receipts s)" "n < length (rc_commands r)"
    "rc_commands r ! n = Tool_Result_Command turnId a c e"
  shows "result_of_id s (result_item_id key n) = result_item key n turnId e"
proof -
  let ?P = "\<lambda>i. si_id i = Some (result_item_id key n)"
  have mem: "result_item key n turnId e \<in> set (functionResultItems s)"
    unfolding in_functionResultItems in_receipt_results using assms(2-4) by blast
  then obtain i where i: "find ?P (rev (functionResultItems s)) = Some i"
    by (cases "find ?P (rev (functionResultItems s))") (auto simp: find_None_iff)
  then have "i \<in> set (rev (functionResultItems s))" "?P i"
    by (auto simp: find_Some_iff simp del: set_rev)
  then obtain key' r' n' t' a' c' e' where other: "(key', r') \<in> set (ss_receipts s)"
    "rc_commands r' ! n' = Tool_Result_Command t' a' c' e'" "i = result_item key' n' t' e'"
    unfolding set_rev in_functionResultItems in_receipt_results by blast
  with \<open>?P i\<close> have "key' = key" "n' = n" by (simp_all add: result_item_id_inject)
  moreover from this have "r' = r" using eq_key_imp_eq_value [OF assms(1,2)] other(1) by metis
  ultimately have "i = result_item key n turnId e" using other assms(4) by simp
  then show ?thesis using i by (simp add: result_of_id_def)
qed

section \<open>What is inserted\<close>

text \<open>The items to insert: the Turn's inputs and the accepted results of its calls.\<close>

definition turn_results :: "session_state \<Rightarrow> string \<Rightarrow> session_item set" where
  "turn_results s turnId = {i \<in> set (functionResultItems s). si_turn_id i = turnId}"

definition result_insertion :: "session_state \<Rightarrow> turn_binding \<Rightarrow> string \<Rightarrow> nat \<Rightarrow> session_command \<Rightarrow> session_item set" where
  "result_insertion s b key n c = (case c of
       Tool_Result_Command turnId a d e \<Rightarrow>
         if turnId = tr_id (tb_turn b) then {result_of_id s (result_item_id key n)} else {}
     | _ \<Rightarrow> {})"

lemma items_add_result:
  "in_item ` set (add_result s b outputs key (n, c) xs) = in_item ` set xs \<union> result_insertion s b key n c"
  by (auto simp: add_result_def result_insertion_def split: session_command.splits)

lemma items_add_commands:
  "in_item ` set (fold (add_result s b outputs key) cs xs) =
     in_item ` set xs \<union> (\<Union>(n, c) \<in> set cs. result_insertion s b key n c)"
proof (induction cs arbitrary: xs)
  case (Cons c cs)
  then show ?case by (cases c) (simp add: items_add_result Un_assoc)
qed simp

lemma items_add_receipts:
  "in_item ` set (fold (\<lambda>(key, r). fold (add_result s b outputs key) (enumerate 0 (rc_commands r))) rs xs) =
     in_item ` set xs \<union> (\<Union>(key, r) \<in> set rs. \<Union>(n, c) \<in> set (enumerate 0 (rc_commands r)). result_insertion s b key n c)"
proof (induction rs arbitrary: xs)
  case (Cons r rs)
  then show ?case by (cases r) (simp add: items_add_commands Un_assoc)
qed simp

lemma items_input_insertions: "in_item ` set (input_insertions b) = set (userItems b)"
proof -
  have "map in_item (input_insertions b) = userItems b"
    by (rule nth_equalityI)
      (auto simp: input_insertions_def userItems_def nth_enumerate_eq case_prod_beta)
  then show ?thesis by (metis set_map)
qed

lemma results_inserted:
  assumes "distinct (map fst (ss_receipts s))"
  shows "(\<Union>(key, r) \<in> set (ss_receipts s). \<Union>(n, c) \<in> set (enumerate 0 (rc_commands r)). result_insertion s b key n c)
    = turn_results s (tr_id (tb_turn b))"  (is "?l = ?r")
proof
  show "?l \<subseteq> ?r"
  proof
    fix i assume "i \<in> ?l"
    then obtain key r n c where m: "(key, r) \<in> set (ss_receipts s)" "n < length (rc_commands r)"
      "c = rc_commands r ! n" "i \<in> result_insertion s b key n c"
      by (auto simp: in_set_enumerate_eq)
    then obtain a d e where "c = Tool_Result_Command (tr_id (tb_turn b)) a d e"
      "i = result_of_id s (result_item_id key n)"
      by (auto simp: result_insertion_def split: session_command.splits if_splits)
    then show "i \<in> ?r"
      using m result_of_id [OF assms m(1,2)] unfolding turn_results_def in_functionResultItems in_receipt_results
      by (auto, blast)
  qed
  show "?r \<subseteq> ?l"
  proof
    fix i assume "i \<in> ?r"
    then obtain key r n a d e where m: "(key, r) \<in> set (ss_receipts s)" "n < length (rc_commands r)"
      "rc_commands r ! n = Tool_Result_Command (tr_id (tb_turn b)) a d e"
      "i = result_item key n (tr_id (tb_turn b)) e"
      by (auto simp: turn_results_def in_functionResultItems in_receipt_results)
    then have "i \<in> result_insertion s b key n (rc_commands r ! n)"
      using result_of_id [OF assms m(1-3)] by (simp add: result_insertion_def)
    moreover have "(n, rc_commands r ! n) \<in> set (enumerate 0 (rc_commands r))"
      using m by (simp add: in_set_enumerate_eq)
    ultimately show "i \<in> ?l" using m(1) by blast
  qed
qed

lemma items_inserted:
  assumes "distinct (map fst (ss_receipts s))"
  shows "in_item ` set (item_insertions s b outputs) = set (userItems b) \<union> turn_results s (tr_id (tb_turn b))"
  unfolding item_insertions_def set_sort items_add_receipts items_input_insertions results_inserted [OF assms] ..

section \<open>Inserting keeps what is there\<close>

text \<open>
  A step leaves the list, or puts an item of a new ID at some place.
\<close>

definition inserts :: "session_item \<Rightarrow> session_item list \<Rightarrow> session_item list \<Rightarrow> bool" where
  "inserts i items items' \<longleftrightarrow> items' = items \<or>
     si_id i \<notin> si_id ` set items \<and> (\<exists>p q. items = p @ q \<and> items' = p @ i # q)"

lemma list_ex_has_id: "list_ex (has_id k) items \<longleftrightarrow> k \<in> si_id ` set items"
  by (auto simp: list_ex_iff has_id_def)

lemma inserts_splice: "si_id i \<notin> si_id ` set items \<Longrightarrow> inserts i items (splice_after index i items)"
  unfolding inserts_def splice_after_def by (metis append_Cons append_Nil append_take_drop_id)

lemma inserts_place_first: "inserts (in_item x) items (place_first ins x items)"
  using inserts_splice [of "in_item x" items]
  by (cases "si_id (in_item x) \<in> si_id ` set items") (simp_all add: place_first_def list_ex_has_id Let_def inserts_def)

lemma inserts_place_rest: "inserts (in_item x) items (place_rest x items)"
  by (auto simp: place_rest_def list_ex_has_id intro: inserts_splice) (simp add: inserts_def)

lemma inserts_subseq: "inserts i items items' \<Longrightarrow> subseq items items'"
  by (auto simp: inserts_def intro: list_emb_append_mono)

lemma inserts_set: "inserts i items items' \<Longrightarrow> set items \<subseteq> set items' \<and> set items' \<subseteq> insert i (set items)"
  by (auto simp: inserts_def)

lemma inserts_distinct: "inserts i items items' \<Longrightarrow> distinct (map si_id items) \<Longrightarrow> distinct (map si_id items')"
  by (auto simp: inserts_def)

lemma fold_inserts:
  assumes "\<And>x items. inserts (in_item x) items (f x items)"
  shows "subseq items (fold f xs items)" "set (fold f xs items) \<subseteq> in_item ` set xs \<union> set items"
    "distinct (map si_id items) \<Longrightarrow> distinct (map si_id (fold f xs items))"
proof -
  show "subseq items (fold f xs items)"
    by (induction xs arbitrary: items) (auto intro: subseq_order.trans inserts_subseq [OF assms])
  show "set (fold f xs items) \<subseteq> in_item ` set xs \<union> set items"
  proof (induction xs arbitrary: items)
    case (Cons x xs)
    from Cons [of "f x items"] inserts_set [OF assms, of items x] show ?case by auto
  qed simp
  show "distinct (map si_id items) \<Longrightarrow> distinct (map si_id (fold f xs items))"
    by (induction xs arbitrary: items) (auto intro: inserts_distinct [OF assms])
qed

lemma subseq_set: "subseq xs ys \<Longrightarrow> set xs \<subseteq> set ys"
  by (induction rule: list_emb.induct) auto

lemma place_rest_present: "si_id (in_item x) \<in> si_id ` set (place_rest x items)"
  by (auto simp: place_rest_def list_ex_has_id splice_after_def Let_def)

lemma fold_place_rest_present:
  "x \<in> set xs \<Longrightarrow> si_id (in_item x) \<in> si_id ` set (fold place_rest xs items)"
proof (induction xs arbitrary: items)
  case (Cons y ys)
  show ?case
  proof (cases "x = y")
    case True
    have "set (place_rest y items) \<subseteq> set (fold place_rest ys (place_rest y items))"
      by (rule subseq_set [OF fold_inserts(1) [OF inserts_place_rest]])
    with place_rest_present [of y items] True show ?thesis by auto
  next
    case False
    with Cons show ?thesis by simp
  qed
qed simp

section \<open>Places\<close>

text \<open>An item stands after an item of the ID \<open>a\<close>, and one item stands before another.\<close>

definition stands_after :: "string \<Rightarrow> session_item \<Rightarrow> session_item list \<Rightarrow> bool" where
  "stands_after a i items \<longleftrightarrow> (\<exists>y. si_id y = Some a \<and> subseq [y, i] items)"

lemma stands_after_subseq: "stands_after a i items \<Longrightarrow> subseq items items' \<Longrightarrow> stands_after a i items'"
  unfolding stands_after_def by (meson subseq_order.trans)

lemma subseq_pair: "y \<in> set q \<Longrightarrow> subseq [x, y] (p @ x # q)"
  by (rule list_emb_append2) (simp add: subseq_singleton_left)

lemma index_of_id_split:
  assumes "k \<in> si_id ` set items"
  obtains p y q where "items = p @ y # q" "si_id y = k" "k \<notin> si_id ` set p" "index_of_id k items = Some (length p)"
proof -
  from assms obtain y0 where "y0 \<in> set items" "has_id k y0" by (auto simp: has_id_def)
  from split_list_first_prop [OF bexI [of "has_id k", OF this(2,1)]]
  obtain p y q where split: "items = p @ y # q" "has_id k y" "\<forall>x \<in> set p. \<not> has_id k x" by blast
  then have "takeWhile (\<lambda>i. \<not> has_id k i) items = p" by (simp add: takeWhile_tail)
  then have "index_of_id k items = Some (length p)" using split by (simp add: index_of_id_def)
  moreover have "si_id y = k" "k \<notin> si_id ` set p" using split by (auto simp: has_id_def)
  ultimately show thesis using that split(1) by blast
qed

lemma place_first_absent:
  assumes "si_id (in_item x) \<notin> si_id ` set items"
  shows "in_after x = None \<Longrightarrow> place_first ins x items = in_item x # items"
    "in_after x = Some a \<Longrightarrow> Some a \<in> si_id ` set items \<Longrightarrow>
      \<exists>p y q. items = p @ y # q \<and> si_id y = Some a \<and> place_first ins x items = p @ y # in_item x # q"
proof -
  show "place_first ins x items = in_item x # items" if "in_after x = None"
    using assms that by (simp add: place_first_def list_ex_has_id splice_after_def)
  show "\<exists>p y q. items = p @ y # q \<and> si_id y = Some a \<and> place_first ins x items = p @ y # in_item x # q"
    if after: "in_after x = Some a" "Some a \<in> si_id ` set items"
  proof -
    from index_of_id_split [OF after(2)] obtain p y q where
      "items = p @ y # q" "si_id y = Some a" "index_of_id (Some a) items = Some (length p)" by blast
    moreover from this assms after(1) have "place_first ins x items = p @ y # in_item x # q"
      by (simp add: place_first_def list_ex_has_id splice_after_def image_Un Let_def has_id_def del: list_ex_append)
    ultimately show ?thesis by blast
  qed
qed

text \<open>Whether an insertion's anchor is there: the front of the list, or an item of it.\<close>

definition anchored :: "session_item list \<Rightarrow> insertion \<Rightarrow> bool" where
  "anchored items x \<longleftrightarrow> (case in_after x of None \<Rightarrow> True | Some a \<Rightarrow> Some a \<in> si_id ` set items)"

lemma anchored_mono: "anchored items x \<Longrightarrow> set items \<subseteq> set items' \<Longrightarrow> anchored items' x"
  by (auto simp: anchored_def split: option.splits)

lemma place_first_places:
  assumes "si_id (in_item x) \<notin> si_id ` set items" "anchored items x"
  shows "in_item x \<in> set (place_first ins x items)"
    "in_after x = Some a \<Longrightarrow> stands_after a (in_item x) (place_first ins x items)"
proof -
  show "in_item x \<in> set (place_first ins x items)"
    using assms place_first_absent [where ins = ins, OF assms(1)]
    by (cases "in_after x") (fastforce simp: anchored_def)+
  show "stands_after a (in_item x) (place_first ins x items)" if after: "in_after x = Some a"
  proof -
    from place_first_absent(2) [where ins = ins, OF assms(1) after] assms(2) after obtain p y q where
      "si_id y = Some a" "place_first ins x items = p @ y # in_item x # q" by (auto simp: anchored_def)
    then show ?thesis unfolding stands_after_def by (metis subseq_pair list.set_intros(1))
  qed
qed

text \<open>An insertion placed later at the same anchor goes before the one that is there.\<close>

lemma place_first_before:
  assumes "distinct (map si_id items)" "si_id (in_item x) \<notin> si_id ` set items" "anchored items x"
    "i \<in> set items" "\<And>a. in_after x = Some a \<Longrightarrow> stands_after a i items"
  shows "subseq [in_item x, i] (place_first ins x items)"
proof (cases "in_after x")
  case None
  then show ?thesis using place_first_absent(1) [where ins = ins, OF assms(2)] assms(4) subseq_pair [of i items "in_item x" "[]"] by simp
next
  case (Some a)
  with assms(3) have "Some a \<in> si_id ` set items" by (simp add: anchored_def)
  from place_first_absent(2) [where ins = ins, OF assms(2) Some this] obtain p y q where
    split: "items = p @ y # q" "si_id y = Some a" "place_first ins x items = p @ y # in_item x # q" by blast
  from assms(5) [OF Some] obtain z where z: "si_id z = Some a" "subseq [z, i] items"
    by (auto simp: stands_after_def)
  have only: "w = y" if "w \<in> set items" "si_id w = Some a" for w
    using assms(1) that split(1,2) by (auto simp: image_iff)
  have "z = y" using only subseq_set [OF z(2)] z(1) by simp
  with list_emb_ConsD [OF z(2)] obtain us vs where vs: "items = us @ y # vs" "i \<in> set vs"
    by (auto simp: subseq_singleton_left)
  have "distinct items" using assms(1) by (simp add: distinct_map)
  then have "y \<notin> set us" "y \<notin> set p" using split(1) vs(1) by (metis distinct_append distinct.simps(2) not_distinct_conv_prefix)+
  then have "us = p \<and> vs = q" using split(1) vs(1) split_at_first [of y us p vs q] by metis
  with vs have "i \<in> set q" by simp
  then have "subseq [in_item x, i] ((p @ [y]) @ in_item x # q)" by (rule subseq_pair)
  then show ?thesis unfolding split(3) by simp
qed

section \<open>A Turn's items\<close>

abbreviation insertion_id :: "insertion \<Rightarrow> string option" where
  "insertion_id x \<equiv> si_id (in_item x)"

text \<open>The list while the first pass has placed the insertions \<open>vs\<close>.\<close>

definition placed :: "insertion list \<Rightarrow> insertion list \<Rightarrow> session_item list \<Rightarrow> session_item list" where
  "placed ins vs kept = fold (place_first ins) (rev vs) kept"

lemma placed_Cons: "placed ins (x # vs) kept = place_first ins x (placed ins vs kept)"
  by (simp add: placed_def)

lemma placed_append: "placed ins (us @ vs) kept = placed ins us (placed ins vs kept)"
  by (simp add: placed_def)

lemma placed_subseq: "subseq kept (placed ins vs kept)"
  unfolding placed_def by (rule fold_inserts(1) [OF inserts_place_first])

lemma placed_distinct: "distinct (map si_id kept) \<Longrightarrow> distinct (map si_id (placed ins vs kept))"
  unfolding placed_def by (rule fold_inserts(3) [OF inserts_place_first])

lemma placed_ids: "si_id ` set (placed ins vs kept) \<subseteq> insertion_id ` set vs \<union> si_id ` set kept"
  using fold_inserts(2) [of "place_first ins" "rev vs" kept, OF inserts_place_first] unfolding placed_def by auto

lemma placed_absent:
  "insertion_id x \<notin> si_id ` set kept \<Longrightarrow> insertion_id x \<notin> insertion_id ` set vs \<Longrightarrow>
    insertion_id x \<notin> si_id ` set (placed ins vs kept)"
  using placed_ids by blast

lemma placed_places:
  assumes "insertion_id x \<notin> si_id ` set kept" "insertion_id x \<notin> insertion_id ` set vs" "anchored kept x"
  shows "in_item x \<in> set (placed ins (us @ x # vs) kept)"
    "in_after x = Some a \<Longrightarrow> stands_after a (in_item x) (placed ins (us @ x # vs) kept)"
proof -
  note absent = placed_absent [OF assms(1,2)]
    and there = anchored_mono [OF assms(3) subseq_set [OF placed_subseq]]
    and more = placed_subseq [of "placed ins (x # vs) kept" ins us, folded placed_append]
  show "in_item x \<in> set (placed ins (us @ x # vs) kept)"
    using place_first_places(1) [OF absent there] subseq_set [OF more] by (auto simp: placed_Cons)
  show "in_after x = Some a \<Longrightarrow> stands_after a (in_item x) (placed ins (us @ x # vs) kept)"
    using place_first_places(2) [OF absent there] stands_after_subseq [OF _ more] by (simp add: placed_Cons)
qed

lemma placed_before:
  assumes "distinct (map si_id kept)" "insertion_id x \<notin> si_id ` set kept" "insertion_id y \<notin> si_id ` set kept"
    "distinct (map insertion_id (us @ x # vs @ y # ws))" "in_after x = in_after y" "anchored kept x"
  shows "subseq [in_item x, in_item y] (placed ins (us @ x # vs @ y # ws) kept)"
proof -
  let ?items = "placed ins (vs @ y # ws) kept"
  have "anchored kept y" using assms(5,6) by (simp add: anchored_def)
  then have y: "in_item y \<in> set ?items" "\<And>a. in_after y = Some a \<Longrightarrow> stands_after a (in_item y) ?items"
    using placed_places [OF assms(3), of ws] assms(4) by auto
  have "subseq [in_item x, in_item y] (place_first ins x ?items)"
    using assms(4,5) y anchored_mono [OF assms(6) subseq_set [OF placed_subseq]]
    by (intro place_first_before placed_distinct assms(1) placed_absent assms(2)) auto
  then show ?thesis
    using placed_subseq [of "placed ins (x # vs @ y # ws) kept" ins us] unfolding placed_append placed_Cons
    by (rule subseq_order.trans)
qed

lemma ordered_items: "orderedTurnItems s b outputs =
  fold place_rest (item_insertions s b outputs) (placed (item_insertions s b outputs)
    (item_insertions s b outputs) (kept_outputs s (tr_id (tb_turn b)) outputs))"
  by (simp add: orderedTurnItems_def placed_def Let_def)

lemma ordered_items_after: "subseq (placed (item_insertions s b outputs) (item_insertions s b outputs)
  (kept_outputs s (tr_id (tb_turn b)) outputs)) (orderedTurnItems s b outputs)"
  unfolding ordered_items by (rule fold_inserts(1) [OF inserts_place_rest])

lemma ordered_items_ids:
  assumes "distinct (map fst (ss_receipts s))"
  shows "si_id ` set (orderedTurnItems s b outputs) = si_id ` (set (kept_outputs s (tr_id (tb_turn b)) outputs) \<union>
    set (userItems b) \<union> turn_results s (tr_id (tb_turn b)))"  (is "?l = si_id ` (?k \<union> _ \<union> _)")
proof -
  let ?ins = "item_insertions s b outputs"
  have "?l \<subseteq> insertion_id ` set ?ins \<union> si_id ` ?k"
  proof -
    have "set (orderedTurnItems s b outputs) \<subseteq> in_item ` set ?ins \<union>
        set (placed ?ins ?ins (kept_outputs s (tr_id (tb_turn b)) outputs))"
      unfolding ordered_items by (rule fold_inserts(2) [OF inserts_place_rest])
    then have "?l \<subseteq> si_id ` (in_item ` set ?ins) \<union>
        si_id ` set (placed ?ins ?ins (kept_outputs s (tr_id (tb_turn b)) outputs))"
      unfolding image_Un [symmetric] by (rule image_mono)
    then show ?thesis using placed_ids [of ?ins ?ins] by (simp only: image_image) blast
  qed
  moreover have "si_id ` ?k \<subseteq> ?l"
    using subseq_set [OF subseq_order.trans [OF placed_subseq ordered_items_after]] by blast
  moreover have "insertion_id ` set ?ins \<subseteq> ?l"
    unfolding ordered_items using fold_place_rest_present by blast
  ultimately have "?l = si_id ` (?k \<union> in_item ` set ?ins)" by (auto simp: image_image)
  then show ?thesis using items_inserted [OF assms] by (simp add: Un_assoc)
qed

text \<open>
  C7. A Turn's items are complete: the outputs the harness reported stay in their order, an
  accepted result replaces the harness's echo of it, every accepted input and result is there, no
  other ID is, and none is there twice.
\<close>
theorem turn_items_complete:
  assumes "distinct (map fst (ss_receipts s))"
    "distinct (map si_id (kept_outputs s (tr_id (tb_turn b)) outputs))"
  shows "subseq (kept_outputs s (tr_id (tb_turn b)) outputs) (orderedTurnItems s b outputs) \<and>
    si_id ` set (orderedTurnItems s b outputs) = si_id ` (set (kept_outputs s (tr_id (tb_turn b)) outputs) \<union>
      set (userItems b) \<union> {i \<in> set (functionResultItems s). si_turn_id i = tr_id (tb_turn b)}) \<and>
    distinct (map si_id (orderedTurnItems s b outputs))"
  using subseq_order.trans [OF placed_subseq ordered_items_after] ordered_items_ids [OF assms(1)]
    fold_inserts(3) [OF inserts_place_rest placed_distinct [OF assms(2)]]
  unfolding ordered_items turn_results_def by blast


section \<open>An example\<close>

definition example_turn :: turn where
  "example_turn = \<lparr>tr_id = ''t'', tr_session_id = ''sess'', tr_agent_id = ''agent'', tr_subagent_id = None,
     tr_status = Turn_In_Progress, tr_created_at = 1, tr_started_at = Some 1, tr_completed_at = None,
     tr_error = None, tr_usage = None\<rparr>"

definition example_message :: "string \<Rightarrow> string option \<Rightarrow> int \<Rightarrow> session_message" where
  "example_message k after n = \<lparr>im_content = [Input_Text k], sm_id = k, sm_afterItemId = after, sm_acceptedOrdinal = Some n\<rparr>"

definition example_binding :: turn_binding where
  "example_binding = \<lparr>tb_turn = example_turn, tb_input = [example_message ''m1'' None 0,
     example_message ''m2'' (Some ''o1'') 1, example_message ''m3'' (Some ''o1'') 2],
     tb_modelSettings = None, tb_cancelRequested = False, tb_savedItems = None\<rparr>"

definition example_output :: "string \<Rightarrow> session_item" where
  "example_output k = \<lparr>si_id = Some k, si_turn_id = ''t'', si_status = Some (Some ''completed''),
     si_body = Message_Body ''assistant'' [Output_Text k] None\<rparr>"

definition example_result :: tool_result where
  "example_result = \<lparr>te_turn_id = ''t'', te_call_id = ''c'', te_success = True, te_output = JStr ''ok'', te_error = None\<rparr>"

definition ordered_example :: session_state where
  "ordered_example = \<lparr>ss_session = \<lparr>se_id = ''sess'', se_agent = \<lparr>sa_id = ''agent'', sa_model = ''m'', sa_effort = None,
       sa_service_tier = ''auto'', sa_rest = JNull\<rparr>, se_status = Session_In_Progress, se_required_actions = [],
       se_last_active_at = 1, se_usage = None, se_error = None, se_metadata = [], se_rest = JNull\<rparr>,
     ss_turns = [example_binding], ss_receipts = [(''k'', \<lparr>rc_digest = ''d'',
       rc_commands = [Tool_Result_Command ''t'' (Some ''o2'') (Some 3) example_result], rc_dispatched = True, rc_failure = None\<rparr>)],
     ss_importedHistory = [], ss_forkLock = None, ss_closing = False, ss_deletedArtifacts = []\<rparr>"

definition example_outputs :: "session_item list" where
  "example_outputs = [example_output ''o1'', example_output ''o2'',
     \<lparr>si_id = Some ''echo'', si_turn_id = ''t'', si_status = Some (Some ''completed''),
       si_body = Function_Output_Body ''c'' (JStr ''ok'') None\<rparr>]"

lemma example_kept: "map si_id (kept_outputs ordered_example ''t'' example_outputs) = [Some ''o1'', Some ''o2'']"
  by code_simp

lemma example_turn_id: "tr_id (tb_turn example_binding) = ''t''"
  by (simp add: example_binding_def example_turn_def)

lemma example_order: "map si_id (orderedTurnItems ordered_example example_binding example_outputs) =
    [Some ''m1'', Some ''o1'', Some ''m2'', Some ''m3'', Some ''o2'', Some ''fresult_k_0'']"
  by code_simp

theorem turn_items_complete_witness:
  "distinct (map si_id (orderedTurnItems ordered_example example_binding example_outputs)) \<and>
   length (orderedTurnItems ordered_example example_binding example_outputs) = 6"
proof
  have "distinct (map fst (ss_receipts ordered_example))" by (simp add: ordered_example_def)
  moreover have "distinct (map si_id (kept_outputs ordered_example (tr_id (tb_turn example_binding)) example_outputs))"
    unfolding example_turn_id example_kept by simp
  ultimately show "distinct (map si_id (orderedTurnItems ordered_example example_binding example_outputs))"
    using turn_items_complete by blast
  show "length (orderedTurnItems ordered_example example_binding example_outputs) = 6"
    using arg_cong [OF example_order, of length] by simp
qed

lemma example_insertions: "map (\<lambda>x. (si_id (in_item x), in_after x)) (item_insertions ordered_example example_binding example_outputs) =
    [(Some ''m1'', None), (Some ''m2'', Some ''o1''), (Some ''m3'', Some ''o1''), (Some ''fresult_k_0'', Some ''o2'')]"
  by code_simp


end
