(* ===== verification/Session_Input.thy ===== *)
theory Session_Input
  imports Session_Planning "HOL-Library.Multiset"
begin

text \<open>
  What accepting input keeps (\<open>planSessionInput\<close>): one open Turn at most, a place of its own for
  every accepted input, one result per call, and everything accepted before.
\<close>

section \<open>Well-formed Sessions\<close>

definition open_binding :: "turn_binding \<Rightarrow> bool" where
  "open_binding b \<longleftrightarrow> \<not> tb_cancelRequested b \<and> \<not> terminalTurn (tb_turn b)"

definition binding_id :: "turn_binding \<Rightarrow> string" where
  "binding_id b = tr_id (tb_turn b)"

lemma binding_id_update [simp]: "binding_id (b\<lparr>tb_input := x\<rparr>) = binding_id b"
  "binding_id (b\<lparr>tb_cancelRequested := c\<rparr>) = binding_id b"
  by (simp_all add: binding_id_def)

text \<open>The places taken by messages, and by the results of a list of commands.\<close>

definition turn_ordinals :: "turn_binding list \<Rightarrow> int option list" where
  "turn_ordinals turns = concat (map (\<lambda>b. map sm_acceptedOrdinal (tb_input b)) turns)"

definition command_ordinals :: "session_command list \<Rightarrow> int option list" where
  "command_ordinals cs = concat (map (\<lambda>c. case c of Tool_Result_Command t a d e \<Rightarrow> [d] | _ \<Rightarrow> []) cs)"

definition receipt_ordinals :: "(string \<times> receipt) list \<Rightarrow> int option list" where
  "receipt_ordinals rs = concat (map (\<lambda>(key, r). command_ordinals (rc_commands r)) rs)"

definition command_calls :: "session_command list \<Rightarrow> string list" where
  "command_calls cs = concat (map (\<lambda>c. case c of
     Tool_Result_Command t a d e \<Rightarrow> [call_key t (te_call_id e)] | _ \<Rightarrow> []) cs)"

definition places :: "nat \<Rightarrow> int option multiset" where
  "places n = mset (map (\<lambda>k. Some (int k)) [0..<n])"

text \<open>
  A Session is well formed when its Turns and receipts have different names, at most one Turn is
  open, the accepted inputs and results have exactly the places \<open>0, 1, \<dots>\<close>, each once, and no
  call was answered twice.
\<close>

definition session_ok :: "session_state \<Rightarrow> bool" where
  "session_ok s \<longleftrightarrow> distinct (map binding_id (ss_turns s)) \<and> distinct (map fst (ss_receipts s)) \<and>
     length (filter open_binding (ss_turns s)) \<le> 1 \<and>
     mset (turn_ordinals (ss_turns s) @ receipt_ordinals (ss_receipts s)) =
       places (length (turn_ordinals (ss_turns s) @ receipt_ordinals (ss_receipts s))) \<and>
     distinct (completed_calls s)"

text \<open>A binding that has only grown.\<close>

definition grown :: "turn_binding \<Rightarrow> turn_binding \<Rightarrow> bool" where
  "grown b b' \<longleftrightarrow> tb_turn b' = tb_turn b \<and> prefix (tb_input b) (tb_input b') \<and>
     (tb_cancelRequested b \<longrightarrow> tb_cancelRequested b') \<and> tb_modelSettings b' = tb_modelSettings b \<and>
     tb_savedItems b' = tb_savedItems b"

lemma grown_refl [simp]: "grown b b"
  by (simp add: grown_def)

lemma grown_trans: "grown a b \<Longrightarrow> grown b c \<Longrightarrow> grown a c"
  by (auto simp: grown_def)

definition all_grown :: "turn_binding list \<Rightarrow> turn_binding list \<Rightarrow> bool" where
  "all_grown before after \<longleftrightarrow> (\<exists>old new. after = old @ new \<and> list_all2 grown before old)"

lemma all_grown_refl: "all_grown bs bs"
  unfolding all_grown_def by (rule exI [of _ bs], rule exI [of _ "[]"]) (simp add: list_all2_refl)

lemma all_grown_trans: "all_grown a b \<Longrightarrow> all_grown b c \<Longrightarrow> all_grown a c"
proof -
  assume "all_grown a b" "all_grown b c"
  then obtain x y z u where ab: "b = x @ y" "list_all2 grown a x" and bc: "c = z @ u" "list_all2 grown (x @ y) z"
    by (auto simp: all_grown_def)
  from bc(2) obtain z1 z2 where "z = z1 @ z2" "list_all2 grown x z1" by (auto simp: list_all2_append1)
  with ab bc(1) show "all_grown a c" unfolding all_grown_def
    by (intro exI [of _ z1] exI [of _ "z2 @ u"]) (auto intro: list_all2_trans [OF grown_trans])
qed

section \<open>Lists of bindings\<close>

lemma turn_ordinals_append [simp]: "turn_ordinals (xs @ ys) = turn_ordinals xs @ turn_ordinals ys"
  by (simp add: turn_ordinals_def)

lemma turn_ordinals_Cons [simp]: "turn_ordinals (b # bs) = map sm_acceptedOrdinal (tb_input b) @ turn_ordinals bs"
  by (simp add: turn_ordinals_def)

lemma turn_ordinals_Nil [simp]: "turn_ordinals [] = []"
  by (simp add: turn_ordinals_def)

lemma command_ordinals_snoc [simp]: "command_ordinals (cs @ [c]) = command_ordinals cs @
  (case c of Tool_Result_Command t a d e \<Rightarrow> [d] | _ \<Rightarrow> [])"
  by (simp add: command_ordinals_def)

lemma command_calls_snoc [simp]: "command_calls (cs @ [c]) = command_calls cs @
  (case c of Tool_Result_Command t a d e \<Rightarrow> [call_key t (te_call_id e)] | _ \<Rightarrow> [])"
  by (simp add: command_calls_def)

lemma length_turn_ordinals: "length (turn_ordinals bs) = sum_list (map (\<lambda>b. length (tb_input b)) bs)"
  by (induction bs) auto

lemma length_receipt_results: "length (receipt_results key r) = length (command_ordinals (rc_commands r))"
proof -
  have "length (concat (map (\<lambda>(n, c). case c of Tool_Result_Command turnId a d e \<Rightarrow> [result_item key n turnId e] | _ \<Rightarrow> [])
      (enumerate m cs))) = length (command_ordinals cs)" for m cs
    by (induction cs arbitrary: m) (auto simp: command_ordinals_def split: session_command.splits)
  then show ?thesis by (simp add: receipt_results_def)
qed

lemma length_functionResultItems: "length (functionResultItems s) = length (receipt_ordinals (ss_receipts s))"
proof -
  have "length (concat (map (\<lambda>(key, r). receipt_results key r) rs)) = length (receipt_ordinals rs)" for rs
    by (induction rs) (auto simp: receipt_ordinals_def length_receipt_results)
  then show ?thesis by (simp add: functionResultItems_def)
qed

lemma completed_calls_receipts:
  "completed_calls s = concat (map (\<lambda>(key, r). command_calls (rc_commands r)) (ss_receipts s))"
  by (simp add: completed_calls_def command_calls_def)

lemma binding_split:
  assumes "distinct (map binding_id turns)" "b \<in> set turns"
  obtains us vs where "turns = us @ b # vs" "change_binding (binding_id b) f turns = us @ f b # vs"
proof -
  from split_list [OF assms(2)] obtain us vs where turns: "turns = us @ b # vs" by blast
  then have "binding_id b \<notin> binding_id ` set us" "binding_id b \<notin> binding_id ` set vs" using assms(1) by auto
  then have "change_binding (binding_id b) f turns = us @ f b # vs"
    by (auto simp: turns change_binding_def binding_id_def image_iff intro!: map_idI)
  with turns that show thesis by blast
qed

lemma active_binding_Some: "active_binding turns = Some b \<Longrightarrow> b \<in> set turns \<and> open_binding b"
  by (auto simp: active_binding_def find_Some_iff open_binding_def simp flip: set_rev [of turns]
      simp del: set_rev)

lemma active_binding_None: "active_binding turns = None \<longleftrightarrow> filter open_binding turns = []"
  by (auto simp: active_binding_def find_None_iff open_binding_def filter_empty_conv)

lemma all_grown_change:
  "(\<And>b. grown b (f b)) \<Longrightarrow> all_grown turns (change_binding k f turns)"
  unfolding all_grown_def change_binding_def
  by (intro exI [of _ "change_binding k f turns"] exI [of _ "[]"])
    (auto simp: change_binding_def list_all2_conv_all_nth)

lemma all_grown_snoc: "all_grown turns (turns @ [b])"
  unfolding all_grown_def by (rule exI [of _ turns], rule exI [of _ "[b]"]) (simp add: list_all2_refl)

section \<open>Places\<close>

lemma places_Suc: "places (Suc n) = add_mset (Some (int n)) (places n)"
  by (simp add: places_def)

lemma plan_messages_length [simp]: "length (plan_messages ms after ids k) = length ms"
  by (induction ms arbitrary: after ids k) auto

lemma plan_messages_places:
  "places n + mset (map sm_acceptedOrdinal (plan_messages ms after ids (int n))) = places (n + length ms)"
proof (induction ms arbitrary: n after ids)
  case (Cons m ms)
  have "places n + mset (map sm_acceptedOrdinal (plan_messages (m # ms) after ids (int n))) =
      places (Suc n) + mset (map sm_acceptedOrdinal (plan_messages ms (Some (hd ids)) (tl ids) (int (Suc n))))"
    by (simp add: places_Suc add.commute)
  also have "\<dots> = places (Suc n + length ms)" by (rule Cons)
  finally show ?case by simp
qed simp

section \<open>The loop over the events\<close>

definition plan_ok :: "session_state \<Rightarrow> turn_binding list \<Rightarrow> plan_ids \<Rightarrow> nat \<Rightarrow> plan_state \<Rightarrow> bool" where
  "plan_ok s turns0 ids n p \<longleftrightarrow> distinct (map binding_id (ps_turns p)) \<and>
     binding_id ` set (ps_turns p) \<subseteq> binding_id ` set turns0 \<union> set (take n (pi_turnIds ids)) \<and>
     length (filter open_binding (ps_turns p)) \<le> 1 \<and> 0 \<le> ps_acceptedOrdinal p \<and>
     mset (turn_ordinals (ps_turns p)) + mset (receipt_ordinals (ss_receipts s)) +
       mset (command_ordinals (ps_commands p)) = places (nat (ps_acceptedOrdinal p)) \<and>
     ps_completedCalls p = completed_calls s @ command_calls (ps_commands p) \<and>
     distinct (ps_completedCalls p) \<and> all_grown turns0 (ps_turns p)"

lemma plan_okD:
  assumes "plan_ok s turns0 ids n p"
  shows "distinct (map binding_id (ps_turns p))"
    "binding_id ` set (ps_turns p) \<subseteq> binding_id ` set turns0 \<union> set (take n (pi_turnIds ids))"
    "length (filter open_binding (ps_turns p)) \<le> 1" "0 \<le> ps_acceptedOrdinal p"
    "mset (turn_ordinals (ps_turns p)) + mset (receipt_ordinals (ss_receipts s)) +
       mset (command_ordinals (ps_commands p)) = places (nat (ps_acceptedOrdinal p))"
    "ps_completedCalls p = completed_calls s @ command_calls (ps_commands p)"
    "distinct (ps_completedCalls p)" "all_grown turns0 (ps_turns p)"
  using assms by (auto simp: plan_ok_def)

lemma take_mono: "set (take n xs) \<subseteq> set (take (Suc n) xs)"
  by (simp add: set_take_subset_set_take)

definition fresh_ids :: "turn_binding list \<Rightarrow> plan_ids \<Rightarrow> bool" where
  "fresh_ids turns0 ids \<longleftrightarrow> distinct (pi_turnIds ids) \<and> set (pi_turnIds ids) \<inter> binding_id ` set turns0 = {}"

lemma plan_cancel_ok:
  assumes "plan_ok s turns0 ids n p"
  shows "plan_ok s turns0 ids (Suc n) (plan_cancel_event p)"
proof (cases "active_binding (ps_turns p)")
  case None
  then show ?thesis using assms take_mono [of n "pi_turnIds ids"] by (auto simp: plan_cancel_event_def plan_ok_def)
next
  case (Some b)
  note ok = plan_okD [OF assms]
  let ?f = "\<lambda>b. b\<lparr>tb_cancelRequested := True\<rparr>"
  from active_binding_Some [OF Some] binding_split [OF ok(1), of b ?f] obtain us vs where
    split: "ps_turns p = us @ b # vs" "change_binding (binding_id b) ?f (ps_turns p) = us @ ?f b # vs" by blast
  have p': "plan_cancel_event p = p\<lparr>ps_turns := us @ ?f b # vs, ps_commands := ps_commands p @ [Cancel_Command (binding_id b)]\<rparr>"
    using Some split(2) by (simp add: plan_cancel_event_def binding_id_def)
  have "all_grown (ps_turns p) (change_binding (binding_id b) ?f (ps_turns p))"
    by (rule all_grown_change) (simp add: grown_def)
  then have "all_grown turns0 (us @ ?f b # vs)" using all_grown_trans [OF ok(8)] split(2) by simp
  moreover have "length (filter open_binding (us @ ?f b # vs)) \<le> 1"
    using ok(3) unfolding split(1) by (auto simp: open_binding_def split: if_splits)
  moreover have "binding_id ` set (us @ ?f b # vs) \<subseteq> binding_id ` set turns0 \<union> set (take (Suc n) (pi_turnIds ids))"
    using ok(2) take_mono [of n "pi_turnIds ids"] unfolding split(1) by auto
  moreover have "distinct (map binding_id (us @ ?f b # vs))" using ok(1) unfolding split(1) by simp
  ultimately show ?thesis using ok(4-7) unfolding p' plan_ok_def split(1) by simp
qed

lemma plan_message_ok:
  assumes "plan_ok s turns0 ids n p" "fresh_ids turns0 ids" "n < length (pi_turnIds ids)"
    "plan_message_event s observation ids now_s n input p = Inr p'"
  shows "plan_ok s turns0 ids (Suc n) p'"
proof -
  note ok = plan_okD [OF assms(1)]
  let ?ms = "plan_messages input (message_anchor ids (active_binding (ps_turns p)))
    (drop (ps_messageOffset p) (pi_messageIds ids)) (ps_acceptedOrdinal p)"
  have ordinal: "ps_acceptedOrdinal p = int (nat (ps_acceptedOrdinal p))" using ok(4) by simp
  have places: "places (nat (ps_acceptedOrdinal p)) + mset (map sm_acceptedOrdinal ?ms) =
      places (nat (ps_acceptedOrdinal p + int (length input)))"
    using plan_messages_places [of "nat (ps_acceptedOrdinal p)" input "message_anchor ids (active_binding (ps_turns p))"
        "drop (ps_messageOffset p) (pi_messageIds ids)"] ordinal ok(4) by (simp add: nat_add_distrib)
  show ?thesis
  proof (cases "active_binding (ps_turns p)")
    case (Some b)
    let ?f = "\<lambda>b. b\<lparr>tb_input := tb_input b @ ?ms\<rparr>"
    from active_binding_Some [OF Some] binding_split [OF ok(1), of b ?f] obtain us vs where
      split: "ps_turns p = us @ b # vs" "change_binding (binding_id b) ?f (ps_turns p) = us @ ?f b # vs" by blast
    have p': "p' = p\<lparr>ps_messageOffset := ps_messageOffset p + length input,
        ps_acceptedOrdinal := ps_acceptedOrdinal p + int (length input), ps_turns := us @ ?f b # vs,
        ps_commands := ps_commands p @ [Steer_Command (binding_id b) input (pi_operationIds ids ! n)]\<rparr>"
      using assms(4) Some split(2) by (auto simp: plan_message_event_def binding_id_def Let_def split: if_splits)
    have "all_grown (ps_turns p) (change_binding (binding_id b) ?f (ps_turns p))"
      by (rule all_grown_change) (simp add: grown_def)
    then have "all_grown turns0 (us @ ?f b # vs)" using all_grown_trans [OF ok(8)] split(2) by simp
    moreover have "length (filter open_binding (us @ ?f b # vs)) \<le> 1"
      using ok(3) unfolding split(1) by (auto simp: open_binding_def)
    moreover have "binding_id ` set (us @ ?f b # vs) \<subseteq> binding_id ` set turns0 \<union> set (take (Suc n) (pi_turnIds ids))"
      using ok(2) take_mono [of n "pi_turnIds ids"] unfolding split(1) by auto
    moreover have "distinct (map binding_id (us @ ?f b # vs))" using ok(1) unfolding split(1) by simp
    moreover have "mset (turn_ordinals (us @ ?f b # vs)) + mset (receipt_ordinals (ss_receipts s)) +
        mset (command_ordinals (ps_commands p)) = places (nat (ps_acceptedOrdinal p + int (length input)))"
      using ok(5) unfolding split(1) places [symmetric] by (simp add: ac_simps flip: mset_map)
    ultimately show ?thesis using ok(4,6,7) unfolding p' plan_ok_def by simp
  next
    case None
    let ?t = "new_turn (ss_session s) (pi_turnIds ids ! n) now_s"
    let ?b = "\<lparr>tb_turn = ?t, tb_input = ?ms, tb_modelSettings = Some (sessionModelSettings (se_agent (so_session observation))),
        tb_cancelRequested = False, tb_savedItems = None\<rparr>"
    have p': "p' = p\<lparr>ps_messageOffset := ps_messageOffset p + length input,
        ps_acceptedOrdinal := ps_acceptedOrdinal p + int (length input), ps_turns := ps_turns p @ [?b],
        ps_commands := ps_commands p @ [Start_Command (tr_id ?t) ?ms]\<rparr>"
      using assms(4) None by (auto simp: plan_message_event_def Let_def split: if_splits)
    have new: "binding_id ?b = pi_turnIds ids ! n" by (simp add: binding_id_def new_turn_def)
    have "pi_turnIds ids ! n \<notin> set (take n (pi_turnIds ids))"
      using assms(2,3) by (auto simp: fresh_ids_def in_set_conv_nth distinct_conv_nth)
    moreover have "pi_turnIds ids ! n \<notin> binding_id ` set turns0"
      using assms(2) nth_mem [OF assms(3)] unfolding fresh_ids_def by blast
    ultimately have "binding_id ?b \<notin> binding_id ` set (ps_turns p)" using ok(2) new by auto
    then have "distinct (map binding_id (ps_turns p @ [?b]))" using ok(1) by simp
    moreover have "binding_id ` set (ps_turns p @ [?b]) \<subseteq> binding_id ` set turns0 \<union> set (take (Suc n) (pi_turnIds ids))"
      using ok(2) assms(3) by (auto simp: take_Suc_conv_app_nth new)
    moreover have "length (filter open_binding (ps_turns p @ [?b])) \<le> 1"
      using None by (simp add: active_binding_None)
    moreover have "all_grown turns0 (ps_turns p @ [?b])" using all_grown_trans [OF ok(8) all_grown_snoc] .
    moreover have "mset (turn_ordinals (ps_turns p @ [?b])) + mset (receipt_ordinals (ss_receipts s)) +
        mset (command_ordinals (ps_commands p)) = places (nat (ps_acceptedOrdinal p + int (length input)))"
      using ok(5) unfolding places [symmetric] by (simp add: ac_simps flip: mset_map)
    ultimately show ?thesis using ok(4,6,7) unfolding p' plan_ok_def by simp
  qed
qed

lemma plan_result_ok:
  assumes "plan_ok s turns0 ids n p" "plan_result_event observation ids e p = Inr p'"
  shows "plan_ok s turns0 ids (Suc n) p'"
proof -
  note ok = plan_okD [OF assms(1)]
  let ?k = "call_key (te_turn_id e) (te_call_id e)"
  have fresh: "?k \<notin> set (ps_completedCalls p)"
    and p': "p' = p\<lparr>ps_completedCalls := ps_completedCalls p @ [?k],
        ps_commands := ps_commands p @ [Tool_Result_Command (te_turn_id e) (anchor_of ids (te_turn_id e))
          (Some (ps_acceptedOrdinal p)) e], ps_acceptedOrdinal := ps_acceptedOrdinal p + 1\<rparr>"
    using assms(2) by (auto simp: plan_result_event_def Let_def split: if_splits)
  have "places (nat (ps_acceptedOrdinal p + 1)) = add_mset (Some (ps_acceptedOrdinal p)) (places (nat (ps_acceptedOrdinal p)))"
    using ok(4) places_Suc [of "nat (ps_acceptedOrdinal p)"] by (simp add: nat_add_distrib)
  then show ?thesis using ok fresh take_mono [of n "pi_turnIds ids"] unfolding p' plan_ok_def by auto
qed

lemma plan_events_ok:
  assumes "plan_ok s turns0 ids n p" "fresh_ids turns0 ids" "n + length es \<le> length (pi_turnIds ids)"
    "plan_events s observation ids now_s n es p = Inr p'"
  shows "plan_ok s turns0 ids (n + length es) p'"
  using assms
proof (induction es arbitrary: n p)
  case (Cons e es)
  from Cons.prems(4) obtain p1 where step: "(case e of
       Message_Event input \<Rightarrow> plan_message_event s observation ids now_s n input p
     | Cancel_Event \<Rightarrow> Inr (plan_cancel_event p)
     | Tool_Result_Event r \<Rightarrow> plan_result_event observation ids r p) = Inr p1"
    and rest: "plan_events s observation ids now_s (Suc n) es p1 = Inr p'"
    by (auto simp: bindE_Inr)
  have "plan_ok s turns0 ids (Suc n) p1"
    using step Cons.prems(1-3)
    by (cases e) (auto intro: plan_message_ok plan_cancel_ok plan_result_ok)
  from Cons.IH [OF this Cons.prems(2) _ rest] Cons.prems(3) show ?case by simp
qed simp

section \<open>Accepting input\<close>

text \<open>An observation shows the Session's Turns and does not reopen one that ended.\<close>

definition observes :: "session_state \<Rightarrow> session_observation \<Rightarrow> bool" where
  "observes s observation \<longleftrightarrow> (\<forall>b \<in> set (ss_turns s). \<forall>o1 \<in> set (so_turns observation).
     tr_id (to_turn o1) = tr_id (tb_turn b) \<longrightarrow> terminalTurn (tb_turn b) \<longrightarrow> terminalTurn (to_turn o1))"

definition observed_binding :: "session_observation \<Rightarrow> turn_binding \<Rightarrow> turn_binding" where
  "observed_binding observation b = b\<lparr>tb_turn := (case find (\<lambda>o1. tr_id (to_turn o1) = tr_id (tb_turn b))
     (so_turns observation) of Some o1 \<Rightarrow> to_turn o1 | None \<Rightarrow> tb_turn b)\<rparr>"

lemma observed_turns_map: "observed_turns s observation = map (observed_binding observation) (ss_turns s)"
  by (simp add: observed_turns_def observed_binding_def)

lemma observed_binding_id [simp]: "binding_id (observed_binding observation b) = binding_id b"
  by (auto simp: observed_binding_def binding_id_def find_Some_iff split: option.splits)

lemma observed_binding_open:
  assumes "observes s observation" "b \<in> set (ss_turns s)" "open_binding (observed_binding observation b)"
  shows "open_binding b"
proof (cases "find (\<lambda>o1. tr_id (to_turn o1) = tr_id (tb_turn b)) (so_turns observation)")
  case None
  then show ?thesis using assms(3) by (simp add: open_binding_def observed_binding_def)
next
  case (Some o1)
  then have "o1 \<in> set (so_turns observation)" "tr_id (to_turn o1) = tr_id (tb_turn b)"
    by (auto simp: find_Some_iff)
  then show ?thesis using assms Some by (auto simp: open_binding_def observed_binding_def observes_def)
qed

lemma filter_open_observed:
  assumes "\<And>b. b \<in> set bs \<Longrightarrow> open_binding (f b) \<Longrightarrow> open_binding b"
  shows "length (filter open_binding (map f bs)) \<le> length (filter open_binding bs)"
  using assms by (induction bs) (auto intro: le_SucI)

lemma turn_ordinals_observed: "turn_ordinals (observed_turns s observation) = turn_ordinals (ss_turns s)"
  by (simp add: observed_turns_map turn_ordinals_def observed_binding_def comp_def)

lemma initial_plan_ok:
  assumes "session_ok s" "observes s observation"
  shows "plan_ok s (observed_turns s observation) ids 0 (initial_plan s observation)"
proof -
  have "length (filter open_binding (observed_turns s observation)) \<le> length (filter open_binding (ss_turns s))"
    unfolding observed_turns_map by (rule filter_open_observed) (rule observed_binding_open [OF assms(2)])
  moreover have "distinct (map binding_id (observed_turns s observation))"
    using assms(1) by (simp add: session_ok_def observed_turns_map comp_def)
  moreover have "nat (ps_acceptedOrdinal (initial_plan s observation)) =
      length (turn_ordinals (ss_turns s) @ receipt_ordinals (ss_receipts s))"
    by (simp add: initial_plan_def length_turn_ordinals length_functionResultItems)
  ultimately show ?thesis
    using assms(1) unfolding plan_ok_def session_ok_def
    by (simp add: initial_plan_def turn_ordinals_observed command_calls_def command_ordinals_def all_grown_refl)
qed

lemma update_new: "key \<notin> fst ` set rs \<Longrightarrow> AList.update key r rs = rs @ [(key, r)]"
  by (induction rs) auto

lemma places_unique: "mset xs = places n \<Longrightarrow> mset xs = places (length xs)"
  by (metis length_map length_upt mset_eq_length diff_zero places_def)

text \<open>
  C6. Accepting input keeps a Session well formed: at most one Turn is open, every accepted message
  and result has a place of its own without gaps, no call is answered twice, and what was accepted
  before is still there in the same order.
\<close>
theorem accepted_input_keeps_session:
  assumes "session_ok s" "observes s observation"
    "fresh_ids (ss_turns s) ids" "length events \<le> length (pi_turnIds ids)"
    "key \<notin> fst ` set (ss_receipts s)"
    "planSessionInput s observation events ids now_s = Inr (s', commands)"
  shows "session_ok (save_receipt key digest commands s') \<and>
    all_grown (observed_turns s observation) (ss_turns s') \<and> ss_receipts s' = ss_receipts s"
proof -
  from assms(6) obtain p where run: "plan_events s observation ids now_s 0 events (initial_plan s observation) = Inr p"
    and s': "ss_turns s' = ps_turns p" "ss_receipts s' = ss_receipts s" "commands = ps_commands p"
    by (auto simp: planSessionInput_def bindE_Inr split: if_splits)
  have "fresh_ids (observed_turns s observation) ids"
    using assms(3) by (simp add: fresh_ids_def observed_turns_map image_image)
  from plan_events_ok [OF initial_plan_ok [OF assms(1,2)] this _ run] assms(4)
  have "plan_ok s (observed_turns s observation) ids (length events) p" by simp
  note ok = plan_okD [OF this]
  let ?r = "save_receipt key digest commands s'"
  have receipts: "ss_receipts ?r = ss_receipts s @ [(key, \<lparr>rc_digest = digest, rc_commands = commands,
      rc_dispatched = False, rc_failure = None\<rparr>)]"
    using update_new [OF assms(5)] s'(2) by (simp add: save_receipt_def)
  have turns: "ss_turns ?r = ps_turns p" using s'(1) by (simp add: save_receipt_def)
  have ordinals: "receipt_ordinals (ss_receipts ?r) = receipt_ordinals (ss_receipts s) @ command_ordinals commands"
    by (simp add: receipts receipt_ordinals_def)
  have calls: "completed_calls ?r = completed_calls s @ command_calls commands"
    by (simp add: completed_calls_receipts receipts)
  have "mset (turn_ordinals (ss_turns ?r) @ receipt_ordinals (ss_receipts ?r)) = places (nat (ps_acceptedOrdinal p))"
    using ok(5) [folded s'(3)] unfolding turns ordinals by (simp add: ac_simps)
  note places_unique [OF this]
  moreover have "distinct (map fst (ss_receipts ?r))" using assms(1,5) unfolding receipts by (simp add: session_ok_def)
  moreover have "distinct (completed_calls ?r)" using ok(6,7) [folded s'(3)] unfolding calls by simp
  ultimately have "session_ok ?r" using ok(1,3) unfolding session_ok_def turns by blast
  then show ?thesis using ok(8) s' by simp
qed

definition example_agent :: session_agent where
  "example_agent = \<lparr>sa_id = ''agent'', sa_model = ''m'', sa_effort = None, sa_service_tier = ''auto'', sa_rest = JNull\<rparr>"

definition example_session :: agent_session where
  "example_session = \<lparr>se_id = ''sess'', se_agent = example_agent, se_status = Session_Idle, se_required_actions = [],
     se_last_active_at = 1, se_usage = None, se_error = None, se_metadata = [], se_rest = JNull\<rparr>"

definition empty_session :: session_state where
  "empty_session = \<lparr>ss_session = example_session, ss_turns = [], ss_receipts = [], ss_importedHistory = [],
     ss_forkLock = None, ss_closing = False, ss_deletedArtifacts = []\<rparr>"

definition example_observation :: session_observation where
  "example_observation = \<lparr>so_session = example_session, so_turns = []\<rparr>"

definition example_events :: "input_event list" where
  "example_events = [Message_Event [\<lparr>im_content = [Input_Text ''hi'']\<rparr>, \<lparr>im_content = [Input_Text ''more'']\<rparr>],
     Cancel_Event, Message_Event [\<lparr>im_content = [Input_Text ''again'']\<rparr>]]"

definition example_ids :: plan_ids where
  "example_ids = \<lparr>pi_turnIds = [''t1'', ''t2'', ''t3''], pi_messageIds = [''m1'', ''m2'', ''m3''],
     pi_operationIds = [''e1'', ''e2'', ''e3''], pi_itemAnchors = []\<rparr>"

lemma example_plan: "case planSessionInput empty_session example_observation example_events example_ids 5 of
    Inr (s', commands) \<Rightarrow> map binding_id (ss_turns s') = [''t1'', ''t3''] \<and> length commands = 3 | Inl e \<Rightarrow> False"
  by code_simp

theorem accepted_input_keeps_session_witness:
  "\<exists>s' commands. planSessionInput empty_session example_observation example_events example_ids 5 = Inr (s', commands) \<and>
     map binding_id (ss_turns s') = [''t1'', ''t3''] \<and> session_ok (save_receipt ''key'' ''digest'' commands s')"
proof -
  from example_plan obtain s' commands where
    run: "planSessionInput empty_session example_observation example_events example_ids 5 = Inr (s', commands)"
    and turns: "map binding_id (ss_turns s') = [''t1'', ''t3'']"
    by (auto split: sum.splits prod.splits)
  have "session_ok empty_session" "observes empty_session example_observation"
    "fresh_ids (ss_turns empty_session) example_ids" "length example_events \<le> length (pi_turnIds example_ids)"
    "''key'' \<notin> fst ` set (ss_receipts empty_session)"
    by (simp_all add: session_ok_def empty_session_def observes_def fresh_ids_def example_ids_def example_events_def
        receipt_ordinals_def places_def completed_calls_def)
  from accepted_input_keeps_session [OF this run, of "''digest''"]
  have "session_ok (save_receipt ''key'' ''digest'' commands s')" by (rule conjunct1)
  with run turns show ?thesis by (intro exI [of _ s'] exI [of _ commands] conjI)
qed

end
