(* ===== verification/Session_Pages.thy ===== *)
theory Session_Pages
  imports Session_Planning
begin

text \<open>
  Pages of a list (\<open>cursorPage\<close> in \<open>src/core/session-planning.ts\<close>): a client that follows the
  cursors sees every resource once.
\<close>

section \<open>Pages\<close>

text \<open>A client that follows the cursor of the last resource while there is more.\<close>

fun read_pages ::
  "('a \<Rightarrow> string option) \<Rightarrow> 'a list \<Rightarrow> js_number option \<Rightarrow> bool \<Rightarrow> nat \<Rightarrow> string option \<Rightarrow> agents_error + 'a list" where
  "read_pages id_of resources limit asc 0 after = Inr []"
| "read_pages id_of resources limit asc (Suc n) after =
     bindE (cursorPage id_of resources \<lparr>pq_after = after, pq_limit = limit, pq_asc = asc\<rparr>) (\<lambda>p.
       if cp_has_more p
       then bindE (read_pages id_of resources limit asc n (id_of (last (cp_data p)))) (\<lambda>rest. Inr (cp_data p @ rest))
       else Inr (cp_data p))"

lemma page_limit_pos: "\<not> bad_limit l \<Longrightarrow> 0 < page_limit l"
  by (auto simp: bad_limit_def page_limit_def is_integer_def split: option.splits js_number.splits)

lemma page_after:
  assumes "\<not> bad_limit limit" "distinct (map id_of (pre @ suf))" "pre \<noteq> []" "truthy (id_of (last pre))"
    "(if asc then resources else rev resources) = pre @ suf"
  shows "cursorPage id_of resources \<lparr>pq_after = id_of (last pre), pq_limit = limit, pq_asc = asc\<rparr> =
    Inr \<lparr>cp_data = take (page_limit limit) suf, cp_has_more = page_limit limit < length suf\<rparr>"
proof -
  obtain ys y where pre: "pre = ys @ [y]" using assms(3) by (metis rev_exhaust)
  have "takeWhile (\<lambda>r. id_of r \<noteq> id_of y) (ys @ [y] @ suf) = ys"
    using assms(2) unfolding pre by (subst takeWhile_append2) (auto simp: image_iff)
  then show ?thesis using assms(1,4,5) unfolding pre by (auto simp: cursorPage_def Let_def min_def)
qed

lemma page_first:
  assumes "\<not> bad_limit limit" "(if asc then resources else rev resources) = suf"
  shows "cursorPage id_of resources \<lparr>pq_after = None, pq_limit = limit, pq_asc = asc\<rparr> =
    Inr \<lparr>cp_data = take (page_limit limit) suf, cp_has_more = page_limit limit < length suf\<rparr>"
  using assms by (auto simp: cursorPage_def truthy_def Let_def min_def)

lemma read_pages_from:
  assumes "\<not> bad_limit limit" "\<forall>r \<in> set (pre @ suf). truthy (id_of r)" "distinct (map id_of (pre @ suf))"
    "(if asc then resources else rev resources) = pre @ suf" "length suf < n"
    "after = (if pre = [] then None else id_of (last pre))"
  shows "read_pages id_of resources limit asc n after = Inr suf"
  using assms
proof (induction n arbitrary: pre suf after)
  case (Suc n)
  let ?k = "page_limit limit"
  have page: "cursorPage id_of resources \<lparr>pq_after = after, pq_limit = limit, pq_asc = asc\<rparr> =
      Inr \<lparr>cp_data = take ?k suf, cp_has_more = ?k < length suf\<rparr>"
  proof (cases "pre = []")
    case True
    then show ?thesis using Suc.prems(6) page_first [OF Suc.prems(1), of asc resources suf] Suc.prems(4) by simp
  next
    case False
    then show ?thesis using Suc.prems(6) page_after [OF Suc.prems(1,3) False _ Suc.prems(4)] Suc.prems(2) by simp
  qed
  show ?case
  proof (cases "?k < length suf")
    case True
    have pos: "0 < ?k" by (rule page_limit_pos [OF Suc.prems(1)])
    have ne: "take ?k suf \<noteq> []" using True pos by (cases suf) auto
    have "read_pages id_of resources limit asc n (id_of (last (take ?k suf))) = Inr (drop ?k suf)"
      using Suc.prems True pos ne
      by (intro Suc.IH [of "pre @ take ?k suf" "drop ?k suf"]) (auto simp: last_append)
    then show ?thesis using True page by simp
  qed (use page in simp)
qed simp

text \<open>
  C16. Following the cursors returns the whole list once and in order, whatever the page size, and
  never fails: every page has at most the given limit and at most a hundred resources.
\<close>
theorem pages_partition:
  assumes "\<not> bad_limit limit" "\<forall>r \<in> set resources. truthy (id_of r)" "distinct (map id_of resources)"
  shows "read_pages id_of resources limit asc (Suc (length resources)) None =
      Inr (if asc then resources else rev resources) \<and>
    (\<forall>after p. cursorPage id_of resources \<lparr>pq_after = after, pq_limit = limit, pq_asc = asc\<rparr> = Inr p \<longrightarrow>
      length (cp_data p) \<le> min (page_limit limit) 100)"
proof (intro conjI allI impI)
  show "read_pages id_of resources limit asc (Suc (length resources)) None =
      Inr (if asc then resources else rev resources)"
    using assms by (intro read_pages_from [where pre = "[]"]) (auto simp: rev_map [symmetric])
  show "length (cp_data p) \<le> min (page_limit limit) 100"
    if "cursorPage id_of resources \<lparr>pq_after = after, pq_limit = limit, pq_asc = asc\<rparr> = Inr p" for after p
    using that by (auto simp: cursorPage_def page_limit_def Let_def split: if_splits option.splits js_number.splits)
qed

theorem pages_partition_witness:
  "read_pages Some [''a'', ''b'', ''c''] (Some (Finite 2)) False (Suc (length [''a'', ''b'', ''c''])) None =
    Inr (rev [''a'', ''b'', ''c''])"
proof -
  have "\<not> bad_limit (Some (Finite 2))" by (simp add: bad_limit_def is_integer_def)
  from pages_partition [OF this, of "[''a'', ''b'', ''c'']" Some False, THEN conjunct1]
  show ?thesis by (simp add: truthy_def del: read_pages.simps)
qed

end
