(* ===== verification/Session_Stream.thy ===== *)
theory Session_Stream
  imports Session_Runtime Session_Planning
begin

text \<open>
  What a Session shows and announces: the public observation of the saved values
  (\<open>src/core/session-observation-planning.ts\<close>), the events that lead from one observation to
  the next (\<open>src/core/session-stream.ts\<close>), and the webhooks of a transition
  (\<open>src/domain/session-webhooks.ts\<close>).

  Two lists of required actions are compared by their JSON, as in the code. The settings of a
  Session's environment are read from the fields the model keeps as JSON.
\<close>

section \<open>Data\<close>

text \<open>A saved Session with the subagents that were saved with it.\<close>

record saved_session = session_state +
  xs_subagents :: "subagent_snapshot list option"

record stored_environment =
  sv_id :: string
  sv_type :: string
  sv_sessionId :: string
  sv_status :: string
  sv_connectedUntil :: "rat option"
  sv_retired :: bool
  sv_resetCount :: "int option"

text \<open>The error of a failed environment has one code, type and message; \<open>ev_failed\<close> says it is there.\<close>

record environment_state =
  en_id :: string
  en_type :: string
  en_status :: string
  en_failed :: bool

record delivery_failure =
  df_id :: string
  df_code :: string
  df_message :: string

record stream_snapshot =
  sh_session :: agent_session
  sh_turns :: "turn list"
  sh_items :: "session_item list"
  sh_subagents :: "subagent list"
  sh_failures :: "delivery_failure list"
  sh_environment :: "environment_state option"
  sh_environmentResetCount :: "int option"

text \<open>Where a part of an output stands.\<close>

record output_place =
  op_session :: string
  op_turn :: string
  op_item :: "string option"
  op_output :: nat

datatype stream_event =
    Stream_Error string string string
  | Session_Created agent_session
  | Environment_Reset string string int "string option"
  | Subagent_Created subagent
  | Subagent_Changed bool subagent
  | Environment_Changed string string "string option" environment_state
  | Turn_Created string turn
  | Turn_Started string turn
  | Item_Added string session_item "nat option"
  | Part_Added output_place nat
  | Text_Delta output_place nat string
  | Text_Done output_place nat string
  | Part_Done output_place nat string
  | Command_Delta output_place string
  | Summary_Added output_place nat
  | Summary_Delta output_place nat string
  | Summary_Done output_place nat string
  | Summary_Part_Done output_place nat string "string option"
  | Item_Done string session_item nat
  | Turn_Ended turn_status string turn
  | Session_Changed session_status agent_session

section \<open>Changes of items\<close>

fun is_message :: "item_body \<Rightarrow> bool" where
  "is_message (Message_Body role content phase) \<longleftrightarrow> True"
| "is_message _ \<longleftrightarrow> False"

fun is_output_body :: "item_body \<Rightarrow> bool" where
  "is_output_body (Function_Output_Body callId out e) \<longleftrightarrow> False"
| "is_output_body (Message_Body role content phase) \<longleftrightarrow> role = ''assistant''"
| "is_output_body _ \<longleftrightarrow> True"

definition is_output :: "session_item \<Rightarrow> bool" where
  "is_output i \<longleftrightarrow> is_output_body (si_body i) \<and> si_status i \<noteq> None"

definition old_item :: "stream_snapshot option \<Rightarrow> session_item \<Rightarrow> session_item option" where
  "old_item previous i = (case previous of
       None \<Rightarrow> None
     | Some p \<Rightarrow> find (\<lambda>c. si_id c = si_id i \<and> si_turn_id c = si_turn_id i) (sh_items p))"

definition old_content :: "session_item option \<Rightarrow> content_part list" where
  "old_content i = (case i of None \<Rightarrow> []
     | Some x \<Rightarrow> (case si_body x of Message_Body role content phase \<Rightarrow> content | _ \<Rightarrow> []))"

definition old_summary :: "session_item option \<Rightarrow> string list" where
  "old_summary i = (case i of None \<Rightarrow> []
     | Some x \<Rightarrow> (case si_body x of Reasoning_Body summary \<Rightarrow> summary | _ \<Rightarrow> []))"

definition element_at :: "'a list \<Rightarrow> nat \<Rightarrow> 'a option" where
  "element_at xs n = (if n < length xs then Some (xs ! n) else None)"

definition delta_of :: "string \<Rightarrow> string \<Rightarrow> string option" where
  "delta_of before after = (if after \<noteq> before \<and> starts_with after before then Some (drop (length before) after) else None)"

definition option_list :: "'a option \<Rightarrow> 'a list" where
  "option_list x = (case x of None \<Rightarrow> [] | Some y \<Rightarrow> [y])"

definition message_done :: "session_item option \<Rightarrow> session_item \<Rightarrow> bool" where
  "message_done old i \<longleftrightarrow> \<not> item_in_progress i \<and>
     (case old of None \<Rightarrow> True | Some x \<Rightarrow> \<not> is_message (si_body x) \<or> item_in_progress x)"

definition text_before :: "content_part option \<Rightarrow> string" where
  "text_before before = (case before of Some (Output_Text t) \<Rightarrow> t | _ \<Rightarrow> [])"

definition part_events ::
  "output_place \<Rightarrow> session_item option \<Rightarrow> bool \<Rightarrow> nat \<times> content_part \<Rightarrow> stream_event list" where
  "part_events place old is_done part = (case part of
       (n, Output_Text t) \<Rightarrow> (let before = element_at (old_content old) n in
         (if before = None then [Part_Added place n] else []) @
         map (Text_Delta place n) (option_list (delta_of (text_before before) t)) @
         (if is_done then [Text_Done place n t, Part_Done place n t] else []))
     | _ \<Rightarrow> [])"

definition output_texts :: "content_part list \<Rightarrow> content_part list" where
  "output_texts = filter (\<lambda>p. case p of Output_Text t \<Rightarrow> True | _ \<Rightarrow> False)"

definition message_events ::
  "output_place \<Rightarrow> session_item option \<Rightarrow> session_item \<Rightarrow> string \<Rightarrow> content_part list \<Rightarrow> string option \<Rightarrow> stream_event list"
where
  "message_events place old i role content phase =
     (let is_done = message_done old i in
      concat (map (part_events place old is_done) (enumerate 0 content)) @
      (if is_done then [Item_Done (op_session place)
         (i\<lparr>si_body := Message_Body ''assistant'' (output_texts content) phase\<rparr>) (op_output place)] else []))"

definition summary_events ::
  "output_place \<Rightarrow> session_item option \<Rightarrow> session_item \<Rightarrow> nat \<times> string \<Rightarrow> stream_event list" where
  "summary_events place old i part = (case part of (n, t) \<Rightarrow>
     (let before = element_at (old_summary old) n in
      (if before = None then [Summary_Added place n] else []) @
      map (Summary_Delta place n) (option_list (delta_of (case before of Some b \<Rightarrow> b | None \<Rightarrow> []) t)) @
      (if finalItem (Some i) \<and> \<not> finalItem old then [Summary_Done place n t,
         Summary_Part_Done place n t (if si_status i = Some (Some ''incomplete'') then Some ''incomplete'' else None)]
       else [])))"

definition other_events :: "output_place \<Rightarrow> session_item option \<Rightarrow> session_item \<Rightarrow> stream_event list" where
  "other_events place old i =
     (let finished = (finalItem (Some i) \<and> \<not> finalItem old) in
      (case si_body i of
         Command_Body c w d e out \<Rightarrow> (case out of
             Some t \<Rightarrow> if t \<noteq> [] \<and> finished then [Command_Delta place t] else []
           | None \<Rightarrow> [])
       | Reasoning_Body summary \<Rightarrow> concat (map (summary_events place old i) (enumerate 0 summary))
       | _ \<Rightarrow> []) @
      (if finished then [Item_Done (op_session place) i (op_output place)] else []))"

definition item_events ::
  "string \<Rightarrow> session_item option \<Rightarrow> nat option \<Rightarrow> session_item \<Rightarrow> stream_event list" where
  "item_events session_id old index i =
     (if old = None then [Item_Added session_id i index] else []) @
     (case index of None \<Rightarrow> []
      | Some n \<Rightarrow> (let place = \<lparr>op_session = session_id, op_turn = si_turn_id i, op_item = si_id i, op_output = n\<rparr>
        in case si_body i of
            Message_Body role content phase \<Rightarrow>
              if si_id i = None then [] else message_events place old i role content phase
          | _ \<Rightarrow> other_events place old i))"

text \<open>The output indexes count the outputs of each Turn.\<close>

fun items_events ::
  "string \<Rightarrow> stream_snapshot option \<Rightarrow> (string \<Rightarrow> nat) \<Rightarrow> session_item list \<Rightarrow> stream_event list" where
  "items_events session_id previous indexes [] = []"
| "items_events session_id previous indexes (i # is) =
     (let n = indexes (si_turn_id i) in
      item_events session_id (old_item previous i) (if is_output i then Some n else None) i @
      items_events session_id previous (if is_output i then indexes(si_turn_id i := Suc n) else indexes) is)"

section \<open>The events of a transition\<close>

definition open_turn_id :: "stream_snapshot \<Rightarrow> string option" where
  "open_turn_id s = map_option tr_id (find (\<lambda>t. \<not> terminalTurn t) (sh_turns s))"

definition old_of :: "('a \<Rightarrow> string) \<Rightarrow> (stream_snapshot \<Rightarrow> 'a list) \<Rightarrow> stream_snapshot option \<Rightarrow> 'a \<Rightarrow> 'a option" where
  "old_of key list_of previous x = (case previous of None \<Rightarrow> None
     | Some p \<Rightarrow> find (\<lambda>c. key c = key x) (list_of p))"

definition failure_events :: "string \<Rightarrow> stream_snapshot option \<Rightarrow> stream_snapshot \<Rightarrow> stream_event list" where
  "failure_events session_id previous current = concat (map (\<lambda>f.
     if old_of df_id sh_failures previous f = None then [Stream_Error session_id (df_code f) (df_message f)] else [])
     (sh_failures current))"

definition reset_count :: "stream_snapshot option \<Rightarrow> int" where
  "reset_count s = (case s of None \<Rightarrow> 0 | Some x \<Rightarrow> (case sh_environmentResetCount x of None \<Rightarrow> 0 | Some n \<Rightarrow> n))"

definition reset_events :: "string \<Rightarrow> stream_snapshot option \<Rightarrow> stream_snapshot \<Rightarrow> stream_event list" where
  "reset_events session_id previous current = (case sh_environment current of
       None \<Rightarrow> []
     | Some e \<Rightarrow> if en_type e = ''openai_hosted'' \<and> reset_count (Some current) > reset_count previous
         then [Environment_Reset session_id (en_id e) (reset_count (Some current)) (open_turn_id current)] else [])"

definition subagent_events :: "stream_snapshot option \<Rightarrow> subagent \<Rightarrow> stream_event list" where
  "subagent_events previous a = (case old_of sg_id sh_subagents previous a of
       None \<Rightarrow> Subagent_Created a # (if sg_active a then [] else [Subagent_Changed False a])
     | Some old \<Rightarrow> if sg_active old \<noteq> sg_active a then [Subagent_Changed (sg_active a) a] else [])"

definition environment_events :: "string \<Rightarrow> stream_snapshot option \<Rightarrow> stream_snapshot \<Rightarrow> stream_event list" where
  "environment_events session_id previous current = (case sh_environment current of
       None \<Rightarrow> []
     | Some e \<Rightarrow> if map_option en_status (case previous of None \<Rightarrow> None | Some p \<Rightarrow> sh_environment p) \<noteq> Some (en_status e)
         then [Environment_Changed (en_status e) session_id (open_turn_id current) e] else [])"

definition turn_events :: "string \<Rightarrow> stream_snapshot option \<Rightarrow> turn \<Rightarrow> stream_event list" where
  "turn_events session_id previous t = (let old = old_of tr_id sh_turns previous t in
     (if old = None then [Turn_Created session_id t] else []) @
     (if tr_status t = Turn_In_Progress \<and> map_option tr_status old \<noteq> Some Turn_In_Progress
      then [Turn_Started session_id t] else []))"

definition ended_events :: "string \<Rightarrow> stream_snapshot option \<Rightarrow> turn \<Rightarrow> stream_event list" where
  "ended_events session_id previous t =
     (if map_option tr_status (old_of tr_id sh_turns previous t) = Some (tr_status t) then []
      else if terminalTurn t then [Turn_Ended (tr_status t) session_id t] else [])"

definition action_value :: "required_action \<Rightarrow> jsval" where
  "action_value a = (case a of
       Function_Action turnId callId name args \<Rightarrow> JObj [(''type'', JStr ''function_call''), (''call_id'', JStr callId),
         (''turn_id'', JStr turnId), (''name'', JStr name), (''arguments'', args)]
     | Environment_Action e \<Rightarrow> JObj [(''type'', JStr ''environment_connection''), (''environment_id'', JStr e)])"

definition same_actions :: "web_platform \<Rightarrow> required_action list \<Rightarrow> required_action list \<Rightarrow> bool" where
  "same_actions wp xs ys \<longleftrightarrow>
     canonicalJson wp (JArr (map action_value xs)) = canonicalJson wp (JArr (map action_value ys))"

definition session_events :: "web_platform \<Rightarrow> stream_snapshot option \<Rightarrow> agent_session \<Rightarrow> stream_event list" where
  "session_events wp previous session = (case previous of
       Some p \<Rightarrow> if se_status (sh_session p) = se_status session \<and>
           same_actions wp (se_required_actions (sh_session p)) (se_required_actions session)
         then [] else [Session_Changed (se_status session) session]
     | None \<Rightarrow> [Session_Changed (se_status session) session])"

definition planSessionStream ::
  "web_platform \<Rightarrow> stream_snapshot option \<Rightarrow> stream_snapshot \<Rightarrow> bool \<Rightarrow> stream_event list" where
  "planSessionStream wp previous current created =
     (let session_id = se_id (sh_session current) in
      failure_events session_id previous current @
      (if created then [Session_Created (sh_session current)] else []) @
      reset_events session_id previous current @
      concat (map (subagent_events previous) (sh_subagents current)) @
      environment_events session_id previous current @
      concat (map (turn_events session_id previous) (sh_turns current)) @
      items_events session_id previous (\<lambda>_. 0) (sh_items current) @
      concat (map (ended_events session_id previous) (sh_turns current)) @
      session_events wp previous (sh_session current))"

section \<open>Webhooks\<close>

record webhook_event =
  wv_type :: string
  wv_session :: string
  wv_action :: "string option"
  wv_environment :: "(string \<times> string) option"
  wv_remote_url :: "string option"

definition session_environment :: "agent_session \<Rightarrow> jsval" where
  "session_environment s = field_at (se_rest s) ''environment''"

definition environment_text :: "agent_session \<Rightarrow> string \<Rightarrow> string" where
  "environment_text s k = (case field_at (session_environment s) k of JStr t \<Rightarrow> t | _ \<Rightarrow> [])"

definition created_webhook :: "agent_session \<Rightarrow> webhook_event" where
  "created_webhook s = (let t = environment_text s ''type'' in
     \<lparr>wv_type = ''agent.session.created'', wv_session = se_id s, wv_action = None,
      wv_environment = (if t = ''none'' then None else Some (environment_text s ''id'', t)),
      wv_remote_url = (if t = ''self_hosted'' then Some (environment_text s ''remote_url'') else None)\<rparr>)"

definition plain_webhook :: "string \<Rightarrow> string option \<Rightarrow> agent_session \<Rightarrow> webhook_event" where
  "plain_webhook t action s = \<lparr>wv_type = t, wv_session = se_id s, wv_action = action,
     wv_environment = None, wv_remote_url = None\<rparr>"

definition action_type :: "required_action \<Rightarrow> string" where
  "action_type a = (case a of Function_Action t c n args \<Rightarrow> ''function_call'' | Environment_Action e \<Rightarrow> ''environment_connection'')"

definition actions_text :: "web_platform \<Rightarrow> string \<Rightarrow> required_action list \<Rightarrow> string" where
  "actions_text wp t actions = json_text wp (JArr (map action_value (filter (\<lambda>a. action_type a = t) actions)))"

definition session_status_text :: "session_status \<Rightarrow> string" where
  "session_status_text s = (case s of Session_Idle \<Rightarrow> ''idle'' | Session_In_Progress \<Rightarrow> ''in_progress''
     | Session_Requires_Action \<Rightarrow> ''requires_action'' | Session_Failed \<Rightarrow> ''failed'')"

definition action_webhooks :: "web_platform \<Rightarrow> agent_session option \<Rightarrow> agent_session \<Rightarrow> webhook_event list" where
  "action_webhooks wp previous s = concat (map (\<lambda>t.
     if map_option se_status previous \<noteq> Some Session_Requires_Action \<or>
       actions_text wp t (case previous of None \<Rightarrow> [] | Some p \<Rightarrow> se_required_actions p) \<noteq> actions_text wp t (se_required_actions s)
     then [plain_webhook ''agent.session.action_required'' (Some t) s] else [])
     (rev (remdups (rev (map action_type (se_required_actions s))))))"

definition planSessionWebhooks :: "web_platform \<Rightarrow> agent_session option \<Rightarrow> agent_session \<Rightarrow> webhook_event list" where
  "planSessionWebhooks wp previous s =
     (if previous = None then [created_webhook s] else []) @
     (if se_status s = Session_Requires_Action then action_webhooks wp previous s
      else if map_option se_status previous \<noteq> Some (se_status s)
      then [plain_webhook (''agent.session.'' @ session_status_text (se_status s)) None s] else [])"

section \<open>The observation of the saved values\<close>

definition environment_status :: "stored_environment \<Rightarrow> rat \<Rightarrow> string" where
  "environment_status e now_s = (if sv_retired e then ''expired''
     else if sv_status e = ''connected'' \<and> (case sv_connectedUntil e of None \<Rightarrow> 0 | Some t \<Rightarrow> t) \<le> now_s then ''disconnected''
     else sv_status e)"

definition public_environment :: "stored_environment option \<Rightarrow> rat \<Rightarrow> environment_state option" where
  "public_environment environment now_s = (case environment of
       None \<Rightarrow> None
     | Some e \<Rightarrow> (let status = environment_status e now_s in if status = [] then None
         else Some \<lparr>en_id = sv_id e, en_type = sv_type e, en_status = (if status = ''expired'' then ''failed'' else status),
           en_failed = (status = ''expired'' \<or> status = ''failed'')\<rparr>))"

definition saved_binding :: "runtime_state option \<Rightarrow> string \<Rightarrow> native_binding option" where
  "saved_binding native turnId = (case native of None \<Rightarrow> None
     | Some s \<Rightarrow> find (\<lambda>b. tr_id (nb_turn b) = turnId) (ru_turns s))"

definition saved_turn :: "runtime_state option \<Rightarrow> environment_state option \<Rightarrow> turn_binding \<Rightarrow> turn_observation" where
  "saved_turn native environment b =
     (let saved = saved_binding native (tr_id (tb_turn b));
          t = (if terminalTurn (tb_turn b) then tb_turn b else case saved of Some n \<Rightarrow> nb_turn n | None \<Rightarrow> tb_turn b)
      in \<lparr>to_turn = t, to_requiredActions = (if terminalTurn t then []
           else if saved \<noteq> None then (case native of None \<Rightarrow> [] | Some s \<Rightarrow> filter (action_of_turn (tr_id t)) (ru_requiredActions s))
           else case environment of None \<Rightarrow> []
             | Some e \<Rightarrow> if en_type e = ''self_hosted'' \<and> en_status e \<noteq> ''connected'' \<and> \<not> tb_cancelRequested b
                 then [Environment_Action (en_id e)] else [])\<rparr>)"

definition subagent_observations :: "subagent_snapshot \<Rightarrow> turn_observation list" where
  "subagent_observations a = map (\<lambda>t. \<lparr>to_turn = t,
     to_requiredActions = filter (action_of_turn (tr_id t)) (sp_requiredActions a)\<rparr>) (sp_turns a)"

definition saved_items :: "session_state \<Rightarrow> runtime_state option \<Rightarrow> turn_binding \<Rightarrow> session_item list" where
  "saved_items s native b = orderedTurnItems s b (case tb_savedItems b of
       Some items \<Rightarrow> items
     | None \<Rightarrow> (case saved_binding native (tr_id (tb_turn b)) of Some n \<Rightarrow> nb_items n | None \<Rightarrow> []))"

definition receipt_failures :: "session_state \<Rightarrow> delivery_failure list" where
  "receipt_failures s = concat (map (\<lambda>(i, r). case rc_failure r of
       None \<Rightarrow> [] | Some (code, message) \<Rightarrow> [\<lparr>df_id = i, df_code = code, df_message = message\<rparr>]) (ss_receipts s))"

definition environment_gone :: string where
  "environment_gone = ''The execution environment is unavailable. Create a new session.''"

definition savedSessionObservation ::
  "saved_session \<Rightarrow> runtime_state option \<Rightarrow> stored_environment option \<Rightarrow> rat \<Rightarrow> stream_snapshot" where
  "savedSessionObservation saved native environment now_s =
     (let s = session_state.truncate saved;
          subagents = (case native of Some r \<Rightarrow> runtimeSubagents r
            | None \<Rightarrow> (case xs_subagents saved of None \<Rightarrow> [] | Some xs \<Rightarrow> xs));
          shown_environment = public_environment environment now_s;
          failing = (case (shown_environment, environment) of
            (Some e, Some x) \<Rightarrow> en_status e = ''failed'' \<and> \<not> sv_retired x | _ \<Rightarrow> False);
          current = (if failing then s\<lparr>ss_session := (ss_session s)\<lparr>se_status := Session_Failed,
            se_error := Some environment_gone\<rparr>\<rparr> else s);
          observation = observeSession current (map (saved_turn native shown_environment) (ss_turns s) @
            concat (map subagent_observations subagents))
      in \<lparr>sh_session = so_session observation, sh_turns = map to_turn (so_turns observation),
          sh_items = concat (map (saved_items s native) (ss_turns s)) @ concat (map sp_items subagents),
          sh_subagents = map sp_subagent subagents, sh_failures = receipt_failures s,
          sh_environment = shown_environment,
          sh_environmentResetCount = (case environment of
            Some e \<Rightarrow> if sv_type e = ''openai_hosted'' then Some (case sv_resetCount e of None \<Rightarrow> 0 | Some n \<Rightarrow> n) else None
          | None \<Rightarrow> None)\<rparr>)"

end
