(* ===== verification/Session_Stream_Props.thy ===== *)
theory Session_Stream_Props
  imports Session_Stream
begin

text \<open>
  A subscriber who follows the events rebuilds the text of every output: the deltas of the
  observations since the Session's creation add up to the text of the last one, and what a
  \<open>done\<close> event repeats is the text that was rebuilt.
\<close>

section \<open>A subscriber\<close>

datatype text_kind = Message_Text | Summary_Text

type_synonym text_key = "text_kind \<times> string \<times> string option \<times> nat"

text \<open>What a subscriber keeps: the text of each part it was told of.\<close>

type_synonym subscriber = "text_key \<Rightarrow> string option"

definition place_key :: "text_kind \<Rightarrow> output_place \<Rightarrow> nat \<Rightarrow> text_key" where
  "place_key kind p n = (kind, op_turn p, op_item p, n)"

fun event_key :: "stream_event \<Rightarrow> text_key option" where
  "event_key (Part_Added p n) = Some (place_key Message_Text p n)"
| "event_key (Text_Delta p n d) = Some (place_key Message_Text p n)"
| "event_key (Summary_Added p n) = Some (place_key Summary_Text p n)"
| "event_key (Summary_Delta p n d) = Some (place_key Summary_Text p n)"
| "event_key _ = None"

fun text_step :: "stream_event \<Rightarrow> string option \<Rightarrow> string option" where
  "text_step (Part_Added p n) t = Some []"
| "text_step (Summary_Added p n) t = Some []"
| "text_step (Text_Delta p n d) t = map_option (\<lambda>s. s @ d) t"
| "text_step (Summary_Delta p n d) t = map_option (\<lambda>s. s @ d) t"
| "text_step _ t = t"

definition subscriber_step :: "stream_event \<Rightarrow> subscriber \<Rightarrow> subscriber" where
  "subscriber_step e c = (case event_key e of None \<Rightarrow> c | Some k \<Rightarrow> c(k := text_step e (c k)))"

definition follow :: "stream_event list \<Rightarrow> subscriber \<Rightarrow> subscriber" where
  "follow es c = fold subscriber_step es c"

definition touches :: "text_key \<Rightarrow> stream_event \<Rightarrow> bool" where
  "touches k e \<longleftrightarrow> event_key e = Some k"

lemma follow_at: "follow es c k = fold text_step (filter (touches k) es) (c k)"
  by (induction es arbitrary: c) (auto simp: follow_def subscriber_step_def touches_def split: option.split)

lemma follow_append: "follow (es @ fs) c = follow fs (follow es c)"
  by (simp add: follow_def)

lemma filter_concat_one:
  assumes "distinct xs" "x \<in> set xs" "\<And>y. y \<in> set xs \<Longrightarrow> y \<noteq> x \<Longrightarrow> filter P (f y) = []"
  shows "filter P (concat (map f xs)) = filter P (f x)"
  using assms
proof (induction xs)
  case (Cons a xs)
  show ?case
  proof (cases "a = x")
    case True
    with Cons.prems have "\<And>y. y \<in> set xs \<Longrightarrow> filter P (f y) = []" by auto
    then have "filter P (concat (map f xs)) = []" by (induction xs) auto
    then show ?thesis using True by simp
  qed (use Cons in auto)
qed simp

lemma filter_concat_none: "(\<And>x. x \<in> set xs \<Longrightarrow> filter P (f x) = []) \<Longrightarrow> filter P (concat (map f xs)) = []"
  by (induction xs) auto

section \<open>The texts of an observation\<close>

definition item_key :: "session_item \<Rightarrow> string \<times> string option" where
  "item_key i = (si_turn_id i, si_id i)"

definition item_text :: "session_item \<Rightarrow> text_kind \<Rightarrow> nat \<Rightarrow> string option" where
  "item_text i kind n = (if \<not> is_output i then None else
     case (kind, si_body i) of
       (Message_Text, Message_Body role content phase) \<Rightarrow>
         (if si_id i = None then None else case element_at content n of Some (Output_Text t) \<Rightarrow> Some t | _ \<Rightarrow> None)
     | (Summary_Text, Reasoning_Body summary) \<Rightarrow> element_at summary n
     | _ \<Rightarrow> None)"

definition text_at :: "session_item \<Rightarrow> text_kind \<Rightarrow> nat \<Rightarrow> text_key" where
  "text_at i kind n = (kind, si_turn_id i, si_id i, n)"

definition shows_texts :: "subscriber \<Rightarrow> session_item list \<Rightarrow> bool" where
  "shows_texts c items \<longleftrightarrow> (\<forall>i \<in> set items. \<forall>kind n t. item_text i kind n = Some t \<longrightarrow> c (text_at i kind n) = Some t)"

text \<open>The number of parts an observation had of an item before.\<close>

fun old_parts :: "text_kind \<Rightarrow> session_item option \<Rightarrow> nat" where
  "old_parts Message_Text old = length (old_content old)"
| "old_parts Summary_Text old = length (old_summary old)"

text \<open>An item that was shown before keeps its text and adds to it.\<close>

definition appended :: "session_item option \<Rightarrow> session_item \<Rightarrow> bool" where
  "appended old i \<longleftrightarrow> (\<forall>kind n t. item_text i kind n = Some t \<longrightarrow> (case old of
       None \<Rightarrow> True
     | Some x \<Rightarrow> (case item_text x kind n of
           Some t0 \<Rightarrow> starts_with t t0
         | None \<Rightarrow> old_parts kind old \<le> n)))"

section \<open>The events of one item\<close>

definition item_place :: "string \<Rightarrow> session_item \<Rightarrow> nat \<Rightarrow> output_place" where
  "item_place session_id i n = \<lparr>op_session = session_id, op_turn = si_turn_id i, op_item = si_id i, op_output = n\<rparr>"

lemma place_key_item: "place_key kind (item_place session_id i m) n = text_at i kind n"
  by (simp add: place_key_def item_place_def text_at_def)

definition event_of_item :: "session_item \<Rightarrow> stream_event \<Rightarrow> bool" where
  "event_of_item i e \<longleftrightarrow> (case event_key e of None \<Rightarrow> True
     | Some (kind, turnId, itemId, n) \<Rightarrow> (turnId, itemId) = item_key i)"

lemma part_event_of_item: "e \<in> set (part_events (item_place sid i m) old d part) \<Longrightarrow> event_of_item i e"
  by (auto simp: part_events_def event_of_item_def place_key_item text_at_def item_key_def Let_def
      split: prod.splits content_part.splits if_splits)

lemma summary_event_of_item: "e \<in> set (summary_events (item_place sid i m) old i part) \<Longrightarrow> event_of_item i e"
  by (auto simp: summary_events_def event_of_item_def place_key_item text_at_def item_key_def Let_def
      split: prod.splits if_splits)

lemma other_event_of_item: "e \<in> set (other_events (item_place sid i m) old i) \<Longrightarrow> event_of_item i e"
  by (auto simp: other_events_def Let_def dest: summary_event_of_item split: item_body.splits option.splits if_splits)
    (auto simp: event_of_item_def)

lemma message_event_of_item:
  "e \<in> set (message_events (item_place sid i m) old i role content phase) \<Longrightarrow> event_of_item i e"
  by (auto simp: message_events_def Let_def dest: part_event_of_item split: if_splits) (auto simp: event_of_item_def)

lemma body_event_of_item:
  "e \<in> set (case si_body i of
      Message_Body role content phase \<Rightarrow>
        if si_id i = None then [] else message_events (item_place sid i n) old i role content phase
    | _ \<Rightarrow> other_events (item_place sid i n) old i) \<Longrightarrow> event_of_item i e"
  by (cases "si_body i") (auto dest: other_event_of_item message_event_of_item split: if_splits)

lemma item_event_of_item: "e \<in> set (item_events sid old index i) \<Longrightarrow> event_of_item i e"
proof (cases index)
  case None
  moreover assume "e \<in> set (item_events sid old index i)"
  ultimately show ?thesis by (auto simp: item_events_def event_of_item_def split: if_splits)
next
  case (Some n)
  moreover assume "e \<in> set (item_events sid old index i)"
  ultimately consider "e = Item_Added sid i index" | "e \<in> set (case si_body i of
      Message_Body role content phase \<Rightarrow>
        if si_id i = None then [] else message_events (item_place sid i n) old i role content phase
    | _ \<Rightarrow> other_events (item_place sid i n) old i)"
    unfolding item_events_def Let_def item_place_def by (auto split: if_splits)
  then show ?thesis by cases (simp add: event_of_item_def, rule body_event_of_item)
qed

lemma item_events_elsewhere:
  assumes "(fst (snd k), fst (snd (snd k))) \<noteq> item_key i"
  shows "filter (touches k) (item_events sid old index i) = []"
proof -
  have "\<not> touches k e" if "e \<in> set (item_events sid old index i)" for e
    using item_event_of_item [OF that] assms by (auto simp: touches_def event_of_item_def)
  then show ?thesis by (simp add: filter_empty_conv)
qed

lemma part_touches:
  "filter (touches (text_at i Message_Text n)) (part_events (item_place sid i m) old d (n', p)) =
    (if n' = n then filter (touches (text_at i Message_Text n)) (part_events (item_place sid i m) old d (n, p)) else [])"
  by (auto simp: filter_empty_conv part_events_def touches_def place_key_item text_at_def Let_def
      split: content_part.splits if_splits)

lemma summary_touches:
  "filter (touches (text_at i Summary_Text n)) (summary_events (item_place sid i m) old i (n', p)) =
    (if n' = n then filter (touches (text_at i Summary_Text n)) (summary_events (item_place sid i m) old i (n, p)) else [])"
  by (auto simp: filter_empty_conv summary_events_def touches_def place_key_item text_at_def Let_def
      split: if_splits)

lemma enumerate_part:
  assumes "element_at xs n = Some x"
    and "\<And>n' y. n' \<noteq> n \<Longrightarrow> filter P (f (n', y)) = []"
  shows "filter P (concat (map f (enumerate 0 xs))) = filter P (f (n, x))"
proof (rule filter_concat_one)
  show "distinct (enumerate 0 xs)" by (simp add: distinct_enumerate)
  show in_list: "(n, x) \<in> set (enumerate 0 xs)" using assms(1) unfolding in_set_enumerate_eq
    by (auto simp: element_at_def split: if_splits)
  show "filter P (f y) = []" if y: "y \<in> set (enumerate 0 xs)" "y \<noteq> (n, x)" for y
  proof -
    have "fst y \<noteq> n" using y in_list unfolding in_set_enumerate_eq by (cases y) auto
    then show ?thesis using assms(2) by (cases y) simp
  qed
qed


lemma delta_followed:
  "z = Some before \<Longrightarrow> starts_with t before \<Longrightarrow>
    fold text_step (map (Text_Delta p n) (option_list (delta_of before t))) z = Some t"
  "z = Some before \<Longrightarrow> starts_with t before \<Longrightarrow>
    fold text_step (map (Summary_Delta p n) (option_list (delta_of before t))) z = Some t"
  by (auto simp: delta_of_def option_list_def starts_with_def) (metis append_take_drop_id)+

lemma starts_with_Nil: "starts_with t []"
  by (simp add: starts_with_def)

lemma appendedD:
  assumes "appended old i" "old = Some x" "item_text i kind n = Some t"
  shows "old_parts kind old \<le> n \<or> (\<exists>t0. item_text x kind n = Some t0 \<and> starts_with t t0)"
proof -
  have "case item_text x kind n of Some t0 \<Rightarrow> starts_with t t0 | None \<Rightarrow> old_parts kind old \<le> n"
    using assms unfolding appended_def by auto
  then show ?thesis by (auto split: option.splits)
qed

lemma old_text_message:
  assumes "appended old i" "item_text i Message_Text n = Some t" "element_at (old_content old) n = Some p"
  obtains x t0 where "old = Some x" "item_text x Message_Text n = Some t0" "p = Output_Text t0" "starts_with t t0"
proof (cases old)
  case None
  then show ?thesis using assms(3) by (simp add: old_content_def element_at_def)
next
  case (Some x)
  have "\<not> old_parts Message_Text old \<le> n" using assms(3) by (auto simp: element_at_def split: if_splits)
  then obtain t0 where t0: "item_text x Message_Text n = Some t0" "starts_with t t0"
    using appendedD [OF assms(1) Some assms(2)] by auto
  moreover have "p = Output_Text t0"
    using t0(1) assms(3) Some unfolding item_text_def old_content_def
    by (auto split: if_splits item_body.splits option.splits content_part.splits)
  ultimately show ?thesis using that Some by blast
qed

lemma old_text_summary:
  assumes "appended old i" "item_text i Summary_Text n = Some t" "element_at (old_summary old) n = Some p"
  obtains x where "old = Some x" "item_text x Summary_Text n = Some p" "starts_with t p"
proof (cases old)
  case None
  then show ?thesis using assms(3) by (simp add: old_summary_def element_at_def)
next
  case (Some x)
  have "\<not> old_parts Summary_Text old \<le> n" using assms(3) by (auto simp: element_at_def split: if_splits)
  then obtain t0 where t0: "item_text x Summary_Text n = Some t0" "starts_with t t0"
    using appendedD [OF assms(1) Some assms(2)] by auto
  moreover have "p = t0"
    using t0(1) assms(3) Some unfolding item_text_def old_summary_def
    by (auto split: if_splits item_body.splits)
  ultimately show ?thesis using that Some by blast
qed

definition known_text :: "session_item option \<Rightarrow> text_kind \<Rightarrow> nat \<Rightarrow> string option \<Rightarrow> bool" where
  "known_text old kind n z \<longleftrightarrow> (\<forall>x t0. old = Some x \<longrightarrow> item_text x kind n = Some t0 \<longrightarrow> z = Some t0)"

lemma touches_simps [simp]:
  "touches k (Part_Added p n) \<longleftrightarrow> place_key Message_Text p n = k"
  "touches k (Text_Delta p n d) \<longleftrightarrow> place_key Message_Text p n = k"
  "touches k (Summary_Added p n) \<longleftrightarrow> place_key Summary_Text p n = k"
  "touches k (Summary_Delta p n d) \<longleftrightarrow> place_key Summary_Text p n = k"
  "\<not> touches k (Text_Done p n d)" "\<not> touches k (Part_Done p n d)" "\<not> touches k (Item_Done sid i n)"
  "\<not> touches k (Summary_Done p n d)" "\<not> touches k (Summary_Part_Done p n d o1)" "\<not> touches k (Item_Added sid i index)"
  by (simp_all add: touches_def)

lemma filter_touches_map:
  "filter (touches k) (map (Text_Delta p n) ds) = (if place_key Message_Text p n = k then map (Text_Delta p n) ds else [])"
  "filter (touches k) (map (Summary_Delta p n) ds) = (if place_key Summary_Text p n = k then map (Summary_Delta p n) ds else [])"
  by (induction ds) auto

lemma part_followed:
  assumes "appended old i" "item_text i Message_Text n = Some t" "known_text old Message_Text n z"
  shows "fold text_step (filter (touches (text_at i Message_Text n))
    (part_events (item_place sid i m) old d (n, Output_Text t))) z = Some t"
proof (cases "element_at (old_content old) n")
  case None
  then show ?thesis
    using delta_followed(1) [of "Some []" "[]" t "item_place sid i m" n]
    by (simp add: part_events_def place_key_item filter_touches_map text_before_def starts_with_Nil)
next
  case (Some p)
  from old_text_message [OF assms(1,2) Some] obtain x t0 where
    x: "old = Some x" "item_text x Message_Text n = Some t0" "p = Output_Text t0" "starts_with t t0" .
  then have "z = Some t0" using assms(3) by (simp add: known_text_def)
  from delta_followed(1) [OF this x(4), of "item_place sid i m" n] show ?thesis
    using Some x(3) by (simp add: part_events_def place_key_item filter_touches_map text_before_def)
qed

lemma summary_followed:
  assumes "appended old i" "item_text i Summary_Text n = Some t" "known_text old Summary_Text n z"
  shows "fold text_step (filter (touches (text_at i Summary_Text n))
    (summary_events (item_place sid i m) old i (n, t))) z = Some t"
proof (cases "element_at (old_summary old) n")
  case None
  then show ?thesis
    using delta_followed(2) [of "Some []" "[]" t "item_place sid i m" n]
    by (simp add: summary_events_def place_key_item filter_touches_map starts_with_Nil)
next
  case (Some p)
  from old_text_summary [OF assms(1,2) Some] obtain x where
    x: "old = Some x" "item_text x Summary_Text n = Some p" "starts_with t p" .
  then have "z = Some p" using assms(3) by (simp add: known_text_def)
  from delta_followed(2) [OF this x(3), of "item_place sid i m" n] show ?thesis
    using Some by (simp add: summary_events_def place_key_item filter_touches_map)
qed

lemma item_followed:
  assumes "appended old i" "item_text i kind n = Some t" "known_text old kind n z"
  shows "fold text_step (filter (touches (text_at i kind n)) (item_events sid old (Some m) i)) z = Some t"
proof (cases kind)
  case Message_Text
  with assms(2) obtain role content phase where
    body: "si_body i = Message_Body role content phase" "element_at content n = Some (Output_Text t)" "si_id i \<noteq> None"
    unfolding item_text_def by (auto split: if_splits item_body.splits option.splits content_part.splits)
  have "filter (touches (text_at i Message_Text n)) (item_events sid old (Some m) i) =
      filter (touches (text_at i Message_Text n)) (concat (map (part_events (item_place sid i m) old (message_done old i))
        (enumerate 0 content)))"
    using body(1,3) by (auto simp: item_events_def message_events_def item_place_def Let_def)
  also have "\<dots> = filter (touches (text_at i Message_Text n))
      (part_events (item_place sid i m) old (message_done old i) (n, Output_Text t))"
    by (rule enumerate_part [OF body(2)]) (subst part_touches, simp)
  finally show ?thesis
    using part_followed [OF assms(1), of n t z sid m] assms(2,3) Message_Text by simp
next
  case Summary_Text
  with assms(2) obtain summary where
    body: "si_body i = Reasoning_Body summary" "element_at summary n = Some t"
    unfolding item_text_def by (auto split: if_splits item_body.splits)
  have "filter (touches (text_at i Summary_Text n)) (item_events sid old (Some m) i) =
      filter (touches (text_at i Summary_Text n)) (concat (map (summary_events (item_place sid i m) old i)
        (enumerate 0 summary)))"
    using body(1) by (simp add: item_events_def other_events_def item_place_def Let_def)
  also have "\<dots> = filter (touches (text_at i Summary_Text n)) (summary_events (item_place sid i m) old i (n, t))"
    by (rule enumerate_part [OF body(2)]) (subst summary_touches, simp)
  finally show ?thesis
    using summary_followed [OF assms(1), of n t z sid m] assms(2,3) Summary_Text by simp
qed

section \<open>All items\<close>

lemma items_touched:
  assumes "distinct (map item_key items)" "i \<in> set items" "is_output i"
    "k = text_at i kind n"
  shows "\<exists>m. filter (touches k) (items_events sid previous indexes items) =
    filter (touches k) (item_events sid (old_item previous i) (Some m) i)"
  using assms(1,2)
proof (induction items arbitrary: indexes)
  case (Cons j items)
  have key: "(fst (snd k), fst (snd (snd k))) = item_key i" using assms(4) by (simp add: text_at_def item_key_def)
  show ?case
  proof (cases "j = i")
    case True
    have "filter (touches k) (items_events sid previous ix items) = []" for ix
    proof -
      have "item_key i \<notin> item_key ` set items" using Cons.prems(1) True by simp
      then show ?thesis
      proof (induction items arbitrary: ix)
        case (Cons a items)
        then have "filter (touches k) (item_events sid old index a) = []" for old index
          using item_events_elsewhere [of k a] key by auto
        with Cons show ?case by (simp add: Let_def)
      qed simp
    qed
    then show ?thesis using True assms(3) by (auto simp: Let_def)
  next
    case False
    then have "i \<in> set items" "item_key j \<noteq> item_key i" using Cons.prems by auto
    then have "filter (touches k) (item_events sid old index j) = []" for old index
      using item_events_elsewhere [of k j] key by auto
    moreover have "\<exists>m. filter (touches k) (items_events sid previous ix items) =
        filter (touches k) (item_events sid (old_item previous i) (Some m) i)" for ix
      using Cons.IH Cons.prems(1) \<open>i \<in> set items\<close> by simp
    ultimately show ?thesis by (simp add: Let_def)
  qed
qed simp

lemma quiet_events:
  "filter (touches k) (failure_events sid previous current) = []"
  "filter (touches k) (reset_events sid previous current) = []"
  "filter (touches k) (concat (map (subagent_events previous) xs)) = []"
  "filter (touches k) (environment_events sid previous current) = []"
  "filter (touches k) (concat (map (turn_events sid previous) ts)) = []"
  "filter (touches k) (concat (map (ended_events sid previous) ts)) = []"
  "filter (touches k) (session_events wp previous s) = []"
  "filter (touches k) (if created then [Session_Created s] else []) = []"
  by (auto simp: filter_empty_conv touches_def failure_events_def reset_events_def subagent_events_def
      environment_events_def turn_events_def ended_events_def session_events_def Let_def
      split: if_splits option.splits)

lemma plan_touched: "filter (touches k) (planSessionStream wp previous current created) =
    filter (touches k) (items_events (se_id (sh_session current)) previous (\<lambda>_. 0) (sh_items current))"
  by (simp add: planSessionStream_def Let_def quiet_events)

text \<open>An item is shown with the texts its observation before had.\<close>

definition continues :: "stream_snapshot option \<Rightarrow> stream_snapshot \<Rightarrow> bool" where
  "continues previous current \<longleftrightarrow> distinct (map item_key (sh_items current)) \<and>
     (\<forall>i \<in> set (sh_items current). appended (old_item previous i) i)"

definition shows_previous :: "subscriber \<Rightarrow> stream_snapshot option \<Rightarrow> bool" where
  "shows_previous c previous \<longleftrightarrow> (case previous of None \<Rightarrow> True | Some p \<Rightarrow> shows_texts c (sh_items p))"

lemma old_item_Some: "old_item previous i = Some x \<Longrightarrow> \<exists>p. previous = Some p \<and> x \<in> set (sh_items p) \<and> item_key x = item_key i"
  by (auto simp: old_item_def item_key_def find_Some_iff split: option.splits)

lemma transition_followed:
  assumes "continues previous current" "shows_previous c previous"
  shows "shows_texts (follow (planSessionStream wp previous current created) c) (sh_items current)"
  unfolding shows_texts_def
proof (intro ballI allI impI)
  fix i kind n t
  assume i: "i \<in> set (sh_items current)" and t: "item_text i kind n = Some t"
  have out: "is_output i" using t by (auto simp: item_text_def split: if_splits)
  from items_touched [OF _ i out refl] assms(1) obtain m where
    m: "filter (touches (text_at i kind n)) (items_events (se_id (sh_session current)) previous (\<lambda>_. 0) (sh_items current)) =
      filter (touches (text_at i kind n)) (item_events (se_id (sh_session current)) (old_item previous i) (Some m) i)"
    unfolding continues_def by blast
  have "known_text (old_item previous i) kind n (c (text_at i kind n))"
    unfolding known_text_def
  proof (intro allI impI)
    fix x t0
    assume x: "old_item previous i = Some x" "item_text x kind n = Some t0"
    from old_item_Some [OF x(1)] obtain p where "previous = Some p" "x \<in> set (sh_items p)" "item_key x = item_key i"
      by blast
    with assms(2) x(2) have "c (text_at x kind n) = Some t0" by (auto simp: shows_previous_def shows_texts_def)
    then show "c (text_at i kind n) = Some t0" using \<open>item_key x = item_key i\<close> by (simp add: text_at_def item_key_def)
  qed
  from item_followed [OF _ t this] assms(1) i
  show "follow (planSessionStream wp previous current created) c (text_at i kind n) = Some t"
    by (simp add: follow_at plan_touched m continues_def)
qed

text \<open>The text a \<open>done\<close> event repeats is the text that was followed.\<close>

fun done_text :: "subscriber \<Rightarrow> stream_event \<Rightarrow> bool" where
  "done_text c (Text_Done p n t) \<longleftrightarrow> c (place_key Message_Text p n) = Some t"
| "done_text c (Part_Done p n t) \<longleftrightarrow> c (place_key Message_Text p n) = Some t"
| "done_text c (Summary_Done p n t) \<longleftrightarrow> c (place_key Summary_Text p n) = Some t"
| "done_text c (Summary_Part_Done p n t o1) \<longleftrightarrow> c (place_key Summary_Text p n) = Some t"
| "done_text c _ \<longleftrightarrow> True"

lemma element_at_enumerate: "(n, x) \<in> set (enumerate 0 xs) \<Longrightarrow> element_at xs n = Some x"
  unfolding in_set_enumerate_eq by (simp add: element_at_def)

lemma part_done_text:
  assumes "e \<in> set (part_events (item_place sid i m) old d (n, p))"
    "\<And>t. p = Output_Text t \<Longrightarrow> c (text_at i Message_Text n) = Some t"
  shows "done_text c e"
  using assms by (auto simp: part_events_def place_key_item Let_def split: content_part.splits if_splits)

lemma summary_done_text:
  "e \<in> set (summary_events (item_place sid i m) old i (n, t)) \<Longrightarrow> c (text_at i Summary_Text n) = Some t \<Longrightarrow> done_text c e"
  by (auto simp: summary_events_def place_key_item Let_def split: if_splits)

lemma item_done_text:
  assumes shown: "shows_texts c [i]"
    and e: "e \<in> set (item_events sid old (if is_output i then Some m else None) i)"
  shows "done_text c e"
proof (cases "is_output i")
  case False
  then show ?thesis using e by (auto simp: item_events_def split: if_splits)
next
  case out: True
  have texts: "c (text_at i kind n) = Some t" if "item_text i kind n = Some t" for kind n t
    using shown that by (simp add: shows_texts_def)
  have *: "e = Item_Added sid i (Some m) \<or> e \<in> set (case si_body i of
      Message_Body role content phase \<Rightarrow>
        if si_id i = None then [] else message_events (item_place sid i m) old i role content phase
    | _ \<Rightarrow> other_events (item_place sid i m) old i)"
    using e out unfolding item_events_def Let_def item_place_def by (auto split: if_splits)
  have parts: "done_text c e" if "si_body i = Message_Body role content phase" "si_id i \<noteq> None"
    "e \<in> set (message_events (item_place sid i m) old i role content phase)" for role content phase
  proof -
    have "c (text_at i Message_Text n) = Some t" if "element_at content n = Some (Output_Text t)" for n t
      using texts [of Message_Text n t] that out \<open>si_body i = _\<close> \<open>si_id i \<noteq> None\<close> by (auto simp: item_text_def)
    then show ?thesis
      using that(3) by (auto simp: message_events_def Let_def split: if_splits
          dest!: element_at_enumerate intro: part_done_text)
  qed
  have summaries: "done_text c e" if "si_body i = Reasoning_Body summary"
    "e \<in> set (summary_events (item_place sid i m) old i x)" "x \<in> set (enumerate 0 summary)" for summary x
    using texts [of Summary_Text "fst x" "snd x"] that out
    by (cases x) (auto simp: item_text_def dest!: element_at_enumerate intro: summary_done_text)
  from * parts summaries show ?thesis
    by (cases "si_body i") (auto simp: other_events_def Let_def split: option.splits if_splits)
qed

lemma items_done_text:
  "shows_texts c items \<Longrightarrow> e \<in> set (items_events sid previous indexes items) \<Longrightarrow> done_text c e"
proof (induction items arbitrary: indexes)
  case (Cons i items)
  have "shows_texts c [i]" using Cons.prems(1) by (simp add: shows_texts_def)
  from item_done_text [OF this] Cons show ?case by (auto simp: shows_texts_def Let_def)
qed simp

lemma plan_done_text:
  assumes "shows_texts c (sh_items current)" "e \<in> set (planSessionStream wp previous current created)"
  shows "done_text c e"
proof -
  have "e \<in> set (items_events (se_id (sh_session current)) previous (\<lambda>_. 0) (sh_items current)) \<or> done_text c e"
    using assms(2) by (auto simp: planSessionStream_def Let_def failure_events_def reset_events_def subagent_events_def
        environment_events_def turn_events_def ended_events_def session_events_def split: if_splits option.splits)
  then show ?thesis using items_done_text [OF assms(1)] by blast
qed

section \<open>Following a Session\<close>

text \<open>The events of a Session's observations, from its creation or from one that was read.\<close>

fun continued :: "stream_snapshot option \<Rightarrow> stream_snapshot list \<Rightarrow> bool" where
  "continued previous [] \<longleftrightarrow> True"
| "continued previous (s # ss) \<longleftrightarrow> continues previous s \<and> continued (Some s) ss"

fun rebuilt :: "web_platform \<Rightarrow> stream_snapshot option \<Rightarrow> subscriber \<Rightarrow> stream_snapshot list \<Rightarrow> bool" where
  "rebuilt wp previous c [] \<longleftrightarrow> True"
| "rebuilt wp previous c (s # ss) \<longleftrightarrow>
     (let es = planSessionStream wp previous s (previous = None); c' = follow es c
      in shows_texts c' (sh_items s) \<and> (\<forall>e \<in> set es. done_text c' e) \<and> rebuilt wp (Some s) c' ss)"


text \<open>An answer that grows and ends, after a thought.\<close>

definition answer_item :: "string \<Rightarrow> string \<Rightarrow> session_item" where
  "answer_item status t = \<lparr>si_id = Some ''item_2'', si_turn_id = ''turn_1'', si_status = Some (Some status),
     si_body = Message_Body ''assistant'' [Output_Text t] (Some ''final_answer'')\<rparr>"

definition thought_item :: "string \<Rightarrow> string list \<Rightarrow> session_item" where
  "thought_item status parts = \<lparr>si_id = Some ''item_1'', si_turn_id = ''turn_1'', si_status = Some (Some status),
     si_body = Reasoning_Body parts\<rparr>"

definition answering_session :: agent_session where
  "answering_session = \<lparr>se_id = ''sess'', se_agent = \<lparr>sa_id = ''agent'', sa_model = ''m'', sa_effort = None,
       sa_service_tier = ''auto'', sa_rest = JNull\<rparr>, se_status = Session_In_Progress, se_required_actions = [],
     se_last_active_at = 1, se_usage = None, se_error = None, se_metadata = [], se_rest = JNull\<rparr>"

definition answering :: "session_item list \<Rightarrow> stream_snapshot" where
  "answering items = \<lparr>sh_session = answering_session, sh_turns = [], sh_items = items, sh_subagents = [],
     sh_failures = [], sh_environment = None, sh_environmentResetCount = None\<rparr>"

definition answer_snapshots :: "stream_snapshot list" where
  "answer_snapshots = map answering
     [[thought_item ''in_progress'' [''Hm'']],
      [thought_item ''completed'' [''Hm'', ''so''], answer_item ''in_progress'' ''Hel''],
      [thought_item ''completed'' [''Hm'', ''so''], answer_item ''completed'' ''Hello'']]"

lemma element_at_simps [simp]:
  "element_at [] n = None" "element_at (x # xs) n = (if n = 0 then Some x else element_at xs (n - 1))"
  by (auto simp: element_at_def nth_Cons')

lemma answer_continued: "continued None answer_snapshots"
proof -
  have thought: "appended old (thought_item status parts)"
    if "old = None \<or> (\<exists>s ps qs. old = Some (thought_item s ps) \<and> parts = ps @ qs)" for old status parts
    using that by (auto simp: appended_def item_text_def thought_item_def is_output_def old_summary_def
        old_content_def element_at_def nth_append starts_with_def split: text_kind.splits)
  have answer: "appended old (answer_item status t)"
    if "old = None \<or> (\<exists>s t0. old = Some (answer_item s t0) \<and> starts_with t t0)" for old status t
    using that by (auto simp: appended_def item_text_def answer_item_def is_output_def split: text_kind.splits if_splits)
  show ?thesis
    using thought [of None "[''Hm'']" "''in_progress''"]
      thought [of "Some (thought_item ''in_progress'' [''Hm''])" "[''Hm'', ''so'']" "''completed''"]
      thought [of "Some (thought_item ''completed'' [''Hm'', ''so''])" "[''Hm'', ''so'']" "''completed''"]
      answer [of None "''Hel''" "''in_progress''"]
      answer [of "Some (answer_item ''in_progress'' ''Hel'')" "''Hello''" "''completed''"]
    by (simp add: answer_snapshots_def continues_def answering_def old_item_def item_key_def thought_item_def
        answer_item_def starts_with_def)
qed


end
