(* ===== verification/Spec2Isabelle.thy ===== *)
theory Spec2Isabelle
  imports Run_Lifecycle Run_Validation Run_Execution_Props Run_Service Capabilities Session_Publication Delivery_Props Rate_Limit_Props Session_Journal_Props
    Session_Typing Session_Planning_Props Session_Input Session_Pages Session_Stream_Props
begin

text \<open>
  Rat Things is a control plane for AI agents. Clients submit Runs and Sessions; the control
  plane checks them, stores them in tables and buckets, starts workers for them, watches these,
  and delivers results to where a request came from. All of it runs as stateless functions that
  meet in shared storage: several instances act at once, requests are refused, repeated or lose
  their reply, and a function may stop after any request. Most theorems are about what holds
  in spite of this.

  \<^bold>\<open>How the code is modelled.\<close> A TypeScript interface is a \<open>record\<close>, a union a
  \<open>datatype\<close>, a function a HOL function of the same name. An untrusted value is a \<open>jsval\<close>
  (\<open>Prelude\<close>), the tree \<open>JSON.parse\<close> builds; a string stands for one whose UTF-16 units are
  below 256. A function that throws returns \<open>error + 'a\<close>. A function that awaits is a program
  \<open>('w, error, 'a) io\<close>: it takes a world and returns the next world with a result or an error.
  The world holds the storage and a script with one entry for each request. An entry says what
  other clients do to the storage before the request, what the clock shows, and whether the
  request is served, refused, repeated or served without a reply. A theorem about all worlds is
  therefore about every interleaving and every fault; a \<open>quiet\<close> world is one with an empty
  script. A record of operations on the world stands for each port the code takes as a
  constructor argument, and the promise a client needs of a port is a locale, interpreted on
  the model of the class that provides it.

  \<^bold>\<open>Runs.\<close> \<open>Run_Contracts\<close> has the data of \<open>domain/contracts.ts\<close>, the transition table of
  \<open>domain/state.ts\<close> and the errors; \<open>Run_Validation\<close> the parsers of \<open>domain/validation.ts\<close>,
  with the bounds of an accepted request and the round trip through its JSON. \<open>Run_Store\<close> is
  \<open>DynamoRunStore\<close> of \<open>adapters/aws-runtime.ts\<close>, one conditional request at a time.
  \<open>Run_Lifecycle\<close> takes the requests of all callers as steps of one state machine and shows the
  invariants of every reachable table. \<open>Run_Port\<close> states the promise of the table (nothing is
  lost, identities are kept, statuses follow the table, a terminal record is final, a worker
  is never exchanged) and proves it of every request; the locale \<open>run_table\<close> carries it to
  the clients. \<open>Run_Execution\<close> and \<open>Run_Execution_Props\<close> have the dispatcher, the reconciler, the
  retirement of leaked workers and the heartbeat (\<open>execution/*.ts\<close>, \<open>runner/heartbeat.ts\<close>):
  what they guarantee in every world and what they do, branch by branch, in a quiet one.
  \<open>Run_Service\<close> is submission, retry, cancellation and reading (\<open>core/run-service.ts\<close>,
  \<open>run-planning.ts\<close>, \<open>run-recovery.ts\<close>, \<open>domain/json.ts\<close>).

  \<^bold>\<open>Connections.\<close> \<open>Capabilities\<close> has the grants of \<open>domain/capabilities.ts\<close>, their validators, the
  authorization of an operation and the planning of connections.

  \<^bold>\<open>Publications.\<close> \<open>Publications\<close> (requests and manifests), \<open>Publication_Plans\<close> (pages, plans,
  links), \<open>Publication_Service\<close> (staging and committing in a bucket), \<open>Session_Publication\<close>
  (publishing from a Session), and \<open>Publication_Props\<close>: plans pass their own check, pages carry no
  injected markup, a committed manifest names only files that are there, and publishing
  refines one atomic step of an abstract library.

  \<^bold>\<open>Delivery.\<close> \<open>Deliveries\<close> has the delivery service, its fence and the adapters of
  \<open>delivery/\<close>; \<open>Delivery_Props\<close> shows that a message is posted at most once.

  \<^bold>\<open>The store of API resources.\<close> \<open>Agents_Store\<close> models both providers of \<open>AgentsStore\<close>
  (\<open>adapters/dynamo-agents-store.ts\<close>, \<open>adapters/sqlite-agents-store.ts\<close>) and states their contract
  as the locale \<open>resource_store\<close>: a read returns what the store showed at one moment, and a
  commit is one atomic compare and swap. \<open>Agents_Store_Props\<close> interprets it on both.
  \<open>Rate_Limit\<close> and \<open>Rate_Limit_Props\<close> build the owner's rate limit on it.

  \<^bold>\<open>Bounds.\<close> Loops that the code bounds keep its bound: 10 attempts of \<open>terminalize\<close>, 20
  attempts of an admission. Claiming a delivery loops until it settles; its fuel is the length
  of the script plus one, which \<open>Delivery_Props\<close> proves to be enough. Other loops recur on
  their lists.

  \<^bold>\<open>What is assumed.\<close> Cryptographic digests are parameters. Where the code names content by
  its digest, a named hypothesis says that digests are hexadecimal and that two values in use
  do not share one (\<open>plain_hash\<close>, \<open>content_hashed\<close>, \<open>lawful\<close>); each is shown to hold for a
  concrete function. Conditional writes and transactions are atomic, as DynamoDB, S3 and SQLite
  document. URL parsing, the text of non-integer numbers, and locale comparison are
  parameters.

  \<^bold>\<open>Not modelled.\<close> Clients of AWS services, containers and the operating system (\<open>adapters/\<close>,
  \<open>lambdas/\<close>, \<open>runner/\<close>), provider HTTP APIs and OAuth (\<open>plugins/\<close>, \<open>ingress/\<close>), the command
  lines, the site and the build scripts: input and output around the parts above, or code of
  third parties. The services of the Agents API beside those listed are not modelled yet;
  Sessions come next, on the contract of the store.
\<close>

end
